(* ===== verification/Prelude.thy ===== *)
theory Prelude
  imports Main "HOL-Library.Word" "HOL-Library.Multiset"
begin

text \<open>
  Shared vocabulary of the development: the integer widths and the \<open>HRESULT\<close> codes of
  \<open>src/src/results.rs\<close> and \<open>src/src/lib.rs\<close>, results as sums (\<open>Inl\<close> an error code,
  \<open>Inr\<close> a value), and the generic lemmas on counters, lists and maps that the components
  share.
\<close>

type_synonym u8 = "8 word"
type_synonym u16 = "16 word"
type_synonym u32 = "32 word"
type_synonym u64 = "64 word"
type_synonym hresult = "32 word"
type_synonym 'a outcome = "hresult + 'a"

named_theorems hresult_defs \<open>the numeric values of the status codes\<close>

section \<open>Status codes\<close>

definition S_OK :: hresult where [hresult_defs]: "S_OK = 0"
definition E_PENDING :: hresult where [hresult_defs]: "E_PENDING = 0x8000000A"
definition E_ABORT :: hresult where [hresult_defs]: "E_ABORT = 0x80004004"
definition E_NOINTERFACE :: hresult where [hresult_defs]: "E_NOINTERFACE = 0x80004002"
definition E_POINTER :: hresult where [hresult_defs]: "E_POINTER = 0x80004003"
definition E_INVALIDARG :: hresult where [hresult_defs]: "E_INVALIDARG = 0x80070057"
definition E_NOT_SUFFICIENT_BUFFER :: hresult where
  [hresult_defs]: "E_NOT_SUFFICIENT_BUFFER = 0x8007007A"
definition E_ACCESSDENIED :: hresult where [hresult_defs]: "E_ACCESSDENIED = 0x80070005"
definition E_ILLEGAL_METHOD_CALL :: hresult where
  [hresult_defs]: "E_ILLEGAL_METHOD_CALL = 0x8000000E"
definition E_FAIL :: hresult where [hresult_defs]: "E_FAIL = 0x80004005"
definition E_NOTIMPL :: hresult where [hresult_defs]: "E_NOTIMPL = 0x80004001"

lemma hresult_distinct [simp]:
  "S_OK \<noteq> E_PENDING" "E_PENDING \<noteq> S_OK" "E_ABORT \<noteq> E_PENDING" "E_PENDING \<noteq> E_ABORT"
  "S_OK \<noteq> E_ABORT" "E_ABORT \<noteq> S_OK" "E_INVALIDARG \<noteq> S_OK" "S_OK \<noteq> E_INVALIDARG"
  "E_INVALIDARG \<noteq> E_PENDING" "E_PENDING \<noteq> E_INVALIDARG"
  "E_POINTER \<noteq> S_OK" "S_OK \<noteq> E_POINTER" "E_POINTER \<noteq> E_PENDING" "E_PENDING \<noteq> E_POINTER"
  "E_ILLEGAL_METHOD_CALL \<noteq> S_OK" "S_OK \<noteq> E_ILLEGAL_METHOD_CALL"
  "E_ILLEGAL_METHOD_CALL \<noteq> E_PENDING" "E_PENDING \<noteq> E_ILLEGAL_METHOD_CALL"
  "E_NOT_SUFFICIENT_BUFFER \<noteq> S_OK" "S_OK \<noteq> E_NOT_SUFFICIENT_BUFFER"
  "E_FAIL \<noteq> S_OK" "S_OK \<noteq> E_FAIL" "E_NOTIMPL \<noteq> E_FAIL" "E_FAIL \<noteq> E_NOTIMPL"
  "E_ABORT \<noteq> E_INVALIDARG" "E_INVALIDARG \<noteq> E_ABORT"
  "E_ABORT \<noteq> E_POINTER" "E_POINTER \<noteq> E_ABORT"
  "E_FAIL \<noteq> E_INVALIDARG" "E_INVALIDARG \<noteq> E_FAIL" "E_FAIL \<noteq> E_POINTER" "E_POINTER \<noteq> E_FAIL"
  by (simp_all add: hresult_defs)

section \<open>Counters that wrap\<close>

text \<open>
  Handles, tokens and context ids come from \<open>AtomicU64::fetch_add(1)\<close>, which wraps. Below
  the last value the word counter behaves like the natural number.
\<close>

definition has_room :: "u64 \<Rightarrow> nat \<Rightarrow> bool" where
  "has_room c n \<longleftrightarrow> unat c + n < 2 ^ 64"

lemma has_room_mono: "has_room c n \<Longrightarrow> m \<le> n \<Longrightarrow> has_room c m"
  by (simp add: has_room_def)

lemma unat_Suc_room: "has_room c (Suc 0) \<Longrightarrow> unat (c + 1) = unat c + 1"
  by (simp add: has_room_def unat_word_ariths)

lemma has_room_Suc: "has_room c (Suc n) \<Longrightarrow> has_room (c + 1) n"
  by (simp add: has_room_def unat_word_ariths)

lemma word_neq_unat: "(a :: u64) \<noteq> b \<longleftrightarrow> unat a \<noteq> unat b"
  by (simp add: word_unat_eq_iff)

lemma unat_u8_less: "unat (b :: u8) < 256"
  and unat_u16_less: "unat (c :: u16) < 65536"
  and unat_u32_less: "unat (d :: u32) < 4294967296"
  and unat_u64_less: "unat (e :: u64) < 18446744073709551616"
  using unsigned_less [where w = b and 'a = nat] unsigned_less [where w = c and 'a = nat]
    unsigned_less [where w = d and 'a = nat] unsigned_less [where w = e and 'a = nat]
  by simp_all

section \<open>Searching and inserting in a list by position\<close>

text \<open>\<open>Iterator::position\<close>: the index of the first element that satisfies the predicate.\<close>

primrec position :: "('a \<Rightarrow> bool) \<Rightarrow> 'a list \<Rightarrow> nat option" where
  "position p [] = None"
| "position p (x # xs) = (if p x then Some 0 else map_option Suc (position p xs))"

text \<open>\<open>VecDeque::insert\<close> at an index that is at most the length.\<close>

definition insert_at :: "nat \<Rightarrow> 'a \<Rightarrow> 'a list \<Rightarrow> 'a list" where
  "insert_at i x xs = take i xs @ x # drop i xs"

definition position_or_end :: "('a \<Rightarrow> bool) \<Rightarrow> 'a list \<Rightarrow> nat" where
  "position_or_end p xs = (case position p xs of None \<Rightarrow> length xs | Some i \<Rightarrow> i)"

lemma position_or_end_Cons:
  "position_or_end p (x # xs) = (if p x then 0 else Suc (position_or_end p xs))"
  by (simp add: position_or_end_def split: option.splits)

lemma insert_at_first:
  "insert_at (position_or_end p xs) x xs
     = takeWhile (\<lambda>y. \<not> p y) xs @ x # dropWhile (\<lambda>y. \<not> p y) xs"
proof (induction xs)
  case (Cons y ys)
  then show ?case by (simp add: insert_at_def position_or_end_Cons)
qed (simp add: insert_at_def position_or_end_def)

lemma mset_insert_at [simp]: "mset (insert_at i x xs) = add_mset x (mset xs)"
proof -
  have "mset (take i xs) + mset (drop i xs) = mset xs"
    by (simp flip: mset_append)
  then show ?thesis by (simp add: insert_at_def)
qed

lemma mset_filter_split: "mset (filter P xs) + mset (filter (\<lambda>x. \<not> P x) xs) = mset xs"
  by (induction xs) auto

lemma filter_key_le:
  "filter (\<lambda>x. k = f x) (filter (\<lambda>x. f x \<le> c) xs)
     = (if k \<le> c then filter (\<lambda>x. k = f x) xs else [])"
  "filter (\<lambda>x. k = f x) (filter (\<lambda>x. \<not> f x \<le> c) xs)
     = (if k \<le> c then [] else filter (\<lambda>x. k = f x) xs)"
  by (auto simp: filter_empty_conv intro!: filter_cong)

lemma takeWhile_eq_filter_if_prefix:
  assumes "sorted_wrt (\<lambda>x y. p y \<longrightarrow> p x) xs"
  shows "takeWhile p xs = filter p xs" and "dropWhile p xs = filter (\<lambda>x. \<not> p x) xs"
proof -
  have *: "\<not> p x \<Longrightarrow> sorted_wrt (\<lambda>x y. p y \<longrightarrow> p x) (x # ys) \<Longrightarrow> filter p ys = []
      \<and> filter (\<lambda>x. \<not> p x) ys = ys" for x ys
    by (auto simp: filter_empty_conv filter_id_conv)
  from assms show "takeWhile p xs = filter p xs"
    by (induction xs) (use * in auto)
  from assms show "dropWhile p xs = filter (\<lambda>x. \<not> p x) xs"
    by (induction xs) (use * in auto)
qed

end
