(* ===== verification/Handle_Table.thy ===== *)
theory Handle_Table
  imports Prelude
begin

text \<open>
  The checked handle table of \<open>src/src/com/handle_table.rs\<close>: a counter of 64-bit ids and a
  map from ids to values. The once-cell and the mutex around the map serialise the
  operations, so each operation is one atomic state transformer here; \<open>entries()\<close> of a
  fresh table is the empty map.

  The interface \<open>handle_table\<close> states what the clients rely on (a created handle is
  non-null, never issued before, resolves to its value, and no operation disturbs another
  handle); the tables of queues, ports, users, providers, containers and updates are all
  instances of the one model.
\<close>

record 'a htable =
  ht_next :: u64
  ht_entries :: "u64 \<rightharpoonup> 'a"

definition ht_new :: "'a htable" where
  "ht_new = \<lparr>ht_next = 1, ht_entries = Map.empty\<rparr>"

definition ht_create :: "'a \<Rightarrow> 'a htable \<Rightarrow> u64 \<times> 'a htable" where
  "ht_create v t =
     (let h = ht_next t
      in (h, t\<lparr>ht_next := h + 1, ht_entries := (ht_entries t)(h \<mapsto> v)\<rparr>))"

definition ht_get :: "'a htable \<Rightarrow> u64 \<Rightarrow> 'a option" where
  "ht_get t h = (if h = 0 then None else ht_entries t h)"

definition ht_close :: "u64 \<Rightarrow> 'a htable \<Rightarrow> 'a htable" where
  "ht_close h t = (if h = 0 then t else t\<lparr>ht_entries := (ht_entries t)(h := None)\<rparr>)"

text \<open>Every id in the map was issued, and none is the reserved 0.\<close>

definition ht_issued :: "'a htable \<Rightarrow> u64 set" where
  "ht_issued t = {h. h \<noteq> 0 \<and> unat h < unat (ht_next t)}"

definition ht_inv :: "'a htable \<Rightarrow> bool" where
  "ht_inv t \<longleftrightarrow> ht_next t \<noteq> 0 \<and> dom (ht_entries t) \<subseteq> ht_issued t"

definition ht_room :: "'a htable \<Rightarrow> nat \<Rightarrow> bool" where
  "ht_room t n \<longleftrightarrow> has_room (ht_next t) n"

lemma ht_inv_new [simp]: "ht_inv ht_new"
  by (simp add: ht_inv_def ht_new_def)

lemma ht_get_zero [simp]: "ht_get t 0 = None"
  by (simp add: ht_get_def)

lemma ht_get_issued: "ht_inv t \<Longrightarrow> ht_get t h = Some v \<Longrightarrow> h \<in> ht_issued t"
  by (auto simp: ht_inv_def ht_get_def split: if_splits)

lemma ht_get_create_same: "ht_next t \<noteq> 0 \<Longrightarrow> ht_get (snd (ht_create v t)) (ht_next t) = Some v"
  by (simp add: ht_create_def ht_get_def Let_def)

lemma fst_ht_create: "fst (ht_create v t) = ht_next t"
  by (simp add: ht_create_def Let_def)

lemma ht_get_create_other:
  "h \<noteq> ht_next t \<Longrightarrow> ht_get (snd (ht_create v t)) h = ht_get t h"
  by (simp add: ht_create_def ht_get_def Let_def)

lemma ht_get_close: "ht_get (ht_close h t) h' = (if h' = h then None else ht_get t h')"
  by (simp add: ht_close_def ht_get_def)

lemma ht_issued_create:
  assumes "ht_room t (Suc 0)" "ht_inv t"
  shows "ht_issued (snd (ht_create v t)) = insert (ht_next t) (ht_issued t)"
proof -
  have "unat (ht_next t + 1) = unat (ht_next t) + 1"
    using assms(1) by (simp add: ht_room_def unat_Suc_room)
  then show ?thesis
    using assms(2) by (auto simp: ht_issued_def ht_create_def Let_def ht_inv_def less_Suc_eq
        word_unat_eq_iff)
qed

lemma ht_inv_create: "ht_room t (Suc 0) \<Longrightarrow> ht_inv t \<Longrightarrow> ht_inv (snd (ht_create v t))"
proof -
  assume r: "ht_room t (Suc 0)" and i: "ht_inv t"
  have "unat (ht_next t + 1) = unat (ht_next t) + 1"
    using r by (simp add: ht_room_def unat_Suc_room)
  then have "ht_next t + 1 \<noteq> 0" by (metis add_is_0 one_neq_zero unat_0)
  with i ht_issued_create [OF r i, of v] show ?thesis
    by (auto simp: ht_inv_def ht_create_def Let_def)
qed

lemma ht_inv_close: "ht_inv t \<Longrightarrow> ht_inv (ht_close h t)"
  by (auto simp: ht_inv_def ht_close_def ht_issued_def)

lemma ht_issued_close [simp]: "ht_issued (ht_close h t) = ht_issued t"
  by (simp add: ht_issued_def ht_close_def)

section \<open>The interface\<close>

locale handle_table =
  fixes create :: "'a \<Rightarrow> 't \<Rightarrow> u64 \<times> 't"
    and get :: "'t \<Rightarrow> u64 \<Rightarrow> 'a option"
    and close :: "u64 \<Rightarrow> 't \<Rightarrow> 't"
    and issued :: "'t \<Rightarrow> u64 set"
    and inv :: "'t \<Rightarrow> bool"
    and room :: "'t \<Rightarrow> nat \<Rightarrow> bool"
  assumes create_fresh: "inv t \<Longrightarrow> room t (Suc 0) \<Longrightarrow> create v t = (h, t') \<Longrightarrow> h \<notin> issued t"
    and create_nonzero: "inv t \<Longrightarrow> room t (Suc 0) \<Longrightarrow> create v t = (h, t') \<Longrightarrow> h \<noteq> 0"
    and create_issued: "inv t \<Longrightarrow> room t (Suc 0) \<Longrightarrow> create v t = (h, t') \<Longrightarrow>
          issued t' = insert h (issued t)"
    and create_get: "inv t \<Longrightarrow> room t (Suc 0) \<Longrightarrow> create v t = (h, t') \<Longrightarrow>
          get t' k = (if k = h then Some v else get t k)"
    and create_inv: "inv t \<Longrightarrow> room t (Suc 0) \<Longrightarrow> create v t = (h, t') \<Longrightarrow> inv t'"
    and create_room: "room t (Suc n) \<Longrightarrow> create v t = (h, t') \<Longrightarrow> room t' n"
    and close_get: "get (close h t) k = (if k = h then None else get t k)"
    and close_issued: "issued (close h t) = issued t"
    and close_inv: "inv t \<Longrightarrow> inv (close h t)"
    and close_room: "room (close h t) n = room t n"
    and get_issued: "inv t \<Longrightarrow> get t h = Some v \<Longrightarrow> h \<in> issued t"
    and room_mono: "room t n \<Longrightarrow> m \<le> n \<Longrightarrow> room t m"
begin

lemma get_unissued: "inv t \<Longrightarrow> h \<notin> issued t \<Longrightarrow> get t h = None"
  by (cases "get t h") (auto dest: get_issued)

lemma create_keeps:
  assumes "inv t" "room t (Suc 0)" "create v t = (h, t')" "get t k = Some w"
  shows "get t' k = Some w"
proof -
  have "k \<in> issued t" using get_issued [OF assms(1,4)] .
  moreover have "h \<notin> issued t" using create_fresh [OF assms(1-3)] .
  ultimately have "k \<noteq> h" by auto
  with assms show ?thesis by (simp add: create_get)
qed

text \<open>A duplicate is a handle of its own: closing either leaves the other usable.\<close>

lemma duplicate_independent:
  assumes "inv t" "room t (Suc 0)" "get t h = Some v" "create v t = (d, t')"
  shows "d \<noteq> h" and "get (close h t') d = Some v" and "get (close d t') h = Some v"
proof -
  have "h \<in> issued t" "d \<notin> issued t"
    using get_issued [OF assms(1,3)] create_fresh [OF assms(1,2,4)] by auto
  then show ne: "d \<noteq> h" by auto
  from assms have "get t' d = Some v" "get t' h = Some v"
    by (auto simp: create_get)
  with ne show "get (close h t') d = Some v" "get (close d t') h = Some v"
    by (simp_all add: close_get)
qed

end

interpretation ht: handle_table ht_create ht_get ht_close ht_issued ht_inv ht_room
proof unfold_locales
  fix t t' :: "'a htable" and v :: 'a and h k :: u64
  assume i: "ht_inv t" and r: "ht_room t (Suc 0)" and c: "ht_create v t = (h, t')"
  then have h: "h = ht_next t" and t': "t' = snd (ht_create v t)"
    using fst_ht_create [of v t] by (auto simp: ht_create_def Let_def)
  show "h \<notin> ht_issued t" by (simp add: h ht_issued_def)
  show "h \<noteq> 0" using i by (simp add: h ht_inv_def)
  show "ht_issued t' = insert h (ht_issued t)" using ht_issued_create [OF r i] by (simp add: h t')
  show "ht_get t' k = (if k = h then Some v else ht_get t k)"
    using i by (auto simp: h t' ht_inv_def ht_get_create_same ht_get_create_other)
  show "ht_inv t'" using ht_inv_create [OF r i] by (simp add: t')
next
  fix t t' :: "'a htable" and v :: 'a and h :: u64 and n
  assume "ht_room t (Suc n)" "ht_create v t = (h, t')"
  then show "ht_room t' n"
    by (auto simp: ht_room_def ht_create_def Let_def has_room_Suc)
next
  fix t :: "'a htable" and h :: u64 and v
  assume "ht_inv t" "ht_get t h = Some v"
  then show "h \<in> ht_issued t" by (rule ht_get_issued)
next
  fix t :: "'a htable" and m n
  assume "ht_room t n" "m \<le> n"
  then show "ht_room t m" by (simp add: ht_room_def has_room_mono)
qed (simp_all add: ht_get_close ht_inv_close, simp add: ht_room_def ht_close_def)

section \<open>Whole lifetimes of a table\<close>

text \<open>
  A run of operations, with the handles it issued in order: the log that the "no handle
  value is ever reused" property is about.
\<close>

datatype 'a ht_op = OpCreate 'a | OpClose u64

fun ht_run :: "'a ht_op list \<Rightarrow> 'a htable \<Rightarrow> u64 list \<times> 'a htable" where
  "ht_run [] t = ([], t)"
| "ht_run (OpCreate v # ops) t =
     (let (h, t1) = ht_create v t; (hs, t2) = ht_run ops t1 in (h # hs, t2))"
| "ht_run (OpClose h # ops) t = ht_run ops (ht_close h t)"

fun creates :: "'a ht_op list \<Rightarrow> nat" where
  "creates [] = 0"
| "creates (OpCreate v # ops) = Suc (creates ops)"
| "creates (OpClose h # ops) = creates ops"

lemma ht_run_distinct:
  assumes "ht_inv t" "ht_room t (creates ops)" "ht_run ops t = (hs, t')"
  shows "distinct hs \<and> set hs \<inter> ht_issued t = {} \<and> 0 \<notin> set hs
     \<and> ht_issued t' = ht_issued t \<union> set hs \<and> ht_inv t'"
  using assms
proof (induction ops arbitrary: t hs t' rule: creates.induct)
  case 1
  then show ?case by simp
next
  case (2 v ops)
  obtain h t1 where c: "ht_create v t = (h, t1)" by (cases "ht_create v t")
  obtain hs1 where r: "ht_run ops t1 = (hs1, t')" and hs: "hs = h # hs1"
    using "2.prems"(3) c by (auto split: prod.splits)
  have r1: "ht_room t (Suc 0)" using "2.prems"(2) by (auto intro: ht.room_mono)
  have "ht_room t1 (creates ops)" using "2.prems"(2) c by (auto intro: ht.create_room)
  with "2.IH" [of t1 hs1 t'] r ht.create_inv [OF "2.prems"(1) r1 c]
  have "distinct hs1 \<and> set hs1 \<inter> ht_issued t1 = {} \<and> 0 \<notin> set hs1
     \<and> ht_issued t' = ht_issued t1 \<union> set hs1 \<and> ht_inv t'" by blast
  then show ?case
    using ht.create_issued [OF "2.prems"(1) r1 c] ht.create_fresh [OF "2.prems"(1) r1 c]
      ht.create_nonzero [OF "2.prems"(1) r1 c] hs
    by auto
next
  case (3 h ops)
  then show ?case
    using "3.IH" [of "ht_close h t" hs t'] by (simp add: ht.close_inv ht.close_room ht.close_issued)
qed

text \<open>C34: over any run of creates and closes from a fresh table (fewer than \<open>2 ^ 64 - 1\<close>
  creates), every issued handle is non-zero and no handle value is issued twice, so a stale
  handle can never come to name another object.\<close>

theorem handles_never_reused:
  assumes "ht_run ops ht_new = (hs, t')" "creates ops < 2 ^ 64 - 1"
  shows "distinct hs \<and> 0 \<notin> set hs"
proof -
  have "ht_room (ht_new :: 'a htable) (creates ops)"
    using assms(2) by (simp add: ht_room_def has_room_def ht_new_def)
  then show ?thesis using ht_run_distinct [OF ht_inv_new _ assms(1)] by blast
qed

lemma handles_never_reused_witness:
  "distinct [1, 2, 3 :: u64] \<and> 0 \<notin> set [1, 2, 3 :: u64]"
proof -
  have "ht_run [OpCreate True, OpCreate False, OpClose 1, OpCreate True] ht_new
      = ([1, 2, 3], snd (ht_run [OpCreate True, OpCreate False, OpClose 1, OpCreate True] ht_new))"
    by (simp add: ht_create_def ht_new_def ht_close_def Let_def)
  from handles_never_reused [OF this] show ?thesis by simp
qed

end
