(* ===== verification/Port.thy ===== *)
theory Port
  imports Prelude "HOL-Library.Multiset"
begin

text \<open>
  One half of a task queue: the \<open>Port\<close> of \<open>src/src/com/xasync/task_queue.rs\<close>. A port is an
  ordered list of pending callbacks behind a mutex. Every stretch of code that runs with the
  mutex held is one function here, from the state at the lock to the state at the unlock;
  the callbacks, which the code runs with the mutex released, are what those functions
  return. The composition with the callbacks is in the theory \<open>Task_Queue\<close>.

  A callback and its context are one opaque value of type \<open>'c\<close>. An \<open>Instant\<close> is a number of
  milliseconds, read from a clock that the caller passes in. The number of worker threads
  that \<open>start_workers\<close> has spawned is kept in the extra field \<open>p_workers\<close>.
\<close>

type_synonym instant = nat

section \<open>Modes and sides\<close>

datatype dispatch_mode = Manual | ThreadPool | SerializedThreadPool | Immediate

definition dispatch_mode_from_raw :: "u64 \<Rightarrow> dispatch_mode option" where
  "dispatch_mode_from_raw v =
     (if v = 0 then Some Manual
      else if v = 1 then Some ThreadPool
      else if v = 2 then Some SerializedThreadPool
      else if v = 3 then Some Immediate
      else None)"

datatype port_kind = Work | Completion

definition port_kind_from_raw :: "u64 \<Rightarrow> port_kind option" where
  "port_kind_from_raw v = (if v = 0 then Some Work else if v = 1 then Some Completion else None)"

fun port_kind_as_raw :: "port_kind \<Rightarrow> u32" where
  "port_kind_as_raw Work = 0"
| "port_kind_as_raw Completion = 1"

section \<open>Tasks and port state\<close>

record 'c task =
  tk_call :: 'c
  tk_owner :: u64
  tk_due :: "instant option"

definition ready_at :: "'c task \<Rightarrow> instant \<Rightarrow> bool" where
  "ready_at t now = (case tk_due t of None \<Rightarrow> True | Some due \<Rightarrow> due \<le> now)"

record 'c port =
  p_mode :: dispatch_mode
  p_tasks :: "'c task list"
  p_submitted :: nat
  p_dispatched :: nat
  p_last_ms :: "nat option"
  p_terminated :: bool
  p_contexts :: nat
  p_in_flight :: nat
  p_workers_started :: bool
  p_workers :: nat

definition port_new :: "dispatch_mode \<Rightarrow> 'c port" where
  "port_new m = \<lparr>p_mode = m, p_tasks = [], p_submitted = 0, p_dispatched = 0, p_last_ms = None,
     p_terminated = False, p_contexts = 0, p_in_flight = 0, p_workers_started = False,
     p_workers = 0\<rparr>"

definition add_context :: "'c port \<Rightarrow> 'c port" where
  "add_context p = p\<lparr>p_contexts := p_contexts p + 1\<rparr>"

section \<open>Terminating a context\<close>

text \<open>The loop that pulls one owner's callbacks out, keeping the order of both parts.\<close>

fun split_owner :: "u64 \<Rightarrow> 'c task list \<Rightarrow> 'c task list \<times> 'c task list" where
  "split_owner owner [] = ([], [])"
| "split_owner owner (t # ts) =
     (let (pending, keep) = split_owner owner ts
      in if tk_owner t = owner then (t # pending, keep) else (pending, t # keep))"

text \<open>The first locked section of \<open>terminate_context\<close>: the callbacks to cancel, whether the
  rest is to be drained, and the port after it.\<close>

definition terminate_lock :: "u64 \<Rightarrow> 'c port \<Rightarrow> 'c task list \<times> bool \<times> 'c port" where
  "terminate_lock owner p =
     (let p1 = (if p_contexts p > 0 then p\<lparr>p_contexts := p_contexts p - 1\<rparr> else p);
          (pending, keep) = split_owner owner (p_tasks p1);
          p2 = p1\<lparr>p_tasks := keep\<rparr>
      in if p_contexts p2 = 0 \<and> \<not> p_terminated p2
         then (pending, True, p2\<lparr>p_terminated := True\<rparr>)
         else (pending, False, p2))"

text \<open>The second locked section: \<open>state.tasks.drain(..)\<close>.\<close>

definition drain_all :: "'c port \<Rightarrow> 'c task list \<times> 'c port" where
  "drain_all p = (p_tasks p, p\<lparr>p_tasks := []\<rparr>)"

section \<open>Submitting\<close>

definition start_workers :: "nat option \<Rightarrow> 'c port \<Rightarrow> 'c port" where
  "start_workers parallelism p =
     (if p_workers_started p then p
      else case p_mode p of
        SerializedThreadPool \<Rightarrow> p\<lparr>p_workers_started := True, p_workers := 1\<rparr>
      | ThreadPool \<Rightarrow>
          p\<lparr>p_workers_started := True,
            p_workers := (case parallelism of Some n \<Rightarrow> min n 4 | None \<Rightarrow> 2)\<rparr>
      | Manual \<Rightarrow> p
      | Immediate \<Rightarrow> p)"

text \<open>The match that picks the insertion position: does a callback queued with the first
  deadline have to run after a new one with the second?\<close>

fun due_after :: "instant option \<Rightarrow> instant option \<Rightarrow> bool" where
  "due_after (Some queued_due) (Some new_due) = (queued_due > new_due)"
| "due_after (Some _) None = True"
| "due_after _ _ = False"

definition insert_task :: "'c task \<Rightarrow> 'c task list \<Rightarrow> 'c task list" where
  "insert_task t ts =
     insert_at (position_or_end (\<lambda>queued. due_after (tk_due queued) (tk_due t)) ts) t ts"

text \<open>What \<open>submit\<close> decides under the lock. \<open>RunInline\<close>: the submitting thread runs the
  callback itself; \<open>SpawnDelayed\<close>: a thread of its own sleeps until the deadline.\<close>

datatype 'c submit_outcome =
    Refused
  | RunInline "'c task"
  | SpawnDelayed "'c task"
  | Queued "'c task"

definition port_submit ::
  "nat option \<Rightarrow> instant \<Rightarrow> u64 \<Rightarrow> bool \<Rightarrow> 'c \<Rightarrow> nat \<Rightarrow> 'c port \<Rightarrow> 'c submit_outcome \<times> 'c port"
where
  "port_submit parallelism now owner owner_terminated call delay p =
     (let t = \<lparr>tk_call = call, tk_owner = owner,
               tk_due = (if delay \<noteq> 0 then Some (now + delay) else None)\<rparr>
      in if p_terminated p \<or> owner_terminated then (Refused, p)
         else if p_mode p = Immediate \<and> tk_due t = None
         then (RunInline t, p\<lparr>p_in_flight := p_in_flight p + 1\<rparr>)
         else if p_mode p = Immediate then (SpawnDelayed t, p)
         else (Queued t,
               start_workers parallelism
                 (p\<lparr>p_submitted := p_submitted p + 1, p_tasks := insert_task t (p_tasks p)\<rparr>)))"

section \<open>Taking and finishing tasks\<close>

text \<open>One pass of the loop of \<open>wait_for_task\<close>. The clock is read twice, for the readiness
  test and for the sleep; \<open>WRetry\<close> is its \<open>continue\<close>, \<open>WSleep\<close> its wait on the condition
  variable.\<close>

datatype 'c wait_verdict = WReturn "'c task option" | WRetry | WSleep "instant option"

definition wait_until :: "instant option \<Rightarrow> instant option \<Rightarrow> instant option" where
  "wait_until deadline next_due =
     (case (deadline, next_due) of
        (Some a, Some b) \<Rightarrow> Some (min a b)
      | (Some a, None) \<Rightarrow> Some a
      | (None, Some b) \<Rightarrow> Some b
      | (None, None) \<Rightarrow> None)"

definition wait_step ::
  "instant option \<Rightarrow> instant \<Rightarrow> instant \<Rightarrow> 'c port \<Rightarrow> 'c wait_verdict \<times> 'c port" where
  "wait_step deadline now now2 p =
     (if p_terminated p then (WReturn None, p)
      else case p_tasks p of
        t # ts \<Rightarrow>
          if ready_at t now
          then (WReturn (Some t), p\<lparr>p_tasks := ts, p_in_flight := p_in_flight p + 1\<rparr>)
          else (case wait_until deadline (tk_due t) of
                  None \<Rightarrow> (WSleep None, p)
                | Some until \<Rightarrow>
                    if until \<le> now2
                    then (if (case deadline of None \<Rightarrow> False | Some d \<Rightarrow> d \<le> now2)
                          then (WReturn None, p) else (WRetry, p))
                    else (WSleep (Some until), p))
      | [] \<Rightarrow>
          (case wait_until deadline None of
             None \<Rightarrow> (WSleep None, p)
           | Some until \<Rightarrow>
               if until \<le> now2
               then (if (case deadline of None \<Rightarrow> False | Some d \<Rightarrow> d \<le> now2)
                     then (WReturn None, p) else (WRetry, p))
               else (WSleep (Some until), p)))"

definition finish_one :: "nat \<Rightarrow> 'c port \<Rightarrow> 'c port" where
  "finish_one ms p = p\<lparr>p_dispatched := p_dispatched p + 1, p_last_ms := Some ms,
     p_in_flight := p_in_flight p - 1\<rparr>"

fun drain_loop :: "instant \<Rightarrow> 'c task list \<Rightarrow> 'c task list \<times> 'c task list" where
  "drain_loop now [] = ([], [])"
| "drain_loop now (t # ts) =
     (if \<not> ready_at t now then ([], t # ts)
      else let (out, rest) = drain_loop now ts in (t # out, rest))"

definition drain_ready :: "instant \<Rightarrow> 'c port \<Rightarrow> 'c task list \<times> 'c port" where
  "drain_ready now p =
     (let (out, rest) = drain_loop now (p_tasks p)
      in (out, p\<lparr>p_tasks := rest, p_in_flight := p_in_flight p + length out\<rparr>))"

definition finish_n :: "nat \<Rightarrow> nat \<Rightarrow> 'c port \<Rightarrow> 'c port" where
  "finish_n ms n p =
     (if n = 0 then p
      else p\<lparr>p_dispatched := p_dispatched p + n, p_last_ms := Some ms,
             p_in_flight := p_in_flight p - n\<rparr>)"

section \<open>The order of the queue\<close>

text \<open>A callback without a deadline counts as due before any instant.\<close>

definition due_key :: "'c task \<Rightarrow> nat" where
  "due_key t = (case tk_due t of None \<Rightarrow> 0 | Some d \<Rightarrow> Suc d)"

lemma due_after_key: "due_after (tk_due q) (tk_due t) \<longleftrightarrow> due_key t < due_key q"
  by (cases "tk_due q"; cases "tk_due t") (simp_all add: due_key_def)

lemma ready_at_key: "ready_at t now \<longleftrightarrow> due_key t \<le> Suc now"
  by (simp add: ready_at_def due_key_def split: option.splits)

definition due_sorted :: "'c task list \<Rightarrow> bool" where
  "due_sorted ts \<longleftrightarrow> sorted (map due_key ts)"

lemma due_sorted_Nil [simp]: "due_sorted []"
  by (simp add: due_sorted_def)

lemma due_sorted_filter: "due_sorted ts \<Longrightarrow> due_sorted (filter P ts)"
  by (simp add: due_sorted_def sorted_filter)

lemma due_sorted_tl: "due_sorted (t # ts) \<Longrightarrow> due_sorted ts"
  by (simp add: due_sorted_def)

lemma due_sorted_prefix:
  assumes "due_sorted ts"
  shows "takeWhile (\<lambda>q. due_key q \<le> k) ts = filter (\<lambda>q. due_key q \<le> k) ts"
    and "dropWhile (\<lambda>q. due_key q \<le> k) ts = filter (\<lambda>q. \<not> due_key q \<le> k) ts"
proof -
  have "sorted_wrt (\<lambda>x y. due_key y \<le> k \<longrightarrow> due_key x \<le> k) ts"
    using assms unfolding due_sorted_def sorted_wrt_map
    by (rule sorted_wrt_mono_rel [rotated]) simp
  then show "takeWhile (\<lambda>q. due_key q \<le> k) ts = filter (\<lambda>q. due_key q \<le> k) ts"
    and "dropWhile (\<lambda>q. due_key q \<le> k) ts = filter (\<lambda>q. \<not> due_key q \<le> k) ts"
    by (rule takeWhile_eq_filter_if_prefix)+
qed

lemma insert_task_eq:
  assumes "due_sorted ts"
  shows "insert_task t ts = filter (\<lambda>q. due_key q \<le> due_key t) ts
     @ t # filter (\<lambda>q. \<not> due_key q \<le> due_key t) ts"
  unfolding insert_task_def insert_at_first due_after_key
  using due_sorted_prefix [OF assms, of "due_key t"] by (simp add: not_less)

lemma mset_insert_task [simp]: "mset (insert_task t ts) = add_mset t (mset ts)"
  by (simp add: insert_task_def)

lemma set_insert_task: "set (insert_task t ts) = insert t (set ts)"
  by (metis mset_insert_task set_mset_add_mset_insert set_mset_mset)

lemma length_insert_task: "length (insert_task t ts) = Suc (length ts)"
  by (metis mset_insert_task size_add_mset size_mset)

lemma due_sorted_insert: "due_sorted ts \<Longrightarrow> due_sorted (insert_task t ts)"
  using due_sorted_filter [of ts "\<lambda>q. due_key q \<le> due_key t"]
    due_sorted_filter [of ts "\<lambda>q. \<not> due_key q \<le> due_key t"]
  by (auto simp: insert_task_eq due_sorted_def sorted_append)

lemma insert_task_sort_key:
  "insert_task t (sort_key due_key xs) = sort_key due_key (xs @ [t])"
proof -
  have s: "due_sorted (sort_key due_key xs)" by (simp add: due_sorted_def)
  have "sort_key due_key (xs @ [t]) = insert_task t (sort_key due_key xs)"
  proof (rule properties_for_sort_key)
    show "mset (insert_task t (sort_key due_key xs)) = mset (xs @ [t])" by simp
    show "sorted (map due_key (insert_task t (sort_key due_key xs)))"
      using due_sorted_insert [OF s] by (simp add: due_sorted_def)
    fix y
    have "filter (\<lambda>x. due_key y = due_key x) (sort_key due_key xs)
        = filter (\<lambda>x. due_key y = due_key x) xs"
      using filter_sort [of "\<lambda>x. due_key y = due_key x" due_key xs]
        sort_key_stable [of due_key "due_key y" xs] by (simp add: eq_commute)
    then show "filter (\<lambda>x. due_key y = due_key x) (insert_task t (sort_key due_key xs))
        = filter (\<lambda>x. due_key y = due_key x) (xs @ [t])"
      by (auto simp: insert_task_eq [OF s] filter_key_le simp del: filter_filter)
  qed
  then show ?thesis by simp
qed


text \<open>C17: the queue discipline. Submitting callbacks one after another to an empty list, by
  the position search of \<open>submit\<close>, gives exactly the stable sort of the submissions by
  deadline, callbacks without a deadline first: earlier deadlines run first, and callbacks
  with equal deadlines run in the order they were submitted.\<close>

theorem submissions_stable_sorted:
  "fold insert_task ts [] = sort_key due_key ts"
proof (induction ts rule: rev_induct)
  case (snoc t ts)
  then show ?case by (simp add: insert_task_sort_key)
qed simp

lemma split_owner_filter:
  "split_owner owner ts = (filter (\<lambda>t. tk_owner t = owner) ts, filter (\<lambda>t. tk_owner t \<noteq> owner) ts)"
  by (induction ts) auto

lemma drain_loop_while:
  "drain_loop now ts = (takeWhile (\<lambda>t. ready_at t now) ts, dropWhile (\<lambda>t. ready_at t now) ts)"
  by (induction ts) auto

lemma drain_loop_sorted:
  "due_sorted ts \<Longrightarrow> drain_loop now ts
     = (filter (\<lambda>t. ready_at t now) ts, filter (\<lambda>t. \<not> ready_at t now) ts)"
  by (simp add: drain_loop_while ready_at_key due_sorted_prefix)

text \<open>The head of a sorted queue is ready whenever any of its tasks is.\<close>

lemma due_sorted_head_ready:
  "due_sorted (t # ts) \<Longrightarrow> u \<in> set (t # ts) \<Longrightarrow> ready_at u now \<Longrightarrow> ready_at t now"
  by (auto simp: due_sorted_def ready_at_key)

text \<open>The snapshot that \<open>dispatch\<close> takes of a queue in deadline order contains every
  callback that is ready at that moment, in queue order, and leaves exactly those that are
  not, although the loop stops at the first callback that is not ready.\<close>

theorem drain_ready_complete:
  assumes "due_sorted (p_tasks p)" "drain_ready now p = (batch, p')"
  shows "batch = filter (\<lambda>t. ready_at t now) (p_tasks p)
     \<and> p_tasks p' = filter (\<lambda>t. \<not> ready_at t now) (p_tasks p)
     \<and> p_in_flight p' = p_in_flight p + length batch"
  using assms by (auto simp: drain_ready_def drain_loop_sorted)

lemma drain_ready_complete_witness:
  "[\<lparr>tk_call = True, tk_owner = 1, tk_due = None\<rparr>] =
     filter (\<lambda>t. ready_at t 5)
       [\<lparr>tk_call = True, tk_owner = 1, tk_due = None\<rparr>, \<lparr>tk_call = False, tk_owner = 1, tk_due = Some 9\<rparr>]"
proof -
  let ?ts = "[\<lparr>tk_call = True, tk_owner = 1, tk_due = None\<rparr>,
              \<lparr>tk_call = False, tk_owner = 1, tk_due = Some 9\<rparr>]"
  let ?p = "(port_new Manual)\<lparr>p_tasks := ?ts\<rparr>"
  have s: "due_sorted (p_tasks ?p)" by (simp add: due_sorted_def due_key_def)
  have d: "drain_ready 5 ?p
      = ([hd ?ts], ?p\<lparr>p_tasks := tl ?ts, p_in_flight := p_in_flight ?p + 1\<rparr>)"
    by (simp add: drain_ready_def ready_at_def)
  from drain_ready_complete [OF s d] show ?thesis by simp
qed

end
