(* ===== verification/Port_Protocol.thy ===== *)
theory Port_Protocol
  imports Port
begin

text \<open>
  What any number of threads can do to one port, as a step relation over the locked sections
  of \<open>Port\<close>. Beside the port, the state records where every accepted callback is: running
  (popped or run inline, counted in flight), waiting in the sleeping thread of a delayed
  callback of an immediate port, pulled out by a termination and about to be cancelled, or
  called, with \<open>canceled\<close> false or true. The threads that take part are game threads that
  submit, dispatch and terminate, the pool workers and the sleeping threads; each rule is
  one locked section or one call of a callback, so every interleaving of them is a run.
\<close>

record 'c pstate =
  ps_port :: "'c port"
  ps_accepted :: "'c task multiset"
  ps_running :: "'c task multiset"
  ps_sleeping :: "'c task multiset"
  ps_cancelling :: "'c task multiset"
  ps_ran :: "'c task multiset"
  ps_cancelled :: "'c task multiset"

definition ps_init :: "dispatch_mode \<Rightarrow> 'c pstate" where
  "ps_init m = \<lparr>ps_port = port_new m, ps_accepted = {#}, ps_running = {#}, ps_sleeping = {#},
     ps_cancelling = {#}, ps_ran = {#}, ps_cancelled = {#}\<rparr>"

inductive port_step :: "'c pstate \<Rightarrow> 'c pstate \<Rightarrow> bool" where
  new_context: "port_step s (s\<lparr>ps_port := add_context (ps_port s)\<rparr>)"
| refuse: "port_submit par now owner ot call delay (ps_port s) = (Refused, p) \<Longrightarrow>
     port_step s (s\<lparr>ps_port := p\<rparr>)"
| enqueue: "port_submit par now owner ot call delay (ps_port s) = (Queued t, p) \<Longrightarrow>
     port_step s (s\<lparr>ps_port := p, ps_accepted := add_mset t (ps_accepted s)\<rparr>)"
| inline: "port_submit par now owner ot call delay (ps_port s) = (RunInline t, p) \<Longrightarrow>
     port_step s (s\<lparr>ps_port := p, ps_accepted := add_mset t (ps_accepted s),
       ps_running := add_mset t (ps_running s)\<rparr>)"
| delayed: "port_submit par now owner ot call delay (ps_port s) = (SpawnDelayed t, p) \<Longrightarrow>
     port_step s (s\<lparr>ps_port := p, ps_accepted := add_mset t (ps_accepted s),
       ps_sleeping := add_mset t (ps_sleeping s)\<rparr>)"
| wake: "t \<in># ps_sleeping s \<Longrightarrow> port_step s
     (if p_terminated (ps_port s)
      then s\<lparr>ps_sleeping := ps_sleeping s - {#t#}, ps_cancelled := add_mset t (ps_cancelled s)\<rparr>
      else s\<lparr>ps_sleeping := ps_sleeping s - {#t#}, ps_ran := add_mset t (ps_ran s)\<rparr>)"
| take: "wait_step dl now now2 (ps_port s) = (WReturn (Some t), p) \<Longrightarrow>
     port_step s (s\<lparr>ps_port := p, ps_running := add_mset t (ps_running s)\<rparr>)"
| snapshot: "drain_ready now (ps_port s) = (batch, p) \<Longrightarrow>
     port_step s (s\<lparr>ps_port := p, ps_running := ps_running s + mset batch\<rparr>)"
| finish: "t \<in># ps_running s \<Longrightarrow>
     port_step s (s\<lparr>ps_port := finish_one ms (ps_port s), ps_running := ps_running s - {#t#},
       ps_ran := add_mset t (ps_ran s)\<rparr>)"
| finish_batch: "batch \<subseteq># ps_running s \<Longrightarrow>
     port_step s (s\<lparr>ps_port := finish_n ms (size batch) (ps_port s),
       ps_running := ps_running s - batch, ps_ran := ps_ran s + batch\<rparr>)"
| terminate: "terminate_lock owner (ps_port s) = (pending, dr, p) \<Longrightarrow>
     port_step s (s\<lparr>ps_port := p, ps_cancelling := ps_cancelling s + mset pending\<rparr>)"
| drain_rest: "p_terminated (ps_port s) \<Longrightarrow> drain_all (ps_port s) = (rest, p) \<Longrightarrow>
     port_step s (s\<lparr>ps_port := p, ps_cancelling := ps_cancelling s + mset rest\<rparr>)"
| cancel: "t \<in># ps_cancelling s \<Longrightarrow>
     port_step s (s\<lparr>ps_cancelling := ps_cancelling s - {#t#},
       ps_cancelled := add_mset t (ps_cancelled s)\<rparr>)"

inductive port_reachable :: "dispatch_mode \<Rightarrow> 'c pstate \<Rightarrow> bool" for m where
  init: "port_reachable m (ps_init m)"
| step: "port_reachable m s \<Longrightarrow> port_step s s' \<Longrightarrow> port_reachable m s'"

section \<open>Every callback is somewhere, once\<close>

definition accounted :: "'c pstate \<Rightarrow> bool" where
  "accounted s \<longleftrightarrow> ps_accepted s = mset (p_tasks (ps_port s)) + ps_running s + ps_sleeping s
     + ps_cancelling s + ps_ran s + ps_cancelled s"

definition flight_ok :: "'c pstate \<Rightarrow> bool" where
  "flight_ok s \<longleftrightarrow> p_in_flight (ps_port s) = size (ps_running s)"

definition workers_ok :: "'c port \<Rightarrow> bool" where
  "workers_ok p \<longleftrightarrow> (case p_mode p of
      Manual \<Rightarrow> p_workers p = 0
    | Immediate \<Rightarrow> p_workers p = 0 \<and> p_tasks p = []
    | SerializedThreadPool \<Rightarrow> p_workers p \<le> 1
    | ThreadPool \<Rightarrow> p_workers p \<le> 4) \<and> (\<not> p_workers_started p \<longrightarrow> p_workers p = 0)"

lemma mset_split_owner:
  "split_owner owner ts = (pending, keep) \<Longrightarrow> mset ts = mset pending + mset keep"
  by (auto simp: split_owner_filter)

lemma mset_drain_loop:
  "drain_loop now ts = (out, rest) \<Longrightarrow> mset ts = mset out + mset rest"
  by (auto simp: drain_loop_while simp flip: mset_append)

lemma p_tasks_start_workers [simp]: "p_tasks (start_workers par p) = p_tasks p"
  and p_in_flight_start_workers [simp]: "p_in_flight (start_workers par p) = p_in_flight p"
  and p_terminated_start_workers [simp]: "p_terminated (start_workers par p) = p_terminated p"
  and p_mode_start_workers [simp]: "p_mode (start_workers par p) = p_mode p"
  and p_contexts_start_workers [simp]: "p_contexts (start_workers par p) = p_contexts p"
  and p_dispatched_start_workers [simp]: "p_dispatched (start_workers par p) = p_dispatched p"
  and p_submitted_start_workers [simp]: "p_submitted (start_workers par p) = p_submitted p"
  by (auto simp: start_workers_def split: dispatch_mode.splits)

text \<open>What one submit does, by its outcome.\<close>

lemma port_submit_cases:
  assumes "port_submit par now owner ot call delay p = (r, p')"
  obtains "r = Refused" "p' = p" "p_terminated p \<or> ot"
  | t where "r = RunInline t" "p' = p\<lparr>p_in_flight := p_in_flight p + 1\<rparr>" "p_mode p = Immediate"
      "\<not> p_terminated p" "\<not> ot" "tk_owner t = owner" "tk_call t = call"
  | t where "r = SpawnDelayed t" "p' = p" "p_mode p = Immediate" "\<not> p_terminated p" "\<not> ot"
      "tk_owner t = owner" "tk_call t = call"
  | t where "r = Queued t" "p_mode p \<noteq> Immediate" "\<not> p_terminated p" "\<not> ot"
      "tk_owner t = owner" "tk_call t = call"
      "p' = start_workers par (p\<lparr>p_submitted := p_submitted p + 1,
              p_tasks := insert_task t (p_tasks p)\<rparr>)"
proof -
  define t where "t = \<lparr>tk_call = call, tk_owner = owner, tk_due = (if delay \<noteq> 0 then Some (now + delay) else None)\<rparr>"
  have t: "tk_owner t = owner" "tk_call t = call" by (simp_all add: t_def)
  note sub = assms [unfolded port_submit_def Let_def, folded t_def]
  consider (refused) "p_terminated p \<or> ot"
    | (live) "\<not> (p_terminated p \<or> ot)" by blast
  then show thesis
  proof cases
    case refused
    with sub that(1) show ?thesis by simp
  next
    case live
    with sub t that(2) [of t] that(3) [of t] that(4) [of t] show ?thesis
      by (simp split: if_splits)
  qed
qed

text \<open>The only pass of the waiting loop that changes the port pops its head.\<close>

lemma wait_step_taken:
  assumes "wait_step dl now now2 p = (WReturn (Some t), p')"
  obtains ts where "p_tasks p = t # ts" "\<not> p_terminated p" "ready_at t now"
    "p' = p\<lparr>p_tasks := ts, p_in_flight := p_in_flight p + 1\<rparr>"
  using assms by (auto simp: wait_step_def split: if_splits list.splits option.splits)

lemma wait_step_other:
  "wait_step dl now now2 p = (v, p') \<Longrightarrow> (\<forall>t. v \<noteq> WReturn (Some t)) \<Longrightarrow> p' = p"
  by (auto simp: wait_step_def split: if_splits list.splits option.splits)

lemma terminate_lock_simps:
  assumes "terminate_lock owner p = (pending, dr, p')"
  shows "pending = filter (\<lambda>t. tk_owner t = owner) (p_tasks p)"
    and "p_tasks p' = filter (\<lambda>t. tk_owner t \<noteq> owner) (p_tasks p)"
    and "p_contexts p' = p_contexts p - 1"
    and "dr \<longleftrightarrow> p_contexts p \<le> 1 \<and> \<not> p_terminated p"
    and "p_terminated p' \<longleftrightarrow> p_terminated p \<or> p_contexts p \<le> 1"
    and "p_in_flight p' = p_in_flight p" and "p_mode p' = p_mode p"
    and "p_workers p' = p_workers p" and "p_workers_started p' = p_workers_started p"
    and "p_dispatched p' = p_dispatched p" and "p_submitted p' = p_submitted p"
  using assms by (auto simp: terminate_lock_def split_owner_filter Let_def split: if_splits)

lemma port_step_accounted: "port_step s s' \<Longrightarrow> accounted s \<Longrightarrow> accounted s'"
proof (induction rule: port_step.induct)
  case (enqueue par now owner ot call delay s t p)
  then show ?case by (elim port_submit_cases) (auto simp: accounted_def)
next
  case (inline par now owner ot call delay s t p)
  then show ?case by (elim port_submit_cases) (auto simp: accounted_def)
next
  case (delayed par now owner ot call delay s t p)
  then show ?case by (elim port_submit_cases) (auto simp: accounted_def)
next
  case (refuse par now owner ot call delay s p)
  then show ?case by (elim port_submit_cases) (auto simp: accounted_def)
next
  case (wake t s)
  then show ?case by (auto simp: accounted_def dest!: multi_member_split)
next
  case (take dl now now2 s t p)
  then show ?case by (elim wait_step_taken) (auto simp: accounted_def)
next
  case (snapshot now s batch p)
  then show ?case
    by (auto simp: accounted_def drain_ready_def split: prod.splits dest!: mset_drain_loop)
next
  case (terminate owner s pending dr p)
  then show ?case using terminate_lock_simps(1,2) [OF terminate.hyps]
      mset_filter_split [of "\<lambda>t. tk_owner t = owner" "p_tasks (ps_port s)"]
    by (simp add: accounted_def ac_simps del: mset_filter)
qed (auto simp: accounted_def add_context_def finish_one_def finish_n_def drain_all_def
      ac_simps dest!: multi_member_split subset_mset.le_iff_add [THEN iffD1])

lemma port_step_flight: "port_step s s' \<Longrightarrow> flight_ok s \<Longrightarrow> flight_ok s'"
proof (induction rule: port_step.induct)
  case (enqueue par now owner ot call delay s t p)
  then show ?case by (elim port_submit_cases) (auto simp: flight_ok_def)
next
  case (inline par now owner ot call delay s t p)
  then show ?case by (elim port_submit_cases) (auto simp: flight_ok_def)
next
  case (delayed par now owner ot call delay s t p)
  then show ?case by (elim port_submit_cases) (auto simp: flight_ok_def)
next
  case (refuse par now owner ot call delay s p)
  then show ?case by (elim port_submit_cases) (auto simp: flight_ok_def)
next
  case (take dl now now2 s t p)
  then show ?case by (elim wait_step_taken) (auto simp: flight_ok_def)
next
  case (snapshot now s batch p)
  then show ?case by (auto simp: flight_ok_def drain_ready_def split: prod.splits)
next
  case (terminate owner s pending dr p)
  then show ?case using terminate_lock_simps(6) [OF terminate.hyps] by (simp add: flight_ok_def)
qed (auto simp: flight_ok_def add_context_def finish_one_def finish_n_def drain_all_def
      size_Diff_submset dest!: multi_member_split)


section \<open>Order and workers\<close>

lemma port_step_sorted:
  "port_step s s' \<Longrightarrow> due_sorted (p_tasks (ps_port s)) \<Longrightarrow> due_sorted (p_tasks (ps_port s'))"
proof (induction rule: port_step.induct)
  case (enqueue par now owner ot call delay s t p)
  then show ?case by (elim port_submit_cases) (auto simp: due_sorted_insert)
next
  case (inline par now owner ot call delay s t p)
  then show ?case by (elim port_submit_cases) auto
next
  case (delayed par now owner ot call delay s t p)
  then show ?case by (elim port_submit_cases) auto
next
  case (refuse par now owner ot call delay s p)
  then show ?case by (elim port_submit_cases) auto
next
  case (take dl now now2 s t p)
  then show ?case by (elim wait_step_taken) (auto dest: due_sorted_tl)
next
  case (snapshot now s batch p)
  then show ?case by (auto simp: drain_ready_def drain_loop_sorted due_sorted_filter)
next
  case (terminate owner s pending dr p)
  then show ?case using terminate_lock_simps(2) [OF terminate.hyps] by (simp add: due_sorted_filter)
qed (auto simp: add_context_def finish_one_def finish_n_def drain_all_def)

lemma workers_ok_new: "workers_ok (port_new m)"
  by (simp add: workers_ok_def port_new_def split: dispatch_mode.splits)

lemma workers_ok_start:
  "workers_ok p \<Longrightarrow> p_mode p \<noteq> Immediate \<Longrightarrow>
     workers_ok (start_workers par (p\<lparr>p_submitted := n, p_tasks := ts\<rparr>))"
  by (auto simp: workers_ok_def start_workers_def split: dispatch_mode.splits option.splits)

lemma workers_ok_frame:
  "workers_ok p \<Longrightarrow> p_mode p' = p_mode p \<Longrightarrow> p_workers p' = p_workers p \<Longrightarrow>
     p_workers_started p' = p_workers_started p \<Longrightarrow> set (p_tasks p') \<subseteq> set (p_tasks p) \<Longrightarrow>
     workers_ok p'"
  by (auto simp: workers_ok_def split: dispatch_mode.splits)

lemma port_step_workers:
  "port_step s s' \<Longrightarrow> workers_ok (ps_port s) \<Longrightarrow> workers_ok (ps_port s')"
proof (induction rule: port_step.induct)
  case (enqueue par now owner ot call delay s t p)
  then show ?case by (elim port_submit_cases) (auto intro: workers_ok_start)
next
  case (inline par now owner ot call delay s t p)
  then show ?case by (elim port_submit_cases) (auto elim: workers_ok_frame)
next
  case (delayed par now owner ot call delay s t p)
  then show ?case by (elim port_submit_cases) auto
next
  case (refuse par now owner ot call delay s p)
  then show ?case by (elim port_submit_cases) auto
next
  case (take dl now now2 s t p)
  then show ?case by (elim wait_step_taken) (auto elim: workers_ok_frame)
next
  case (snapshot now s batch p)
  then have "p_tasks p = dropWhile (\<lambda>t. ready_at t now) (p_tasks (ps_port s))"
    "p_mode p = p_mode (ps_port s)" "p_workers p = p_workers (ps_port s)"
    "p_workers_started p = p_workers_started (ps_port s)"
    by (auto simp: drain_ready_def drain_loop_while)
  with snapshot.prems show ?case by (auto elim!: workers_ok_frame dest: set_dropWhileD)
next
  case (terminate owner s pending dr p)
  from terminate.prems show ?case
    by (rule workers_ok_frame) (simp_all add: terminate_lock_simps [OF terminate.hyps])
qed (auto simp: add_context_def finish_one_def finish_n_def drain_all_def elim!: workers_ok_frame)

section \<open>Reachable states\<close>

lemma port_step_mode: "port_step s s' \<Longrightarrow> p_mode (ps_port s') = p_mode (ps_port s)"
proof (induction rule: port_step.induct)
  case (enqueue par now owner ot call delay s t p)
  then show ?case by (elim port_submit_cases) auto
next
  case (inline par now owner ot call delay s t p)
  then show ?case by (elim port_submit_cases) auto
next
  case (delayed par now owner ot call delay s t p)
  then show ?case by (elim port_submit_cases) auto
next
  case (refuse par now owner ot call delay s p)
  then show ?case by (elim port_submit_cases) auto
next
  case (take dl now now2 s t p)
  then show ?case by (elim wait_step_taken) auto
next
  case (terminate owner s pending dr p)
  then show ?case using terminate_lock_simps(7) [OF terminate.hyps] by simp
qed (auto simp: add_context_def finish_one_def finish_n_def drain_all_def drain_ready_def
      split: prod.splits)

lemma reachable_invariant:
  "port_reachable m s \<Longrightarrow> accounted s \<and> flight_ok s \<and> due_sorted (p_tasks (ps_port s))
     \<and> workers_ok (ps_port s) \<and> p_mode (ps_port s) = m"
proof (induction rule: port_reachable.induct)
  case init
  then show ?case using workers_ok_new [of m]
    by (simp add: accounted_def flight_ok_def ps_init_def port_new_def)
next
  case (step s s')
  then show ?case
    using port_step_accounted port_step_flight port_step_sorted port_step_workers port_step_mode
    by metis
qed

text \<open>A run used by the witnesses: a context, two submissions, one taken and finished, then
  the last context terminated and its callback cancelled.\<close>

definition run_task0 :: "bool task" where
  "run_task0 = \<lparr>tk_call = True, tk_owner = 1, tk_due = None\<rparr>"
definition run_task1 :: "bool task" where
  "run_task1 = \<lparr>tk_call = False, tk_owner = 1, tk_due = None\<rparr>"

definition run_port :: "bool port" where
  "run_port = \<lparr>p_mode = Manual, p_tasks = [], p_submitted = 2, p_dispatched = 1,
     p_last_ms = Some 7, p_terminated = True, p_contexts = 0, p_in_flight = 0,
     p_workers_started = False, p_workers = 0\<rparr>"

definition run_end :: "bool pstate" where
  "run_end = \<lparr>ps_port = run_port, ps_accepted = {#run_task0, run_task1#}, ps_running = {#},
     ps_sleeping = {#}, ps_cancelling = {#}, ps_ran = {#run_task0#}, ps_cancelled = {#run_task1#}\<rparr>"

lemma port_reachable_run_end: "port_reachable Manual run_end"
proof -
  let ?s0 = "ps_init Manual :: bool pstate"
  let ?s1 = "?s0\<lparr>ps_port := add_context (port_new Manual)\<rparr>"
  let ?p2 = "(add_context (port_new Manual))\<lparr>p_submitted := 1, p_tasks := [run_task0]\<rparr>"
  let ?s2 = "?s1\<lparr>ps_port := ?p2, ps_accepted := {#run_task0#}\<rparr>"
  let ?p3 = "?p2\<lparr>p_submitted := 2, p_tasks := [run_task0, run_task1]\<rparr>"
  let ?s3 = "?s2\<lparr>ps_port := ?p3, ps_accepted := {#run_task0, run_task1#}\<rparr>"
  let ?p4 = "?p3\<lparr>p_tasks := [run_task1], p_in_flight := 1\<rparr>"
  let ?s4 = "?s3\<lparr>ps_port := ?p4, ps_running := {#run_task0#}\<rparr>"
  let ?s5 = "?s4\<lparr>ps_port := finish_one 7 ?p4, ps_running := {#}, ps_ran := {#run_task0#}\<rparr>"
  let ?p6 = "(finish_one 7 ?p4)\<lparr>p_tasks := [], p_contexts := 0, p_terminated := True\<rparr>"
  let ?s6 = "?s5\<lparr>ps_port := ?p6, ps_cancelling := {#run_task1#}\<rparr>"
  note defs = Let_def run_task0_def run_task1_def add_context_def port_new_def ps_init_def finish_one_def
    insert_task_def insert_at_def position_or_end_def
  have s1: "port_reachable Manual ?s1"
    using port_reachable.step [OF port_reachable.init port_step.new_context [of ?s0]]
    by (simp add: ps_init_def)
  have s2: "port_reachable Manual ?s2"
    using port_reachable.step [OF s1 port_step.enqueue [of None 0 1 False True 0 ?s1 run_task0 ?p2]]
    by (simp add: port_submit_def start_workers_def defs)
  have s3: "port_reachable Manual ?s3"
    using port_reachable.step [OF s2 port_step.enqueue [of None 0 1 False False 0 ?s2 run_task1 ?p3]]
    by (simp add: port_submit_def start_workers_def defs add_mset_commute)
  have s4: "port_reachable Manual ?s4"
    using port_reachable.step [OF s3 port_step.take [of None 0 0 ?s3 run_task0 ?p4]]
    by (simp add: wait_step_def ready_at_def defs)
  have s5: "port_reachable Manual ?s5"
    using port_reachable.step [OF s4 port_step.finish [of run_task0 ?s4 7]]
    by (simp add: ps_init_def)
  have s6: "port_reachable Manual ?s6"
    using port_reachable.step [OF s5 port_step.terminate [of 1 ?s5 "[run_task1]" True ?p6]]
    by (simp add: terminate_lock_def defs)
  have "port_reachable Manual (?s6\<lparr>ps_cancelling := {#}, ps_cancelled := {#run_task1#}\<rparr>)"
    using port_reachable.step [OF s6 port_step.cancel [of run_task1 ?s6]] by (simp add: ps_init_def)
  moreover have "?s6\<lparr>ps_cancelling := {#}, ps_cancelled := {#run_task1#}\<rparr> = run_end"
    by (simp add: run_end_def run_port_def defs)
  ultimately show ?thesis by simp
qed

text \<open>C1: exactly once, over every interleaving of submitters, workers, dispatchers and
  terminators: at any moment each accepted callback is in exactly one place (queued, running,
  asleep, about to be cancelled, run, or cancelled), none is lost or duplicated, and
  \<open>in_flight\<close> counts the running ones, so its decrements never underflow.\<close>

theorem callbacks_exactly_once:
  assumes "port_reachable m s"
  shows "ps_accepted s = mset (p_tasks (ps_port s)) + ps_running s + ps_sleeping s
           + ps_cancelling s + ps_ran s + ps_cancelled s
     \<and> p_in_flight (ps_port s) = size (ps_running s)"
  using reachable_invariant [OF assms] by (simp add: accounted_def flight_ok_def)

lemma callbacks_exactly_once_witness:
  "ps_accepted run_end = ps_ran run_end + ps_cancelled run_end"
  using callbacks_exactly_once [OF port_reachable_run_end] by (simp add: run_end_def run_port_def)

text \<open>In every reachable state the queue is in deadline order, manual and immediate ports
  have no worker thread and immediate ports no queued callback, a serialized port has at most
  one worker (which is what keeps its callbacks in order) and a pool at most four.\<close>

theorem port_order_and_workers:
  assumes "port_reachable m s"
  shows "due_sorted (p_tasks (ps_port s)) \<and> (case m of
      Manual \<Rightarrow> p_workers (ps_port s) = 0
    | Immediate \<Rightarrow> p_workers (ps_port s) = 0 \<and> p_tasks (ps_port s) = []
    | SerializedThreadPool \<Rightarrow> p_workers (ps_port s) \<le> 1
    | ThreadPool \<Rightarrow> p_workers (ps_port s) \<le> 4)"
  using reachable_invariant [OF assms] by (auto simp: workers_ok_def)

lemma port_order_and_workers_witness: "p_workers (ps_port run_end) = 0"
  using port_order_and_workers [OF port_reachable_run_end] by simp

text \<open>Termination is final: once a port is terminated no step accepts a callback or adds
  one to the queue, no waiting worker or dispatcher takes one, and it stays terminated.\<close>

theorem terminated_port_is_closed:
  assumes "port_step s s'" "p_terminated (ps_port s)"
  shows "p_terminated (ps_port s') \<and> ps_accepted s' = ps_accepted s
     \<and> set (p_tasks (ps_port s')) \<subseteq> set (p_tasks (ps_port s))
     \<and> (\<forall>dl now now2. fst (wait_step dl now now2 (ps_port s)) = WReturn None)"
proof -
  have w: "fst (wait_step dl now now2 (ps_port s)) = WReturn None" for dl now now2
    using assms(2) by (simp add: wait_step_def)
  show ?thesis using assms
  proof (induction rule: port_step.induct)
    case (take dl now now2 s t p)
    then show ?case by (elim wait_step_taken) simp
  next
    case (snapshot now s batch p)
    then show ?case
      by (auto simp: drain_ready_def drain_loop_while wait_step_def dest: set_dropWhileD)
  next
    case (terminate owner s pending dr p)
    then show ?case using terminate_lock_simps(2,5) [OF terminate.hyps]
      by (auto simp: wait_step_def)
  qed (auto simp: wait_step_def add_context_def finish_one_def finish_n_def drain_all_def
        elim!: port_submit_cases)
qed

lemma terminated_port_is_closed_witness:
  "p_terminated (ps_port (run_end\<lparr>ps_port := add_context (ps_port run_end)\<rparr>))"
  using terminated_port_is_closed [OF port_step.new_context [of run_end]]
  by (simp add: run_end_def run_port_def)

end
