(* ===== verification/Task_Queue.thy ===== *)
theory Task_Queue
  imports Port Handle_Table
begin

text \<open>
  Queues and the process-wide state of \<open>src/src/com/xasync/task_queue.rs\<close>. A queue is a pair
  of port contexts plus monitors; ports are shared between queues, so both live in a store
  and are named by their address in it (\<open>Arc\<close> pointers never dangle, so the store is total
  and nothing is freed). The record \<open>sys\<close> also holds the handle tables, the process queue
  with its cached handle, the sleeping threads of delayed immediate callbacks, the thread
  local \<open>IN_DISPATCH\<close> flags and the clock that \<open>Instant::now()\<close> reads.

  What a callback or a monitor does is not this file's business: \<open>run t canceled\<close> and
  \<open>mon m handle port\<close> are arbitrary transformers of the whole state, so a callback may
  itself submit, dispatch, terminate or let time pass. They are called exactly where the
  code calls them, with no lock held (monitors run with the monitor list locked, so a
  monitor that changes its own queue's monitors would block and is outside the model).

  The blocking loops take a schedule: one entry per pass, with how much the clock moves
  between the pass's two readings and what the other threads do while it sleeps. An
  exhausted schedule means still waiting.
\<close>

record 'm monitor =
  m_token :: u64
  m_call :: 'm

record port_context =
  pc_port :: nat
  pc_owner :: u64
  pc_terminated :: bool

record 'm queue =
  q_work :: port_context
  q_completion :: port_context
  q_monitors :: "'m monitor list"
  q_next_token :: u64
  q_canonical :: "u64 option"

record ('c, 'm) sys =
  clock :: nat
  parallelism :: "nat option"
  ports :: "nat \<Rightarrow> 'c port"
  next_port :: nat
  next_context_id :: u64
  queues :: "nat \<Rightarrow> 'm queue"
  next_queue :: nat
  queue_handles :: "nat htable"
  port_handles :: "nat htable"
  process_queue :: "nat option"
  process_queue_handle :: "u64 option"
  sleeping :: "(nat \<times> 'c task) list"
  in_dispatch_of :: "nat \<Rightarrow> bool"

type_synonym ('c, 'm, 'z) runner =
  "'c task \<Rightarrow> bool \<Rightarrow> ('c, 'm, 'z) sys_scheme \<Rightarrow> ('c, 'm, 'z) sys_scheme"
type_synonym ('c, 'm, 'z) monitor_runner =
  "'m \<Rightarrow> u64 \<Rightarrow> u32 \<Rightarrow> ('c, 'm, 'z) sys_scheme \<Rightarrow> ('c, 'm, 'z) sys_scheme"
type_synonym ('c, 'm, 'z) wake = "('c, 'm, 'z) sys_scheme \<Rightarrow> ('c, 'm, 'z) sys_scheme"

definition set_port :: "nat \<Rightarrow> 'c port \<Rightarrow> ('c, 'm, 'z) sys_scheme \<Rightarrow> ('c, 'm, 'z) sys_scheme" where
  "set_port pid p s = s\<lparr>ports := (ports s)(pid := p)\<rparr>"

definition set_queue :: "nat \<Rightarrow> 'm queue \<Rightarrow> ('c, 'm, 'z) sys_scheme \<Rightarrow> ('c, 'm, 'z) sys_scheme" where
  "set_queue qid q s = s\<lparr>queues := (queues s)(qid := q)\<rparr>"

section \<open>Creating ports, contexts and queues\<close>

definition port_create ::
  "dispatch_mode \<Rightarrow> ('c, 'm, 'z) sys_scheme \<Rightarrow> nat \<times> ('c, 'm, 'z) sys_scheme" where
  "port_create mode s =
     (next_port s, (set_port (next_port s) (port_new mode) s)\<lparr>next_port := next_port s + 1\<rparr>)"

definition context_new ::
  "nat \<Rightarrow> ('c, 'm, 'z) sys_scheme \<Rightarrow> port_context \<times> ('c, 'm, 'z) sys_scheme" where
  "context_new pid s =
     (let owner = next_context_id s;
          s1 = s\<lparr>next_context_id := owner + 1\<rparr>;
          s2 = set_port pid (add_context (ports s1 pid)) s1
      in (\<lparr>pc_port = pid, pc_owner = owner, pc_terminated = False\<rparr>, s2))"

definition queue_composite ::
  "nat \<Rightarrow> nat \<Rightarrow> ('c, 'm, 'z) sys_scheme \<Rightarrow> nat \<times> ('c, 'm, 'z) sys_scheme" where
  "queue_composite work completion s =
     (let (w, s1) = context_new work s;
          (c, s2) = context_new completion s1;
          q = \<lparr>q_work = w, q_completion = c, q_monitors = [], q_next_token = 1, q_canonical = None\<rparr>
      in (next_queue s2, (set_queue (next_queue s2) q s2)\<lparr>next_queue := next_queue s2 + 1\<rparr>))"

definition queue_new ::
  "dispatch_mode \<Rightarrow> dispatch_mode \<Rightarrow> ('c, 'm, 'z) sys_scheme \<Rightarrow> nat \<times> ('c, 'm, 'z) sys_scheme" where
  "queue_new work_mode completion_mode s =
     (let (w, s1) = port_create work_mode s;
          (c, s2) = port_create completion_mode s1
      in queue_composite w c s2)"

fun queue_context :: "port_kind \<Rightarrow> 'm queue \<Rightarrow> port_context" where
  "queue_context Work q = q_work q"
| "queue_context Completion q = q_completion q"

fun set_queue_context :: "port_kind \<Rightarrow> port_context \<Rightarrow> 'm queue \<Rightarrow> 'm queue" where
  "set_queue_context Work c q = q\<lparr>q_work := c\<rparr>"
| "set_queue_context Completion c q = q\<lparr>q_completion := c\<rparr>"

definition queue_port :: "nat \<Rightarrow> port_kind \<Rightarrow> ('c, 'm, 'z) sys_scheme \<Rightarrow> nat" where
  "queue_port qid kind s = pc_port (queue_context kind (queues s qid))"

section \<open>Submitting\<close>

definition port_submit_run ::
  "('c, 'm, 'z) runner \<Rightarrow> nat \<Rightarrow> u64 \<Rightarrow> bool \<Rightarrow> 'c \<Rightarrow> nat \<Rightarrow> ('c, 'm, 'z) sys_scheme \<Rightarrow>
     bool \<times> ('c, 'm, 'z) sys_scheme" where
  "port_submit_run run pid owner owner_terminated call delay s =
     (let (r, p) = port_submit (parallelism s) (clock s) owner owner_terminated call delay (ports s pid);
          s1 = set_port pid p s
      in case r of
           Refused \<Rightarrow> (False, s1)
         | RunInline t \<Rightarrow>
             let s2 = run t False s1
             in (True, set_port pid (finish_one (clock s2) (ports s2 pid)) s2)
         | SpawnDelayed t \<Rightarrow> (True, s1\<lparr>sleeping := sleeping s1 @ [(pid, t)]\<rparr>)
         | Queued t \<Rightarrow> (True, s1))"

text \<open>The thread spawned for a delayed callback of an immediate port, once it is past its
  deadline: it runs the callback, cancelled if the port was terminated meanwhile.\<close>

definition fire_sleeping ::
  "('c, 'm, 'z) runner \<Rightarrow> nat \<Rightarrow> ('c, 'm, 'z) sys_scheme \<Rightarrow> ('c, 'm, 'z) sys_scheme" where
  "fire_sleeping run i s =
     (if i < length (sleeping s) \<and> ready_at (snd (sleeping s ! i)) (clock s)
      then let (pid, t) = sleeping s ! i;
               s1 = s\<lparr>sleeping := take i (sleeping s) @ drop (Suc i) (sleeping s)\<rparr>
           in run t (p_terminated (ports s1 pid)) s1
      else s)"

definition canonical_handle ::
  "nat \<Rightarrow> ('c, 'm, 'z) sys_scheme \<Rightarrow> u64 \<times> ('c, 'm, 'z) sys_scheme" where
  "canonical_handle qid s =
     (case q_canonical (queues s qid) of
        Some h \<Rightarrow> (h, s)
      | None \<Rightarrow>
          let (h, t) = ht_create qid (queue_handles s);
              s1 = s\<lparr>queue_handles := t\<rparr>
          in (h, set_queue qid ((queues s1 qid)\<lparr>q_canonical := Some h\<rparr>) s1))"

definition notify_monitors ::
  "('c, 'm, 'z) monitor_runner \<Rightarrow> nat \<Rightarrow> port_kind \<Rightarrow> ('c, 'm, 'z) sys_scheme \<Rightarrow>
     ('c, 'm, 'z) sys_scheme" where
  "notify_monitors mon qid kind s =
     (let monitors = q_monitors (queues s qid)
      in if monitors = [] then s
         else let (h, s1) = canonical_handle qid s
              in fold (\<lambda>m. mon (m_call m) h (port_kind_as_raw kind)) monitors s1)"

definition queue_submit ::
  "('c, 'm, 'z) runner \<Rightarrow> ('c, 'm, 'z) monitor_runner \<Rightarrow> nat \<Rightarrow> port_kind \<Rightarrow> 'c \<Rightarrow> nat \<Rightarrow>
     ('c, 'm, 'z) sys_scheme \<Rightarrow> bool \<times> ('c, 'm, 'z) sys_scheme" where
  "queue_submit run mon qid kind call delay s =
     (let s1 = notify_monitors mon qid kind s;
          c = queue_context kind (queues s1 qid)
      in port_submit_run run (pc_port c) (pc_owner c) (pc_terminated c) call delay s1)"

definition register_monitor ::
  "nat \<Rightarrow> 'm \<Rightarrow> ('c, 'm, 'z) sys_scheme \<Rightarrow> u64 \<times> ('c, 'm, 'z) sys_scheme" where
  "register_monitor qid call s =
     (let q = queues s qid; token = q_next_token q
      in (token, set_queue qid (q\<lparr>q_next_token := token + 1,
            q_monitors := q_monitors q @ [\<lparr>m_token = token, m_call = call\<rparr>]\<rparr>) s))"

definition unregister_monitor ::
  "nat \<Rightarrow> u64 \<Rightarrow> ('c, 'm, 'z) sys_scheme \<Rightarrow> ('c, 'm, 'z) sys_scheme" where
  "unregister_monitor qid token s =
     (let q = queues s qid
      in set_queue qid (q\<lparr>q_monitors := filter (\<lambda>m. m_token m \<noteq> token) (q_monitors q)\<rparr>) s)"

section \<open>Terminating\<close>

definition run_all ::
  "('c, 'm, 'z) runner \<Rightarrow> bool \<Rightarrow> 'c task list \<Rightarrow> ('c, 'm, 'z) sys_scheme \<Rightarrow> ('c, 'm, 'z) sys_scheme"
where
  "run_all run canceled ts s = fold (\<lambda>t. run t canceled) ts s"

fun wait_drained ::
  "nat \<Rightarrow> ('c, 'm, 'z) wake list \<Rightarrow> ('c, 'm, 'z) sys_scheme \<Rightarrow> bool \<times> ('c, 'm, 'z) sys_scheme"
where
  "wait_drained pid [] s = (p_in_flight (ports s pid) = 0, s)"
| "wait_drained pid (w # ws) s =
     (if p_in_flight (ports s pid) > 0 then wait_drained pid ws (w s) else (True, s))"

definition terminate_context ::
  "('c, 'm, 'z) runner \<Rightarrow> nat \<Rightarrow> u64 \<Rightarrow> bool \<Rightarrow> ('c, 'm, 'z) wake list \<Rightarrow>
     ('c, 'm, 'z) sys_scheme \<Rightarrow> bool \<times> ('c, 'm, 'z) sys_scheme" where
  "terminate_context run pid owner wait sched s =
     (let (pending, dr, p1) = terminate_lock owner (ports s pid);
          s2 = run_all run True pending (set_port pid p1 s);
          s3 = (if dr
                then let (rest, p2) = drain_all (ports s2 pid)
                     in run_all run True rest (set_port pid p2 s2)
                else s2)
      in if wait then wait_drained pid sched s3 else (True, s3))"

definition context_terminate ::
  "('c, 'm, 'z) runner \<Rightarrow> nat \<Rightarrow> port_kind \<Rightarrow> bool \<Rightarrow> ('c, 'm, 'z) wake list \<Rightarrow>
     ('c, 'm, 'z) sys_scheme \<Rightarrow> bool \<times> ('c, 'm, 'z) sys_scheme" where
  "context_terminate run qid kind wait sched s =
     (let c = queue_context kind (queues s qid);
          s1 = set_queue qid (set_queue_context kind (c\<lparr>pc_terminated := True\<rparr>) (queues s qid)) s
      in terminate_context run (pc_port c) (pc_owner c) wait sched s1)"

definition queue_terminate ::
  "('c, 'm, 'z) runner \<Rightarrow> nat \<Rightarrow> bool \<Rightarrow> ('c, 'm, 'z) wake list \<Rightarrow> ('c, 'm, 'z) wake list \<Rightarrow>
     ('c, 'm, 'z) sys_scheme \<Rightarrow> bool \<times> ('c, 'm, 'z) sys_scheme" where
  "queue_terminate run qid wait sched1 sched2 s =
     (case context_terminate run qid Work wait sched1 s of
        (False, s1) \<Rightarrow> (False, s1)
      | (True, s1) \<Rightarrow> context_terminate run qid Completion wait sched2 s1)"

section \<open>Waiting, workers and dispatch\<close>

datatype 'c wait_result = Took "'c task" | NoTask | StillWaiting

fun wait_for_task ::
  "instant option \<Rightarrow> nat \<Rightarrow> (nat \<times> ('c, 'm, 'z) wake) list \<Rightarrow> ('c, 'm, 'z) sys_scheme \<Rightarrow>
     'c wait_result \<times> (nat \<times> ('c, 'm, 'z) wake) list \<times> ('c, 'm, 'z) sys_scheme"
where
  "wait_for_task deadline pid [] s = (StillWaiting, [], s)"
| "wait_for_task deadline pid ((tick, wake) # sched) s =
     (let (v, p) = wait_step deadline (clock s) (clock s + tick) (ports s pid);
          s1 = set_port pid p (s\<lparr>clock := clock s + tick\<rparr>)
      in case v of
           WReturn (Some t) \<Rightarrow> (Took t, sched, s1)
         | WReturn None \<Rightarrow> (NoTask, sched, s1)
         | WRetry \<Rightarrow> wait_for_task deadline pid sched s1
         | WSleep _ \<Rightarrow> wait_for_task deadline pid sched (wake s1))"

lemma wait_for_task_sched:
  "wait_for_task dl pid sched s = (r, sched', s') \<Longrightarrow> r \<noteq> StillWaiting \<Longrightarrow> length sched' < length sched"
  by (induction dl pid sched s arbitrary: r sched' s' rule: wait_for_task.induct)
    (force simp: Let_def split: prod.splits wait_verdict.splits option.splits)+

text \<open>The loop of a pool thread.\<close>

function worker ::
  "('c, 'm, 'z) runner \<Rightarrow> nat \<Rightarrow> (nat \<times> ('c, 'm, 'z) wake) list \<Rightarrow> ('c, 'm, 'z) sys_scheme \<Rightarrow>
     ('c, 'm, 'z) sys_scheme" where
  "worker run pid sched s =
     (case wait_for_task None pid sched s of
        (Took t, sched', s1) \<Rightarrow>
          let s2 = run t False s1
          in worker run pid sched' (set_port pid (finish_one (clock s2) (ports s2 pid)) s2)
      | (NoTask, sched', s1) \<Rightarrow> s1
      | (StillWaiting, sched', s1) \<Rightarrow> s1)"
  by pat_completeness auto
termination
  by (relation "measure (\<lambda>(run, pid, sched, s). length sched)")
    (auto dest: wait_for_task_sched [OF sym])

declare worker.simps [simp del]

text \<open>\<open>Port::dispatch\<close> on thread \<open>tid\<close>; \<open>None\<close> while it still waits for a first callback.\<close>

definition dispatch ::
  "('c, 'm, 'z) runner \<Rightarrow> nat \<Rightarrow> nat \<Rightarrow> u32 \<Rightarrow> (nat \<times> ('c, 'm, 'z) wake) list \<Rightarrow>
     ('c, 'm, 'z) sys_scheme \<Rightarrow> bool option \<times> ('c, 'm, 'z) sys_scheme" where
  "dispatch run tid pid timeout_ms sched s =
     (case wait_for_task (Some (clock s + unat timeout_ms)) pid sched s of
        (StillWaiting, _, s1) \<Rightarrow> (None, s1)
      | (NoTask, _, s1) \<Rightarrow> (Some False, s1)
      | (Took first, _, s1) \<Rightarrow>
          let prev = in_dispatch_of s1 tid;
              s2 = s1\<lparr>in_dispatch_of := (in_dispatch_of s1)(tid := True)\<rparr>;
              s3 = run first False s2;
              (batch, p) = drain_ready (clock s3) (ports s3 pid);
              s4 = run_all run False batch (set_port pid p s3);
              s5 = s4\<lparr>in_dispatch_of := (in_dispatch_of s4)(tid := prev)\<rparr>
          in (Some True,
              set_port pid (finish_n (clock s5) (1 + length batch) (ports s5 pid)) s5))"

section \<open>The process queue\<close>

definition default_process_queue ::
  "('c, 'm, 'z) sys_scheme \<Rightarrow> nat \<times> ('c, 'm, 'z) sys_scheme" where
  "default_process_queue s =
     (case process_queue s of
        Some q \<Rightarrow> (q, s)
      | None \<Rightarrow> let (q, s1) = queue_new ThreadPool ThreadPool s
                in (q, s1\<lparr>process_queue := Some q\<rparr>))"

definition get_process_queue_handle ::
  "('c, 'm, 'z) sys_scheme \<Rightarrow> u64 \<times> ('c, 'm, 'z) sys_scheme" where
  "get_process_queue_handle s =
     (case process_queue_handle s of
        Some h \<Rightarrow> (h, s)
      | None \<Rightarrow>
          let (q, s1) = default_process_queue s;
              (h, t) = ht_create q (queue_handles s1)
          in (h, s1\<lparr>queue_handles := t, process_queue_handle := Some h\<rparr>))"

definition set_process_queue ::
  "nat option \<Rightarrow> ('c, 'm, 'z) sys_scheme \<Rightarrow> ('c, 'm, 'z) sys_scheme" where
  "set_process_queue q s =
     (let s1 = s\<lparr>process_queue := q\<rparr>
      in if q = None then s1\<lparr>process_queue_handle := None\<rparr> else s1)"

definition is_process_queue ::
  "nat \<Rightarrow> ('c, 'm, 'z) sys_scheme \<Rightarrow> bool \<times> ('c, 'm, 'z) sys_scheme" where
  "is_process_queue q s = (let (d, s1) = default_process_queue s in (q = d, s1))"

definition has_process_queue :: "('c, 'm, 'z) sys_scheme \<Rightarrow> bool" where
  "has_process_queue s \<longleftrightarrow> process_queue s \<noteq> None"

end
