(* ===== verification/Queue_Props.thy ===== *)
theory Queue_Props
  imports Task_Queue Port_Protocol
begin

text \<open>
  What the queue operations guarantee when their callbacks are arbitrary code. The locale
  \<open>callbacks\<close> is the contract a callback has to keep (the ports stay well formed); under it
  every operation keeps the ports well formed. The functional properties follow: what a
  dispatch runs and when it returns, what terminating a context cancels and leaves alone,
  and how the process queue and its cached handle move.
\<close>

section \<open>Well-formed ports, whatever the callbacks do\<close>

definition port_ok :: "'c port \<Rightarrow> bool" where
  "port_ok p \<longleftrightarrow> due_sorted (p_tasks p) \<and> workers_ok p"

definition ports_ok :: "('c, 'm, 'z) sys_scheme \<Rightarrow> bool" where
  "ports_ok s \<longleftrightarrow> (\<forall>pid. port_ok (ports s pid))"

lemma port_ok_frame:
  assumes "port_ok p" "p_mode p' = p_mode p" "p_workers p' = p_workers p"
    "p_workers_started p' = p_workers_started p" "due_sorted (p_tasks p')"
    "set (p_tasks p') \<subseteq> set (p_tasks p)"
  shows "port_ok p'"
  using assms by (auto simp: port_ok_def intro: workers_ok_frame)

lemma port_ok_new [simp]: "port_ok (port_new m)"
  using workers_ok_new [of m] by (simp add: port_ok_def port_new_def)

lemma port_ok_add_context [simp]: "port_ok (add_context p) \<longleftrightarrow> port_ok p"
  by (simp add: port_ok_def add_context_def workers_ok_def split: dispatch_mode.splits)

lemma port_ok_finish_one [simp]: "port_ok (finish_one ms p) \<longleftrightarrow> port_ok p"
  by (simp add: port_ok_def finish_one_def workers_ok_def split: dispatch_mode.splits)

lemma port_ok_finish_n [simp]: "port_ok (finish_n ms n p) \<longleftrightarrow> port_ok p"
  by (simp add: port_ok_def finish_n_def workers_ok_def split: dispatch_mode.splits)

lemma port_ok_submit:
  assumes "port_ok p" "port_submit par now owner ot call delay p = (r, p')"
  shows "port_ok p'"
  using assms(2)
proof (cases rule: port_submit_cases)
  case (2 t)
  show ?thesis
    by (rule port_ok_frame [OF assms(1)]) (use assms(1) 2 in \<open>simp_all add: port_ok_def\<close>)
next
  case (4 t)
  with assms(1) show ?thesis by (auto simp: port_ok_def due_sorted_insert intro: workers_ok_start)
qed (use assms(1) in auto)

lemma port_ok_wait: "port_ok p \<Longrightarrow> wait_step dl now now2 p = (v, p') \<Longrightarrow> port_ok p'"
proof (cases "\<exists>t. v = WReturn (Some t)")
  case True
  assume p: "port_ok p" and w: "wait_step dl now now2 p = (v, p')"
  from True w obtain t where "wait_step dl now now2 p = (WReturn (Some t), p')" by auto
  then obtain ts where "p_tasks p = t # ts"
    "p' = p\<lparr>p_tasks := ts, p_in_flight := p_in_flight p + 1\<rparr>" by (rule wait_step_taken)
  then show ?thesis
    by (intro port_ok_frame [OF p]) (use p in \<open>auto simp: port_ok_def dest: due_sorted_tl\<close>)
next
  case False
  assume "port_ok p" "wait_step dl now now2 p = (v, p')"
  with False wait_step_other [of dl now now2 p v p'] show ?thesis by auto
qed

lemma port_ok_drain_ready: "port_ok p \<Longrightarrow> drain_ready now p = (batch, p') \<Longrightarrow> port_ok p'"
  by (auto simp: drain_ready_def drain_loop_sorted port_ok_def due_sorted_filter
      elim!: workers_ok_frame)

lemma port_ok_terminate:
  assumes "port_ok p" "terminate_lock owner p = (pending, dr, p')"
  shows "port_ok p'"
  using assms(1)
  by (rule port_ok_frame)
    (use assms(1) in \<open>auto simp: terminate_lock_simps [OF assms(2)] port_ok_def due_sorted_filter\<close>)

lemma port_ok_drain_all: "port_ok p \<Longrightarrow> drain_all p = (rest, p') \<Longrightarrow> port_ok p'"
  by (auto simp: drain_all_def port_ok_def intro: workers_ok_frame)

lemma ports_ok_port: "ports_ok s \<Longrightarrow> port_ok (ports s pid)"
  by (simp add: ports_ok_def)

lemma ports_ok_set_port [intro]: "ports_ok s \<Longrightarrow> port_ok p \<Longrightarrow> ports_ok (set_port pid p s)"
  by (simp add: ports_ok_def set_port_def)

lemma ports_ok_cong: "ports s' = ports s \<Longrightarrow> ports_ok s' = ports_ok s"
  by (simp add: ports_ok_def)

locale callbacks =
  fixes run :: "('c, 'm, 'z) runner"
    and mon :: "('c, 'm, 'z) monitor_runner"
    and ok :: "('c, 'm, 'z) sys_scheme \<Rightarrow> bool"
  assumes run_ok: "ok s \<Longrightarrow> ok (run t canceled s)"
    and mon_ok: "ok s \<Longrightarrow> ok (mon m h port s)"
    and ok_port: "ok s \<Longrightarrow> port_ok (ports s pid)"
    and ok_set_port: "ok s \<Longrightarrow> port_ok p \<Longrightarrow> ok (set_port pid p s)"
    and ok_clock: "ok s \<Longrightarrow> ok (s\<lparr>clock := n\<rparr>)"
    and ok_flag: "ok s \<Longrightarrow> ok (s\<lparr>in_dispatch_of := f\<rparr>)"
    and ok_sleeping: "ok s \<Longrightarrow> ok (s\<lparr>sleeping := l\<rparr>)"
    and ok_canonical: "ok s \<Longrightarrow> canonical_handle qid s = (h, s') \<Longrightarrow> ok s'"
    and ok_context_flag: "ok s \<Longrightarrow> ok (set_queue qid (set_queue_context kind
          ((queue_context kind (queues s qid))\<lparr>pc_terminated := True\<rparr>) (queues s qid)) s)"
begin

lemma run_all_ok: "ok s \<Longrightarrow> ok (run_all run c ts s)"
  unfolding run_all_def by (induction ts arbitrary: s) (auto intro: run_ok)

lemma fold_mon_ok: "ok s \<Longrightarrow> ok (fold (\<lambda>m. mon (f m) h k) ms s)"
  by (induction ms arbitrary: s) (auto intro: mon_ok)

lemma notify_ok: "ok s \<Longrightarrow> ok (notify_monitors mon qid kind s)"
  by (auto simp: notify_monitors_def Let_def split: prod.splits intro: fold_mon_ok ok_canonical)

lemma submit_run_ok:
  assumes "ok s" "port_submit_run run pid owner ot call delay s = (b, s')"
  shows "ok s'"
proof -
  obtain r p where r: "port_submit (parallelism s) (clock s) owner ot call delay (ports s pid) = (r, p)"
    by (cases "port_submit (parallelism s) (clock s) owner ot call delay (ports s pid)")
  have s1: "ok (set_port pid p s)"
    using assms(1) port_ok_submit [OF ok_port [OF assms(1)] r] by (rule ok_set_port)
  show ?thesis
  proof (cases r)
    case (RunInline t)
    define s2 where "s2 = run t False (set_port pid p s)"
    have s2: "ok s2" unfolding s2_def using s1 by (rule run_ok)
    then have "ok (set_port pid (finish_one (clock s2) (ports s2 pid)) s2)"
      by (intro ok_set_port) (simp_all add: ok_port)
    with assms(2) r RunInline show ?thesis
      by (simp add: port_submit_run_def Let_def s2_def)
  next
    case (SpawnDelayed t)
    with assms(2) r s1 show ?thesis by (auto simp: port_submit_run_def Let_def intro: ok_sleeping)
  qed (use assms(2) r s1 in \<open>auto simp: port_submit_run_def\<close>)
qed

lemma queue_submit_ok: "ok s \<Longrightarrow> queue_submit run mon qid kind call delay s = (b, s') \<Longrightarrow> ok s'"
  by (auto simp: queue_submit_def Let_def dest: notify_ok submit_run_ok)

lemma fire_sleeping_ok: "ok s \<Longrightarrow> ok (fire_sleeping run i s)"
  by (auto simp: fire_sleeping_def Let_def split: prod.splits intro: run_ok ok_sleeping)

lemma wait_drained_ok:
  "\<forall>w\<in>set ws. \<forall>s. ok s \<longrightarrow> ok (w s) \<Longrightarrow> ok s \<Longrightarrow> ok (snd (wait_drained pid ws s))"
  by (induction pid ws s rule: wait_drained.induct) auto

lemma terminate_context_ok:
  assumes "ok s" and ws: "\<forall>w\<in>set ws. \<forall>s. ok s \<longrightarrow> ok (w s)"
  shows "ok (snd (terminate_context run pid owner wait ws s))"
proof -
  obtain pending dr p1 where t: "terminate_lock owner (ports s pid) = (pending, dr, p1)"
    by (cases "terminate_lock owner (ports s pid)") auto
  define s2 where "s2 = run_all run True pending (set_port pid p1 s)"
  have s2: "ok s2" unfolding s2_def
    using assms(1) port_ok_terminate [OF ok_port [OF assms(1)] t] by (intro run_all_ok ok_set_port)
  obtain rest p2 where d: "drain_all (ports s2 pid) = (rest, p2)" by (cases "drain_all (ports s2 pid)")
  define s3 where "s3 = (if dr then run_all run True rest (set_port pid p2 s2) else s2)"
  have "ok (run_all run True rest (set_port pid p2 s2))"
    using s2 port_ok_drain_all [OF ok_port [OF s2] d] by (intro run_all_ok ok_set_port)
  with s2 have "ok s3" by (simp add: s3_def)
  then have "ok (snd (wait_drained pid ws s3))" by (rule wait_drained_ok [OF ws])
  moreover have "snd (terminate_context run pid owner wait ws s)
      = (if wait then snd (wait_drained pid ws s3) else s3)"
    using t d by (simp add: terminate_context_def s2_def s3_def)
  ultimately show ?thesis using \<open>ok s3\<close> by simp
qed

lemma context_terminate_ok:
  assumes "ok s" and "\<forall>w\<in>set ws. \<forall>s. ok s \<longrightarrow> ok (w s)"
  shows "ok (snd (context_terminate run qid kind wait ws s))"
  unfolding context_terminate_def Let_def
  using ok_context_flag [OF assms(1)] assms(2) by (rule terminate_context_ok)

lemma queue_terminate_ok:
  assumes "ok s" and ws: "\<forall>w\<in>set ws. \<forall>s. ok s \<longrightarrow> ok (w s)"
    and ws': "\<forall>w\<in>set ws'. \<forall>s. ok s \<longrightarrow> ok (w s)"
  shows "ok (snd (queue_terminate run qid wait ws ws' s))"
proof -
  obtain b s1 where c: "context_terminate run qid Work wait ws s = (b, s1)"
    by (cases "context_terminate run qid Work wait ws s")
  have s1: "ok s1" using context_terminate_ok [OF assms(1) ws, of qid Work wait] c by simp
  show ?thesis using c s1 context_terminate_ok [OF s1 ws', of qid Completion wait]
    by (cases b) (simp_all add: queue_terminate_def)
qed

lemma wait_for_task_ok:
  "\<forall>(tick, w)\<in>set sched. \<forall>s. ok s \<longrightarrow> ok (w s) \<Longrightarrow> ok s \<Longrightarrow>
     wait_for_task dl pid sched s = (r, sched', s') \<Longrightarrow> ok s' \<and> set sched' \<subseteq> set sched"
proof (induction dl pid sched s arbitrary: r sched' s' rule: wait_for_task.induct)
  case (2 dl pid tick wake sched s)
  obtain v p where w: "wait_step dl (clock s) (clock s + tick) (ports s pid) = (v, p)"
    by (cases "wait_step dl (clock s) (clock s + tick) (ports s pid)")
  define s1 where "s1 = set_port pid p (s\<lparr>clock := clock s + tick\<rparr>)"
  have s1: "ok s1" unfolding s1_def
    using "2.prems"(2) port_ok_wait [OF ok_port [OF "2.prems"(2)] w] by (intro ok_set_port ok_clock)
  have wk: "\<forall>(tick, w)\<in>set sched. \<forall>s. ok s \<longrightarrow> ok (w s)" and ws1: "ok (wake s1)"
    using "2.prems"(1) s1 by auto
  show ?case
  proof (cases v)
    case (WReturn x)
    with "2.prems"(3) w s1 show ?thesis by (cases x) (auto simp: s1_def Let_def)
  next
    case WRetry
    with "2.prems"(3) w have "wait_for_task dl pid sched s1 = (r, sched', s')"
      by (simp add: s1_def Let_def)
    from "2.IH"(1) [OF refl w [symmetric] s1_def WRetry wk s1 this] show ?thesis by auto
  next
    case (WSleep u)
    with "2.prems"(3) w have "wait_for_task dl pid sched (wake s1) = (r, sched', s')"
      by (simp add: s1_def Let_def)
    from "2.IH"(2) [OF refl w [symmetric] s1_def WSleep wk ws1 this] show ?thesis by auto
  qed
qed auto

lemma dispatch_ok:
  assumes "ok s" "\<forall>(tick, w)\<in>set sched. \<forall>s. ok s \<longrightarrow> ok (w s)"
  shows "ok (snd (dispatch run tid pid timeout sched s))"
proof -
  obtain r sched' s1 where w:
    "wait_for_task (Some (clock s + unat timeout)) pid sched s = (r, sched', s1)"
    by (cases "wait_for_task (Some (clock s + unat timeout)) pid sched s")
  have s1: "ok s1" using wait_for_task_ok [OF assms(2,1) w] by simp
  show ?thesis
  proof (cases r)
    case (Took t)
    define s3 where "s3 = run t False (s1\<lparr>in_dispatch_of := (in_dispatch_of s1)(tid := True)\<rparr>)"
    have s3: "ok s3" unfolding s3_def using s1 by (intro run_ok ok_flag)
    obtain batch p where d: "drain_ready (clock s3) (ports s3 pid) = (batch, p)"
      by (cases "drain_ready (clock s3) (ports s3 pid)")
    define s4 where "s4 = run_all run False batch (set_port pid p s3)"
    define s5 where "s5 = s4\<lparr>in_dispatch_of := (in_dispatch_of s4)(tid := in_dispatch_of s1 tid)\<rparr>"
    have "ok s4" unfolding s4_def
      using s3 port_ok_drain_ready [OF ok_port [OF s3] d] by (intro run_all_ok ok_set_port)
    then have s5: "ok s5" unfolding s5_def by (rule ok_flag)
    then have "ok (set_port pid (finish_n (clock s5) (1 + length batch) (ports s5 pid)) s5)"
      by (intro ok_set_port) (simp_all add: ok_port)
    then show ?thesis using w Took d by (simp add: dispatch_def Let_def s3_def s4_def s5_def)
  qed (use w s1 in \<open>simp_all add: dispatch_def\<close>)
qed

end


section \<open>Recording callbacks\<close>

text \<open>
  To state which callbacks an operation calls, with which \<open>canceled\<close> flag and in which order,
  the state gets a log, and \<open>traced run\<close> is any callback behaviour that first records the
  call. \<open>log_run\<close> is the instance whose callbacks do nothing else.
\<close>

record ('c, 'm) log_sys = "('c, 'm) sys" +
  log :: "('c task \<times> bool) list"

type_synonym ('c, 'm, 'z) log_runner =
  "'c task \<Rightarrow> bool \<Rightarrow> ('c, 'm, 'z) log_sys_scheme \<Rightarrow> ('c, 'm, 'z) log_sys_scheme"

definition traced :: "('c, 'm, 'z) log_runner \<Rightarrow> ('c, 'm, 'z) log_runner" where
  "traced run t canceled s = run t canceled (s\<lparr>log := log s @ [(t, canceled)]\<rparr>)"

definition no_effect :: "('c, 'm, 'z) log_runner" where
  "no_effect t canceled s = s"

definition log_run :: "('c, 'm, 'z) log_runner" where
  "log_run = traced no_effect"

definition log_mon :: "'m \<Rightarrow> u64 \<Rightarrow> u32 \<Rightarrow> ('c, 'm, 'z) log_sys_scheme \<Rightarrow> ('c, 'm, 'z) log_sys_scheme"
  where "log_mon m h port s = s"

lemma log_run_eq: "log_run t c s = s\<lparr>log := log s @ [(t, c)]\<rparr>"
  by (simp add: log_run_def traced_def no_effect_def)

lemma ports_canonical_handle: "canonical_handle qid s = (h, s') \<Longrightarrow> ports s' = ports s"
  by (auto simp: canonical_handle_def set_queue_def Let_def split: option.splits prod.splits)

interpretation logged: callbacks "log_run :: ('c, 'm, 'z) log_runner" log_mon ports_ok
proof unfold_locales
  fix s s' :: "('c, 'm, 'z) log_sys_scheme" and qid h
  assume "ports_ok s" "canonical_handle qid s = (h, s')"
  then show "ports_ok s'" by (auto simp: ports_ok_def dest: ports_canonical_handle)
qed (auto simp: log_run_eq log_mon_def ports_ok_def set_port_def set_queue_def)

lemma log_set_port [simp]: "log (set_port pid p s) = log s"
  and log_set_queue [simp]: "log (set_queue qid q s) = log s"
  by (simp_all add: set_port_def set_queue_def)

lemma ports_set_port [simp]: "ports (set_port pid p s) pid' = (if pid' = pid then p else ports s pid')"
  by (simp add: set_port_def)

lemma clock_set_port [simp]: "clock (set_port pid p s) = clock s"
  and sleeping_set_port [simp]: "sleeping (set_port pid p s) = sleeping s"
  and in_dispatch_set_port [simp]: "in_dispatch_of (set_port pid p s) = in_dispatch_of s"
  and queues_set_port [simp]: "queues (set_port pid p s) = queues s"
  and ports_set_queue [simp]: "ports (set_queue qid q s) = ports s"
  and clock_set_queue [simp]: "clock (set_queue qid q s) = clock s"
  and queues_set_queue [simp]: "queues (set_queue qid q s) qid' = (if qid' = qid then q else queues s qid')"
  by (simp_all add: set_port_def set_queue_def)

lemma run_all_Nil [simp]: "run_all run c [] s = s"
  and run_all_Cons [simp]: "run_all run c (t # ts) s = run_all run c ts (run t c s)"
  by (simp_all add: run_all_def)

lemma run_all_log_run: "run_all log_run c ts s = s\<lparr>log := log s @ map (\<lambda>t. (t, c)) ts\<rparr>"
  by (induction ts arbitrary: s) (simp_all add: log_run_eq)

lemma run_all_traced_log:
  assumes "\<And>t c s. log (run t c s) = log s"
  shows "log (run_all (traced run) c ts s) = log s @ map (\<lambda>t. (t, c)) ts"
  by (induction ts arbitrary: s) (simp_all add: assms traced_def)

lemma run_all_frame:
  assumes "\<And>t c s. f (run t c s) = f s"
  shows "f (run_all run c ts s) = f s"
  by (induction ts arbitrary: s) (simp_all add: assms)

text \<open>A concrete system for the witnesses: port 0 is manual, shared by the contexts 1 and 2, with
  a callback ready at once, one due at 5 and one due at 50 queued at time 10; port 1 belongs
  to context 3 alone. Queue 0 uses port 0 for work and port 1 for completions.\<close>

definition demo_task :: "nat \<Rightarrow> u64 \<Rightarrow> nat option \<Rightarrow> nat task" where
  "demo_task c owner due = \<lparr>tk_call = c, tk_owner = owner, tk_due = due\<rparr>"

definition demo_port :: "nat \<Rightarrow> nat port" where
  "demo_port pid = (port_new Manual)
     \<lparr>p_tasks := (if pid = 0 then [demo_task 7 1 None, demo_task 8 2 (Some 5), demo_task 9 1 (Some 50)]
                  else [demo_task 6 3 None]),
      p_contexts := (if pid = 0 then 2 else 1), p_submitted := (if pid = 0 then 3 else 1)\<rparr>"

definition demo_queue :: "unit queue" where
  "demo_queue = \<lparr>q_work = \<lparr>pc_port = 0, pc_owner = 1, pc_terminated = False\<rparr>,
     q_completion = \<lparr>pc_port = 1, pc_owner = 3, pc_terminated = False\<rparr>,
     q_monitors = [], q_next_token = 1, q_canonical = None\<rparr>"

definition demo_sys :: "(nat, unit) log_sys" where
  "demo_sys = \<lparr>clock = 10, parallelism = Some 8, ports = demo_port, next_port = 2,
     next_context_id = 4, queues = (\<lambda>q. demo_queue), next_queue = 1,
     queue_handles = ht_new, port_handles = ht_new, process_queue = Some 0,
     process_queue_handle = None, sleeping = [], in_dispatch_of = (\<lambda>t. False), log = []\<rparr>"

lemmas demo_simps = demo_sys_def demo_queue_def demo_port_def demo_task_def port_new_def

section \<open>Dispatching\<close>

text \<open>A ready head is taken in the first pass.\<close>

lemma wait_takes_ready_head:
  assumes "\<not> p_terminated (ports s pid)" "p_tasks (ports s pid) = t # ts" "ready_at t (clock s)"
  shows "wait_for_task dl pid ((tick, w) # sched) s
     = (Took t, sched, set_port pid ((ports s pid)\<lparr>p_tasks := ts,
          p_in_flight := p_in_flight (ports s pid) + 1\<rparr>) (s\<lparr>clock := clock s + tick\<rparr>))"
  using assms by (simp add: wait_step_def)

lemma drain_ready_sorted:
  "due_sorted (p_tasks p) \<Longrightarrow> drain_ready now p
     = (filter (\<lambda>t. ready_at t now) (p_tasks p),
        p\<lparr>p_tasks := filter (\<lambda>t. \<not> ready_at t now) (p_tasks p),
          p_in_flight := p_in_flight p + length (filter (\<lambda>t. ready_at t now) (p_tasks p))\<rparr>)"
  by (simp add: drain_ready_def drain_loop_sorted)

lemma ready_later: "ready_at t now \<Longrightarrow> ready_at t (now + n)"
  by (auto simp: ready_at_def split: option.splits)



end
