(* ===== verification/Queue_Lifetime.thy ===== *)
theory Queue_Lifetime
  imports Queue_Props
begin

text \<open>
  More of what the queue operations guarantee: a dispatch returns by its timeout and runs a
  bounded snapshot whatever its callbacks submit, termination is scoped to a context, the
  context counts of shared ports, and the process queue with its cached handle.
\<close>

section \<open>Dispatch: bounded work, bounded wait\<close>

text \<open>Callbacks cannot pin a dispatch. Whatever the callbacks do, one dispatch that got a
  first callback runs that one and then exactly the callbacks that are ready at the snapshot
  taken after it, in deadline order; what the later ones submit is left for the next call.\<close>

theorem dispatch_runs_one_snapshot:
  assumes "\<And>t c s. log (run t c s) = log s"
    and "wait_for_task (Some (clock s + unat timeout)) pid sched s = (Took t, sched', s1)"
    and "s3 = traced run t False (s1\<lparr>in_dispatch_of := (in_dispatch_of s1)(tid := True)\<rparr>)"
    and "due_sorted (p_tasks (ports s3 pid))"
    and "dispatch (traced run) tid pid timeout sched s = (r, s')"
  shows "r = Some True \<and> log s' = log s1 @ (t, False) #
     map (\<lambda>u. (u, False)) (filter (\<lambda>u. ready_at u (clock s3)) (p_tasks (ports s3 pid)))"
proof -
  have l3: "log s3 = log s1 @ [(t, False)]" by (simp add: assms(1,3) traced_def)
  show ?thesis
    using assms(5) unfolding dispatch_def assms(2)
    by (auto simp: Let_def drain_ready_sorted assms(1,4) l3 run_all_traced_log simp flip: assms(3))
qed

lemma dispatch_runs_one_snapshot_witness:
  "map (tk_call \<circ> fst) (log (snd (dispatch (traced no_effect) 0 0 0 [(0, \<lambda>s. s)] demo_sys))) = [7, 8]"
proof -
  obtain r s' where d: "dispatch (traced no_effect) 0 0 0 [(0, \<lambda>s. s)] demo_sys = (r, s')"
    by (cases "dispatch (traced no_effect) 0 0 0 [(0, \<lambda>s. s)] demo_sys")
  define s1 where "s1 = set_port 0 ((demo_port 0)\<lparr>p_tasks := tl (p_tasks (demo_port 0)),
      p_in_flight := 1\<rparr>) demo_sys"
  define s3 where "s3 = traced no_effect (hd (p_tasks (demo_port 0))) False
      (s1\<lparr>in_dispatch_of := (in_dispatch_of s1)(0 := True)\<rparr>)"
  have w: "wait_for_task (Some (clock demo_sys + unat (0 :: u32))) 0 [(0, \<lambda>s. s)] demo_sys
      = (Took (hd (p_tasks (demo_port 0))), [], s1)"
    by (simp add: s1_def demo_simps wait_step_def ready_at_def set_port_def)
  have so: "due_sorted (p_tasks (ports s3 0))"
    by (simp add: s3_def s1_def traced_def no_effect_def set_port_def demo_simps due_sorted_def
        due_key_def)
  have nl: "log (no_effect t c s) = log s" for t c and s :: "(nat, unit) log_sys"
    by (simp add: no_effect_def)
  from dispatch_runs_one_snapshot [OF nl w s3_def so d] show ?thesis
    unfolding d by (simp add: s3_def s1_def traced_def no_effect_def set_port_def demo_simps
        ready_at_def)
qed

text \<open>One pass at or past the deadline returns; a pass that does not return moves the clock.\<close>

lemma wait_step_at_deadline:
  "d \<le> now2 \<Longrightarrow> \<exists>x p'. wait_step (Some d) now now2 p = (WReturn x, p')"
  by (auto simp: wait_step_def wait_until_def min_def split: list.splits option.splits)

lemma wait_step_retry:
  "wait_step (Some d) now now2 p = (WRetry, p') \<Longrightarrow> now < now2"
  by (auto simp: wait_step_def wait_until_def ready_at_def min_def
      split: list.splits option.splits if_splits)

lemma clock_wait_step [simp]: "clock (set_port pid p (s\<lparr>clock := n\<rparr>)) = n"
  by (simp add: set_port_def)

lemma wait_for_task_returns:
  assumes "\<forall>(tick, w)\<in>set sched. \<forall>s. clock s < clock (w s)" "d - clock s < length sched"
  shows "fst (wait_for_task (Some d) pid sched s) \<noteq> StillWaiting"
  using assms
proof (induction "Some d" pid sched s rule: wait_for_task.induct)
  case (2 pid tick wake sched s)
  obtain v p where w: "wait_step (Some d) (clock s) (clock s + tick) (ports s pid) = (v, p)"
    by (cases "wait_step (Some d) (clock s) (clock s + tick) (ports s pid)")
  define s1 where "s1 = set_port pid p (s\<lparr>clock := clock s + tick\<rparr>)"
  have c1: "clock s1 = clock s + tick" by (simp add: s1_def)
  have wk: "\<forall>(tick, w)\<in>set sched. \<forall>s. clock s < clock (w s)" using "2.prems"(1) by auto
  have unf: "wait_for_task (Some d) pid ((tick, wake) # sched) s =
      (case v of WReturn (Some t) \<Rightarrow> (Took t, sched, s1) | WReturn None \<Rightarrow> (NoTask, sched, s1)
       | WRetry \<Rightarrow> wait_for_task (Some d) pid sched s1
       | WSleep _ \<Rightarrow> wait_for_task (Some d) pid sched (wake s1))"
    using w by (simp add: s1_def Let_def split: wait_verdict.split option.split)
  show ?case
  proof (cases v)
    case (WReturn x)
    then show ?thesis by (cases x) (simp_all only: unf, simp_all)
  next
    case WRetry
    have "clock s < clock s + tick" using w WRetry by (auto dest: wait_step_retry)
    moreover have "clock s + tick < d"
      using w WRetry wait_step_at_deadline [of d "clock s + tick" "clock s" "ports s pid"] by force
    ultimately have "d - clock s1 < length sched" using "2.prems"(2) c1 by simp
    from "2.hyps"(1) [OF refl w [symmetric] s1_def WRetry wk this] WRetry show ?thesis
      by (simp only: unf, simp)
  next
    case (WSleep u)
    have "clock s1 < clock (wake s1)" using "2.prems"(1) by auto
    moreover have "clock s + tick < d"
      using w WSleep wait_step_at_deadline [of d "clock s + tick" "clock s" "ports s pid"] by force
    ultimately have "d - clock (wake s1) < length sched" using "2.prems"(2) c1 by simp
    from "2.hyps"(2) [OF refl w [symmetric] s1_def WSleep wk this] WSleep show ?thesis
      by (simp only: unf, simp)
  qed
qed simp



section \<open>Terminating one context of a shared port\<close>

text \<open>What one termination does when its callbacks only record that they were called.\<close>

lemma terminate_context_log:
  assumes "terminate_lock owner (ports s pid) = (pending, dr, p1)"
  shows "snd (terminate_context log_run pid owner wait [] s)
     = (if dr
        then (set_port pid (p1\<lparr>p_tasks := []\<rparr>) s)\<lparr>log := log s @ map (\<lambda>t. (t, True)) (pending @ p_tasks p1)\<rparr>
        else (set_port pid p1 s)\<lparr>log := log s @ map (\<lambda>t. (t, True)) pending\<rparr>)"
  using assms
  by (simp add: terminate_context_def Let_def drain_all_def run_all_log_run set_port_def)

lemma context_terminate_log:
  fixes s :: "('c, 'm, 'z) log_sys_scheme"
  assumes "c = queue_context kind (queues s qid)" "pid = pc_port c"
    and "terminate_lock (pc_owner c) (ports s pid) = (pending, dr, p1)"
    and "context_terminate log_run qid kind wait [] s = (b, s')"
  shows "log s' = log s @ map (\<lambda>t. (t, True)) (if dr then pending @ p_tasks p1 else pending)"
    and "ports s' = (ports s)(pid := (if dr then p1\<lparr>p_tasks := []\<rparr> else p1))"
    and "queues s' = (queues s)(qid :=
           set_queue_context kind (c\<lparr>pc_terminated := True\<rparr>) (queues s qid))"
    and "next_queue s' = next_queue s" and "next_port s' = next_port s"
proof -
  define s1 where "s1 = set_queue qid (set_queue_context kind (c\<lparr>pc_terminated := True\<rparr>) (queues s qid)) s"
  have "terminate_lock (pc_owner c) (ports s1 pid) = (pending, dr, p1)"
    using assms(3) by (simp add: s1_def)
  from terminate_context_log [OF this, of wait]
  have s': "s' = (if dr
        then (set_port pid (p1\<lparr>p_tasks := []\<rparr>) s1)\<lparr>log := log s1 @ map (\<lambda>t. (t, True)) (pending @ p_tasks p1)\<rparr>
        else (set_port pid p1 s1)\<lparr>log := log s1 @ map (\<lambda>t. (t, True)) pending\<rparr>)"
    using assms(1,2,4) by (simp add: context_terminate_def Let_def s1_def)
  show "log s' = log s @ map (\<lambda>t. (t, True)) (if dr then pending @ p_tasks p1 else pending)"
    and "ports s' = (ports s)(pid := (if dr then p1\<lparr>p_tasks := []\<rparr> else p1))"
    and "queues s' = (queues s)(qid :=
           set_queue_context kind (c\<lparr>pc_terminated := True\<rparr>) (queues s qid))"
    and "next_queue s' = next_queue s" and "next_port s' = next_port s"
    by (simp_all add: s' s1_def set_port_def set_queue_def)
qed





text \<open>A context that is terminated twice takes a shared port down with it. The second
  termination of one queue's context decrements the port's count again although the flag
  says it is already terminated, so with two contexts on the port the other queue's
  callbacks are cancelled and its port is terminated while its own context is live.\<close>

theorem terminate_twice_kills_shared_port:
  fixes s :: "('c, 'm, 'z) log_sys_scheme"
  assumes "c = queue_context kind (queues s qid)" "p_contexts (ports s (pc_port c)) = 2"
    and "\<not> p_terminated (ports s (pc_port c))"
    and "context_terminate log_run qid kind w1 [] s = (b1, s1)"
    and "context_terminate log_run qid kind w2 [] s1 = (b2, s2)"
  shows "pc_terminated (queue_context kind (queues s1 qid))
     \<and> p_terminated (ports s2 (pc_port c)) \<and> p_tasks (ports s2 (pc_port c)) = []
     \<and> log s2 = log s1 @ map (\<lambda>t. (t, True))
             (filter (\<lambda>t. tk_owner t \<noteq> pc_owner c) (p_tasks (ports s (pc_port c))))"
proof -
  obtain pe dr p1 where t: "terminate_lock (pc_owner c) (ports s (pc_port c)) = (pe, dr, p1)"
    by (cases "terminate_lock (pc_owner c) (ports s (pc_port c))") auto
  have ndr: "\<not> dr" using terminate_lock_simps(4) [OF t] assms(2) by simp
  note one = context_terminate_log [OF assms(1) refl t assms(4)]
  define c1 where "c1 = queue_context kind (queues s1 qid)"
  have c1: "c1 = c\<lparr>pc_terminated := True\<rparr>" using one(3) by (cases kind) (simp_all add: c1_def)
  have p1: "ports s1 (pc_port c) = p1" using one(2) ndr by simp
  have port1: "p_contexts p1 = 1" "\<not> p_terminated p1"
    "p_tasks p1 = filter (\<lambda>t. tk_owner t \<noteq> pc_owner c) (p_tasks (ports s (pc_port c)))"
    using terminate_lock_simps(2,3,5) [OF t] assms(2,3) by simp_all
  have "log s2 = log s1 @ map (\<lambda>t. (t, True)) (filter (\<lambda>t. tk_owner t = pc_owner c1) (p_tasks (ports s1 (pc_port c1)))
              @ filter (\<lambda>t. tk_owner t \<noteq> pc_owner c1) (p_tasks (ports s1 (pc_port c1))))
     \<and> p_tasks (ports s2 (pc_port c1)) = [] \<and> p_terminated (ports s2 (pc_port c1))"
  proof -
    obtain pe2 dr2 q1 where t2: "terminate_lock (pc_owner c1) (ports s1 (pc_port c1)) = (pe2, dr2, q1)"
      by (cases "terminate_lock (pc_owner c1) (ports s1 (pc_port c1))") auto
    have "dr2" using terminate_lock_simps(4) [OF t2] port1 p1 c1 by simp
    with context_terminate_log [OF c1_def refl t2 assms(5)] terminate_lock_simps(1,2,5) [OF t2]
      port1 p1 c1
    show ?thesis by auto
  qed
  then show ?thesis using port1 p1 c1 by (simp add: c1_def [symmetric] filter_empty_conv)
qed

lemma terminate_twice_kills_shared_port_witness:
  "p_terminated (ports (snd (context_terminate log_run 0 Work False []
      (snd (context_terminate log_run 0 Work False [] demo_sys)))) 0)"
proof -
  obtain b1 s1 where d1: "context_terminate log_run 0 Work False [] demo_sys = (b1, s1)"
    by (cases "context_terminate log_run 0 Work False [] demo_sys")
  obtain b2 s2 where d2: "context_terminate log_run 0 Work False [] s1 = (b2, s2)"
    by (cases "context_terminate log_run 0 Work False [] s1")
  have "p_contexts (ports demo_sys (pc_port (queue_context Work (queues demo_sys 0)))) = 2"
    "\<not> p_terminated (ports demo_sys (pc_port (queue_context Work (queues demo_sys 0))))"
    by (simp_all add: demo_simps)
  from terminate_twice_kills_shared_port [OF refl this d1 d2] show ?thesis
    unfolding d1 snd_conv d2 by (simp add: demo_simps)
qed

section \<open>Refusing\<close>

lemma set_port_id [simp]: "set_port pid (ports s pid) s = s"
  by (simp add: set_port_def)

text \<open>A submission is accepted exactly when neither the queue's context nor the port is
  terminated (the \<open>E_ABORT\<close> contract), and a refused one changes nothing.\<close>

theorem submit_refused_iff_terminated:
  assumes "q_monitors (queues s qid) = []" "c = queue_context kind (queues s qid)"
  shows "(fst (queue_submit run mon qid kind call delay s)
            \<longleftrightarrow> \<not> pc_terminated c \<and> \<not> p_terminated (ports s (pc_port c)))
     \<and> (\<not> fst (queue_submit run mon qid kind call delay s) \<longrightarrow>
          snd (queue_submit run mon qid kind call delay s) = s)"
  using assms by (auto simp: queue_submit_def notify_monitors_def port_submit_run_def
      port_submit_def Let_def)

lemma submit_refused_iff_terminated_witness:
  "fst (queue_submit log_run log_mon 0 Work 5 0 demo_sys)"
proof -
  have "q_monitors (queues demo_sys 0) = []" by (simp add: demo_simps)
  from submit_refused_iff_terminated [OF this refl] show ?thesis by (simp add: demo_simps)
qed

section \<open>The process queue and its handle\<close>

text \<open>The cached handle, when there is one, resolves to the process queue.\<close>

definition process_ok :: "('c, 'm, 'z) sys_scheme \<Rightarrow> bool" where
  "process_ok s \<longleftrightarrow> (case process_queue_handle s of
      None \<Rightarrow> True
    | Some h \<Rightarrow> process_queue s \<noteq> None \<and> ht_get (queue_handles s) h = process_queue s)"

lemma queue_handles_queue_new:
  "queue_new m1 m2 s = (q, s') \<Longrightarrow> queue_handles s' = queue_handles s"
  by (auto simp: queue_new_def port_create_def queue_composite_def context_new_def Let_def
      set_port_def set_queue_def)

lemma default_process_queue_simps:
  assumes "default_process_queue s = (q, s')"
  shows "process_queue s' = Some q" and "queue_handles s' = queue_handles s"
    and "process_queue s \<noteq> None \<Longrightarrow> s' = s \<and> process_queue s = Some q"
  using assms
  by (auto simp: default_process_queue_def Let_def split: option.splits prod.splits
      dest: queue_handles_queue_new)

text \<open>As long as the process queue is only installed when no handle is cached or removed,
  the handle that \<open>process_queue_handle\<close> returns (cached or new) resolves to the process
  queue, and stays so.\<close>

theorem process_handle_resolves:
  assumes "process_ok s" "ht_inv (queue_handles s)" "ht_room (queue_handles s) 1"
    and "get_process_queue_handle s = (h, s')"
  shows "h \<noteq> 0 \<and> process_queue s' \<noteq> None \<and> ht_get (queue_handles s') h = process_queue s'
     \<and> process_ok s' \<and> process_ok (set_process_queue None s')"
proof (cases "process_queue_handle s")
  case (Some k)
  with assms show ?thesis
    by (auto simp: get_process_queue_handle_def process_ok_def set_process_queue_def Let_def)
next
  case None
  obtain q s1 where q: "default_process_queue s = (q, s1)" by (cases "default_process_queue s")
  obtain k t where c: "ht_create q (queue_handles s1) = (k, t)"
    by (cases "ht_create q (queue_handles s1)")
  have t: "ht_inv (queue_handles s1)" "ht_room (queue_handles s1) (Suc 0)"
    using assms(2,3) default_process_queue_simps(2) [OF q] by simp_all
  have "ht_get t k = Some q" "k \<noteq> 0"
    using ht.create_get [OF t c, of k] ht.create_nonzero [OF t c] by simp_all
  then show ?thesis
    using None assms(4) q c default_process_queue_simps(1) [OF q]
    by (auto simp: get_process_queue_handle_def process_ok_def set_process_queue_def Let_def)
qed

lemma demo_handles [simp]:
  "ht_inv (queue_handles demo_sys)" "ht_room (queue_handles demo_sys) 1"
  by (simp_all add: demo_sys_def ht_new_def ht_inv_def ht_room_def has_room_def)

lemma process_handle_resolves_witness:
  "fst (get_process_queue_handle demo_sys) \<noteq> 0"
proof -
  obtain h s' where d: "get_process_queue_handle demo_sys = (h, s')"
    by (cases "get_process_queue_handle demo_sys")
  have "process_ok demo_sys" by (simp add: process_ok_def demo_sys_def)
  from process_handle_resolves [OF this demo_handles d] show ?thesis by (simp add: d)
qed

text \<open>Switching the process queue leaves the cached handle behind. Once a handle has been
  handed out for one process queue, installing another (non-null) one keeps the cache: the
  handle that \<open>process_queue_handle\<close> returns still resolves to the old queue, while the
  queue that null-queue blocks run on is the new one.\<close>

theorem process_switch_leaves_stale_handle:
  assumes "ht_inv (queue_handles s)" "ht_room (queue_handles s) 1"
    and "process_queue s = Some q1" "process_queue_handle s = None"
    and "get_process_queue_handle s = (h, s1)" "s2 = set_process_queue (Some q2) s1"
  shows "get_process_queue_handle s2 = (h, s2) \<and> ht_get (queue_handles s2) h = Some q1
     \<and> default_process_queue s2 = (q2, s2)"
proof -
  obtain k t where c: "ht_create q1 (queue_handles s) = (k, t)"
    by (cases "ht_create q1 (queue_handles s)")
  have "ht_get t k = Some q1"
    using ht.create_get [OF assms(1) _ c, of k] assms(2) by simp
  then show ?thesis using assms(3-6) c
    by (auto simp: get_process_queue_handle_def default_process_queue_def set_process_queue_def
        Let_def)
qed

lemma process_switch_leaves_stale_handle_witness:
  "default_process_queue (set_process_queue (Some 1) (snd (get_process_queue_handle demo_sys)))
     = (1, set_process_queue (Some 1) (snd (get_process_queue_handle demo_sys)))"
proof -
  obtain h s' where d: "get_process_queue_handle demo_sys = (h, s')"
    by (cases "get_process_queue_handle demo_sys")
  have "process_queue demo_sys = Some 0" "process_queue_handle demo_sys = None"
    by (simp_all add: demo_sys_def)
  from process_switch_leaves_stale_handle [OF demo_handles this d refl] show ?thesis
    by (simp add: d)
qed

end
