(* ===== verification/Bytes.thy ===== *)
theory Bytes
  imports Prelude
begin

text \<open>
  Fixed-width little-endian integers as byte lists: \<open>to_le_bytes\<close>, \<open>from_le_bytes\<close> and, on the
  little-endian targets this runtime is built for, \<open>to_ne_bytes\<close> and \<open>from_ne_bytes\<close>. The
  message framing of \<open>src/src/ipc.rs\<close> and the private bytes of an \<open>XAsyncBlock\<close> use them.
\<close>

fun nat_le :: "nat \<Rightarrow> nat \<Rightarrow> u8 list" where
  "nat_le 0 n = []"
| "nat_le (Suc k) n = of_nat n # nat_le k (n div 256)"

fun le_nat :: "u8 list \<Rightarrow> nat" where
  "le_nat [] = 0"
| "le_nat (b # bs) = unat b + 256 * le_nat bs"

definition u16_le :: "u16 \<Rightarrow> u8 list" where "u16_le w = nat_le 2 (unat w)"
definition u32_le :: "u32 \<Rightarrow> u8 list" where "u32_le w = nat_le 4 (unat w)"
definition u64_le :: "u64 \<Rightarrow> u8 list" where "u64_le w = nat_le 8 (unat w)"
definition le_u16 :: "u8 list \<Rightarrow> u16" where "le_u16 bs = of_nat (le_nat bs)"
definition le_u32 :: "u8 list \<Rightarrow> u32" where "le_u32 bs = of_nat (le_nat bs)"
definition le_u64 :: "u8 list \<Rightarrow> u64" where "le_u64 bs = of_nat (le_nat bs)"

lemma length_nat_le [simp]: "length (nat_le k n) = k"
  by (induction k arbitrary: n) auto

lemma unat_of_nat_u8: "unat (of_nat n :: u8) = n mod 256"
  by (simp add: unat_of_nat)

lemma le_nat_nat_le: "le_nat (nat_le k n) = n mod 256 ^ k"
proof (induction k arbitrary: n)
  case (Suc k)
  have "n mod 256 + 256 * (n div 256 mod 256 ^ k) = n mod (256 * 256 ^ k)"
    by (metis mod_mult2_eq add.commute)
  with Suc show ?case by (simp add: unat_of_nat_u8)
qed simp

lemma le_nat_bound: "le_nat bs < 256 ^ length bs"
proof (induction bs)
  case (Cons b bs)
  have "unat b < 256" by (rule unat_u8_less)
  with Cons show ?case by simp
qed simp

lemma nat_le_le_nat: "nat_le (length bs) (le_nat bs) = bs"
proof (induction bs)
  case (Cons b bs)
  have b: "unat b < 256" by (rule unat_u8_less)
  have "(of_nat (unat b + 256 * le_nat bs) :: u8) = b"
    unfolding word_unat_eq_iff unat_of_nat_u8 using b by simp
  moreover have "(unat b + 256 * le_nat bs) div 256 = le_nat bs" using b by simp
  ultimately show ?case using Cons by simp
qed simp

lemma length_u16_le [simp]: "length (u16_le w) = 2"
  and length_u32_le [simp]: "length (u32_le x) = 4"
  and length_u64_le [simp]: "length (u64_le y) = 8"
  by (simp_all add: u16_le_def u32_le_def u64_le_def)

lemma le_u16_u16_le [simp]: "le_u16 (u16_le w) = w"
  using unat_u16_less [of w] by (simp add: le_u16_def u16_le_def le_nat_nat_le word_unat_eq_iff unat_of_nat)

lemma le_u32_u32_le [simp]: "le_u32 (u32_le w) = w"
  using unat_u32_less [of w] by (simp add: le_u32_def u32_le_def le_nat_nat_le word_unat_eq_iff unat_of_nat)

lemma le_u64_u64_le [simp]: "le_u64 (u64_le w) = w"
  using unat_u64_less [of w] by (simp add: le_u64_def u64_le_def le_nat_nat_le word_unat_eq_iff unat_of_nat)

lemma u32_le_le_u32: "length bs = 4 \<Longrightarrow> u32_le (le_u32 bs) = bs"
  using le_nat_bound [of bs] nat_le_le_nat [of bs] by (simp add: le_u32_def u32_le_def unat_of_nat)

lemma u16_le_le_u16: "length bs = 2 \<Longrightarrow> u16_le (le_u16 bs) = bs"
  using le_nat_bound [of bs] nat_le_le_nat [of bs] by (simp add: le_u16_def u16_le_def unat_of_nat)

lemma le_nat_zeros [simp]: "le_nat (replicate n 0) = 0"
  by (induction n) auto

lemma le_u64_zeros [simp]: "le_u64 (replicate n 0) = 0"
  by (simp add: le_u64_def)

end
