(* ===== verification/XAsync_Core.thy ===== *)
theory XAsync_Core
  imports Task_Queue Bytes
begin

text \<open>
  The async engine's per-call state of \<open>src/src/com/xasync/core.rs\<close> and the helpers that run
  providers, completions and clean-ups. The state extends \<open>sys\<close> with the caller's blocks
  (with their 32 private bytes), the \<open>AsyncState\<close> allocations named by their pointer, the
  contexts of \<open>run_sync\<close>, the caller's result buffers, the threads spawned by a termination
  that does not wait, and a log of every provider call.

  The game's code (providers, completion routines, task callbacks, monitors, the closures
  given to \<open>run_sync\<close>) is the parameter \<open>env\<close>: each is an arbitrary transformer of the whole
  state, called where the code calls it. The runtime's own callbacks (\<open>work_callback\<close>,
  \<open>completion_callback\<close>, \<open>run_sync_worker\<close>) and providers (\<open>run_provider\<close>,
  \<open>run_sync_helper\<close>) are defined. Submitting to an immediate port runs the callback inline,
  so they are layered: a completion runs game code only (\<open>run0\<close>); a work callback can
  complete its call, which submits a completion (\<open>run1\<close>).

  Not modelled: the diagnostic block names and the per-thread identity, which only feed log
  lines; and the reference counts of the \<open>Arc\<close>s (an allocation is never reused: the n-th
  call's state has the address n).
\<close>

section \<open>Data\<close>

datatype async_op = OpBegin | OpDoWork | OpGetResult | OpCancel | OpCleanup

datatype provider = GameProvider u64 | RunProvider | RunSyncHelper

text \<open>A task's callback with its context pointer.\<close>

datatype call =
    GameTask u64 u64
  | WorkCb u64
  | CompletionCb u64 u64
  | RunSyncWorker u64 u64

record block =
  b_queue :: u64
  b_callback :: "u64 option"
  b_internal :: "u8 list"

record async_state =
  as_provider :: provider
  as_context :: u64
  as_identity :: u64
  as_queue :: nat
  as_block :: u64
  as_status :: hresult
  as_result_size :: u64
  as_canceled :: bool
  as_cleaned_up :: bool

text \<open>\<open>XsyncContextHelper\<close>: the payload as the bytes of the value, with \<open>size_of::<T>()\<close>.\<close>

record sync_helper =
  sh_result :: hresult
  sh_canceled :: bool
  sh_payload :: "u8 list option"
  sh_future :: u64
  sh_size :: u64
  sh_live :: bool

record asys = "(call, u64 \<times> u64) sys" +
  asyncs :: "u64 \<Rightarrow> async_state"
  next_async :: nat
  blocks :: "u64 \<Rightarrow> block"
  helpers :: "u64 \<Rightarrow> sync_helper"
  next_helper :: u64
  buffers :: "u64 \<Rightarrow> u8 list"
  run_sync_queue :: "nat option"
  terminators :: "(nat \<times> (u64 \<times> u64) option) list"
  time_sensitive :: "nat \<Rightarrow> bool"
  calls :: "(u64 \<times> async_op) list"

record 'w env =
  env_provider :: "u64 \<Rightarrow> async_op \<Rightarrow> u64 \<Rightarrow> u64 \<Rightarrow> u64 \<Rightarrow> u64 \<Rightarrow> 'w \<Rightarrow> hresult \<times> 'w"
  env_work :: "u64 \<Rightarrow> u64 \<Rightarrow> 'w \<Rightarrow> hresult \<times> 'w"
  env_completion :: "u64 \<Rightarrow> u64 \<Rightarrow> 'w \<Rightarrow> 'w"
  env_task :: "u64 \<Rightarrow> u64 \<Rightarrow> bool \<Rightarrow> 'w \<Rightarrow> 'w"
  env_monitor :: "u64 \<times> u64 \<Rightarrow> u64 \<Rightarrow> u32 \<Rightarrow> 'w \<Rightarrow> 'w"
  env_terminated :: "u64 \<Rightarrow> u64 \<Rightarrow> 'w \<Rightarrow> 'w"
  env_future :: "u64 \<Rightarrow> 'w \<Rightarrow> u8 list outcome \<times> 'w"

type_synonym 'z aenv = "'z asys_scheme env"

definition set_async :: "u64 \<Rightarrow> async_state \<Rightarrow> 'z asys_scheme \<Rightarrow> 'z asys_scheme" where
  "set_async p a s = s\<lparr>asyncs := (asyncs s)(p := a)\<rparr>"

definition set_block :: "u64 \<Rightarrow> block \<Rightarrow> 'z asys_scheme \<Rightarrow> 'z asys_scheme" where
  "set_block b x s = s\<lparr>blocks := (blocks s)(b := x)\<rparr>"

definition set_helper :: "u64 \<Rightarrow> sync_helper \<Rightarrow> 'z asys_scheme \<Rightarrow> 'z asys_scheme" where
  "set_helper h x s = s\<lparr>helpers := (helpers s)(h := x)\<rparr>"

section \<open>The private bytes of a block\<close>

definition SIGNATURE :: u64 where
  "SIGNATURE = 0x584153594e435f31"

definition read_internal :: "block \<Rightarrow> u64 \<times> u64" where
  "read_internal b = (le_u64 (take 8 (b_internal b)), le_u64 (take 8 (drop 8 (b_internal b))))"

definition write_internal :: "block \<Rightarrow> u64 \<Rightarrow> block" where
  "write_internal b p = b\<lparr>b_internal := u64_le SIGNATURE @ u64_le p @ replicate 16 0\<rparr>"

text \<open>\<open>state_of\<close>: the pointer a live block holds; address 0 is the null block.\<close>

definition state_of :: "u64 \<Rightarrow> 'z asys_scheme \<Rightarrow> u64 option" where
  "state_of b s =
     (if b = 0 then None
      else let (signature, pointer) = read_internal (blocks s b)
           in if signature \<noteq> SIGNATURE \<or> pointer = 0 then None else Some pointer)"

definition take_state :: "u64 \<Rightarrow> 'z asys_scheme \<Rightarrow> u64 option \<times> 'z asys_scheme" where
  "take_state b s =
     (case state_of b s of
        None \<Rightarrow> (None, s)
      | Some p \<Rightarrow> (Some p, set_block b ((blocks s b)\<lparr>b_internal := replicate 32 0\<rparr>) s))"

section \<open>Provider calls other than \<open>Begin\<close>\<close>

text \<open>\<open>run_provider\<close>: the context is the caller's work function.\<close>

definition run_provider_call ::
  "'z aenv \<Rightarrow> async_op \<Rightarrow> u64 \<Rightarrow> u64 \<Rightarrow> 'z asys_scheme \<Rightarrow> hresult \<times> 'z asys_scheme" where
  "run_provider_call env op block context s =
     (case op of OpDoWork \<Rightarrow> env_work env context block s | _ \<Rightarrow> (S_OK, s))"

definition run_sync_helper_call ::
  "async_op \<Rightarrow> u64 \<Rightarrow> u64 \<Rightarrow> 'z asys_scheme \<Rightarrow> hresult \<times> 'z asys_scheme" where
  "run_sync_helper_call op context buffer s =
     (if context = 0 then (E_POINTER, s)
      else let h = helpers s context
           in case op of
                OpGetResult \<Rightarrow>
                  (case (sh_result h = S_OK, sh_payload h) of
                     (True, Some payload) \<Rightarrow> (S_OK, s\<lparr>buffers := (buffers s)(buffer := payload)\<rparr>)
                   | _ \<Rightarrow> (S_OK, s))
              | OpCancel \<Rightarrow> (S_OK, set_helper context (h\<lparr>sh_canceled := True\<rparr>) s)
              | OpCleanup \<Rightarrow> (S_OK, set_helper context (h\<lparr>sh_live := False\<rparr>) s)
              | _ \<Rightarrow> (S_OK, s))"

definition invoke ::
  "'z aenv \<Rightarrow> u64 \<Rightarrow> async_op \<Rightarrow> u64 \<Rightarrow> u64 \<Rightarrow> 'z asys_scheme \<Rightarrow> hresult \<times> 'z asys_scheme" where
  "invoke env p op buffer buffer_size s =
     (let a = asyncs s p; s1 = s\<lparr>calls := calls s @ [(p, op)]\<rparr>
      in case as_provider a of
           GameProvider f \<Rightarrow> env_provider env f op (as_block a) (as_context a) buffer buffer_size s1
         | RunProvider \<Rightarrow> run_provider_call env op (as_block a) (as_context a) s1
         | RunSyncHelper \<Rightarrow> run_sync_helper_call op (as_context a) buffer s1)"

section \<open>Completing\<close>

definition run0 :: "'z aenv \<Rightarrow> call task \<Rightarrow> bool \<Rightarrow> 'z asys_scheme \<Rightarrow> 'z asys_scheme" where
  "run0 env t canceled s =
     (case tk_call t of
        GameTask f context \<Rightarrow> env_task env f context canceled s
      | CompletionCb p cb \<Rightarrow> env_completion env cb (as_block (asyncs s p)) s
      | WorkCb p \<Rightarrow> s
      | RunSyncWorker h b \<Rightarrow> s)"

definition complete_state ::
  "'z aenv \<Rightarrow> u64 \<Rightarrow> hresult \<Rightarrow> u64 \<Rightarrow> 'z asys_scheme \<Rightarrow> 'z asys_scheme" where
  "complete_state env p result required_buffer_size s =
     (let a = asyncs s p
      in if as_status a \<noteq> E_PENDING then s
         else let s1 = set_async p (a\<lparr>as_status := result, as_result_size := required_buffer_size\<rparr>) s
              in case (if as_block a = 0 then None else b_callback (blocks s1 (as_block a))) of
                   None \<Rightarrow> s1
                 | Some cb \<Rightarrow>
                     (case queue_submit (run0 env) (env_monitor env) (as_queue a) Completion
                             (CompletionCb p cb) 0 s1 of
                        (True, s2) \<Rightarrow> s2
                      | (False, s2) \<Rightarrow> env_completion env cb (as_block (asyncs s2 p)) s2))"

definition cleanup :: "'z aenv \<Rightarrow> u64 \<Rightarrow> 'z asys_scheme \<Rightarrow> 'z asys_scheme" where
  "cleanup env p s =
     (let a = asyncs s p
      in if as_cleaned_up a then s
         else let s1 = set_async p (a\<lparr>as_cleaned_up := True\<rparr>) s;
                  (hr, s2) = invoke env p OpCleanup 0 0 s1;
                  (taken, s3) = take_state (as_block a) s2
              in s3)"

definition work_callback :: "'z aenv \<Rightarrow> u64 \<Rightarrow> bool \<Rightarrow> 'z asys_scheme \<Rightarrow> 'z asys_scheme" where
  "work_callback env p canceled s =
     (if canceled then complete_state env p E_ABORT 0 s
      else let (hr, s1) = invoke env p OpDoWork 0 0 s
           in if hr = E_PENDING then s1 else complete_state env p hr 0 s1)"

text \<open>\<open>XAsyncComplete\<close>, which game code and the workers below call.\<close>

definition XAsyncComplete ::
  "'z aenv \<Rightarrow> u64 \<Rightarrow> hresult \<Rightarrow> u64 \<Rightarrow> 'z asys_scheme \<Rightarrow> 'z asys_scheme" where
  "XAsyncComplete env b result required_buffer_size s =
     (case state_of b s of
        None \<Rightarrow> s
      | Some p \<Rightarrow> complete_state env p result required_buffer_size s)"

text \<open>The boxed work of \<open>run_sync_helper\<close> on a worker of the \<open>run_sync\<close> queue: run the body (or
  record the abort) and complete the block.\<close>

definition run_sync_body :: "'z aenv \<Rightarrow> u64 \<Rightarrow> bool \<Rightarrow> 'z asys_scheme \<Rightarrow> 'z asys_scheme" where
  "run_sync_body env h canceled s =
     (if canceled then set_helper h ((helpers s h)\<lparr>sh_result := E_ABORT\<rparr>) s
      else case env_future env (sh_future (helpers s h)) s of
             (Inr value, s1) \<Rightarrow>
               set_helper h ((helpers s1 h)\<lparr>sh_result := S_OK, sh_payload := Some value\<rparr>) s1
           | (Inl hr, s1) \<Rightarrow> set_helper h ((helpers s1 h)\<lparr>sh_result := hr\<rparr>) s1)"

definition run_sync_worker ::
  "'z aenv \<Rightarrow> u64 \<Rightarrow> u64 \<Rightarrow> bool \<Rightarrow> 'z asys_scheme \<Rightarrow> 'z asys_scheme" where
  "run_sync_worker env h b canceled s =
     (let s1 = run_sync_body env h canceled s
      in XAsyncComplete env b (sh_result (helpers s1 h)) (sh_size (helpers s1 h)) s1)"

definition run1 :: "'z aenv \<Rightarrow> call task \<Rightarrow> bool \<Rightarrow> 'z asys_scheme \<Rightarrow> 'z asys_scheme" where
  "run1 env t canceled s =
     (case tk_call t of
        WorkCb p \<Rightarrow> work_callback env p canceled s
      | RunSyncWorker h b \<Rightarrow> run_sync_worker env h b canceled s
      | _ \<Rightarrow> run0 env t canceled s)"

section \<open>\<open>Begin\<close>\<close>

definition get_run_sync_queue :: "'z asys_scheme \<Rightarrow> nat \<times> 'z asys_scheme" where
  "get_run_sync_queue s =
     (case run_sync_queue s of
        Some q \<Rightarrow> (q, s)
      | None \<Rightarrow> let (q, s1) = queue_new ThreadPool ThreadPool s
                in (q, s1\<lparr>run_sync_queue := Some q\<rparr>))"

definition run_provider_begin :: "'z aenv \<Rightarrow> u64 \<Rightarrow> 'z asys_scheme \<Rightarrow> hresult \<times> 'z asys_scheme" where
  "run_provider_begin env b s =
     (case state_of b s of
        None \<Rightarrow> (E_ILLEGAL_METHOD_CALL, s)
      | Some p \<Rightarrow>
          (case queue_submit (run1 env) (env_monitor env) (as_queue (asyncs s p)) Work (WorkCb p) 0 s of
             (True, s1) \<Rightarrow> (S_OK, s1)
           | (False, s1) \<Rightarrow> (E_ABORT, s1)))"

definition run_sync_begin :: "'z aenv \<Rightarrow> u64 \<Rightarrow> u64 \<Rightarrow> 'z asys_scheme \<Rightarrow> hresult \<times> 'z asys_scheme" where
  "run_sync_begin env h b s =
     (if h = 0 then (E_POINTER, s)
      else let (q, s1) = get_run_sync_queue s
           in case queue_submit (run1 env) (env_monitor env) q Work (RunSyncWorker h b) 0 s1 of
                (True, s2) \<Rightarrow> (S_OK, s2)
              | (False, s2) \<Rightarrow> (S_OK, run_sync_worker env h b False s2))"

definition invoke_begin :: "'z aenv \<Rightarrow> u64 \<Rightarrow> 'z asys_scheme \<Rightarrow> hresult \<times> 'z asys_scheme" where
  "invoke_begin env p s =
     (let a = asyncs s p; s1 = s\<lparr>calls := calls s @ [(p, OpBegin)]\<rparr>
      in case as_provider a of
           GameProvider f \<Rightarrow> env_provider env f OpBegin (as_block a) (as_context a) 0 0 s1
         | RunProvider \<Rightarrow> run_provider_begin env (as_block a) s1
         | RunSyncHelper \<Rightarrow> run_sync_begin env (as_context a) (as_block a) s1)"

definition queue_for :: "block \<Rightarrow> 'z asys_scheme \<Rightarrow> nat option \<times> 'z asys_scheme" where
  "queue_for b s =
     (if b_queue b = 0
      then let (q, s1) = default_process_queue s in (Some q, s1)
      else (ht_get (queue_handles s) (b_queue b), s))"

end
