(* ===== verification/XAsync_Api.thy ===== *)
theory XAsync_Api
  imports XAsync_Core
begin

text \<open>
  The \<open>IXAsync\<close> object of \<open>src/src/com/xasync/impl.rs\<close> and the wrappers of
  \<open>src/src/com/xasync/mod.rs\<close>: the entry points of XAsync and XTaskQueue. A null out-pointer
  is the flag \<open>out_null\<close>; what is written through an out-pointer is an optional result. A
  function-pointer argument is an option, \<open>None\<close> when null.
\<close>

section \<open>XAsync\<close>

text \<open>\<open>XAsyncBegin\<close> in three parts. First the queue to run on: a null queue means the process
  queue, whose handle is stored in the block; a call on a queue whose work port is manual is
  moved to the process queue.\<close>

definition choose_queue ::
  "u64 \<Rightarrow> nat \<Rightarrow> 'z asys_scheme \<Rightarrow> nat option \<times> 'z asys_scheme" where
  "choose_queue b queue s =
     (if b_queue (blocks s b) = 0
      then let (h, s1) = get_process_queue_handle s
           in (Some queue, set_block b ((blocks s1 b)\<lparr>b_queue := h\<rparr>) s1)
      else if p_mode (ports s (queue_port queue Work s)) = Manual
      then let (is_process, s1) = is_process_queue queue s
           in if is_process then (Some queue, s1)
              else let (h, s2) = get_process_queue_handle s1;
                       s3 = set_block b ((blocks s2 b)\<lparr>b_queue := h\<rparr>) s2
                   in (ht_get (queue_handles s3) h, s3)
      else (Some queue, s))"

text \<open>Then the state is allocated and \<open>Begin\<close> is sent; a failing \<open>Begin\<close> is torn down at once.\<close>

definition new_call ::
  "u64 \<Rightarrow> u64 \<Rightarrow> u64 \<Rightarrow> provider \<Rightarrow> nat \<Rightarrow> 'z asys_scheme \<Rightarrow> u64 \<times> 'z asys_scheme" where
  "new_call b context identity pr q s =
     (let p = of_nat (next_async s);
          a = \<lparr>as_provider = pr, as_context = context, as_identity = identity, as_queue = q,
               as_block = b, as_status = E_PENDING, as_result_size = 0,
               as_canceled = False, as_cleaned_up = False\<rparr>;
          s1 = (set_async p a s)\<lparr>next_async := next_async s + 1\<rparr>
      in (p, set_block b (write_internal (blocks s1 b) p) s1))"

definition start_call :: "'z aenv \<Rightarrow> u64 \<Rightarrow> 'z asys_scheme \<Rightarrow> hresult \<times> 'z asys_scheme" where
  "start_call env p s =
     (let (hr, s1) = invoke_begin env p s
      in if hr \<noteq> S_OK
         then (hr, cleanup env p (set_async p ((asyncs s1 p)\<lparr>as_status := hr\<rparr>) s1))
         else (S_OK, s1))"

definition XAsyncBegin ::
  "'z aenv \<Rightarrow> u64 \<Rightarrow> u64 \<Rightarrow> u64 \<Rightarrow> provider option \<Rightarrow> 'z asys_scheme \<Rightarrow> hresult \<times> 'z asys_scheme"
where
  "XAsyncBegin env b context identity provider s =
     (if b = 0 then (E_POINTER, s)
      else case provider of
        None \<Rightarrow> (E_POINTER, s)
      | Some pr \<Rightarrow>
        if state_of b s \<noteq> None then (E_INVALIDARG, s)
        else case queue_for (blocks s b) s of
          (None, s1) \<Rightarrow> (E_INVALIDARG, s1)
        | (Some queue, s1) \<Rightarrow>
          (case choose_queue b queue s1 of
             (None, s2) \<Rightarrow> (E_ILLEGAL_METHOD_CALL, s2)
           | (Some q, s2) \<Rightarrow>
               let (p, s3) = new_call b context identity pr q s2 in start_call env p s3))"

definition XAsyncSchedule ::
  "'z aenv \<Rightarrow> u64 \<Rightarrow> u32 \<Rightarrow> 'z asys_scheme \<Rightarrow> hresult \<times> 'z asys_scheme" where
  "XAsyncSchedule env b delay_in_ms s =
     (case state_of b s of
        None \<Rightarrow> (E_ILLEGAL_METHOD_CALL, s)
      | Some p \<Rightarrow>
          (case queue_submit (run1 env) (env_monitor env) (as_queue (asyncs s p)) Work (WorkCb p)
                  (unat delay_in_ms) s of
             (True, s1) \<Rightarrow> (S_OK, s1)
           | (False, s1) \<Rightarrow> (E_ABORT, complete_state env p E_ABORT 0 s1)))"

text \<open>The wait on the completion condition variable; the schedule is what other threads do.\<close>

fun wait_completed :: "u64 \<Rightarrow> ('z asys_scheme \<Rightarrow> 'z asys_scheme) list \<Rightarrow> 'z asys_scheme \<Rightarrow>
  bool \<times> 'z asys_scheme" where
  "wait_completed p [] s = (as_status (asyncs s p) \<noteq> E_PENDING, s)"
| "wait_completed p (w # ws) s =
     (if as_status (asyncs s p) = E_PENDING then wait_completed p ws (w s) else (True, s))"

definition XAsyncGetStatus ::
  "'z aenv \<Rightarrow> nat \<Rightarrow> u64 \<Rightarrow> bool \<Rightarrow> ('z asys_scheme \<Rightarrow> 'z asys_scheme) list \<Rightarrow> 'z asys_scheme \<Rightarrow>
     hresult option \<times> 'z asys_scheme" where
  "XAsyncGetStatus env tid b wait sched s =
     (case state_of b s of
        None \<Rightarrow> (Some E_ILLEGAL_METHOD_CALL, s)
      | Some p \<Rightarrow>
          let (ready, s1) =
            (if wait \<and> as_status (asyncs s p) = E_PENDING \<and> \<not> in_dispatch_of s tid
             then wait_completed p sched s else (True, s))
          in if \<not> ready then (None, s1)
             else let status = as_status (asyncs s1 p); size = as_result_size (asyncs s1 p)
                  in (Some status,
                      if status \<noteq> E_PENDING \<and> size = 0 then cleanup env p s1 else s1))"

definition XAsyncGetResultSize :: "u64 \<Rightarrow> bool \<Rightarrow> 'z asys_scheme \<Rightarrow> hresult \<times> u64 option" where
  "XAsyncGetResultSize b out_null s =
     (if out_null then (E_POINTER, None)
      else case state_of b s of
        None \<Rightarrow> (E_ILLEGAL_METHOD_CALL, None)
      | Some p \<Rightarrow>
          if as_status (asyncs s p) = E_PENDING then (E_PENDING, None)
          else (as_status (asyncs s p), Some (as_result_size (asyncs s p))))"

definition XAsyncGetResult ::
  "'z aenv \<Rightarrow> u64 \<Rightarrow> u64 \<Rightarrow> u64 \<Rightarrow> u64 \<Rightarrow> bool \<Rightarrow> 'z asys_scheme \<Rightarrow>
     hresult \<times> u64 option \<times> 'z asys_scheme" where
  "XAsyncGetResult env b identity buffer_size buffer used_null s =
     (case state_of b s of
        None \<Rightarrow> (E_ILLEGAL_METHOD_CALL, None, s)
      | Some p \<Rightarrow>
          let status = as_status (asyncs s p); size = as_result_size (asyncs s p)
          in if status = E_PENDING then (E_PENDING, None, s)
             else if status \<noteq> S_OK then (status, None, cleanup env p s)
             else if identity \<noteq> 0 \<and> identity \<noteq> as_identity (asyncs s p) then (E_INVALIDARG, None, s)
             else if unat buffer_size < unat size then (E_NOT_SUFFICIENT_BUFFER, None, s)
             else let (hr, s1) = invoke env p OpGetResult buffer buffer_size s
                  in (hr, if used_null then None else Some size, cleanup env p s1))"

definition XAsyncCancel :: "'z aenv \<Rightarrow> u64 \<Rightarrow> 'z asys_scheme \<Rightarrow> 'z asys_scheme" where
  "XAsyncCancel env b s =
     (case state_of b s of
        None \<Rightarrow> s
      | Some p \<Rightarrow>
          let a = asyncs s p
          in if as_status a \<noteq> E_PENDING \<or> as_canceled a then s
             else let s1 = set_async p (a\<lparr>as_canceled := True\<rparr>) s;
                      (hr, s2) = invoke env p OpCancel 0 0 s1
                  in if as_status (asyncs s2 p) \<noteq> E_PENDING then s2
                     else case queue_submit (run1 env) (env_monitor env) (as_queue (asyncs s2 p)) Work
                                 (WorkCb p) 0 s2 of
                            (True, s3) \<Rightarrow> s3
                          | (False, s3) \<Rightarrow> complete_state env p E_ABORT 0 s3)"

definition XAsyncRun ::
  "'z aenv \<Rightarrow> u64 \<Rightarrow> u64 \<Rightarrow> 'z asys_scheme \<Rightarrow> hresult \<times> 'z asys_scheme" where
  "XAsyncRun env b work s =
     (if work = 0 then (E_POINTER, s) else XAsyncBegin env b work 0 (Some RunProvider) s)"

text \<open>The wrappers the rest of the runtime uses.\<close>

definition get_result ::
  "'z aenv \<Rightarrow> u64 \<Rightarrow> u64 \<Rightarrow> u64 \<Rightarrow> u64 \<Rightarrow> 'z asys_scheme \<Rightarrow> unit outcome \<times> 'z asys_scheme" where
  "get_result env b identity size_of out s =
     (let (hr, used, s1) = XAsyncGetResult env b identity size_of out False s
      in (if hr = S_OK then Inr () else Inl hr, s1))"

definition get_result_size :: "u64 \<Rightarrow> 'z asys_scheme \<Rightarrow> u64 outcome" where
  "get_result_size b s =
     (let (hr, size) = XAsyncGetResultSize b False s
      in if hr = S_OK then Inr (case size of None \<Rightarrow> 0 | Some n \<Rightarrow> n) else Inl hr)"

definition run_sync ::
  "'z aenv \<Rightarrow> u64 \<Rightarrow> u64 \<Rightarrow> u64 \<Rightarrow> 'z asys_scheme \<Rightarrow> hresult \<times> 'z asys_scheme" where
  "run_sync env b future size_of s =
     (if b = 0 then (S_OK, s)
      else let h = next_helper s;
               s1 = (set_helper h \<lparr>sh_result = E_ABORT, sh_canceled = False, sh_payload = None,
                       sh_future = future, sh_size = size_of, sh_live = True\<rparr> s)
                    \<lparr>next_helper := h + 1\<rparr>;
               (hr, s2) = XAsyncBegin env b h 0 (Some RunSyncHelper) s1
           in if hr = S_OK then (S_OK, s2)
              else (hr, set_helper h ((helpers s2 h)\<lparr>sh_live := False\<rparr>) s2))"

section \<open>XTaskQueue\<close>

definition XTaskQueueCreate ::
  "u64 \<Rightarrow> u64 \<Rightarrow> bool \<Rightarrow> ('c, 'm, 'z) sys_scheme \<Rightarrow> hresult \<times> u64 option \<times> ('c, 'm, 'z) sys_scheme"
where
  "XTaskQueueCreate work_mode completion_mode out_null s =
     (if out_null then (E_POINTER, None, s)
      else case (dispatch_mode_from_raw work_mode, dispatch_mode_from_raw completion_mode) of
        (Some w, Some c) \<Rightarrow>
          let (q, s1) = queue_new w c s; (h, t) = ht_create q (queue_handles s1)
          in (S_OK, Some h, s1\<lparr>queue_handles := t\<rparr>)
      | _ \<Rightarrow> (E_INVALIDARG, None, s))"

definition XTaskQueueCreateComposite ::
  "u64 \<Rightarrow> u64 \<Rightarrow> bool \<Rightarrow> ('c, 'm, 'z) sys_scheme \<Rightarrow> hresult \<times> u64 option \<times> ('c, 'm, 'z) sys_scheme"
where
  "XTaskQueueCreateComposite work_port completion_port out_null s =
     (if out_null then (E_POINTER, None, s)
      else case (ht_get (port_handles s) work_port, ht_get (port_handles s) completion_port) of
        (Some w, Some c) \<Rightarrow>
          let (q, s1) = queue_composite w c s; (h, t) = ht_create q (queue_handles s1)
          in (S_OK, Some h, s1\<lparr>queue_handles := t\<rparr>)
      | _ \<Rightarrow> (E_INVALIDARG, None, s))"

definition XTaskQueueGetPort ::
  "u64 \<Rightarrow> u64 \<Rightarrow> bool \<Rightarrow> ('c, 'm, 'z) sys_scheme \<Rightarrow> hresult \<times> u64 option \<times> ('c, 'm, 'z) sys_scheme"
where
  "XTaskQueueGetPort queue port out_null s =
     (if out_null then (E_POINTER, None, s)
      else case (ht_get (queue_handles s) queue, port_kind_from_raw port) of
        (Some q, Some kind) \<Rightarrow>
          let (h, t) = ht_create (queue_port q kind s) (port_handles s)
          in (S_OK, Some h, s\<lparr>port_handles := t\<rparr>)
      | _ \<Rightarrow> (E_INVALIDARG, None, s))"

definition XTaskQueueDuplicateHandle ::
  "u64 \<Rightarrow> bool \<Rightarrow> ('c, 'm, 'z) sys_scheme \<Rightarrow> hresult \<times> u64 option \<times> ('c, 'm, 'z) sys_scheme"
where
  "XTaskQueueDuplicateHandle queue out_null s =
     (if out_null then (E_POINTER, None, s)
      else case ht_get (queue_handles s) queue of
        None \<Rightarrow> (E_INVALIDARG, None, s)
      | Some q \<Rightarrow>
          let (h, t) = ht_create q (queue_handles s)
          in (S_OK, Some h, s\<lparr>queue_handles := t\<rparr>))"

definition XTaskQueueCloseHandle ::
  "u64 \<Rightarrow> ('c, 'm, 'z) sys_scheme \<Rightarrow> ('c, 'm, 'z) sys_scheme" where
  "XTaskQueueCloseHandle queue s = s\<lparr>queue_handles := ht_close queue (queue_handles s)\<rparr>"

definition XTaskQueueDispatch ::
  "'z aenv \<Rightarrow> nat \<Rightarrow> u64 \<Rightarrow> u64 \<Rightarrow> u32 \<Rightarrow> (nat \<times> ('z asys_scheme \<Rightarrow> 'z asys_scheme)) list \<Rightarrow>
     'z asys_scheme \<Rightarrow> bool option \<times> 'z asys_scheme" where
  "XTaskQueueDispatch env tid queue port timeout_in_ms sched s =
     (case (ht_get (queue_handles s) queue, port_kind_from_raw port) of
        (Some q, Some kind) \<Rightarrow> dispatch (run1 env) tid (queue_port q kind s) timeout_in_ms sched s
      | _ \<Rightarrow> (Some False, s))"

definition XTaskQueueSubmitDelayedCallback ::
  "'z aenv \<Rightarrow> u64 \<Rightarrow> u64 \<Rightarrow> u32 \<Rightarrow> u64 \<Rightarrow> u64 option \<Rightarrow> 'z asys_scheme \<Rightarrow> hresult \<times> 'z asys_scheme"
where
  "XTaskQueueSubmitDelayedCallback env queue port delay_ms context callback s =
     (case callback of
        None \<Rightarrow> (E_POINTER, s)
      | Some f \<Rightarrow>
          (case (ht_get (queue_handles s) queue, port_kind_from_raw port) of
             (Some q, Some kind) \<Rightarrow>
               (case queue_submit (run1 env) (env_monitor env) q kind (GameTask f context)
                       (unat delay_ms) s of
                  (True, s1) \<Rightarrow> (S_OK, s1)
                | (False, s1) \<Rightarrow> (E_ABORT, s1))
           | _ \<Rightarrow> (E_INVALIDARG, s)))"

definition XTaskQueueSubmitCallback ::
  "'z aenv \<Rightarrow> u64 \<Rightarrow> u64 \<Rightarrow> u64 \<Rightarrow> u64 option \<Rightarrow> 'z asys_scheme \<Rightarrow> hresult \<times> 'z asys_scheme" where
  "XTaskQueueSubmitCallback env queue port context callback s =
     XTaskQueueSubmitDelayedCallback env queue port 0 context callback s"

text \<open>Terminating with \<open>wait\<close> blocks the caller; without it a thread of its own does the same
  later. \<open>None\<close> while callbacks are still in flight.\<close>

definition terminate_and_call ::
  "'z aenv \<Rightarrow> nat \<Rightarrow> (u64 \<times> u64) option \<Rightarrow> ('z asys_scheme \<Rightarrow> 'z asys_scheme) list \<Rightarrow>
     ('z asys_scheme \<Rightarrow> 'z asys_scheme) list \<Rightarrow> 'z asys_scheme \<Rightarrow> hresult option \<times> 'z asys_scheme"
where
  "terminate_and_call env q terminated sched1 sched2 s =
     (case queue_terminate (run1 env) q True sched1 sched2 s of
        (False, s1) \<Rightarrow> (None, s1)
      | (True, s1) \<Rightarrow>
          (Some S_OK, case terminated of None \<Rightarrow> s1 | Some (f, context) \<Rightarrow> env_terminated env f context s1))"

definition XTaskQueueTerminate ::
  "'z aenv \<Rightarrow> u64 \<Rightarrow> bool \<Rightarrow> u64 \<Rightarrow> u64 option \<Rightarrow> ('z asys_scheme \<Rightarrow> 'z asys_scheme) list \<Rightarrow>
     ('z asys_scheme \<Rightarrow> 'z asys_scheme) list \<Rightarrow> 'z asys_scheme \<Rightarrow> hresult option \<times> 'z asys_scheme"
where
  "XTaskQueueTerminate env queue wait context callback sched1 sched2 s =
     (case ht_get (queue_handles s) queue of
        None \<Rightarrow> (Some E_INVALIDARG, s)
      | Some q \<Rightarrow>
          let terminated = map_option (\<lambda>f. (f, context)) callback
          in if wait then terminate_and_call env q terminated sched1 sched2 s
             else (Some S_OK, s\<lparr>terminators := terminators s @ [(q, terminated)]\<rparr>))"

definition run_terminator ::
  "'z aenv \<Rightarrow> nat \<Rightarrow> ('z asys_scheme \<Rightarrow> 'z asys_scheme) list \<Rightarrow>
     ('z asys_scheme \<Rightarrow> 'z asys_scheme) list \<Rightarrow> 'z asys_scheme \<Rightarrow> hresult option \<times> 'z asys_scheme"
where
  "run_terminator env i sched1 sched2 s =
     (if i < length (terminators s)
      then let (q, terminated) = terminators s ! i
           in terminate_and_call env q terminated sched1 sched2
                (s\<lparr>terminators := take i (terminators s) @ drop (Suc i) (terminators s)\<rparr>)
      else (None, s))"

definition XTaskQueueRegisterMonitor ::
  "u64 \<Rightarrow> u64 \<Rightarrow> u64 option \<Rightarrow> bool \<Rightarrow> 'z asys_scheme \<Rightarrow> hresult \<times> u64 option \<times> 'z asys_scheme" where
  "XTaskQueueRegisterMonitor queue context callback out_null s =
     (if out_null then (E_POINTER, None, s)
      else case callback of
        None \<Rightarrow> (E_POINTER, None, s)
      | Some f \<Rightarrow>
          (case ht_get (queue_handles s) queue of
             None \<Rightarrow> (E_INVALIDARG, None, s)
           | Some q \<Rightarrow> let (token, s1) = register_monitor q (f, context) s in (S_OK, Some token, s1)))"

definition XTaskQueueUnregisterMonitor :: "u64 \<Rightarrow> u64 \<Rightarrow> 'z asys_scheme \<Rightarrow> 'z asys_scheme" where
  "XTaskQueueUnregisterMonitor queue token s =
     (case ht_get (queue_handles s) queue of
        None \<Rightarrow> s
      | Some q \<Rightarrow> unregister_monitor q token s)"

definition XTaskQueueGetCurrentProcessTaskQueue ::
  "bool \<Rightarrow> ('c, 'm, 'z) sys_scheme \<Rightarrow> bool \<times> u64 option \<times> ('c, 'm, 'z) sys_scheme" where
  "XTaskQueueGetCurrentProcessTaskQueue out_null s =
     (if out_null then (False, None, s)
      else if \<not> has_process_queue s then (False, Some 0, s)
      else let (q, s1) = default_process_queue s; (h, t) = ht_create q (queue_handles s1)
           in (True, Some h, s1\<lparr>queue_handles := t\<rparr>))"

definition XTaskQueueSetCurrentProcessTaskQueue ::
  "u64 \<Rightarrow> ('c, 'm, 'z) sys_scheme \<Rightarrow> ('c, 'm, 'z) sys_scheme" where
  "XTaskQueueSetCurrentProcessTaskQueue queue s =
     set_process_queue (ht_get (queue_handles s) queue) s"

definition XThreadSetTimeSensitive :: "nat \<Rightarrow> bool \<Rightarrow> 'z asys_scheme \<Rightarrow> hresult \<times> 'z asys_scheme" where
  "XThreadSetTimeSensitive tid flag s =
     (S_OK, s\<lparr>time_sensitive := (time_sensitive s)(tid := flag)\<rparr>)"

definition XThreadIsTimeSensitive :: "nat \<Rightarrow> 'z asys_scheme \<Rightarrow> bool" where
  "XThreadIsTimeSensitive tid s = time_sensitive s tid"

end
