(* ===== verification/Game_Code.thy ===== *)
theory Game_Code
  imports XAsync_Api Queue_Props
begin

text \<open>
  The closed world: what holds of the async engine whatever the game does with it. The game's
  code (providers, completions, callbacks, monitors, closures) may call back into the API at
  any point, so \<open>game_code\<close> states the contract such code keeps: it changes the engine's
  state only in ways that preserve \<open>async_ok\<close>. Inside the locale every entry point is shown
  to keep it too, and \<open>scripted\<close> code, programs of API calls nested to any depth, is shown to
  be an instance, so nothing is assumed of it.

  \<open>async_inv\<close> counts the operations sent to providers, \<open>async_ext\<close> relates a state to an
  earlier one: a completed call keeps its status and result size, and flags are never
  cleared. Addresses are 64-bit, so both are stated for fewer than \<open>2 ^ 64\<close> calls.
\<close>

section \<open>The invariant\<close>

definition sent :: "u64 \<Rightarrow> async_op \<Rightarrow> 'z asys_scheme \<Rightarrow> nat" where
  "sent p op s = count_list (calls s) (p, op)"

definition allocated :: "u64 \<Rightarrow> 'z asys_scheme \<Rightarrow> bool" where
  "allocated p s \<longleftrightarrow> 0 < unat p \<and> unat p < next_async s"

definition async_inv :: "'z asys_scheme \<Rightarrow> bool" where
  "async_inv s \<longleftrightarrow> 0 < next_async s
     \<and> (\<forall>b p. state_of b s = Some p \<longrightarrow> allocated p s)
     \<and> (\<forall>p. allocated p s \<longrightarrow>
            sent p OpCleanup s = (if as_cleaned_up (asyncs s p) then 1 else 0)
          \<and> sent p OpCancel s = (if as_canceled (asyncs s p) then 1 else 0))
     \<and> (\<forall>p. \<not> allocated p s \<longrightarrow> sent p OpCleanup s = 0 \<and> sent p OpCancel s = 0)"

definition async_ext :: "'z asys_scheme \<Rightarrow> 'z asys_scheme \<Rightarrow> bool" where
  "async_ext s0 s \<longleftrightarrow> (\<forall>p. allocated p s0 \<longrightarrow>
       (as_status (asyncs s0 p) \<noteq> E_PENDING \<longrightarrow>
          as_status (asyncs s p) = as_status (asyncs s0 p)
          \<and> as_result_size (asyncs s p) = as_result_size (asyncs s0 p))
     \<and> (as_canceled (asyncs s0 p) \<longrightarrow> as_canceled (asyncs s p))
     \<and> (as_cleaned_up (asyncs s0 p) \<longrightarrow> as_cleaned_up (asyncs s p))
     \<and> as_provider (asyncs s p) = as_provider (asyncs s0 p)
     \<and> as_context (asyncs s p) = as_context (asyncs s0 p)
     \<and> as_identity (asyncs s p) = as_identity (asyncs s0 p)
     \<and> as_queue (asyncs s p) = as_queue (asyncs s0 p)
     \<and> as_block (asyncs s p) = as_block (asyncs s0 p))"

definition async_ok :: "'z asys_scheme \<Rightarrow> 'z asys_scheme \<Rightarrow> bool" where
  "async_ok s0 s \<longleftrightarrow> ports_ok s \<and> next_async s0 \<le> next_async s
     \<and> (next_async s < 2 ^ 64 \<longrightarrow> async_inv s \<and> async_ext s0 s)"

lemma async_ok_refl: "ports_ok s \<Longrightarrow> async_inv s \<Longrightarrow> async_ok s s"
  by (simp add: async_ok_def async_ext_def)

lemma async_okE:
  assumes "async_ok s0 s"
  obtains "ports_ok s" "next_async s0 \<le> next_async s"
    "next_async s < 2 ^ 64 \<Longrightarrow> async_inv s" "next_async s < 2 ^ 64 \<Longrightarrow> async_ext s0 s"
  using assms by (auto simp: async_ok_def)

text \<open>Whatever leaves the engine's own fields alone keeps the invariant.\<close>

lemma async_ok_frame:
  assumes "async_ok s0 s" "asyncs s' = asyncs s" "next_async s' = next_async s"
    "blocks s' = blocks s" "calls s' = calls s" "ports_ok s'"
  shows "async_ok s0 s'"
proof -
  have "state_of b s' = state_of b s" for b by (simp add: state_of_def assms(4))
  then show ?thesis using assms
    by (simp add: async_ok_def async_inv_def async_ext_def sent_def allocated_def)
qed

text \<open>Logging a call other than the two counted ones.\<close>

lemma async_ok_call:
  assumes "async_ok s0 s" "op \<noteq> OpCleanup" "op \<noteq> OpCancel"
  shows "async_ok s0 (s\<lparr>calls := calls s @ [(p, op)]\<rparr>)"
proof -
  have "state_of b (s\<lparr>calls := calls s @ [(p, op)]\<rparr>) = state_of b s" for b
    by (simp add: state_of_def)
  moreover have "sent q o' (s\<lparr>calls := calls s @ [(p, op)]\<rparr>)
      = sent q o' s + (if (q, o') = (p, op) then 1 else 0)" for q o'
    by (auto simp: sent_def)
  moreover have "ports_ok (s\<lparr>calls := calls s @ [(p, op)]\<rparr>) = ports_ok s"
    by (simp add: ports_ok_def)
  ultimately show ?thesis using assms
    by (auto simp: async_ok_def async_inv_def async_ext_def allocated_def)
qed

text \<open>Flagging a call and logging the operation the flag stands for.\<close>

lemma count_list_snoc [simp]: "count_list (xs @ [x]) y = count_list xs y + (if x = y then 1 else 0)"
  by (induction xs) auto

lemma async_ok_flag_call:
  assumes ok: "async_ok s0 s" and al: "allocated p s"
    and fl: "op = OpCleanup \<and> \<not> as_cleaned_up (asyncs s p)
          \<and> a = (asyncs s p)\<lparr>as_cleaned_up := True\<rparr>
      \<or> op = OpCancel \<and> \<not> as_canceled (asyncs s p) \<and> a = (asyncs s p)\<lparr>as_canceled := True\<rparr>"
  shows "async_ok s0 ((set_async p a s)\<lparr>calls := calls s @ [(p, op)]\<rparr>)"
proof -
  let ?s = "(set_async p a s)\<lparr>calls := calls s @ [(p, op)]\<rparr>"
  have st: "state_of b ?s = state_of b s" for b by (simp add: state_of_def set_async_def)
  have se: "sent q o' ?s = sent q o' s + (if (q, o') = (p, op) then 1 else 0)" for q o'
    by (auto simp: sent_def)
  have as: "asyncs ?s q = (if q = p then a else asyncs s q)" for q by (simp add: set_async_def)
  have po: "ports_ok ?s = ports_ok s" by (simp add: ports_ok_def set_async_def)
  have al': "allocated q ?s = allocated q s" for q by (simp add: allocated_def set_async_def)
  have nx: "next_async ?s = next_async s" by (simp add: set_async_def)
  show ?thesis
  proof (cases "next_async s < 2 ^ 64")
    case True
    with ok have i: "async_inv s" "async_ext s0 s" by (auto elim: async_okE)
    have "async_inv ?s" using i(1) al fl
      unfolding async_inv_def st se as al' nx by auto
    moreover have "async_ext s0 ?s" using i(2) fl
      unfolding async_ext_def as by auto
    ultimately show ?thesis using ok po nx by (simp add: async_ok_def)
  qed (use ok po nx in \<open>auto simp: async_ok_def\<close>)
qed

text \<open>Recording a completion of a pending call, and emptying a block.\<close>

lemma async_ok_complete:
  assumes ok: "async_ok s0 s" and pend: "as_status (asyncs s p) = E_PENDING"
    and a: "a = (asyncs s p)\<lparr>as_status := r, as_result_size := n\<rparr>"
  shows "async_ok s0 (set_async p a s)"
proof -
  let ?s = "set_async p a s"
  have st: "state_of b ?s = state_of b s" for b by (simp add: state_of_def set_async_def)
  have "as_canceled (asyncs ?s q) = as_canceled (asyncs s q)"
    "as_cleaned_up (asyncs ?s q) = as_cleaned_up (asyncs s q)" for q
    using a by (auto simp: set_async_def)
  then have "async_inv s \<Longrightarrow> async_inv ?s"
    unfolding async_inv_def st by (simp add: sent_def allocated_def set_async_def)
  moreover have "async_ext s0 s \<Longrightarrow> async_ext s0 ?s"
    using pend a unfolding async_ext_def by (auto simp: set_async_def)
  moreover have "ports_ok ?s = ports_ok s" by (simp add: ports_ok_def set_async_def)
  ultimately show ?thesis using ok by (auto simp: async_ok_def set_async_def)
qed

text \<open>A block whose private bytes are not live, or unchanged.\<close>

lemma async_ok_set_block:
  assumes "async_ok s0 s"
    and "b_internal x = replicate 32 0 \<or> b_internal x = b_internal (blocks s b)"
  shows "async_ok s0 (set_block b x s)"
proof -
  let ?s = "set_block b x s"
  have "le_u64 (replicate 8 0) \<noteq> SIGNATURE" by (simp add: SIGNATURE_def)
  then have "state_of b' ?s = Some p \<Longrightarrow> state_of b' s = Some p" for b' p
    using assms(2)
    by (auto simp: state_of_def set_block_def read_internal_def Let_def split: if_splits)
  moreover have "ports_ok ?s = ports_ok s" by (simp add: ports_ok_def set_block_def)
  ultimately show ?thesis using assms(1)
    by (auto simp: async_ok_def async_inv_def async_ext_def sent_def allocated_def set_block_def)
qed

lemma async_ok_take_state: "async_ok s0 s \<Longrightarrow> async_ok s0 (snd (take_state b s))"
  by (auto simp: take_state_def intro: async_ok_set_block split: option.split)

definition alloc_ok :: "u64 \<Rightarrow> 'z asys_scheme \<Rightarrow> bool" where
  "alloc_ok p s \<longleftrightarrow> (next_async s < 2 ^ 64 \<longrightarrow> allocated p s)"

lemma alloc_ok_later: "alloc_ok p s \<Longrightarrow> async_ok s s' \<Longrightarrow> alloc_ok p s'"
  by (auto simp: alloc_ok_def allocated_def elim: async_okE)

lemma async_ok_self: "async_ok s0 s \<Longrightarrow> async_ok s s"
  by (auto simp: async_ok_def async_ext_def)

lemma state_of_alloc: "async_ok s0 s \<Longrightarrow> state_of b s = Some p \<Longrightarrow> alloc_ok p s"
  by (auto simp: alloc_ok_def async_inv_def elim: async_okE)

text \<open>A failed \<open>Begin\<close> overwrites the status of a call that did not exist before.\<close>

lemma async_ok_new_status:
  assumes ok: "async_ok s0 s" and new: "next_async s < 2 ^ 64 \<Longrightarrow> \<not> allocated p s0"
  shows "async_ok s0 (set_async p ((asyncs s p)\<lparr>as_status := r\<rparr>) s)"
proof -
  let ?s = "set_async p ((asyncs s p)\<lparr>as_status := r\<rparr>) s"
  have st: "state_of b ?s = state_of b s" for b by (simp add: state_of_def set_async_def)
  have "as_canceled (asyncs ?s q) = as_canceled (asyncs s q)"
    "as_cleaned_up (asyncs ?s q) = as_cleaned_up (asyncs s q)" for q
    by (auto simp: set_async_def)
  then have "async_inv s \<Longrightarrow> async_inv ?s"
    unfolding async_inv_def st by (simp add: sent_def allocated_def set_async_def)
  moreover have "next_async s < 2 ^ 64 \<Longrightarrow> async_ext s0 s \<Longrightarrow> async_ext s0 ?s"
    using new unfolding async_ext_def by (auto simp: set_async_def)
  moreover have "ports_ok ?s = ports_ok s" by (simp add: ports_ok_def set_async_def)
  ultimately show ?thesis using ok by (auto simp: async_ok_def set_async_def)
qed

text \<open>The allocation of a new call.\<close>

lemma read_write_internal [simp]: "read_internal (write_internal b p) = (SIGNATURE, p)"
  by (simp add: read_internal_def write_internal_def)

lemma async_ok_allocate:
  assumes ok: "async_ok s0 s" and p: "p = of_nat (next_async s)"
    and a: "\<not> as_cleaned_up a" "\<not> as_canceled a"
    and s': "s' = set_block b (write_internal x p) ((set_async p a s)\<lparr>next_async := next_async s + 1\<rparr>)"
  shows "async_ok s0 s'" "alloc_ok p s'" "next_async s' < 2 ^ 64 \<Longrightarrow> \<not> allocated p s0"
proof -
  have n: "next_async s' = next_async s + 1" "calls s' = calls s"
    "asyncs s' = (asyncs s)(p := a)" by (simp_all add: s' set_block_def set_async_def)
  have po: "ports_ok s' = ports_ok s" by (simp add: s' ports_ok_def set_block_def set_async_def)
  have up: "unat p = next_async s" if "next_async s' < 2 ^ 64"
    using that p n by (simp add: unat_of_nat)
  show al0: "\<not> allocated p s0" if "next_async s' < 2 ^ 64"
    using up [OF that] ok by (auto simp: allocated_def elim: async_okE)
  have al: "allocated p s'" if "next_async s' < 2 ^ 64"
    using up [OF that] ok that n by (auto simp: allocated_def async_inv_def elim: async_okE)
  then show "alloc_ok p s'" by (simp add: alloc_ok_def)
  have "async_inv s' \<and> async_ext s0 s'" if b: "next_async s' < 2 ^ 64"
  proof
    have i: "async_inv s" and e: "async_ext s0 s" using ok b n by (auto elim: async_okE)
    have nal: "\<not> allocated p s" using up [OF b] by (simp add: allocated_def)
    have alq: "allocated q s' \<longleftrightarrow> q = p \<or> allocated q s" for q
      using up [OF b] al [OF b] n by (auto simp: allocated_def less_Suc_eq word_unat_eq_iff)
    have "state_of b' s' = Some q \<Longrightarrow> q = p \<or> state_of b' s = Some q" for b' q
      by (auto simp: state_of_def s' set_block_def set_async_def Let_def split: if_splits)
    then show "async_inv s'" using i nal a
      unfolding async_inv_def alq sent_def n by auto
    show "async_ext s0 s'" using e al0 [OF b] unfolding async_ext_def n by auto
  qed
  then show "async_ok s0 s'" using ok po n by (auto simp: async_ok_def)
qed

section \<open>The contract of the game's code\<close>

locale game_code =
  fixes env :: "'z aenv"
  assumes provider_ok: "async_ok s0 s \<Longrightarrow> async_ok s0 (snd (env_provider env f op b c buf n s))"
    and work_ok: "async_ok s0 s \<Longrightarrow> async_ok s0 (snd (env_work env f b s))"
    and completion_ok: "async_ok s0 s \<Longrightarrow> async_ok s0 (env_completion env f b s)"
    and task_ok: "async_ok s0 s \<Longrightarrow> async_ok s0 (env_task env f c canceled s)"
    and monitor_ok: "async_ok s0 s \<Longrightarrow> async_ok s0 (env_monitor env m h port s)"
    and terminated_ok: "async_ok s0 s \<Longrightarrow> async_ok s0 (env_terminated env f c s)"
    and future_ok: "async_ok s0 s \<Longrightarrow> async_ok s0 (snd (env_future env f s))"
begin

lemma run0_ok: "async_ok s0 s \<Longrightarrow> async_ok s0 (run0 env t canceled s)"
  by (simp add: run0_def task_ok completion_ok split: call.split)

end

text \<open>The obligations of \<open>callbacks\<close> that do not concern the callbacks themselves.\<close>

lemma async_ok_set_port: "async_ok s0 s \<Longrightarrow> port_ok p \<Longrightarrow> async_ok s0 (set_port pid p s)"
  by (rule async_ok_frame, assumption) (auto simp: set_port_def ports_ok_def elim: async_okE)

lemma async_ok_canonical:
  assumes "async_ok s0 s" "canonical_handle qid s = (h, s')"
  shows "async_ok s0 s'"
  by (rule async_ok_frame [OF assms(1)])
    (use assms in \<open>auto simp: canonical_handle_def Let_def set_queue_def ports_ok_def
        elim!: async_okE split: option.splits prod.splits\<close>)

lemma async_ok_set_queue: "async_ok s0 s \<Longrightarrow> async_ok s0 (set_queue qid q s)"
  by (rule async_ok_frame, assumption) (auto simp: set_queue_def ports_ok_def elim: async_okE)

lemma callbacks_async:
  assumes "\<And>s t c. async_ok s0 s \<Longrightarrow> async_ok s0 (run t c s)"
    and "\<And>s m h port. async_ok s0 s \<Longrightarrow> async_ok s0 (mon m h port s)"
  shows "callbacks run mon (async_ok s0)"
proof
  fix s s' :: "'a asys_scheme" and pid qid kind h n f l p
  assume ok: "async_ok s0 s"
  show "port_ok (ports s pid)" using ok by (auto simp: ports_ok_def elim: async_okE)
  show "async_ok s0 (s\<lparr>clock := n\<rparr>)" "async_ok s0 (s\<lparr>in_dispatch_of := f\<rparr>)"
    "async_ok s0 (s\<lparr>sleeping := l\<rparr>)"
    by (rule async_ok_frame [OF ok], use ok in \<open>auto simp: ports_ok_def elim: async_okE\<close>)+
qed (auto intro: assms async_ok_set_port async_ok_canonical async_ok_set_queue)

sublocale game_code \<subseteq> inner: callbacks "run0 env" "env_monitor env" "async_ok s0" for s0
  by (rule callbacks_async) (auto intro: run0_ok monitor_ok)

section \<open>The engine keeps the invariant\<close>

lemma async_ok_helper [simp]: "async_ok s0 (set_helper h x s) = async_ok s0 s"
proof
  show "async_ok s0 s" if "async_ok s0 (set_helper h x s)"
    by (rule async_ok_frame [OF that]) (use that in \<open>auto simp: set_helper_def ports_ok_def elim: async_okE\<close>)
  show "async_ok s0 (set_helper h x s)" if "async_ok s0 s"
    by (rule async_ok_frame [OF that]) (use that in \<open>auto simp: set_helper_def ports_ok_def elim: async_okE\<close>)
qed

lemma async_ok_buffers: "async_ok s0 s \<Longrightarrow> async_ok s0 (s\<lparr>buffers := x\<rparr>)"
  by (rule async_ok_frame, assumption) (auto simp: ports_ok_def elim: async_okE)

lemma run_sync_helper_call_ok:
  "async_ok s0 s \<Longrightarrow> async_ok s0 (snd (run_sync_helper_call op c buf s))"
  by (auto simp: run_sync_helper_call_def Let_def async_ok_buffers
      split: async_op.split option.split bool.split)

context game_code
begin

text \<open>\<open>invoke\<close> logs the call and runs the provider.\<close>

lemma invoke_logged:
  assumes "async_ok s0 (s\<lparr>calls := calls s @ [(p, op)]\<rparr>)"
  shows "async_ok s0 (snd (invoke env p op buf n s))"
  using assms by (auto simp: invoke_def Let_def run_provider_call_def run_sync_helper_call_ok
      intro: provider_ok work_ok split: provider.split async_op.split)

lemma invoke_ok:
  "async_ok s0 s \<Longrightarrow> op \<noteq> OpCleanup \<Longrightarrow> op \<noteq> OpCancel \<Longrightarrow> async_ok s0 (snd (invoke env p op buf n s))"
  by (intro invoke_logged async_ok_call)

lemma complete_ok:
  assumes "async_ok s0 s"
  shows "async_ok s0 (complete_state env p r n s)"
proof (cases "as_status (asyncs s p) = E_PENDING")
  case True
  define s1 where "s1 = set_async p ((asyncs s p)\<lparr>as_status := r, as_result_size := n\<rparr>) s"
  have s1: "async_ok s0 s1" unfolding s1_def using assms True refl by (rule async_ok_complete)
  have sub: "async_ok s0 s2" if "queue_submit (run0 env) (env_monitor env) q k c d s1 = (b, s2)" for q k c d b s2
    using s1 that by (rule inner.queue_submit_ok)
  show ?thesis using s1 sub True
    by (auto simp: complete_state_def Let_def simp flip: s1_def intro: completion_ok
        split: option.split prod.split bool.split)
qed (use assms in \<open>simp add: complete_state_def\<close>)

lemma cleanup_ok:
  assumes "async_ok s0 s" "alloc_ok p s"
  shows "async_ok s0 (cleanup env p s)"
proof (cases "as_cleaned_up (asyncs s p)")
  case False
  define s1 where "s1 = set_async p ((asyncs s p)\<lparr>as_cleaned_up := True\<rparr>) s"
  have c1: "calls s1 = calls s" by (simp add: s1_def set_async_def)
  have "async_ok s0 (s1\<lparr>calls := calls s1 @ [(p, OpCleanup)]\<rparr>)"
  proof (cases "next_async s < 2 ^ 64")
    case True
    with assms(2) have "allocated p s" by (simp add: alloc_ok_def)
    from async_ok_flag_call [OF assms(1) this] False show ?thesis unfolding c1 unfolding s1_def by simp
  next
    case big: False
    then show ?thesis using assms(1)
      by (auto simp: async_ok_def s1_def set_async_def ports_ok_def)
  qed
  then have "async_ok s0 (snd (invoke env p OpCleanup 0 0 s1))" by (rule invoke_logged)
  then have "async_ok s0 (snd (take_state b (snd (invoke env p OpCleanup 0 0 s1))))" for b
    by (rule async_ok_take_state)
  then show ?thesis using False by (simp add: cleanup_def Let_def split_beta flip: s1_def)
qed (use assms in \<open>simp add: cleanup_def\<close>)

lemma work_callback_ok: "async_ok s0 s \<Longrightarrow> async_ok s0 (work_callback env p canceled s)"
  using invoke_ok [of s0 s OpDoWork p 0 0]
  by (auto simp: work_callback_def split_beta intro: complete_ok)

lemma XAsyncComplete_ok: "async_ok s0 s \<Longrightarrow> async_ok s0 (XAsyncComplete env b r n s)"
  by (simp add: XAsyncComplete_def complete_ok split: option.split)

lemma run_sync_body_ok: "async_ok s0 s \<Longrightarrow> async_ok s0 (run_sync_body env h canceled s)"
  using future_ok [of s0 s "sh_future (helpers s h)"]
  by (auto simp: run_sync_body_def split: prod.split sum.split)

lemma run_sync_worker_ok: "async_ok s0 s \<Longrightarrow> async_ok s0 (run_sync_worker env h b canceled s)"
  by (simp add: run_sync_worker_def Let_def XAsyncComplete_ok run_sync_body_ok)

lemma run1_ok: "async_ok s0 s \<Longrightarrow> async_ok s0 (run1 env t canceled s)"
  by (simp add: run1_def work_callback_ok run_sync_worker_ok run0_ok split: call.split)

end

sublocale game_code \<subseteq> outer: callbacks "run1 env" "env_monitor env" "async_ok s0" for s0
  by (rule callbacks_async) (auto intro: run1_ok monitor_ok)

section \<open>Every entry point keeps the invariant\<close>

text \<open>Creating queues and handles does not touch the engine's own fields.\<close>

lemma async_ok_handles:
  "async_ok s0 s \<Longrightarrow> async_ok s0 (s\<lparr>queue_handles := t\<rparr>)"
  "async_ok s0 s \<Longrightarrow> async_ok s0 (s\<lparr>port_handles := t\<rparr>)"
  "async_ok s0 s \<Longrightarrow> async_ok s0 (s\<lparr>process_queue := o1\<rparr>)"
  "async_ok s0 s \<Longrightarrow> async_ok s0 (s\<lparr>process_queue_handle := o2\<rparr>)"
  "async_ok s0 s \<Longrightarrow> async_ok s0 (s\<lparr>queue_handles := t, process_queue_handle := o2\<rparr>)"
  "async_ok s0 s \<Longrightarrow> async_ok s0 (s\<lparr>run_sync_queue := o1\<rparr>)"
  "async_ok s0 s \<Longrightarrow> async_ok s0 (s\<lparr>terminators := ts\<rparr>)"
  "async_ok s0 s \<Longrightarrow> async_ok s0 (s\<lparr>time_sensitive := tf\<rparr>)"
  "async_ok s0 s \<Longrightarrow> async_ok s0 (s\<lparr>next_helper := nh\<rparr>)"
  "async_ok s0 s \<Longrightarrow> async_ok s0 (s\<lparr>clock := now\<rparr>)"
  by (rule async_ok_frame, assumption, auto simp: ports_ok_def elim: async_okE)+

lemma async_ok_queue_new:
  assumes "async_ok s0 s" "queue_new m1 m2 s = (q, s')"
  shows "async_ok s0 s'"
  by (rule async_ok_frame [OF assms(1)])
    (use assms in \<open>auto simp: queue_new_def port_create_def queue_composite_def context_new_def
        set_queue_def set_port_def ports_ok_def Let_def elim!: async_okE\<close>)

lemma async_ok_composite:
  assumes "async_ok s0 s" "queue_composite w c s = (q, s')"
  shows "async_ok s0 s'"
  by (rule async_ok_frame [OF assms(1)])
    (use assms in \<open>auto simp: queue_composite_def context_new_def
        set_queue_def set_port_def ports_ok_def Let_def elim!: async_okE\<close>)

lemma default_process_queue_ok:
  "async_ok s0 s \<Longrightarrow> default_process_queue s = (q, s') \<Longrightarrow> async_ok s0 s'"
  by (auto simp: default_process_queue_def intro: async_ok_queue_new async_ok_handles
      split: option.splits prod.splits)

lemma process_handle_ok:
  "async_ok s0 s \<Longrightarrow> get_process_queue_handle s = (h, s') \<Longrightarrow> async_ok s0 s'"
  by (auto simp: get_process_queue_handle_def Let_def split: option.splits prod.splits
      intro!: async_ok_handles intro: default_process_queue_ok)

lemma get_run_sync_queue_ok:
  "async_ok s0 s \<Longrightarrow> get_run_sync_queue s = (q, s') \<Longrightarrow> async_ok s0 s'"
  by (auto simp: get_run_sync_queue_def intro: async_ok_queue_new async_ok_handles
      split: option.splits prod.splits)

lemma is_process_queue_ok:
  "async_ok s0 s \<Longrightarrow> is_process_queue q s = (b, s') \<Longrightarrow> async_ok s0 s'"
  by (auto simp: is_process_queue_def split: prod.splits intro: default_process_queue_ok)

lemma queue_for_ok: "async_ok s0 s \<Longrightarrow> queue_for x s = (q, s') \<Longrightarrow> async_ok s0 s'"
  by (auto simp: queue_for_def split: if_splits prod.splits intro: default_process_queue_ok)

context game_code
begin

lemma invoke_begin_ok:
  assumes "async_ok s0 s"
  shows "async_ok s0 (snd (invoke_begin env p s))"
proof -
  have s1: "async_ok s0 (s\<lparr>calls := calls s @ [(p, OpBegin)]\<rparr>)"
    using assms by (rule async_ok_call) simp_all
  have rp: "async_ok s0 (snd (run_provider_begin env b t))" if "async_ok s0 t" for b t
    using that by (auto simp: run_provider_begin_def intro: outer.queue_submit_ok
        split: option.split prod.split bool.split)
  have rs: "async_ok s0 (snd (run_sync_begin env h b t))" if "async_ok s0 t" for h b t
    using that by (auto simp: run_sync_begin_def intro: outer.queue_submit_ok
        dest: get_run_sync_queue_ok intro!: run_sync_worker_ok split: prod.split bool.split)
  show ?thesis
    using provider_ok [OF s1] rp [OF s1] rs [OF s1]
    by (simp add: invoke_begin_def Let_def split: provider.split)
qed

lemma choose_queue_ok:
  "async_ok s0 s \<Longrightarrow> choose_queue b q s = (r, s') \<Longrightarrow> async_ok s0 s'"
  by (auto simp: choose_queue_def Let_def split: if_splits prod.splits
      intro!: async_ok_set_block dest: process_handle_ok is_process_queue_ok)

lemma start_call_ok:
  assumes ok: "async_ok s0 s" "alloc_ok p s" "next_async s < 2 ^ 64 \<Longrightarrow> \<not> allocated p s0"
  shows "async_ok s0 (snd (start_call env p s))"
proof -
  obtain hr s1 where s1: "invoke_begin env p s = (hr, s1)" by (cases "invoke_begin env p s")
  have ok1: "async_ok s0 s1" "async_ok s s1"
    using invoke_begin_ok [OF ok(1), of p] invoke_begin_ok [OF async_ok_self [OF ok(1)], of p] s1
    by simp_all
  have "\<not> allocated p s0" if "next_async s1 < 2 ^ 64"
    using that ok(3) ok1(2) by (auto elim: async_okE)
  then have s2: "async_ok s0 (set_async p ((asyncs s1 p)\<lparr>as_status := hr\<rparr>) s1)"
    using ok1(1) by (intro async_ok_new_status)
  have "alloc_ok p (set_async p ((asyncs s1 p)\<lparr>as_status := hr\<rparr>) s1)"
    using alloc_ok_later [OF ok(2) ok1(2)] by (simp add: alloc_ok_def allocated_def set_async_def)
  with s2 show ?thesis using s1 ok1(1) by (auto simp: start_call_def intro: cleanup_ok)
qed

lemma new_call_ok:
  assumes "async_ok s0 s" "new_call b c i pr q s = (p, s')"
  shows "async_ok s0 s'" "alloc_ok p s'" "next_async s' < 2 ^ 64 \<Longrightarrow> \<not> allocated p s0"
proof -
  define a where "a = \<lparr>as_provider = pr, as_context = c, as_identity = i, as_queue = q,
       as_block = b, as_status = E_PENDING, as_result_size = 0,
       as_canceled = False, as_cleaned_up = False\<rparr>"
  define s1 where "s1 = (set_async p a s)\<lparr>next_async := next_async s + 1\<rparr>"
  have p: "p = of_nat (next_async s)" and s': "s' = set_block b (write_internal (blocks s1 b) p) s1"
    using assms(2) by (auto simp: new_call_def Let_def a_def s1_def)
  have fl: "\<not> as_cleaned_up a" "\<not> as_canceled a" by (simp_all add: a_def)
  from async_ok_allocate [OF assms(1) p fl s' [unfolded s1_def]]
  show "async_ok s0 s'" "alloc_ok p s'" "next_async s' < 2 ^ 64 \<Longrightarrow> \<not> allocated p s0" .
qed

lemma XAsyncBegin_ok:
  assumes ok: "async_ok s0 s"
  shows "async_ok s0 (snd (XAsyncBegin env b c i pr s))"
proof -
  have fin: "async_ok s0 (snd (let (p, s3) = new_call b c i r q s2 in start_call env p s3))"
    if "async_ok s0 s2" for r q s2
    using new_call_ok [OF that] start_call_ok by (auto split: prod.split)
  obtain r s1 where q: "queue_for (blocks s b) s = (r, s1)" by (cases "queue_for (blocks s b) s")
  have s1: "async_ok s0 s1" using ok q by (rule queue_for_ok)
  have ch: "async_ok s0 (snd (case choose_queue b q s1 of
             (None, s2) \<Rightarrow> (E_ILLEGAL_METHOD_CALL, s2)
           | (Some q, s2) \<Rightarrow> let (p, s3) = new_call b c i r q s2 in start_call env p s3))" for q r
  proof -
    obtain x s2 where x: "choose_queue b q s1 = (x, s2)" by (cases "choose_queue b q s1")
    have "async_ok s0 s2" using s1 x by (rule choose_queue_ok)
    with fin x show ?thesis by (cases x) simp_all
  qed
  show ?thesis
  proof (cases "b = 0 \<or> pr = None \<or> state_of b s \<noteq> None")
    case True
    with ok show ?thesis by (cases pr) (auto simp: XAsyncBegin_def)
  next
    case False
    with q s1 ch show ?thesis by (cases r; cases pr) (simp_all add: XAsyncBegin_def)
  qed
qed

lemma XAsyncRun_ok: "async_ok s0 s \<Longrightarrow> async_ok s0 (snd (XAsyncRun env b w s))"
  by (simp add: XAsyncRun_def XAsyncBegin_ok)

lemma run_sync_ok:
  assumes "async_ok s0 s"
  shows "async_ok s0 (snd (run_sync env b f n s))"
proof -
  have "async_ok s0 (snd (XAsyncBegin env b h 0 (Some RunSyncHelper)
          ((set_helper h' x s)\<lparr>next_helper := nh\<rparr>)))" for h h' x nh
    using assms by (intro XAsyncBegin_ok async_ok_handles(9)) simp
  then show ?thesis using assms
    by (auto simp: run_sync_def Let_def split: prod.split) (metis snd_conv)+
qed

lemma XAsyncSchedule_ok: "async_ok s0 s \<Longrightarrow> async_ok s0 (snd (XAsyncSchedule env b d s))"
  by (auto simp: XAsyncSchedule_def intro: outer.queue_submit_ok complete_ok
      split: option.split prod.split bool.split)

lemma wait_completed_ok:
  "\<forall>w\<in>set ws. \<forall>s. async_ok s0 s \<longrightarrow> async_ok s0 (w s) \<Longrightarrow> async_ok s0 s \<Longrightarrow>
     async_ok s0 (snd (wait_completed p ws s))"
  by (induction p ws s rule: wait_completed.induct) auto

lemma XAsyncGetStatus_ok:
  assumes ws: "\<forall>w\<in>set ws. \<forall>s0 s. async_ok s0 s \<longrightarrow> async_ok s0 (w s)" and ok: "async_ok s0 s"
  shows "async_ok s0 (snd (XAsyncGetStatus env tid b wait ws s))"
proof (cases "state_of b s")
  case (Some p)
  define w where "w = (if wait \<and> as_status (asyncs s p) = E_PENDING \<and> \<not> in_dispatch_of s tid
       then wait_completed p ws s else (True, s))"
  have w1: "async_ok s1 (snd w)" if "async_ok s1 s" for s1
    using wait_completed_ok [of ws s1 s p] ws that by (simp add: w_def)
  have "alloc_ok p (snd w)"
    using state_of_alloc [OF ok Some] w1 [OF async_ok_self [OF ok]] by (rule alloc_ok_later)
  then show ?thesis
    using Some w1 [OF ok] by (auto simp: XAsyncGetStatus_def Let_def split_beta cleanup_ok
        simp flip: w_def)
qed (simp add: XAsyncGetStatus_def ok)

lemma XAsyncGetResult_ok:
  assumes ok: "async_ok s0 s"
  shows "async_ok s0 (snd (snd (XAsyncGetResult env b i n buf un s)))"
proof (cases "state_of b s")
  case (Some p)
  have al: "alloc_ok p s" using ok Some by (rule state_of_alloc)
  define s1 where "s1 = snd (invoke env p OpGetResult buf n s)"
  have s1: "async_ok s1' s1" if "async_ok s1' s" for s1'
    unfolding s1_def using that by (intro invoke_ok) simp_all
  have "alloc_ok p s1" using al s1 [OF async_ok_self [OF ok]] by (rule alloc_ok_later)
  then show ?thesis using Some al ok s1 [OF ok]
    by (simp add: XAsyncGetResult_def Let_def split_beta cleanup_ok flip: s1_def)
qed (simp add: XAsyncGetResult_def ok)

lemma XAsyncCancel_ok:
  assumes ok: "async_ok s0 s"
  shows "async_ok s0 (XAsyncCancel env b s)"
proof (cases "\<exists>p. state_of b s = Some p \<and> as_status (asyncs s p) = E_PENDING \<and> \<not> as_canceled (asyncs s p)")
  case True
  then obtain p where p: "state_of b s = Some p" "as_status (asyncs s p) = E_PENDING"
    "\<not> as_canceled (asyncs s p)" by auto
  define s1 where "s1 = set_async p ((asyncs s p)\<lparr>as_canceled := True\<rparr>) s"
  have c1: "calls s1 = calls s" by (simp add: s1_def set_async_def)
  have "async_ok s0 (s1\<lparr>calls := calls s1 @ [(p, OpCancel)]\<rparr>)"
  proof (cases "next_async s < 2 ^ 64")
    case True
    with state_of_alloc [OF ok p(1)] have "allocated p s" by (simp add: alloc_ok_def)
    from async_ok_flag_call [OF ok this] p(3) show ?thesis unfolding c1 unfolding s1_def by simp
  next
    case False
    then show ?thesis using ok by (auto simp: async_ok_def s1_def set_async_def ports_ok_def)
  qed
  then have s2: "async_ok s0 (snd (invoke env p OpCancel 0 0 s1))" by (rule invoke_logged)
  have sub: "async_ok s0 (snd (queue_submit (run1 env) (env_monitor env) q k c d t))"
    if "async_ok s0 t" for q k c d t
    using that by (rule outer.queue_submit_ok [OF _ prod.collapse [symmetric]])
  show ?thesis using p s2 sub [OF s2]
    by (auto simp: XAsyncCancel_def Let_def split_beta simp flip: s1_def
        intro: complete_ok split: bool.split)
qed (use ok in \<open>auto simp: XAsyncCancel_def Let_def split: option.split\<close>)

text \<open>The queue entry points.\<close>

lemma XTaskQueueDispatch_ok:
  assumes "\<forall>(tick, w)\<in>set sched. \<forall>s. async_ok s0 s \<longrightarrow> async_ok s0 (w s)" "async_ok s0 s"
  shows "async_ok s0 (snd (XTaskQueueDispatch env tid q port t sched s))"
  using outer.dispatch_ok [OF assms(2,1)] assms(2)
  by (simp add: XTaskQueueDispatch_def split: option.split)

lemma XTaskQueueSubmitDelayedCallback_ok:
  "async_ok s0 s \<Longrightarrow> async_ok s0 (snd (XTaskQueueSubmitDelayedCallback env q port d c cb s))"
  by (auto simp: XTaskQueueSubmitDelayedCallback_def intro: outer.queue_submit_ok
      split: option.split prod.split bool.split)

lemma terminate_and_call_ok:
  assumes "async_ok s0 s" "\<forall>w\<in>set ws. \<forall>s. async_ok s0 s \<longrightarrow> async_ok s0 (w s)"
    "\<forall>w\<in>set ws'. \<forall>s. async_ok s0 s \<longrightarrow> async_ok s0 (w s)"
  shows "async_ok s0 (snd (terminate_and_call env q t ws ws' s))"
  using outer.queue_terminate_ok [OF assms, of q True]
  by (auto simp: terminate_and_call_def intro: terminated_ok split: prod.split bool.split option.split)

lemma XTaskQueueTerminate_ok:
  assumes "async_ok s0 s" "\<forall>w\<in>set ws. \<forall>s. async_ok s0 s \<longrightarrow> async_ok s0 (w s)"
    "\<forall>w\<in>set ws'. \<forall>s. async_ok s0 s \<longrightarrow> async_ok s0 (w s)"
  shows "async_ok s0 (snd (XTaskQueueTerminate env q wait c cb ws ws' s))"
  using terminate_and_call_ok [OF assms] assms(1)
  by (simp add: XTaskQueueTerminate_def Let_def async_ok_handles split: option.split)

lemma run_terminator_ok:
  assumes "async_ok s0 s" "\<forall>w\<in>set ws. \<forall>s. async_ok s0 s \<longrightarrow> async_ok s0 (w s)"
    "\<forall>w\<in>set ws'. \<forall>s. async_ok s0 s \<longrightarrow> async_ok s0 (w s)"
  shows "async_ok s0 (snd (run_terminator env i ws ws' s))"
  using terminate_and_call_ok [OF async_ok_handles(7) [OF assms(1)] assms(2,3)] assms(1)
  by (simp add: run_terminator_def split_beta)

lemma fire_sleeping_run1_ok: "async_ok s0 s \<Longrightarrow> async_ok s0 (fire_sleeping (run1 env) i s)"
  by (rule outer.fire_sleeping_ok)

lemma worker_ok:
  "\<forall>(tick, w)\<in>set sched. \<forall>s. async_ok s0 s \<longrightarrow> async_ok s0 (w s) \<Longrightarrow> async_ok s0 s \<Longrightarrow>
     async_ok s0 (worker (run1 env) pid sched s)"
proof (induction "run1 env" pid sched s rule: worker.induct)
  case (1 pid sched s)
  obtain r sched' s1 where w: "wait_for_task None pid sched s = (r, sched', s1)"
    by (cases "wait_for_task None pid sched s")
  have s1: "async_ok s0 s1" "set sched' \<subseteq> set sched"
    using outer.wait_for_task_ok [OF 1(2,3) w] by simp_all
  show ?case
  proof (cases r)
    case (Took t)
    define s2 where "s2 = run1 env t False s1"
    have s2: "async_ok s0 s2" unfolding s2_def using s1(1) by (rule run1_ok)
    then have "port_ok (ports s2 pid)" by (auto simp: ports_ok_def elim: async_okE)
    with s2 have s3: "async_ok s0 (set_port pid (finish_one (clock s2) (ports s2 pid)) s2)"
      by (intro async_ok_set_port) simp_all
    have "\<forall>(tick, w)\<in>set sched'. \<forall>s. async_ok s0 s \<longrightarrow> async_ok s0 (w s)"
      using 1(2) s1(2) by blast
    from 1(1) [OF w [symmetric] Took refl s2_def this s3] w Took show ?thesis
      by (subst worker.simps) (simp add: s2_def Let_def)
  qed (use w s1(1) in \<open>subst worker.simps, simp\<close>)+
qed

end

section \<open>Programs of API calls\<close>

text \<open>
  Game code as programs: sequences of API calls that may branch on the state. The schedules of
  the blocking calls are what other threads run meanwhile, programs too. \<open>AInit\<close> is the caller
  filling in a block before it begins a call, \<open>AWrite\<close> a provider writing a result,
  \<open>ATick\<close>, \<open>AFire\<close>, \<open>AWorker\<close> and \<open>ATerminator\<close> the passing of time and the runtime's threads.
\<close>

datatype 's api =
    AInit u64 u64 "u64 option"
  | ABegin u64 u64 u64 "provider option"
  | ARun u64 u64
  | ARunSync u64 u64 u64
  | ASchedule u64 u32
  | AComplete u64 hresult u64
  | AGetStatus nat u64 bool "'s api list list"
  | AGetResult u64 u64 u64 u64 bool
  | ACancel u64
  | AWrite u64 "u8 list"
  | AQueueCreate u64 u64
  | AComposite u64 u64
  | AGetPort u64 u64
  | ADuplicate u64
  | AClose u64
  | ADispatch nat u64 u64 u32 "(nat \<times> 's api list) list"
  | ASubmit u64 u64 u32 u64 "u64 option"
  | ATerminate u64 bool u64 "u64 option" "'s api list list" "'s api list list"
  | AMonitor u64 u64 "u64 option"
  | AUnmonitor u64 u64
  | AGetProcess
  | ASetProcess u64
  | ATick nat
  | AFire nat
  | AWorker nat "(nat \<times> 's api list) list"
  | ATerminator nat "'s api list list" "'s api list list"
  | AIf "'s \<Rightarrow> bool" "'s api list" "'s api list"

definition in_order :: "('s \<Rightarrow> 's) list \<Rightarrow> 's \<Rightarrow> 's" where
  "in_order fs s = fold (\<lambda>f. f) fs s"

primrec exec :: "'z aenv \<Rightarrow> 'z asys_scheme api \<Rightarrow> 'z asys_scheme \<Rightarrow> 'z asys_scheme" where
  "exec env (AInit b q cb) =
     set_block b \<lparr>b_queue = q, b_callback = cb, b_internal = replicate 32 0\<rparr>"
| "exec env (ABegin b c i pr) = (\<lambda>s. snd (XAsyncBegin env b c i pr s))"
| "exec env (ARun b w) = (\<lambda>s. snd (XAsyncRun env b w s))"
| "exec env (ARunSync b f n) = (\<lambda>s. snd (run_sync env b f n s))"
| "exec env (ASchedule b d) = (\<lambda>s. snd (XAsyncSchedule env b d s))"
| "exec env (AComplete b r n) = XAsyncComplete env b r n"
| "exec env (AGetStatus tid b wait ws) =
     (\<lambda>s. snd (XAsyncGetStatus env tid b wait (map in_order (map (map (exec env)) ws)) s))"
| "exec env (AGetResult b i n buf un) = (\<lambda>s. snd (snd (XAsyncGetResult env b i n buf un s)))"
| "exec env (ACancel b) = XAsyncCancel env b"
| "exec env (AWrite a bytes) = (\<lambda>s. s\<lparr>buffers := (buffers s)(a := bytes)\<rparr>)"
| "exec env (AQueueCreate w c) = (\<lambda>s. snd (snd (XTaskQueueCreate w c False s)))"
| "exec env (AComposite w c) = (\<lambda>s. snd (snd (XTaskQueueCreateComposite w c False s)))"
| "exec env (AGetPort q p) = (\<lambda>s. snd (snd (XTaskQueueGetPort q p False s)))"
| "exec env (ADuplicate q) = (\<lambda>s. snd (snd (XTaskQueueDuplicateHandle q False s)))"
| "exec env (AClose q) = XTaskQueueCloseHandle q"
| "exec env (ADispatch tid q p t ws) =
     (\<lambda>s. snd (XTaskQueueDispatch env tid q p t
        (map (map_prod id in_order) (map (map_prod id (map (exec env))) ws)) s))"
| "exec env (ASubmit q p d c cb) = (\<lambda>s. snd (XTaskQueueSubmitDelayedCallback env q p d c cb s))"
| "exec env (ATerminate q w c cb ws ws') =
     (\<lambda>s. snd (XTaskQueueTerminate env q w c cb (map in_order (map (map (exec env)) ws))
        (map in_order (map (map (exec env)) ws')) s))"
| "exec env (AMonitor q c cb) = (\<lambda>s. snd (snd (XTaskQueueRegisterMonitor q c cb False s)))"
| "exec env (AUnmonitor q t) = XTaskQueueUnregisterMonitor q t"
| "exec env AGetProcess = (\<lambda>s. snd (snd (XTaskQueueGetCurrentProcessTaskQueue False s)))"
| "exec env (ASetProcess q) = XTaskQueueSetCurrentProcessTaskQueue q"
| "exec env (ATick n) = (\<lambda>s. s\<lparr>clock := clock s + n\<rparr>)"
| "exec env (AFire i) = fire_sleeping (run1 env) i"
| "exec env (AWorker pid ws) =
     worker (run1 env) pid (map (map_prod id in_order) (map (map_prod id (map (exec env))) ws))"
| "exec env (ATerminator i ws ws') =
     (\<lambda>s. snd (run_terminator env i (map in_order (map (map (exec env)) ws))
        (map in_order (map (map (exec env)) ws')) s))"
| "exec env (AIf c p q) =
     (\<lambda>s. if c s then in_order (map (exec env) p) s else in_order (map (exec env) q) s)"

definition exec_all :: "'z aenv \<Rightarrow> 'z asys_scheme api list \<Rightarrow> 'z asys_scheme \<Rightarrow> 'z asys_scheme" where
  "exec_all env prog = in_order (map (exec env) prog)"

text \<open>A book names the program behind every function pointer, with the value it returns;
  \<open>env_of bk n\<close> runs them with callbacks nested up to \<open>n\<close> deep.\<close>

record 's book =
  bk_provider :: "u64 \<Rightarrow> async_op \<Rightarrow> u64 \<Rightarrow> u64 \<Rightarrow> u64 \<Rightarrow> u64 \<Rightarrow> hresult \<times> 's api list"
  bk_work :: "u64 \<Rightarrow> u64 \<Rightarrow> hresult \<times> 's api list"
  bk_completion :: "u64 \<Rightarrow> u64 \<Rightarrow> 's api list"
  bk_task :: "u64 \<Rightarrow> u64 \<Rightarrow> bool \<Rightarrow> 's api list"
  bk_monitor :: "u64 \<times> u64 \<Rightarrow> u64 \<Rightarrow> u32 \<Rightarrow> 's api list"
  bk_terminated :: "u64 \<Rightarrow> u64 \<Rightarrow> 's api list"
  bk_future :: "u64 \<Rightarrow> u8 list outcome \<times> 's api list"

definition env_by ::
  "'z asys_scheme book \<Rightarrow> ('z asys_scheme api list \<Rightarrow> 'z asys_scheme \<Rightarrow> 'z asys_scheme) \<Rightarrow> 'z aenv"
where
  "env_by bk ex =
     \<lparr>env_provider = (\<lambda>f op b c buf n s. map_prod id (\<lambda>p. ex p s) (bk_provider bk f op b c buf n)),
      env_work = (\<lambda>f b s. map_prod id (\<lambda>p. ex p s) (bk_work bk f b)),
      env_completion = (\<lambda>f b. ex (bk_completion bk f b)),
      env_task = (\<lambda>f c canceled. ex (bk_task bk f c canceled)),
      env_monitor = (\<lambda>m h port. ex (bk_monitor bk m h port)),
      env_terminated = (\<lambda>f c. ex (bk_terminated bk f c)),
      env_future = (\<lambda>f s. map_prod id (\<lambda>p. ex p s) (bk_future bk f))\<rparr>"

primrec env_of :: "'z asys_scheme book \<Rightarrow> nat \<Rightarrow> 'z aenv" where
  "env_of bk 0 = env_by bk (\<lambda>p s. s)"
| "env_of bk (Suc n) = env_by bk (exec_all (env_of bk n))"

lemma in_order_ok:
  "\<forall>f\<in>set fs. \<forall>s. async_ok s0 s \<longrightarrow> async_ok s0 (f s) \<Longrightarrow> async_ok s0 s \<Longrightarrow> async_ok s0 (in_order fs s)"
  unfolding in_order_def by (induction fs arbitrary: s) auto

lemma in_order_sched_ok:
  assumes "\<forall>l\<in>set ws. \<forall>a\<in>set l. \<forall>s0 s. async_ok s0 s \<longrightarrow> async_ok s0 (ex a s)"
  shows "\<forall>w\<in>set (map in_order (map (map ex) ws)). \<forall>s0 s. async_ok s0 s \<longrightarrow> async_ok s0 (w s)"
  using assms by (auto intro!: in_order_ok)

lemma in_order_pairs_ok:
  assumes "\<forall>l\<in>set ws. \<forall>a\<in>set (snd l). \<forall>s0 s. async_ok s0 s \<longrightarrow> async_ok s0 (ex a s)"
  shows "\<forall>(tick, w)\<in>set (map (map_prod id in_order) (map (map_prod id (map ex)) ws)).
     \<forall>s. async_ok s0 s \<longrightarrow> async_ok s0 (w s)"
  using assms by (fastforce intro!: in_order_ok)

text \<open>Entry points that only touch handles, queues and monitors.\<close>

lemma handle_calls_ok:
  assumes "async_ok s0 s"
  shows "async_ok s0 (snd (snd (XTaskQueueCreate w c on s)))"
    and "async_ok s0 (snd (snd (XTaskQueueCreateComposite wp cp on s)))"
    and "async_ok s0 (snd (snd (XTaskQueueGetPort q p on s)))"
    and "async_ok s0 (snd (snd (XTaskQueueDuplicateHandle q on s)))"
    and "async_ok s0 (XTaskQueueCloseHandle q s)"
    and "async_ok s0 (snd (snd (XTaskQueueRegisterMonitor q mc cb on s)))"
    and "async_ok s0 (XTaskQueueUnregisterMonitor q t s)"
    and "async_ok s0 (snd (snd (XTaskQueueGetCurrentProcessTaskQueue on s)))"
    and "async_ok s0 (XTaskQueueSetCurrentProcessTaskQueue q s)"
  using assms
  by (auto simp: XTaskQueueCreate_def XTaskQueueCreateComposite_def XTaskQueueGetPort_def
      XTaskQueueDuplicateHandle_def XTaskQueueCloseHandle_def XTaskQueueRegisterMonitor_def
      XTaskQueueUnregisterMonitor_def XTaskQueueGetCurrentProcessTaskQueue_def
      XTaskQueueSetCurrentProcessTaskQueue_def set_process_queue_def register_monitor_def
      unregister_monitor_def Let_def split: option.split prod.split
      intro: async_ok_handles async_ok_queue_new async_ok_composite async_ok_set_queue
        default_process_queue_ok)

context game_code
begin

lemma exec_ok: "async_ok s0 s \<Longrightarrow> async_ok s0 (exec env a s)"
proof (induction a arbitrary: s0 s)
  case (AInit b q cb)
  then show ?case by (auto intro: async_ok_set_block)
next
  case (AGetStatus tid b wait ws)
  show ?case unfolding exec.simps
    by (rule XAsyncGetStatus_ok [OF in_order_sched_ok AGetStatus.prems]) (use AGetStatus.IH in auto)
next
  case (ADispatch tid q p t ws)
  show ?case unfolding exec.simps
    by (rule XTaskQueueDispatch_ok [OF in_order_pairs_ok ADispatch.prems])
      (use ADispatch.IH in \<open>fastforce simp: snds.simps\<close>)
next
  case (ATerminate q w c cb ws ws')
  have *: "\<forall>w\<in>set (map in_order (map (map (exec env)) ws)). \<forall>s0 s. async_ok s0 s \<longrightarrow> async_ok s0 (w s)"
    "\<forall>w\<in>set (map in_order (map (map (exec env)) ws')). \<forall>s0 s. async_ok s0 s \<longrightarrow> async_ok s0 (w s)"
    by (rule in_order_sched_ok, use ATerminate.IH in blast)+
  show ?case unfolding exec.simps
    by (rule XTaskQueueTerminate_ok [OF ATerminate.prems]) (use * in blast)+
next
  case (ATerminator i ws ws')
  have *: "\<forall>w\<in>set (map in_order (map (map (exec env)) ws)). \<forall>s0 s. async_ok s0 s \<longrightarrow> async_ok s0 (w s)"
    "\<forall>w\<in>set (map in_order (map (map (exec env)) ws')). \<forall>s0 s. async_ok s0 s \<longrightarrow> async_ok s0 (w s)"
    by (rule in_order_sched_ok, use ATerminator.IH in blast)+
  show ?case unfolding exec.simps
    by (rule run_terminator_ok [OF ATerminator.prems]) (use * in blast)+
next
  case (AWorker pid ws)
  show ?case unfolding exec.simps
    by (rule worker_ok [OF in_order_pairs_ok AWorker.prems])
      (use AWorker.IH in \<open>fastforce simp: snds.simps\<close>)
next
  case (AIf c p q)
  then show ?case by (auto intro!: in_order_ok)
qed (simp_all add: XAsyncBegin_ok XAsyncRun_ok run_sync_ok XAsyncSchedule_ok XAsyncComplete_ok
    XAsyncGetResult_ok XAsyncCancel_ok async_ok_buffers handle_calls_ok
    XTaskQueueSubmitDelayedCallback_ok async_ok_handles fire_sleeping_run1_ok)

lemma exec_all_ok: "async_ok s0 s \<Longrightarrow> async_ok s0 (exec_all env prog s)"
  unfolding exec_all_def by (rule in_order_ok) (auto intro: exec_ok)

end

lemma game_code_by:
  assumes "\<And>s0 s p. async_ok s0 s \<Longrightarrow> async_ok s0 (ex p s)"
  shows "game_code (env_by bk ex)"
  by unfold_locales (simp_all add: env_by_def assms)

lemma game_code_env_of: "game_code (env_of bk n)"
  by (induction n) (auto intro: game_code_by game_code.exec_all_ok)

interpretation scripted: game_code "env_of bk n" for bk n
  by (rule game_code_env_of)

section \<open>From a fresh runtime\<close>

definition boot :: "nat option \<Rightarrow> asys" where
  "boot par = \<lparr>clock = 0, parallelism = par, ports = (\<lambda>pid. port_new Manual), next_port = 0,
     next_context_id = 1,
     queues = (\<lambda>q. \<lparr>q_work = \<lparr>pc_port = 0, pc_owner = 0, pc_terminated = True\<rparr>,
        q_completion = \<lparr>pc_port = 0, pc_owner = 0, pc_terminated = True\<rparr>,
        q_monitors = [], q_next_token = 1, q_canonical = None\<rparr>),
     next_queue = 0, queue_handles = ht_new, port_handles = ht_new, process_queue = None,
     process_queue_handle = None, sleeping = [], in_dispatch_of = (\<lambda>t. False),
     asyncs = (\<lambda>p. \<lparr>as_provider = RunProvider, as_context = 0, as_identity = 0, as_queue = 0,
        as_block = 0, as_status = E_PENDING, as_result_size = 0, as_canceled = False,
        as_cleaned_up = False\<rparr>),
     next_async = 1, blocks = (\<lambda>b. \<lparr>b_queue = 0, b_callback = None, b_internal = replicate 32 0\<rparr>),
     helpers = (\<lambda>h. \<lparr>sh_result = S_OK, sh_canceled = False, sh_payload = None, sh_future = 0,
        sh_size = 0, sh_live = False\<rparr>),
     next_helper = 1, buffers = (\<lambda>a. []), run_sync_queue = None, terminators = [],
     time_sensitive = (\<lambda>t. False), calls = []\<rparr>"

lemma boot_ok: "async_ok (boot par) (boot par)"
proof (rule async_ok_refl)
  show "ports_ok (boot par)" by (simp add: ports_ok_def boot_def)
  have "state_of b (boot par) = None" for b
    by (simp add: state_of_def boot_def read_internal_def SIGNATURE_def Let_def)
  then show "async_inv (boot par)"
    by (simp add: async_inv_def sent_def) (simp add: boot_def)
qed

section \<open>An example call\<close>

text \<open>A call on the process queue whose provider completes it with \<open>E_ABORT\<close> when it is asked to
  cancel: the states after filling in the block at address 16, creating the process queue,
  beginning the call, and cancelling it.\<close>

definition demo_book :: "asys book" where
  "demo_book = \<lparr>bk_provider = (\<lambda>f op b c buf n. (S_OK, if op = OpCancel then [AComplete b E_ABORT 0] else [])),
     bk_work = (\<lambda>f b. (S_OK, [])), bk_completion = (\<lambda>f b. []), bk_task = (\<lambda>f c canceled. []),
     bk_monitor = (\<lambda>m h port. []), bk_terminated = (\<lambda>f c. []), bk_future = (\<lambda>f. (Inr [], []))\<rparr>"

definition demo_env :: "unit aenv" where
  "demo_env = env_of demo_book (Suc 0)"

lemma exec_all_simps [simp]:
  "exec_all env [] s = s" "exec_all env (a # prog) s = exec_all env prog (exec env a s)"
  by (simp_all add: exec_all_def in_order_def)

lemma demo_provider [simp]:
  "env_provider demo_env f op b c buf n s
     = (S_OK, if op = OpCancel then XAsyncComplete (env_of demo_book 0) b E_ABORT 0 s else s)"
  by (simp add: demo_env_def env_by_def demo_book_def)

definition demo_block :: block where
  "demo_block = \<lparr>b_queue = 0, b_callback = None, b_internal = replicate 32 0\<rparr>"

definition demo0 :: asys where
  "demo0 = set_block 16 demo_block (boot None)"

definition demo1 :: asys where
  "demo1 = snd (default_process_queue demo0)"

lemma demo0_simps [simp]:
  "state_of 16 demo0 = None" "blocks demo0 16 = demo_block" "process_queue demo0 = None"
  "process_queue_handle demo0 = None" "next_async demo0 = 1" "calls demo0 = []"
  "queue_handles demo0 = ht_new" "next_queue demo0 = 0"
  by (simp_all add: demo0_def demo_block_def state_of_def set_block_def read_internal_def
      SIGNATURE_def Let_def boot_def)

lemma demo_process [simp]: "default_process_queue demo0 = (0, demo1)"
  by (simp add: demo1_def default_process_queue_def queue_new_def queue_composite_def Let_def
      port_create_def context_new_def set_port_def)

lemma demo1_simps [simp]:
  "blocks demo1 16 = demo_block" "process_queue demo1 = Some 0"
  "process_queue_handle demo1 = None" "next_async demo1 = 1" "calls demo1 = []"
  "queue_handles demo1 = ht_new"
  by (simp_all add: demo1_def default_process_queue_def queue_new_def queue_composite_def Let_def
      port_create_def context_new_def set_port_def set_queue_def)

definition demo2 :: asys where
  "demo2 = snd (XAsyncBegin demo_env 16 0 0 (Some (GameProvider 1)) demo0)"

lemma demo2_simps:
  "state_of 16 demo2 = Some 1" "next_async demo2 = 2" "calls demo2 = [(1, OpBegin)]"
  "b_callback (blocks demo2 16) = None"
  "asyncs demo2 1 = \<lparr>as_provider = GameProvider 1, as_context = 0, as_identity = 0, as_queue = 0,
     as_block = 16, as_status = E_PENDING, as_result_size = 0, as_canceled = False,
     as_cleaned_up = False\<rparr>"
  by (simp_all add: demo2_def XAsyncBegin_def queue_for_def choose_queue_def demo_block_def
      get_process_queue_handle_def default_process_queue_def [of demo1] ht_create_def ht_new_def Let_def new_call_def start_call_def
      invoke_begin_def set_block_def set_async_def state_of_def read_internal_def write_internal_def)
definition demo3 :: asys where
  "demo3 = XAsyncCancel demo_env 16 demo2"
lemma demo3_simps:
  "state_of 16 demo3 = Some 1" "next_async demo3 = 2" "calls demo3 = [(1, OpBegin), (1, OpCancel)]"
  "as_status (asyncs demo3 1) = E_ABORT" "\<not> as_cleaned_up (asyncs demo3 1)" "as_result_size (asyncs demo3 1) = 0"
  "as_block (asyncs demo3 1) = 16" "as_provider (asyncs demo3 1) = GameProvider 1"
proof -
  have st: "state_of 16 (demo2\<lparr>asyncs := x, calls := y\<rparr>) = Some 1" for x y
    using demo2_simps(1) by (simp add: state_of_def)
  have st2: "state_of 16 (demo2\<lparr>calls := y, asyncs := x\<rparr>) = Some 1" for x y
    using demo2_simps(1) by (simp add: state_of_def)
  show "state_of 16 demo3 = Some 1" "next_async demo3 = 2" "calls demo3 = [(1, OpBegin), (1, OpCancel)]"
  "as_status (asyncs demo3 1) = E_ABORT" "\<not> as_cleaned_up (asyncs demo3 1)" "as_result_size (asyncs demo3 1) = 0"
  "as_block (asyncs demo3 1) = 16" "as_provider (asyncs demo3 1) = GameProvider 1"
    by (simp_all add: demo3_def XAsyncCancel_def demo2_simps set_async_def Let_def invoke_def
     XAsyncComplete_def st st2 complete_state_def)
qed

lemma demo3_run:
  "exec_all (env_of demo_book (Suc 0))
     [AInit 16 0 None, ABegin 16 0 0 (Some (GameProvider 1)), ACancel 16] (boot None) = demo3"
  by (simp add: demo3_def demo2_def demo0_def demo_block_def demo_env_def)

section \<open>What holds of every run\<close>

text \<open>C3: over any program of API calls from a fresh runtime, with arbitrary game code nested to
  any depth inside the calls, every provider receives \<open>Cleanup\<close> at most once (exactly once when
  the call is marked cleaned up, never otherwise) and \<open>Cancel\<close> at most once.\<close>

theorem cleanup_and_cancel_at_most_once:
  assumes "s = exec_all (env_of bk n) prog (boot par)" "next_async s < 2 ^ 64"
  shows "sent p OpCleanup s \<le> 1 \<and> sent p OpCancel s \<le> 1
     \<and> (allocated p s \<longrightarrow> (sent p OpCleanup s = 1 \<longleftrightarrow> as_cleaned_up (asyncs s p)))"
proof -
  have "async_ok (boot par) s" unfolding assms(1) by (rule scripted.exec_all_ok [OF boot_ok])
  with assms(2) have "async_inv s" by (auto elim: async_okE)
  then show ?thesis by (cases "allocated p s") (auto simp: async_inv_def)
qed

lemma cleanup_and_cancel_at_most_once_witness:
  "sent 1 OpCleanup demo3 \<le> 1 \<and> sent 1 OpCancel demo3 \<le> 1 \<and> sent 1 OpCancel demo3 = 1"
proof -
  have "next_async demo3 < 2 ^ 64" by (simp add: demo3_simps)
  from cleanup_and_cancel_at_most_once [OF demo3_run [symmetric] this, of 1]
  show ?thesis by (simp add: sent_def demo3_simps)
qed

text \<open>C2: a completion is final. Once a call that has begun is completed, no later program of
  API calls and game code changes its status or its result size, and it stays bound to its
  provider, context, queue and block.\<close>

theorem completion_is_final:
  assumes "s1 = exec_all (env_of bk n) prog1 (boot par)" "s2 = exec_all (env_of bk n) prog2 s1"
    and "next_async s2 < 2 ^ 64" "allocated p s1" "as_status (asyncs s1 p) \<noteq> E_PENDING"
  shows "as_status (asyncs s2 p) = as_status (asyncs s1 p)
     \<and> as_result_size (asyncs s2 p) = as_result_size (asyncs s1 p)
     \<and> as_provider (asyncs s2 p) = as_provider (asyncs s1 p)
     \<and> as_context (asyncs s2 p) = as_context (asyncs s1 p)
     \<and> as_queue (asyncs s2 p) = as_queue (asyncs s1 p)
     \<and> as_block (asyncs s2 p) = as_block (asyncs s1 p)"
proof -
  have "async_ok s1 s1" unfolding assms(1)
    by (rule async_ok_self [OF scripted.exec_all_ok [OF boot_ok]])
  then have "async_ok s1 s2" unfolding assms(2) by (rule scripted.exec_all_ok)
  with assms(3) have "async_ext s1 s2" by (auto elim: async_okE)
  with assms(4,5) show ?thesis by (auto simp: async_ext_def)
qed

lemma completion_is_final_witness:
  "as_status (asyncs (XAsyncComplete demo_env 16 S_OK 8 demo3) 1) = E_ABORT"
proof -
  have s2: "XAsyncComplete demo_env 16 S_OK 8 demo3
      = exec_all (env_of demo_book (Suc 0)) [AComplete 16 S_OK 8] demo3"
    by (simp add: demo_env_def)
  have "next_async (XAsyncComplete demo_env 16 S_OK 8 demo3) < 2 ^ 64"
    by (simp add: XAsyncComplete_def complete_state_def Let_def demo3_simps)
  moreover have "allocated 1 demo3" "as_status (asyncs demo3 1) \<noteq> E_PENDING"
    by (simp_all add: allocated_def demo3_simps)
  ultimately show ?thesis
    using completion_is_final [OF demo3_run [symmetric] s2] by (simp add: demo3_simps)
qed


end
