(* ===== verification/XAsync_Props.thy ===== *)
theory XAsync_Props
  imports Game_Code
begin

text \<open>
  The functional contract of single calls: the private bytes of a block, how a result is
  delivered and released, when a status query blocks, and what cancelling does to the two
  providers the runtime itself supplies (\<open>run_provider\<close> behind \<open>XAsyncRun\<close> and
  \<open>run_sync_helper\<close> behind most of the asynchronous APIs).
\<close>

section \<open>Blocks\<close>

lemma state_of_cong: "blocks s' b = blocks s b \<Longrightarrow> state_of b s' = state_of b s"
  by (simp add: state_of_def)

lemma state_of_taken [simp]: "state_of b (snd (take_state b s)) = None"
proof (cases "state_of b s")
  case None
  then show ?thesis by (simp add: take_state_def)
next
  case (Some p)
  then show ?thesis
    by (simp add: take_state_def) (simp add: state_of_def set_block_def read_internal_def
        SIGNATURE_def Let_def)
qed

lemma take_state_free: "state_of b s = None \<Longrightarrow> take_state b s = (None, s)"
  by (simp add: take_state_def)

text \<open>The pointer a call stores in its block's private bytes is the one every later entry
  point reads back; the bytes stay 32 long and the caller's fields are untouched; releasing
  the block hands the pointer out exactly once and leaves the block free for another call.\<close>

theorem block_holds_one_state:
  assumes "b \<noteq> 0" "p \<noteq> 0" "s' = set_block b (write_internal x p) s"
  shows "state_of b s' = Some p \<and> length (b_internal (blocks s' b)) = 32
     \<and> b_queue (blocks s' b) = b_queue x \<and> b_callback (blocks s' b) = b_callback x
     \<and> fst (take_state b s') = Some p
     \<and> take_state b (snd (take_state b s')) = (None, snd (take_state b s'))"
proof -
  have st: "state_of b s' = Some p"
    using assms by (simp add: state_of_def set_block_def read_internal_def write_internal_def)
  moreover have "take_state b (snd (take_state b s')) = (None, snd (take_state b s'))"
    by (rule take_state_free) simp
  moreover have "fst (take_state b s') = Some p" using st by (simp add: take_state_def)
  moreover have "blocks s' b = write_internal x p" by (simp add: assms(3) set_block_def)
  ultimately show ?thesis by (simp add: write_internal_def)
qed

lemma block_holds_one_state_witness:
  "state_of 16 (set_block 16 (write_internal demo_block 4096) demo0) = Some 4096"
  using block_holds_one_state [of 16 4096 _ demo_block demo0, OF _ _ refl] by simp

section \<open>Releasing a call\<close>

lemma cleanup_frees:
  "\<not> as_cleaned_up (asyncs s p) \<Longrightarrow> state_of (as_block (asyncs s p)) (cleanup env p s) = None"
  by (simp add: cleanup_def Let_def split_beta)

lemma cleanup_twice: "as_cleaned_up (asyncs s p) \<Longrightarrow> cleanup env p s = s"
  by (simp add: cleanup_def)

text \<open>A call whose provider fails \<open>Begin\<close> leaves nothing behind: the failure is returned,
  the provider got its \<open>Cleanup\<close>, and the block is free again.\<close>

theorem failed_begin_frees_block:
  assumes "invoke_begin env p s = (hr, s1)" "hr \<noteq> S_OK"
    and "as_block (asyncs s1 p) = b" "\<not> as_cleaned_up (asyncs s1 p)"
    and "start_call env p s = (hr', s')"
  shows "hr' = hr \<and> state_of b s' = None
     \<and> (\<exists>s2. calls s2 = calls s1 \<and> as_cleaned_up (asyncs s2 p) \<and> s' = snd (take_state b (snd (invoke env p OpCleanup 0 0 s2))))"
proof -
  define s2 where "s2 = set_async p ((asyncs s1 p)\<lparr>as_status := hr\<rparr>) s1"
  have b2: "as_block (asyncs s2 p) = b" "\<not> as_cleaned_up (asyncs s2 p)"
    using assms(3,4) by (simp_all add: s2_def set_async_def)
  have s': "hr' = hr" "s' = cleanup env p s2"
    using assms(1,2,5) by (auto simp: start_call_def s2_def)
  moreover have "state_of b s' = None" using cleanup_frees [OF b2(2)] b2(1) s'(2) by simp
  moreover have "s' = snd (take_state b (snd (invoke env p OpCleanup 0 0
      (set_async p ((asyncs s2 p)\<lparr>as_cleaned_up := True\<rparr>) s2))))"
    using b2 s'(2) by (simp add: cleanup_def Let_def split_beta)
  moreover have "calls (set_async p ((asyncs s2 p)\<lparr>as_cleaned_up := True\<rparr>) s2) = calls s1"
    by (simp add: s2_def set_async_def)
  moreover have "as_cleaned_up (asyncs (set_async p ((asyncs s2 p)\<lparr>as_cleaned_up := True\<rparr>) s2) p)"
    by (simp add: set_async_def)
  ultimately show ?thesis by blast
qed

text \<open>A provider that refuses every operation.\<close>

definition refusing_env :: "unit aenv" where
  "refusing_env = demo_env\<lparr>env_provider := (\<lambda>f op b c buf n s. (E_FAIL, s))\<rparr>"

lemma failed_begin_frees_block_witness:
  "fst (start_call refusing_env 1 demo2) = E_FAIL
     \<and> state_of 16 (snd (start_call refusing_env 1 demo2)) = None"
proof -
  have i: "invoke_begin refusing_env 1 demo2 = (E_FAIL, demo2\<lparr>calls := calls demo2 @ [(1, OpBegin)]\<rparr>)"
    by (simp add: invoke_begin_def refusing_env_def demo2_simps)
  have b: "as_block (asyncs (demo2\<lparr>calls := calls demo2 @ [(1, OpBegin)]\<rparr>) 1) = 16"
    "\<not> as_cleaned_up (asyncs (demo2\<lparr>calls := calls demo2 @ [(1, OpBegin)]\<rparr>) 1)"
    by (simp_all add: demo2_simps)
  from failed_begin_frees_block [OF i _ b prod.collapse [symmetric]] show ?thesis by simp
qed

section \<open>Waiting for a status\<close>

text \<open>A status query made inside a dispatch never blocks its pump, whatever it asked for: it
  answers from the present state, as a query that does not wait does.\<close>

theorem status_in_dispatch_never_blocks:
  assumes "in_dispatch_of s tid"
  shows "XAsyncGetStatus env tid b wait sched s = XAsyncGetStatus env tid b False [] s
     \<and> fst (XAsyncGetStatus env tid b wait sched s) \<noteq> None"
  using assms by (simp add: XAsyncGetStatus_def Let_def split: option.split)

lemma status_in_dispatch_never_blocks_witness:
  "fst (XAsyncGetStatus demo_env 7 16 True [] (demo2\<lparr>in_dispatch_of := (\<lambda>t. t = 7)\<rparr>)) \<noteq> None"
  using status_in_dispatch_never_blocks [of "demo2\<lparr>in_dispatch_of := (\<lambda>t. t = 7)\<rparr>" 7] by simp

lemma wait_completed_done:
  "i \<le> length ws \<Longrightarrow> as_status (asyncs (fold (\<lambda>w. w) (take i ws) s) p) \<noteq> E_PENDING \<Longrightarrow>
     fst (wait_completed p ws s) \<and> as_status (asyncs (snd (wait_completed p ws s)) p) \<noteq> E_PENDING"
proof (induction p ws s arbitrary: i rule: wait_completed.induct)
  case (2 p w ws s)
  then show ?case by (cases i) auto
qed simp

text \<open>A waiting status query returns, with the final status, as soon as one of the steps
  the other threads take while it sleeps completes the call.\<close>

theorem waiting_status_returns:
  assumes "state_of b s = Some p" "\<not> in_dispatch_of s tid"
    and "i \<le> length sched" "as_status (asyncs (fold (\<lambda>w. w) (take i sched) s) p) \<noteq> E_PENDING"
  shows "\<exists>status. fst (XAsyncGetStatus env tid b True sched s) = Some status \<and> status \<noteq> E_PENDING"
proof (cases "as_status (asyncs s p) = E_PENDING")
  case True
  then show ?thesis using wait_completed_done [OF assms(3,4)] assms(1,2)
    by (simp add: XAsyncGetStatus_def Let_def split_beta)
next
  case False
  then show ?thesis using assms(1,2) by (simp add: XAsyncGetStatus_def Let_def)
qed

lemma waiting_status_returns_witness:
  "\<exists>status. fst (XAsyncGetStatus demo_env 7 16 True
       [\<lambda>s. s, XAsyncComplete demo_env 16 S_OK 4] (demo2\<lparr>in_dispatch_of := (\<lambda>t. False)\<rparr>)) = Some status
     \<and> status \<noteq> E_PENDING"
proof (rule waiting_status_returns [where p = 1 and i = 2])
  have st: "state_of 16 (demo2\<lparr>in_dispatch_of := x\<rparr>) = Some 1" for x
    using demo2_simps(1) by (simp add: state_of_def)
  then show "state_of 16 (demo2\<lparr>in_dispatch_of := (\<lambda>t. False)\<rparr>) = Some 1" .
  show "as_status (asyncs (fold (\<lambda>w. w) (take 2 [\<lambda>s. s, XAsyncComplete demo_env 16 S_OK 4])
      (demo2\<lparr>in_dispatch_of := (\<lambda>t. False)\<rparr>)) 1) \<noteq> E_PENDING"
    by (simp add: XAsyncComplete_def st complete_state_def demo2_simps Let_def set_async_def)
qed simp_all

section \<open>Submitting to a queue that runs nothing inline\<close>

text \<open>A live queue side without monitors whose port is not immediate: a submission only queues.\<close>

definition quiet_side :: "nat \<Rightarrow> port_kind \<Rightarrow> ('c, 'm, 'z) sys_scheme \<Rightarrow> bool" where
  "quiet_side q kind s \<longleftrightarrow> q_monitors (queues s q) = []
     \<and> \<not> pc_terminated (queue_context kind (queues s q))
     \<and> \<not> p_terminated (ports s (queue_port q kind s))
     \<and> p_mode (ports s (queue_port q kind s)) \<noteq> Immediate"

lemma start_workers_simps [simp]:
  "p_tasks (start_workers par p) = p_tasks p" "p_mode (start_workers par p) = p_mode p"
  "p_terminated (start_workers par p) = p_terminated p"
  by (simp_all add: start_workers_def split: dispatch_mode.split)

definition submitted_task :: "nat \<Rightarrow> port_kind \<Rightarrow> 'c \<Rightarrow> ('c, 'm, 'z) sys_scheme \<Rightarrow> 'c task" where
  "submitted_task q kind call s =
     \<lparr>tk_call = call, tk_owner = pc_owner (queue_context kind (queues s q)), tk_due = None\<rparr>"

lemma quiet_submit:
  assumes "quiet_side q kind s"
  obtains P where "queue_submit run mon q kind call 0 s = (True, set_port (queue_port q kind s) P s)"
    "p_tasks P = insert_task (submitted_task q kind call s) (p_tasks (ports s (queue_port q kind s)))"
    "p_mode P = p_mode (ports s (queue_port q kind s))" "\<not> p_terminated P"
  using assms
  by (simp add: quiet_side_def queue_submit_def notify_monitors_def port_submit_run_def Let_def
      port_submit_def queue_port_def submitted_task_def split_beta)

lemma set_port_asys [simp]:
  "asyncs (set_port pid P s) = asyncs s" "blocks (set_port pid P s) = blocks s"
  "helpers (set_port pid P s) = helpers s" "buffers (set_port pid P s) = buffers s"
  "calls (set_port pid P s) = calls s" "state_of b (set_port pid P s) = state_of b s"
  "asys.more (set_port pid P s) = asys.more s"
  by (simp_all add: set_port_def state_of_def)

lemma set_async_asys [simp]:
  "blocks (set_async p a s) = blocks s" "helpers (set_async p a s) = helpers s"
  "buffers (set_async p a s) = buffers s" "calls (set_async p a s) = calls s"
  "ports (set_async p a s) = ports s" "queues (set_async p a s) = queues s"
  "asyncs (set_async p a s) = (asyncs s)(p := a)" "state_of b (set_async p a s) = state_of b s"
  "asys.more (set_async p a s) = asys.more s"
  by (simp_all add: set_async_def state_of_def)

text \<open>A completion that runs nothing inline: none is wanted, or it is queued.\<close>

definition quiet_completion :: "u64 \<Rightarrow> 'z asys_scheme \<Rightarrow> bool" where
  "quiet_completion p s \<longleftrightarrow> b_callback (blocks s (as_block (asyncs s p))) = None
     \<or> quiet_side (as_queue (asyncs s p)) Completion s"

lemma quiet_complete:
  assumes "as_status (asyncs s p) = E_PENDING" "quiet_completion p s"
  obtains pid P where "complete_state env p r n s
     = set_port pid P (set_async p ((asyncs s p)\<lparr>as_status := r, as_result_size := n\<rparr>) s)"
    "\<And>t. t \<in> set (p_tasks (ports s pid)) \<Longrightarrow> t \<in> set (p_tasks P)"
proof (cases "(if as_block (asyncs s p) = 0 then None else b_callback (blocks s (as_block (asyncs s p))))")
  case None
  define s1 where "s1 = set_async p ((asyncs s p)\<lparr>as_status := r, as_result_size := n\<rparr>) s"
  have "complete_state env p r n s = s1" using assms(1) None
    by (auto simp: complete_state_def Let_def s1_def split: if_splits)
  also have "\<dots> = set_port 0 (ports s 0) s1" by (simp add: set_port_def s1_def set_async_def)
  finally show ?thesis using that unfolding s1_def by blast
next
  case (Some cb)
  define s1 where "s1 = set_async p ((asyncs s p)\<lparr>as_status := r, as_result_size := n\<rparr>) s"
  have "quiet_side (as_queue (asyncs s p)) Completion s1"
    using assms(2) Some
    by (auto simp: quiet_completion_def quiet_side_def s1_def queue_port_def split: if_splits)
  then obtain P where P:
    "queue_submit (run0 env) (env_monitor env) (as_queue (asyncs s p)) Completion (CompletionCb p cb) 0 s1
       = (True, set_port (queue_port (as_queue (asyncs s p)) Completion s1) P s1)"
    "p_tasks P = insert_task (submitted_task (as_queue (asyncs s p)) Completion (CompletionCb p cb) s1)
       (p_tasks (ports s1 (queue_port (as_queue (asyncs s p)) Completion s1)))"
    by (rule quiet_submit)
  have bl: "blocks s1 = blocks s" by (simp add: s1_def)
  have "complete_state env p r n s = set_port (queue_port (as_queue (asyncs s p)) Completion s1) P s1"
    using assms(1) Some P(1) bl by (auto simp: complete_state_def Let_def simp flip: s1_def split: if_splits)
  moreover have "set (p_tasks (ports s pid)) \<subseteq> set (p_tasks P)"
    if "pid = queue_port (as_queue (asyncs s p)) Completion s1" for pid
  proof -
    have "set (p_tasks P) = insert (submitted_task (as_queue (asyncs s p)) Completion
        (CompletionCb p cb) s1) (set (p_tasks (ports s pid)))"
      unfolding P(2) set_insert_task that by (simp add: s1_def)
    then show ?thesis by auto
  qed
  ultimately show ?thesis using that unfolding s1_def by blast
qed

section \<open>\<open>run_sync\<close>\<close>

text \<open>The call a block holds is the helper's, with its context \<open>h\<close>, and still pending.\<close>

definition helper_call :: "u64 \<Rightarrow> u64 \<Rightarrow> u64 \<Rightarrow> 'z asys_scheme \<Rightarrow> bool" where
  "helper_call b p h s \<longleftrightarrow> state_of b s = Some p \<and> as_provider (asyncs s p) = RunSyncHelper
     \<and> as_context (asyncs s p) = h \<and> h \<noteq> 0 \<and> as_block (asyncs s p) = b
     \<and> as_status (asyncs s p) = E_PENDING \<and> \<not> as_cleaned_up (asyncs s p)"

lemma set_helper_asys [simp]:
  "asyncs (set_helper h x s) = asyncs s" "blocks (set_helper h x s) = blocks s"
  "helpers (set_helper h x s) = (helpers s)(h := x)" "buffers (set_helper h x s) = buffers s"
  "ports (set_helper h x s) = ports s" "queues (set_helper h x s) = queues s"
  "calls (set_helper h x s) = calls s" "state_of b (set_helper h x s) = state_of b s"
  "asys.more (set_helper h x s) = asys.more s"
  by (simp_all add: set_helper_def state_of_def)

lemma take_state_asys [simp]:
  "asyncs (snd (take_state b s)) = asyncs s" "helpers (snd (take_state b s)) = helpers s"
  "buffers (snd (take_state b s)) = buffers s" "ports (snd (take_state b s)) = ports s"
  "calls (snd (take_state b s)) = calls s" "asys.more (snd (take_state b s)) = asys.more s"
  by (simp_all add: take_state_def set_block_def split: option.split)

lemma state_of_calls [simp]: "state_of b (s\<lparr>calls := x\<rparr>) = state_of b s"
  "state_of b (s\<lparr>buffers := y\<rparr>) = state_of b s"
  by (simp_all add: state_of_def)

text \<open>Releasing a helper's call frees the context and the block.\<close>

lemma cleanup_helper:
  assumes "as_provider (asyncs s p) = RunSyncHelper" "as_context (asyncs s p) = h" "h \<noteq> 0"
    "as_block (asyncs s p) = b" "\<not> as_cleaned_up (asyncs s p)"
  shows "state_of b (cleanup env p s) = None" "\<not> sh_live (helpers (cleanup env p s) h)"
    "buffers (cleanup env p s) = buffers s" "ports (cleanup env p s) = ports s"
    "helpers (cleanup env p s) h = (helpers s h)\<lparr>sh_live := False\<rparr>"
    "asys.more (cleanup env p s) = asys.more s"
  using assms cleanup_frees [OF assms(5)]
  by (simp_all add: cleanup_def Let_def split_beta invoke_def run_sync_helper_call_def)

text \<open>The worker runs the body, stores what it answers and completes the call with it.\<close>

lemma worker_completes:
  assumes "helper_call b p h s1" "quiet_completion p s1" "helpers s1 h = helpers s h"
    and "env_future env (sh_future (helpers s h)) s = (outcome, s1)"
    and "\<And>hr. outcome = Inl hr \<Longrightarrow> hr \<noteq> E_PENDING \<and> hr \<noteq> S_OK"
    and "tk_call t = RunSyncWorker h b" "s2 = run1 env t False s"
  obtains x r where
    "x = (case outcome of
        Inr v \<Rightarrow> (helpers s1 h)\<lparr>sh_result := S_OK, sh_payload := Some v\<rparr>
      | Inl e \<Rightarrow> (helpers s1 h)\<lparr>sh_result := e\<rparr>)"
    "r = (case outcome of Inr v \<Rightarrow> S_OK | Inl e \<Rightarrow> e)"
    "sh_result x = r" "sh_size x = sh_size (helpers s h)" "r \<noteq> E_PENDING"
    "state_of b s2 = Some p" "as_status (asyncs s2 p) = r"
    "as_result_size (asyncs s2 p) = sh_size (helpers s h)"
    "as_provider (asyncs s2 p) = RunSyncHelper" "as_context (asyncs s2 p) = h" "h \<noteq> 0"
    "as_block (asyncs s2 p) = b" "\<not> as_cleaned_up (asyncs s2 p)" "helpers s2 h = x"
    "buffers s2 = buffers s1" "asys.more s2 = asys.more s1"
proof -
  define x where "x = (case outcome of
      Inr v \<Rightarrow> (helpers s1 h)\<lparr>sh_result := S_OK, sh_payload := Some v\<rparr>
    | Inl e \<Rightarrow> (helpers s1 h)\<lparr>sh_result := e\<rparr>)"
  define r where "r = (case outcome of Inr v \<Rightarrow> S_OK | Inl e \<Rightarrow> e)"
  have rx: "sh_result x = r" "sh_size x = sh_size (helpers s h)" "r \<noteq> E_PENDING"
    using assms(3,5) by (auto simp: x_def r_def split: sum.split)
  define s1' where "s1' = set_helper h x s1"
  have hc: "helper_call b p h s1'" "quiet_completion p s1'"
    using assms(1,2) by (simp_all add: s1'_def helper_call_def quiet_completion_def quiet_side_def
        queue_port_def)
  have "run_sync_body env h False s = s1'"
    using assms(4) by (simp add: run_sync_body_def s1'_def x_def split: sum.split)
  then have s2: "s2 = complete_state env p r (sh_size (helpers s h)) s1'"
    using assms(6,7) hc(1) rx
    by (simp add: run1_def run_sync_worker_def XAsyncComplete_def helper_call_def)
      (simp add: s1'_def rx)
  from hc obtain pid P where c: "s2 = set_port pid P (set_async p ((asyncs s1' p)
      \<lparr>as_status := r, as_result_size := sh_size (helpers s h)\<rparr>) s1')"
    unfolding s2 by (elim quiet_complete [rotated]) (auto simp: helper_call_def)
  have f2: "state_of b s2 = Some p" "as_status (asyncs s2 p) = r"
    "as_result_size (asyncs s2 p) = sh_size (helpers s h)"
    "as_provider (asyncs s2 p) = RunSyncHelper" "as_context (asyncs s2 p) = h" "h \<noteq> 0"
    "as_block (asyncs s2 p) = b" "\<not> as_cleaned_up (asyncs s2 p)" "helpers s2 h = x"
    "buffers s2 = buffers s1" "asys.more s2 = asys.more s1"
    using hc(1) by (simp_all add: c helper_call_def) (simp_all add: s1'_def)
  show thesis by (rule that [OF x_def r_def rx f2])
qed

text \<open>C4: \<open>run_sync\<close> delivers. When the worker runs the body of a pending call (and the body
  itself leaves this call alone), a body that returns a value completes the call with
  \<open>S_OK\<close> and the value's size, \<open>XAsyncGetResult\<close> copies exactly those bytes out, releases the
  context and the block, and a second request is refused; a body that fails makes the result
  request return its error, and releases the call just the same.\<close>

theorem run_sync_delivers:
  assumes "helper_call b p h s1" "quiet_completion p s1" "helpers s1 h = helpers s h"
    and "env_future env (sh_future (helpers s h)) s = (outcome, s1)"
    and "\<And>hr. outcome = Inl hr \<Longrightarrow> hr \<noteq> E_PENDING \<and> hr \<noteq> S_OK"
    and "tk_call t = RunSyncWorker h b" "s2 = run1 env t False s"
    and "unat (sh_size (helpers s h)) \<le> unat n" "XAsyncGetResult env b 0 n buf False s2 = (hr, used, s3)"
  shows "(case outcome of
       Inr payload \<Rightarrow> get_result_size b s2 = Inr (sh_size (helpers s h)) \<and> hr = S_OK
         \<and> used = Some (sh_size (helpers s h)) \<and> buffers s3 buf = payload
     | Inl e \<Rightarrow> hr = e \<and> used = None \<and> buffers s3 = buffers s1)
     \<and> state_of b s3 = None \<and> \<not> sh_live (helpers s3 h)
     \<and> XAsyncGetResult env b 0 n buf False s3 = (E_ILLEGAL_METHOD_CALL, None, s3)"
proof -
  obtain x r where x_def: "x = (case outcome of
      Inr v \<Rightarrow> (helpers s1 h)\<lparr>sh_result := S_OK, sh_payload := Some v\<rparr>
    | Inl e \<Rightarrow> (helpers s1 h)\<lparr>sh_result := e\<rparr>)"
    and r_def: "r = (case outcome of Inr v \<Rightarrow> S_OK | Inl e \<Rightarrow> e)"
    and rx: "sh_result x = r" "sh_size x = sh_size (helpers s h)" "r \<noteq> E_PENDING"
    and f2: "state_of b s2 = Some p" "as_status (asyncs s2 p) = r"
    "as_result_size (asyncs s2 p) = sh_size (helpers s h)"
    "as_provider (asyncs s2 p) = RunSyncHelper" "as_context (asyncs s2 p) = h" "h \<noteq> 0"
    "as_block (asyncs s2 p) = b" "\<not> as_cleaned_up (asyncs s2 p)" "helpers s2 h = x"
    "buffers s2 = buffers s1"
    by (rule worker_completes [OF assms(1-7)])
  note cl = cleanup_helper [OF f2(4-8), of env]
  have gone: "XAsyncGetResult env b 0 n buf False t = (E_ILLEGAL_METHOD_CALL, None, t)"
    if "state_of b t = None" for t :: "'a asys_scheme"
    using that by (simp add: XAsyncGetResult_def)
  show ?thesis
  proof (cases outcome)
    case (Inl e)
    then have "s3 = cleanup env p s2" "hr = e" "used = None"
      using assms(5,9) f2 rx(3) by (auto simp: XAsyncGetResult_def Let_def r_def)
    then show ?thesis using Inl cl f2(10) gone by simp
  next
    case (Inr v)
    define s2' where "s2' = s2\<lparr>calls := calls s2 @ [(p, OpGetResult)], buffers := (buffers s2)(buf := v)\<rparr>"
    have "invoke env p OpGetResult buf n s2 = (S_OK, s2')"
      using f2 Inr by (simp add: invoke_def Let_def run_sync_helper_call_def x_def s2'_def)
    then have s3: "s3 = cleanup env p s2'" "hr = S_OK" "used = Some (sh_size (helpers s h))"
      using assms(8,9) f2 Inr by (auto simp: XAsyncGetResult_def Let_def r_def not_less)
    have a2: "asyncs s2' = asyncs s2" by (simp add: s2'_def)
    have "buffers s3 buf = v" "state_of b s3 = None" "\<not> sh_live (helpers s3 h)"
      using cleanup_helper [of s2' p h b env] f2 unfolding a2 s3(1) by (simp_all add: s2'_def)
    moreover have "get_result_size b s2 = Inr (sh_size (helpers s h))"
      using f2 Inr by (simp add: get_result_size_def XAsyncGetResultSize_def r_def)
    ultimately show ?thesis using Inr s3 gone by simp
  qed
qed

text \<open>A pending helper's call in a fresh runtime, on queue 0, with a body that returns four bytes.\<close>

definition demo_helper :: asys where
  "demo_helper = set_block 16 (write_internal demo_block 1)
     (set_helper 5 \<lparr>sh_result = E_ABORT, sh_canceled = False, sh_payload = None, sh_future = 9,
        sh_size = 4, sh_live = True\<rparr>
     (set_async 1 \<lparr>as_provider = RunSyncHelper, as_context = 5, as_identity = 0, as_queue = 0,
        as_block = 16, as_status = E_PENDING, as_result_size = 0, as_canceled = False,
        as_cleaned_up = False\<rparr>
     (set_queue 0 \<lparr>q_work = \<lparr>pc_port = 0, pc_owner = 1, pc_terminated = False\<rparr>,
        q_completion = \<lparr>pc_port = 1, pc_owner = 2, pc_terminated = False\<rparr>,
        q_monitors = [], q_next_token = 1, q_canonical = None\<rparr> (boot None))))"

definition demo_future_env :: "unit aenv" where
  "demo_future_env = demo_env\<lparr>env_future := (\<lambda>f s. (Inr [1, 2, 3, 4], s))\<rparr>"

lemma demo_helper_call:
  "helper_call 16 1 5 demo_helper" "quiet_completion 1 demo_helper"
  "sh_size (helpers demo_helper 5) = 4" "quiet_side 0 Work demo_helper"
  "p_tasks (ports demo_helper 0) = []" "as_queue (asyncs demo_helper 1) = 0"
  "queue_port 0 Work demo_helper = 0"
  "\<not> as_canceled (asyncs demo_helper 1)"
  by (simp_all add: helper_call_def demo_helper_def state_of_def set_block_def demo_block_def
      quiet_completion_def write_internal_def read_internal_def set_async_def set_helper_def
      quiet_side_def set_queue_def queue_port_def boot_def port_new_def)

lemma run_sync_delivers_witness:
  "get_result_size 16 (run1 demo_future_env \<lparr>tk_call = RunSyncWorker 5 16, tk_owner = 0, tk_due = None\<rparr>
     False demo_helper) = Inr 4"
proof -
  have f: "env_future demo_future_env (sh_future (helpers demo_helper 5)) demo_helper
      = (Inr [1, 2, 3, 4], demo_helper)"
    by (simp add: demo_future_env_def)
  have n: "unat (sh_size (helpers demo_helper 5)) \<le> unat (8 :: u64)"
    by (simp add: demo_helper_call)
  obtain hr used s3 where r: "XAsyncGetResult demo_future_env 16 0 8 0 False
      (run1 demo_future_env \<lparr>tk_call = RunSyncWorker 5 16, tk_owner = 0, tk_due = None\<rparr> False demo_helper)
      = (hr, used, s3)" by (rule prod_cases3)
  show ?thesis
    using run_sync_delivers [OF demo_helper_call(1,2) refl f _ _ refl n r]
    by (simp add: demo_helper_call)
qed

section \<open>Cancelling\<close>

text \<open>Cancelling a pending call whose provider only notes the request queues a work pass.\<close>

lemma cancel_queues_work:
  assumes "state_of b s = Some p" "as_status (asyncs s p) = E_PENDING" "\<not> as_canceled (asyncs s p)"
    and "s1 = snd (invoke env p OpCancel 0 0 (set_async p ((asyncs s p)\<lparr>as_canceled := True\<rparr>) s))"
    and "as_status (asyncs s1 p) = E_PENDING" "quiet_side (as_queue (asyncs s1 p)) Work s1"
    and "pid = queue_port (as_queue (asyncs s1 p)) Work s1"
  obtains P where "XAsyncCancel env b s = set_port pid P s1"
    "p_tasks P = insert_task (submitted_task (as_queue (asyncs s1 p)) Work (WorkCb p) s1)
       (p_tasks (ports s1 pid))" "p_mode P = p_mode (ports s1 pid)" "\<not> p_terminated P"
proof -
  obtain P where "queue_submit (run1 env) (env_monitor env) (as_queue (asyncs s1 p)) Work (WorkCb p) 0 s1
       = (True, set_port pid P s1)"
    "p_tasks P = insert_task (submitted_task (as_queue (asyncs s1 p)) Work (WorkCb p) s1)
       (p_tasks (ports s1 pid))" "p_mode P = p_mode (ports s1 pid)" "\<not> p_terminated P"
    using quiet_submit [OF assms(6)] unfolding assms(7) .
  then show ?thesis using that assms(1-5)
    by (simp add: XAsyncCancel_def Let_def split_beta)
qed

lemma work_callback_helper:
  assumes "as_provider (asyncs s p) = RunSyncHelper" "as_context (asyncs s p) = h" "h \<noteq> 0"
  shows "work_callback env p False s = complete_state env p S_OK 0 (s\<lparr>calls := calls s @ [(p, OpDoWork)]\<rparr>)"
  using assms by (simp add: work_callback_def invoke_def run_sync_helper_call_def Let_def)

text \<open>Cancelling a \<open>run_sync\<close> call frees its context while the worker is still to run. The
  cancellation makes the runtime run a work pass, which the helper answers with \<open>S_OK\<close>; that
  completes the call with \<open>S_OK\<close> and no result, a status query then reports success and
  releases the context and the block, and the worker's task, which uses both, is still
  queued.\<close>

theorem cancel_frees_context_under_worker:
  assumes "helper_call b p h s" "\<not> as_canceled (asyncs s p)" "quiet_completion p s"
    and "quiet_side (as_queue (asyncs s p)) Work s"
    and "w \<in> set (p_tasks (ports s wpid))" "tk_call w = RunSyncWorker h b"
    and "s1 = XAsyncCancel env b s" "tk_call t = WorkCb p" "s2 = run1 env t False s1"
    and "XAsyncGetStatus env tid b wait sched s2 = (r, s3)"
  shows "(\<exists>u\<in>set (p_tasks (ports s1 (queue_port (as_queue (asyncs s p)) Work s))). tk_call u = WorkCb p)
     \<and> r = Some S_OK \<and> \<not> sh_live (helpers s3 h) \<and> state_of b s3 = None
     \<and> w \<in> set (p_tasks (ports s3 wpid))"
proof -
  note hc = assms(1) [unfolded helper_call_def]
  define q where "q = as_queue (asyncs s p)"
  define s0 where "s0 = snd (invoke env p OpCancel 0 0 (set_async p ((asyncs s p)\<lparr>as_canceled := True\<rparr>) s))"
  have s0: "asyncs s0 = (asyncs s)(p := (asyncs s p)\<lparr>as_canceled := True\<rparr>)" "ports s0 = ports s"
    "queues s0 = queues s" "blocks s0 = blocks s"
    using hc by (simp_all add: s0_def invoke_def Let_def run_sync_helper_call_def)
  have a0: "as_queue (asyncs s0 p) = q" "as_status (asyncs s0 p) = E_PENDING"
    "as_context (asyncs s0 p) = h" "as_provider (asyncs s0 p) = RunSyncHelper"
    "as_block (asyncs s0 p) = b" "\<not> as_cleaned_up (asyncs s0 p)"
    using hc by (simp_all add: s0 q_def)
  have qs: "quiet_side (as_queue (asyncs s0 p)) Work s0" "quiet_completion p s0"
    using assms(3,4) by (simp_all add: quiet_side_def quiet_completion_def queue_port_def s0)
  define pid where "pid = queue_port q Work s"
  have pid0: "pid = queue_port (as_queue (asyncs s0 p)) Work s0"
    by (simp add: pid_def queue_port_def s0 q_def)
  from hc assms(2) obtain P where s1: "s1 = set_port pid P s0"
    and P: "p_tasks P = insert_task (submitted_task (as_queue (asyncs s0 p)) Work (WorkCb p) s0)
       (p_tasks (ports s0 pid))" and P_mode: "p_mode P = p_mode (ports s0 pid)" "\<not> p_terminated P"
    unfolding assms(7) by (elim conjE) (rule cancel_queues_work [OF _ _ _ s0_def a0(2) qs(1) pid0, of b])
  have setP: "set (p_tasks P) = insert (submitted_task (as_queue (asyncs s0 p)) Work (WorkCb p) s0)
      (set (p_tasks (ports s0 pid)))"
    by (simp add: P set_insert_task)
  have w1: "w \<in> set (p_tasks (ports s1 wpid))" using assms(5) setP by (auto simp: s1 set_port_def s0)
  define s1' where "s1' = s1\<lparr>calls := calls s1 @ [(p, OpDoWork)]\<rparr>"
  have s2: "s2 = complete_state env p S_OK 0 s1'"
    using assms(8,9) work_callback_helper [of s1 p h env] a0 hc
    by (simp add: run1_def s1'_def) (simp add: s1)
  have "as_status (asyncs s1' p) = E_PENDING" "quiet_completion p s1'"
    using a0 qs(2) by (simp_all add: s1'_def s1 quiet_completion_def quiet_side_def queue_port_def
        set_port_def P_mode) (use P_mode in auto)
  then obtain pid' P' where c: "s2 = set_port pid' P' (set_async p ((asyncs s1' p)
      \<lparr>as_status := S_OK, as_result_size := 0\<rparr>) s1')"
    and P': "\<And>t. t \<in> set (p_tasks (ports s1' pid')) \<Longrightarrow> t \<in> set (p_tasks P')"
    unfolding s2 by (elim quiet_complete) auto
  have w2: "w \<in> set (p_tasks (ports s2 wpid))"
    using w1 P' by (auto simp: c set_port_def s1'_def)
  have st: "state_of b s0 = Some p" using hc state_of_cong [of s0 b s] by (simp add: s0)
  have f2: "state_of b s2 = Some p" "as_status (asyncs s2 p) = S_OK"
    "as_result_size (asyncs s2 p) = 0" "as_provider (asyncs s2 p) = RunSyncHelper"
    "as_context (asyncs s2 p) = h" "h \<noteq> 0" "as_block (asyncs s2 p) = b"
    "\<not> as_cleaned_up (asyncs s2 p)"
    using a0 hc st by (simp_all add: c) (simp_all add: s1'_def s1)
  have "r = Some S_OK" "s3 = cleanup env p s2"
    using assms(10) f2 by (auto simp: XAsyncGetStatus_def Let_def)
  moreover have "\<exists>u\<in>set (p_tasks (ports s1 pid)). tk_call u = WorkCb p"
    by (rule bexI [where x = "submitted_task (as_queue (asyncs s0 p)) Work (WorkCb p) s0"])
      (simp_all add: s1 set_port_def setP submitted_task_def)
  ultimately show ?thesis using cleanup_helper [OF f2(4-8), of env] w2 by (simp add: pid_def q_def)
qed

definition demo_worker_task :: "call task" where
  "demo_worker_task = \<lparr>tk_call = RunSyncWorker 5 16, tk_owner = 9, tk_due = None\<rparr>"

definition demo_pending :: asys where
  "demo_pending = set_port 7 ((port_new ThreadPool)\<lparr>p_tasks := [demo_worker_task]\<rparr>) demo_helper"

lemma demo_pending_call:
  "helper_call 16 1 5 demo_pending" "\<not> as_canceled (asyncs demo_pending 1)"
  "quiet_completion 1 demo_pending" "quiet_side (as_queue (asyncs demo_pending 1)) Work demo_pending"
  "demo_worker_task \<in> set (p_tasks (ports demo_pending 7))"
  "tk_call demo_worker_task = RunSyncWorker 5 16"
  using demo_helper_call
  by (simp_all add: demo_pending_def helper_call_def demo_worker_task_def)
    (simp_all add: quiet_completion_def quiet_side_def set_port_def queue_port_def demo_helper_def
      set_block_def set_helper_def set_async_def set_queue_def boot_def port_new_def)

lemma cancel_frees_context_under_worker_witness:
  "\<exists>s3. XAsyncGetStatus demo_env 0 16 False []
       (run1 demo_env \<lparr>tk_call = WorkCb 1, tk_owner = 1, tk_due = None\<rparr> False
         (XAsyncCancel demo_env 16 demo_pending)) = (Some S_OK, s3)
     \<and> \<not> sh_live (helpers s3 5) \<and> demo_worker_task \<in> set (p_tasks (ports s3 7))"
proof -
  define t :: "call task" where "t = \<lparr>tk_call = WorkCb 1, tk_owner = 1, tk_due = None\<rparr>"
  have t: "tk_call t = WorkCb 1" by (simp add: t_def)
  obtain r s3 where g: "XAsyncGetStatus demo_env 0 16 False []
       (run1 demo_env t False (XAsyncCancel demo_env 16 demo_pending)) = (r, s3)"
    by (rule prod.exhaust)
  from cancel_frees_context_under_worker [OF demo_pending_call refl t refl g] show ?thesis
    using g unfolding t_def by auto
qed

text \<open>Cancelling a call of \<open>XAsyncRun\<close> that is still queued runs the caller's function twice.
  The cancellation queues a second work pass behind the first; each pass calls the function,
  and the call ends with the first pass's own result, not with \<open>E_ABORT\<close>.\<close>

theorem cancel_runs_work_twice:
  assumes "state_of b s = Some p" "as_provider (asyncs s p) = RunProvider"
    and "as_context (asyncs s p) = f" "as_block (asyncs s p) = b"
    and "as_status (asyncs s p) = E_PENDING" "\<not> as_canceled (asyncs s p)"
    and "b_callback (blocks s b) = None"
    and "quiet_side (as_queue (asyncs s p)) Work s" "pid = queue_port (as_queue (asyncs s p)) Work s"
    and "p_tasks (ports s pid) = [t]" "tk_call t = WorkCb p" "tk_due t = None"
    and "\<And>s. env_work env f b s = (hr, s)" "hr \<noteq> E_PENDING"
    and "s1 = XAsyncCancel env b s"
  shows "\<exists>t'. p_tasks (ports s1 pid) = [t, t'] \<and> tk_call t' = WorkCb p
     \<and> (let s2 = run1 env t' False (run1 env t False s1)
         in calls s2 = calls s @ [(p, OpCancel), (p, OpDoWork), (p, OpDoWork)]
          \<and> as_status (asyncs s2 p) = hr)"
proof -
  define s0 where "s0 = snd (invoke env p OpCancel 0 0 (set_async p ((asyncs s p)\<lparr>as_canceled := True\<rparr>) s))"
  have s0: "asyncs s0 = (asyncs s)(p := (asyncs s p)\<lparr>as_canceled := True\<rparr>)" "ports s0 = ports s"
    "queues s0 = queues s" "blocks s0 = blocks s" "calls s0 = calls s @ [(p, OpCancel)]"
    using assms(2) by (simp_all add: s0_def invoke_def Let_def run_provider_call_def)
  have qs: "quiet_side (as_queue (asyncs s0 p)) Work s0"
    and pid: "pid = queue_port (as_queue (asyncs s0 p)) Work s0"
    and st: "as_status (asyncs s0 p) = E_PENDING"
    using assms(5,8,9) by (simp_all add: quiet_side_def queue_port_def s0)
  obtain P where s1: "s1 = set_port pid P s0"
    and P: "p_tasks P = insert_task (submitted_task (as_queue (asyncs s0 p)) Work (WorkCb p) s0)
       (p_tasks (ports s0 pid))"
    unfolding assms(15)
    by (rule cancel_queues_work [OF assms(1,5,6) s0_def st qs pid])
  define t' where "t' = submitted_task (as_queue (asyncs s0 p)) Work (WorkCb p) s0"
  have t': "tk_call t' = WorkCb p" "tk_due t' = None" by (simp_all add: t'_def submitted_task_def)
  have "p_tasks P = insert_task t' (p_tasks (ports s pid))" unfolding P t'_def s0(2) ..
  then have "p_tasks (ports s1 pid) = [t, t']"
    using assms(10,12) t' by (simp add: s1 set_port_def insert_task_def insert_at_def
        position_or_end_def)
  moreover have work: "run1 env u False r = complete_state env p hr 0 (r\<lparr>calls := calls r @ [(p, OpDoWork)]\<rparr>)"
    if "tk_call u = WorkCb p" "as_provider (asyncs r p) = RunProvider" "as_context (asyncs r p) = f"
      "as_block (asyncs r p) = b" for u r
    using that assms(13,14)
    by (simp add: run1_def work_callback_def invoke_def run_provider_call_def Let_def)
  define s2 where "s2 = s1\<lparr>calls := calls s1 @ [(p, OpDoWork)]\<rparr>"
  have s2: "run1 env t False s1 = set_async p ((asyncs s1 p)\<lparr>as_status := hr, as_result_size := 0\<rparr>) s2"
    using work [OF assms(11), of s1] assms(2-5,7) 
    by (simp add: complete_state_def Let_def s1 s0 s2_def set_async_def set_port_def)
  define s3 where "s3 = run1 env t False s1"
  have a3: "as_provider (asyncs s3 p) = RunProvider" "as_context (asyncs s3 p) = f"
    "as_block (asyncs s3 p) = b" "as_status (asyncs s3 p) = hr" "calls s3 = calls s2"
    using assms(2-4) by (simp_all add: s3_def s2) (simp_all add: s1 s0)
  have "run1 env t' False s3 = s3\<lparr>calls := calls s3 @ [(p, OpDoWork)]\<rparr>"
    unfolding work [OF t'(1) a3(1-3)] using a3(4) assms(14) by (simp add: complete_state_def)
  then have "calls (run1 env t' False s3) = calls s @ [(p, OpCancel), (p, OpDoWork), (p, OpDoWork)]"
    "as_status (asyncs (run1 env t' False s3) p) = hr"
    using a3(4,5) by (simp_all add: s2_def s1 s0)
  ultimately show ?thesis using t'(1)
    by (intro exI [where x = t']) (simp add: Let_def flip: s3_def)
qed

text \<open>The state after \<open>XAsyncRun\<close> queued its work pass on queue 0.\<close>

definition demo_run_task :: "call task" where
  "demo_run_task = \<lparr>tk_call = WorkCb 1, tk_owner = 1, tk_due = None\<rparr>"

definition demo_run :: asys where
  "demo_run = set_port 0 ((port_new Manual)\<lparr>p_tasks := [demo_run_task]\<rparr>)
     (set_async 1 ((asyncs demo_helper 1)\<lparr>as_provider := RunProvider, as_context := 70\<rparr>) demo_helper)"

lemma demo_run_simps:
  "state_of 16 demo_run = Some 1" "as_provider (asyncs demo_run 1) = RunProvider"
  "as_context (asyncs demo_run 1) = 70" "as_block (asyncs demo_run 1) = 16"
  "as_status (asyncs demo_run 1) = E_PENDING" "\<not> as_canceled (asyncs demo_run 1)"
  "b_callback (blocks demo_run 16) = None"
  "quiet_side (as_queue (asyncs demo_run 1)) Work demo_run"
  "p_tasks (ports demo_run (queue_port (as_queue (asyncs demo_run 1)) Work demo_run)) = [demo_run_task]"
  using demo_helper_call
  by (simp_all add: demo_run_def helper_call_def)
    (simp_all add: quiet_side_def set_port_def set_async_def queue_port_def demo_helper_def
      set_block_def set_helper_def set_queue_def boot_def port_new_def write_internal_def
      demo_block_def)

lemma cancel_runs_work_twice_witness:
  "\<exists>t'. p_tasks (ports (XAsyncCancel demo_env 16 demo_run) 0) = [demo_run_task, t']
     \<and> tk_call t' = WorkCb 1"
proof -
  have w: "env_work demo_env 70 16 s = (S_OK, s)" for s
    by (simp add: demo_env_def env_by_def demo_book_def)
  have t: "tk_call demo_run_task = WorkCb 1" "tk_due demo_run_task = None"
    by (simp_all add: demo_run_task_def)
  have q: "queue_port (as_queue (asyncs demo_run 1)) Work demo_run = 0"
    by (simp add: demo_run_def set_port_def set_async_def queue_port_def demo_helper_def
      set_block_def set_helper_def set_queue_def boot_def)
  from cancel_runs_work_twice [OF demo_run_simps(1-8) refl demo_run_simps(9) t w _ refl]
  show ?thesis unfolding q by auto
qed

section \<open>Calls without a result\<close>

text \<open>A status query on a finished call whose result is empty consumes the call: it reports
  the status and releases the block, so the result request that the API documents as the
  next step is answered with \<open>E_ILLEGAL_METHOD_CALL\<close>.\<close>

theorem status_consumes_empty_result:
  assumes "state_of b s = Some p" "as_block (asyncs s p) = b" "\<not> as_cleaned_up (asyncs s p)"
    and "as_status (asyncs s p) = hr" "hr \<noteq> E_PENDING" "as_result_size (asyncs s p) = 0"
    and "XAsyncGetStatus env tid b wait sched s = (r, s1)"
  shows "r = Some hr \<and> state_of b s1 = None
     \<and> get_result env b identity 0 out s1 = (Inl E_ILLEGAL_METHOD_CALL, s1)
     \<and> get_result_size b s1 = Inl E_ILLEGAL_METHOD_CALL"
proof -
  have "r = Some hr" "s1 = cleanup env p s"
    using assms by (auto simp: XAsyncGetStatus_def Let_def)
  moreover have "state_of b s1 = None" using cleanup_frees [OF assms(3), of env] assms(2) calculation by simp
  ultimately show ?thesis
    by (simp add: get_result_def XAsyncGetResult_def get_result_size_def XAsyncGetResultSize_def)
qed

lemma status_consumes_empty_result_witness:
  "get_result demo_env 16 0 0 0 (snd (XAsyncGetStatus demo_env 0 16 False [] demo3))
     = (Inl E_ILLEGAL_METHOD_CALL, snd (XAsyncGetStatus demo_env 0 16 False [] demo3))"
  using status_consumes_empty_result [of 16 demo3 1 E_ABORT demo_env 0 False "[]" _ _ 0 0,
      OF demo3_simps(1,7,5,4) _ demo3_simps(6) prod.collapse [symmetric]] by simp

section \<open>Handles of queues\<close>

text \<open>A duplicated queue handle is a reference of its own. It resolves to the same queue,
  differs from the original, and stays valid when the original is closed; so does the
  original when the duplicate is closed.\<close>

theorem duplicate_outlives_original:
  assumes "ht_inv (queue_handles s)" "ht_room (queue_handles s) 1"
    and "ht_get (queue_handles s) h = Some q"
    and "XTaskQueueDuplicateHandle h False s = (hr, d, s1)"
  shows "\<exists>k. hr = S_OK \<and> d = Some k \<and> k \<noteq> 0 \<and> k \<noteq> h
     \<and> ht_get (queue_handles (XTaskQueueCloseHandle h s1)) k = Some q
     \<and> ht_get (queue_handles (XTaskQueueCloseHandle k s1)) h = Some q
     \<and> ht_get (queue_handles (XTaskQueueCloseHandle h s1)) h = None"
proof -
  obtain k t where c: "ht_create q (queue_handles s) = (k, t)" by (cases "ht_create q (queue_handles s)")
  have r: "ht_room (queue_handles s) (Suc 0)" using assms(2) by simp
  note dup = ht.duplicate_independent [OF assms(1) r assms(3) c] ht.create_nonzero [OF assms(1) r c]
  have "hr = S_OK" "d = Some k" "queue_handles s1 = t"
    using assms(3,4) c by (auto simp: XTaskQueueDuplicateHandle_def)
  with dup show ?thesis by (simp add: XTaskQueueCloseHandle_def ht.close_get)
qed

lemma duplicate_outlives_original_witness:
  "\<exists>hr k s1. XTaskQueueDuplicateHandle 1 False (demo1\<lparr>queue_handles := snd (ht_create 0 ht_new)\<rparr>)
       = (hr, Some k, s1) \<and> k \<noteq> 1 \<and> ht_get (queue_handles (XTaskQueueCloseHandle 1 s1)) k = Some 0"
proof -
  obtain hr d s1 where d: "XTaskQueueDuplicateHandle 1 False
      (demo1\<lparr>queue_handles := snd (ht_create 0 ht_new)\<rparr>) = (hr, d, s1)" by (rule prod_cases3)
  have "ht_inv (queue_handles (demo1\<lparr>queue_handles := snd (ht_create 0 ht_new)\<rparr>))"
    "ht_room (queue_handles (demo1\<lparr>queue_handles := snd (ht_create 0 ht_new)\<rparr>)) 1"
    "ht_get (queue_handles (demo1\<lparr>queue_handles := snd (ht_create 0 ht_new)\<rparr>)) 1 = Some 0"
    by (simp_all add: ht_inv_def ht_create_def ht_new_def ht_issued_def ht_room_def has_room_def
        ht_get_def Let_def)
  from duplicate_outlives_original [OF this d] d show ?thesis by auto
qed

end
