(* ===== verification/Codec.thy ===== *)
theory Codec
  imports Bytes
begin

text \<open>
  The text codecs of \<open>src/src/ipc.rs\<close>: base64, hexadecimal, decimal numbers, trimming and
  searching. Text is its UTF-8 bytes; \<open>utf8\<close> turns an ASCII literal into bytes. The 24-bit
  groups of base64 are natural numbers: the code holds them in a \<open>u32\<close>, which they never
  fill.
\<close>

type_synonym ustring = "u8 list"

definition utf8 :: "string \<Rightarrow> ustring" where
  "utf8 s = map of_char s"

section \<open>Base64\<close>

definition BASE64_ALPHABET :: "u8 list" where
  "BASE64_ALPHABET = utf8 ''ABCDEFGHIJKLMNOPQRSTUVWXYZabcdefghijklmnopqrstuvwxyz0123456789+/''"

definition b64_pad :: u8 where "b64_pad = 0x3d"

definition b64_digit :: "nat \<Rightarrow> u8" where
  "b64_digit n = BASE64_ALPHABET ! (n mod 64)"

definition group24 :: "u8 \<Rightarrow> u8 \<Rightarrow> u8 \<Rightarrow> nat" where
  "group24 a b c = unat a * 65536 + unat b * 256 + unat c"

fun base64_encode :: "u8 list \<Rightarrow> ustring" where
  "base64_encode [] = []"
| "base64_encode [a] =
     (let n = group24 a 0 0 in [b64_digit (n div 262144), b64_digit (n div 4096), b64_pad, b64_pad])"
| "base64_encode [a, b] =
     (let n = group24 a b 0
      in [b64_digit (n div 262144), b64_digit (n div 4096), b64_digit (n div 64), b64_pad])"
| "base64_encode (a # b # c # rest) =
     (let n = group24 a b c
      in b64_digit (n div 262144) # b64_digit (n div 4096) # b64_digit (n div 64) # b64_digit n
         # base64_encode rest)"

definition b64_value :: "u8 \<Rightarrow> nat option" where
  "b64_value c = position (\<lambda>b. b = c) BASE64_ALPHABET"

text \<open>\<open>trim_end_matches('=')\<close>.\<close>

definition trim_pad :: "ustring \<Rightarrow> ustring" where
  "trim_pad s = rev (dropWhile (\<lambda>c. c = b64_pad) (rev s))"

fun b64_number :: "nat \<Rightarrow> ustring \<Rightarrow> nat option" where
  "b64_number n [] = Some n"
| "b64_number n (c # cs) =
     (case b64_value c of None \<Rightarrow> None | Some v \<Rightarrow> b64_number (n * 64 + v) cs)"

text \<open>One chunk of up to four characters: its \<open>to_be_bytes()[1..chunk.len()]\<close>.\<close>

definition b64_chunk :: "ustring \<Rightarrow> u8 list option" where
  "b64_chunk cs =
     (if length cs < 2 then None
      else case b64_number 0 cs of
        None \<Rightarrow> None
      | Some n \<Rightarrow>
          let m = n * 64 ^ (4 - length cs)
          in Some (take (length cs - 1) [of_nat (m div 65536), of_nat (m div 256), of_nat m]))"

function b64_chunks :: "ustring \<Rightarrow> u8 list option" where
  "b64_chunks cs =
     (if cs = [] then Some []
      else case b64_chunk (take 4 cs) of
        None \<Rightarrow> None
      | Some out \<Rightarrow> map_option (\<lambda>rest. out @ rest) (b64_chunks (drop 4 cs)))"
  by pat_completeness auto
termination by (relation "measure length") auto

declare b64_chunks.simps [simp del]

definition base64_decode :: "ustring \<Rightarrow> u8 list option" where
  "base64_decode s = b64_chunks (trim_pad s)"

section \<open>Hexadecimal and decimal\<close>

definition hex_digit :: "u8 \<Rightarrow> nat option" where
  "hex_digit c =
     (let n = unat c
      in if 48 \<le> n \<and> n \<le> 57 then Some (n - 48)
         else if 97 \<le> n \<and> n \<le> 102 then Some (n - 87)
         else if 65 \<le> n \<and> n \<le> 70 then Some (n - 55)
         else None)"

text \<open>\<open>u8::from_str_radix\<close> on two characters: a sign is accepted before a digit.\<close>

definition hex_pair :: "u8 \<Rightarrow> u8 \<Rightarrow> u8 option" where
  "hex_pair a b =
     (if a = 0x2b then map_option of_nat (hex_digit b)
      else case (hex_digit a, hex_digit b) of
        (Some x, Some y) \<Rightarrow> Some (of_nat (x * 16 + y))
      | _ \<Rightarrow> None)"

fun hex_pairs :: "ustring \<Rightarrow> u8 list option" where
  "hex_pairs (a # b # rest) =
     (case (hex_pair a b, hex_pairs rest) of
        (Some x, Some xs) \<Rightarrow> Some (x # xs)
      | _ \<Rightarrow> None)"
| "hex_pairs _ = Some []"

definition hex_decode :: "ustring \<Rightarrow> u8 list option" where
  "hex_decode s = (if length s mod 2 \<noteq> 0 then None else hex_pairs s)"

text \<open>\<open>str::parse\<close> for an unsigned type with the given greatest value.\<close>

fun dec_digits :: "nat \<Rightarrow> ustring \<Rightarrow> nat option" where
  "dec_digits n [] = Some n"
| "dec_digits n (c # cs) =
     (if 48 \<le> unat c \<and> unat c \<le> 57 then dec_digits (n * 10 + (unat c - 48)) cs else None)"

definition parse_unsigned :: "nat \<Rightarrow> ustring \<Rightarrow> nat option" where
  "parse_unsigned greatest s =
     (let ds = (case s of c # cs \<Rightarrow> if c = 0x2b then cs else s | [] \<Rightarrow> s)
      in if ds = [] then None
         else case dec_digits 0 ds of
           None \<Rightarrow> None
         | Some n \<Rightarrow> if n \<le> greatest then Some n else None)"

text \<open>\<open>from_str_radix\<close> with radix 16, which accepts a plus sign and both cases.\<close>

fun hex_digits :: "nat \<Rightarrow> ustring \<Rightarrow> nat option" where
  "hex_digits n [] = Some n"
| "hex_digits n (c # cs) =
     (case hex_digit c of None \<Rightarrow> None | Some d \<Rightarrow> hex_digits (n * 16 + d) cs)"

definition from_str_radix16 :: "nat \<Rightarrow> ustring \<Rightarrow> nat option" where
  "from_str_radix16 greatest s =
     (let ds = (case s of c # cs \<Rightarrow> if c = 0x2b then cs else s | [] \<Rightarrow> s)
      in if ds = [] then None
         else case hex_digits 0 ds of
           None \<Rightarrow> None
         | Some n \<Rightarrow> if n \<le> greatest then Some n else None)"

section \<open>Base64 round trip\<close>

lemma alphabet_value: "\<forall>d\<in>set [0..<64]. b64_value (BASE64_ALPHABET ! d) = Some d"
  by code_simp

lemma alphabet_not_pad: "\<forall>c\<in>set BASE64_ALPHABET. c \<noteq> b64_pad"
  by code_simp

lemma length_alphabet [simp]: "length BASE64_ALPHABET = 64"
  by code_simp

lemma b64_value_digit [simp]: "b64_value (b64_digit n) = Some (n mod 64)"
  using alphabet_value by (simp add: b64_digit_def)

lemma b64_digit_not_pad [simp]: "b64_digit n \<noteq> b64_pad"
proof -
  have "b64_digit n \<in> set BASE64_ALPHABET" by (simp add: b64_digit_def)
  then show ?thesis using alphabet_not_pad by blast
qed

lemma group24_bound: "group24 a b c < 16777216"
  using unat_u8_less [of a] unat_u8_less [of b] unat_u8_less [of c] by (simp add: group24_def)

lemma group24_bytes:
  "(of_nat (group24 a b c div 65536) :: u8) = a"
  "(of_nat (group24 a b c div 256) :: u8) = b"
  "(of_nat (group24 a b c) :: u8) = c"
proof -
  have u: "unat a < 256" "unat b < 256" "unat c < 256" by (rule unat_u8_less)+
  have "group24 a b c div 65536 = unat a"
    "group24 a b c div 256 = unat a * 256 + unat b"
    using u by (simp_all add: group24_def)
  moreover have "(unat a * 256 + unat b) mod 256 = unat b" using u by simp
  moreover have "group24 a b c mod 256 = unat c"
  proof -
    have "group24 a b c = (unat a * 256 + unat b) * 256 + unat c" by (simp add: group24_def)
    then show ?thesis using u by (simp only: mod_mult_self3 mod_less)
  qed
  ultimately show "(of_nat (group24 a b c div 65536) :: u8) = a"
    "(of_nat (group24 a b c div 256) :: u8) = b" "(of_nat (group24 a b c) :: u8) = c"
    using u unfolding word_unat_eq_iff unat_of_nat_u8 by simp_all
qed

lemma regroup:
  fixes n :: nat
  assumes "n < 16777216"
  shows "n div 262144 mod 64 * 64 + n div 4096 mod 64 = n div 4096"
    and "n div 4096 * 64 + n div 64 mod 64 = n div 64"
    and "n div 64 * 64 + n mod 64 = n"
proof -
  have "n div 262144 mod 64 = n div 262144" using assms by (simp add: less_mult_imp_div_less)
  moreover have "n div 4096 div 64 = n div 262144" "n div 64 div 64 = n div 4096"
    by (simp_all flip: div_mult2_eq)
  ultimately show "n div 262144 mod 64 * 64 + n div 4096 mod 64 = n div 4096"
    and "n div 4096 * 64 + n div 64 mod 64 = n div 64" and "n div 64 * 64 + n mod 64 = n"
    by (metis div_mult_mod_eq)+
qed

text \<open>The encoding without its padding.\<close>

lemma trim_pad_append: "trim_pad (xs @ replicate k b64_pad) = trim_pad xs"
  by (simp add: trim_pad_def dropWhile_append)

lemma trim_pad_id: "b64_pad \<notin> set xs \<Longrightarrow> trim_pad xs = xs"
  by (cases xs rule: rev_cases) (auto simp: trim_pad_def)

definition b64_digits :: "u8 list \<Rightarrow> ustring" where
  "b64_digits bs = filter (\<lambda>c. c \<noteq> b64_pad) (base64_encode bs)"

lemma b64_digits_simps [simp]:
  "b64_digits [] = []"
  "b64_digits [a] = [b64_digit (group24 a 0 0 div 262144), b64_digit (group24 a 0 0 div 4096)]"
  "b64_digits [a, b] = [b64_digit (group24 a b 0 div 262144), b64_digit (group24 a b 0 div 4096),
     b64_digit (group24 a b 0 div 64)]"
  "b64_digits (a # b # c # rest) = b64_digit (group24 a b c div 262144)
     # b64_digit (group24 a b c div 4096) # b64_digit (group24 a b c div 64)
     # b64_digit (group24 a b c) # b64_digits rest"
  by (simp_all add: b64_digits_def Let_def)

lemma encode_digits: "\<exists>k. base64_encode bs = b64_digits bs @ replicate k b64_pad"
proof (induction bs rule: base64_encode.induct)
  case 1
  show ?case by simp
next
  case (2 a)
  show ?case by (rule exI [where x = 2]) (simp add: Let_def numeral_2_eq_2)
next
  case (3 a b)
  show ?case by (rule exI [where x = 1]) (simp add: Let_def)
next
  case (4 a b c rest)
  then show ?case by (auto simp: Let_def)
qed

lemma chunk_of_digits:
  "b64_chunk [b64_digit w, b64_digit x]
     = Some [of_nat ((w mod 64 * 64 + x mod 64) * 4096 div 65536)]"
  "b64_chunk [b64_digit w, b64_digit x, b64_digit y]
     = Some [of_nat (((w mod 64 * 64 + x mod 64) * 64 + y mod 64) * 64 div 65536),
         of_nat (((w mod 64 * 64 + x mod 64) * 64 + y mod 64) * 64 div 256)]"
  "b64_chunk [b64_digit w, b64_digit x, b64_digit y, b64_digit z]
     = Some [of_nat ((((w mod 64 * 64 + x mod 64) * 64 + y mod 64) * 64 + z mod 64) div 65536),
         of_nat ((((w mod 64 * 64 + x mod 64) * 64 + y mod 64) * 64 + z mod 64) div 256),
         of_nat (((w mod 64 * 64 + x mod 64) * 64 + y mod 64) * 64 + z mod 64)]"
  by (simp_all add: b64_chunk_def Let_def)

lemma short_groups:
  "group24 a 0 0 div 4096 * 4096 = group24 a 0 0"
  "group24 a b 0 div 64 * 64 = group24 a b 0"
proof -
  have "group24 a 0 0 = 4096 * (unat a * 16)" "group24 a b 0 = 64 * (unat a * 1024 + unat b * 4)"
    by (simp_all add: group24_def)
  then show "group24 a 0 0 div 4096 * 4096 = group24 a 0 0"
    "group24 a b 0 div 64 * 64 = group24 a b 0" by simp_all
qed

lemma chunks_digits: "b64_chunks (b64_digits bs) = Some bs"
proof (induction bs rule: base64_encode.induct)
  case 1
  show ?case by (simp add: b64_chunks.simps)
next
  case (2 a)
  have "b64_chunk (b64_digits [a]) = Some [a]"
    unfolding b64_digits_simps chunk_of_digits regroup(1) [OF group24_bound] short_groups
      group24_bytes ..
  then show ?case by (subst b64_chunks.simps) (simp add: b64_chunks.simps [of "[]"])
next
  case (3 a b)
  have "b64_chunk (b64_digits [a, b]) = Some [a, b]"
    unfolding b64_digits_simps chunk_of_digits regroup(1,2) [OF group24_bound] short_groups
      group24_bytes ..
  then show ?case by (subst b64_chunks.simps) (simp add: b64_chunks.simps [of "[]"])
next
  case (4 a b c rest)
  have "b64_chunk (take 4 (b64_digits (a # b # c # rest))) = Some [a, b, c]"
    unfolding b64_digits_simps by (simp add: chunk_of_digits regroup [OF group24_bound] group24_bytes)
  then show ?case using 4 by (subst b64_chunks.simps) simp
qed

lemma base64_inverse: "base64_decode (base64_encode bs) = Some bs"
proof -
  obtain k where k: "base64_encode bs = b64_digits bs @ replicate k b64_pad"
    using encode_digits by blast
  have "b64_pad \<notin> set (b64_digits bs)" by (simp add: b64_digits_def)
  then show ?thesis
    by (simp add: base64_decode_def k trim_pad_append trim_pad_id chunks_digits)
qed

lemma length_base64: "length (base64_encode bs) = 4 * ((length bs + 2) div 3)"
proof (induction bs rule: base64_encode.induct)
  case (4 a b c rest)
  have "(length rest + 3 + 2) div 3 = (length rest + 2) div 3 + 1" by simp
  with 4 show ?case by (simp add: Let_def)
qed (simp_all add: Let_def)

text \<open>Base64 decoding inverts encoding for every byte string, and the encoding has exactly
  the padded length, four characters for every three bytes begun.\<close>

theorem base64_round_trip:
  "base64_decode (base64_encode bs) = Some bs
     \<and> length (base64_encode bs) = 4 * ((length bs + 2) div 3)"
  by (simp add: base64_inverse length_base64)

section \<open>Hexadecimal\<close>

definition hex_char :: "nat \<Rightarrow> u8" where
  "hex_char n = (if n < 10 then of_nat (48 + n) else of_nat (87 + n))"

definition hex_encode :: "u8 list \<Rightarrow> ustring" where
  "hex_encode bs = concat (map (\<lambda>b. [hex_char (unat b div 16), hex_char (unat b mod 16)]) bs)"

lemma hex_char_digit: "\<forall>n\<in>set [0..<16]. hex_digit (hex_char n) = Some n \<and> hex_char n \<noteq> 0x2b"
  by code_simp

lemma hex_pair_char: "hex_pair (hex_char (unat b div 16)) (hex_char (unat b mod 16)) = Some b"
proof -
  have "unat b < 256" by (rule unat_u8_less)
  then have "unat b div 16 \<in> set [0..<16]" "unat b mod 16 \<in> set [0..<16]" by auto
  with hex_char_digit have "hex_digit (hex_char (unat b div 16)) = Some (unat b div 16)"
    "hex_char (unat b div 16) \<noteq> 0x2b" "hex_digit (hex_char (unat b mod 16)) = Some (unat b mod 16)"
    by blast+
  moreover have "unat b div 16 * 16 + unat b mod 16 = unat b" by simp
  ultimately show ?thesis unfolding hex_pair_def by (simp del: of_nat_add of_nat_mult)
qed

lemma hex_pairs_length: "hex_pairs s = Some bs \<Longrightarrow> length bs = length s div 2"
  by (induction s arbitrary: bs rule: hex_pairs.induct) (auto split: option.splits)

lemma hex_inverse: "hex_decode (hex_encode bs) = Some bs"
proof -
  have "hex_pairs (hex_encode bs) = Some bs"
    by (induction bs) (simp_all add: hex_encode_def hex_pair_char)
  moreover have "length (hex_encode bs) mod 2 = 0"
    by (induction bs) (simp_all add: hex_encode_def)
  ultimately show ?thesis by (simp add: hex_decode_def)
qed

text \<open>The hex-encoded secret the launcher publishes is decoded to the same bytes, and a
  decoded string has exactly half the characters' number of bytes.\<close>

theorem hex_round_trip:
  "hex_decode (hex_encode bs) = Some bs
     \<and> (\<forall>s out. hex_decode s = Some out \<longrightarrow> length s = 2 * length out)"
  by (auto simp: hex_inverse) (auto simp: hex_decode_def dest: hex_pairs_length split: if_splits)

lemma hex_round_trip_witness:
  "hex_decode (hex_encode [0x0f, 0xa0]) = Some [0x0f, 0xa0] \<and> length (hex_encode [0x0f, 0xa0]) = 4"
  using hex_round_trip [of "[0x0f, 0xa0]"] by auto

section \<open>Hexadecimal numbers\<close>

text \<open>\<open>\{:x\}\<close>, and \<open>\{:0w x\}\<close>, which pads to \<open>w\<close> digits.\<close>

fun lower_hex :: "nat \<Rightarrow> ustring" where
  "lower_hex n = (if n < 16 then [hex_char n] else lower_hex (n div 16) @ [hex_char (n mod 16)])"

declare lower_hex.simps [simp del]

definition pad_hex :: "nat \<Rightarrow> nat \<Rightarrow> ustring" where
  "pad_hex w n = (let s = lower_hex n in replicate (w - length s) 0x30 @ s)"

lemma hex_digits_snoc:
  "hex_digits a (xs @ [c])
     = (case hex_digits a xs of None \<Rightarrow> None | Some n \<Rightarrow> map_option (\<lambda>d. n * 16 + d) (hex_digit c))"
  by (induction xs arbitrary: a) (auto split: option.split)

lemma length_lower_hex: "n < 16 ^ w \<Longrightarrow> 0 < w \<Longrightarrow> length (lower_hex n) \<le> w"
proof (induction n arbitrary: w rule: lower_hex.induct)
  case (1 n)
  show ?case
  proof (cases "n < 16")
    case True
    then show ?thesis using 1(3) by (subst lower_hex.simps) simp
  next
    case False
    then obtain v where v: "w = Suc v" "0 < v" using 1(2,3) by (cases w) (auto, cases "w - 1", auto)
    then have "n div 16 < 16 ^ v" using 1(2) by (simp add: less_mult_imp_div_less mult.commute)
    then show ?thesis using False 1(1) v by (subst lower_hex.simps) simp
  qed
qed

lemma length_pad_hex [simp]: "n < 16 ^ w \<Longrightarrow> 0 < w \<Longrightarrow> length (pad_hex w n) = w"
  using length_lower_hex [of n w] by (simp add: pad_hex_def Let_def)

end
