(* ===== verification/Unicode.thy ===== *)
theory Unicode
  imports Codec
begin

text \<open>
  Text in its two encodings, as \<open>std::str\<close> has them: a Rust string is the UTF-8 bytes of its
  scalar values, \<open>encode_utf16\<close> gives its UTF-16 units, and \<open>String::from_utf16_lossy\<close> reads
  units back, with U+FFFD for an unpaired surrogate. \<open>src/src/com/xuser\<close> uses them for the
  UTF-16 variants of the token calls, with \<open>read_utf16_cstr\<close> for their arguments. A scalar
  value is a natural number.
\<close>

section \<open>UTF-16\<close>

definition scalar :: "nat \<Rightarrow> bool" where
  "scalar c \<longleftrightarrow> c < 0x110000 \<and> \<not> (0xD800 \<le> c \<and> c < 0xE000)"

definition utf16_units :: "nat \<Rightarrow> u16 list" where
  "utf16_units c =
     (if c < 0x10000 then [of_nat c]
      else [of_nat (0xD800 + (c - 0x10000) div 0x400), of_nat (0xDC00 + (c - 0x10000) mod 0x400)])"

definition encode_utf16 :: "nat list \<Rightarrow> u16 list" where
  "encode_utf16 cs = concat (map utf16_units cs)"

definition high_surrogate :: "u16 \<Rightarrow> bool" where
  "high_surrogate u \<longleftrightarrow> 0xD800 \<le> unat u \<and> unat u < 0xDC00"

definition low_surrogate :: "u16 \<Rightarrow> bool" where
  "low_surrogate u \<longleftrightarrow> 0xDC00 \<le> unat u \<and> unat u < 0xE000"

fun from_utf16_lossy :: "u16 list \<Rightarrow> nat list" where
  "from_utf16_lossy [] = []"
| "from_utf16_lossy (u # us) =
     (if low_surrogate u then 0xFFFD # from_utf16_lossy us
      else if high_surrogate u then
        (case us of
           [] \<Rightarrow> [0xFFFD]
         | v # vs \<Rightarrow>
             if low_surrogate v
             then (0x10000 + (unat u - 0xD800) * 0x400 + (unat v - 0xDC00)) # from_utf16_lossy vs
             else 0xFFFD # from_utf16_lossy us)
      else unat u # from_utf16_lossy us)"

section \<open>UTF-8\<close>

definition utf8_bytes :: "nat \<Rightarrow> ustring" where
  "utf8_bytes c =
     (if c < 0x80 then [of_nat c]
      else if c < 0x800 then [of_nat (0xC0 + c div 64), of_nat (0x80 + c mod 64)]
      else if c < 0x10000 then
        [of_nat (0xE0 + c div 4096), of_nat (0x80 + c div 64 mod 64), of_nat (0x80 + c mod 64)]
      else [of_nat (0xF0 + c div 262144), of_nat (0x80 + c div 4096 mod 64),
            of_nat (0x80 + c div 64 mod 64), of_nat (0x80 + c mod 64)])"

definition encode_utf8 :: "nat list \<Rightarrow> ustring" where
  "encode_utf8 cs = concat (map utf8_bytes cs)"

text \<open>\<open>str::chars\<close>; the bytes of a string are always well-formed, so the last equation is not
  reached there.\<close>

fun chars :: "ustring \<Rightarrow> nat list" where
  "chars [] = []"
| "chars (a # bs) =
     (if unat a < 0x80 then unat a # chars bs
      else case bs of
        [] \<Rightarrow> []
      | b # cs \<Rightarrow>
          if unat a < 0xE0 then ((unat a - 0xC0) * 64 + (unat b - 0x80)) # chars cs
          else case cs of
            [] \<Rightarrow> []
          | c # ds \<Rightarrow>
              if unat a < 0xF0
              then ((unat a - 0xE0) * 4096 + (unat b - 0x80) * 64 + (unat c - 0x80)) # chars ds
              else case ds of
                [] \<Rightarrow> []
              | d # es \<Rightarrow> ((unat a - 0xF0) * 262144 + (unat b - 0x80) * 4096
                   + (unat c - 0x80) * 64 + (unat d - 0x80)) # chars es)"

definition str_utf16 :: "ustring \<Rightarrow> u16 list" where
  "str_utf16 s = encode_utf16 (chars s)"

text \<open>\<open>read_utf16_cstr\<close>: the units up to the terminator, as a string.\<close>

definition read_utf16_cstr :: "u16 list \<Rightarrow> ustring" where
  "read_utf16_cstr units = encode_utf8 (from_utf16_lossy (takeWhile (\<lambda>u. u \<noteq> 0) units))"

text \<open>\<open>str::trim\<close>: the characters with the Unicode property \<open>White_Space\<close>.\<close>

definition white_space :: "nat \<Rightarrow> bool" where
  "white_space c \<longleftrightarrow> 9 \<le> c \<and> c \<le> 13 \<or> c = 32 \<or> c = 0x85 \<or> c = 0xA0 \<or> c = 0x1680
     \<or> 0x2000 \<le> c \<and> c \<le> 0x200A \<or> c = 0x2028 \<or> c = 0x2029 \<or> c = 0x202F \<or> c = 0x205F \<or> c = 0x3000"

definition str_trim :: "ustring \<Rightarrow> ustring" where
  "str_trim s = encode_utf8 (rev (dropWhile white_space (rev (dropWhile white_space (chars s)))))"

text \<open>\<open>str::from_utf8\<close> and \<open>CStr::to_str\<close> succeed on well-formed UTF-8 only.\<close>

definition well_formed_utf8 :: "u8 list \<Rightarrow> bool" where
  "well_formed_utf8 bs \<longleftrightarrow> encode_utf8 (chars bs) = bs \<and> list_all scalar (chars bs)"

section \<open>Round trips\<close>

lemma unat_of_nat_small: "n < 65536 \<Longrightarrow> unat (of_nat n :: u16) = n"
  by (simp add: unat_of_nat)

lemma unat_of_nat_byte: "n < 256 \<Longrightarrow> unat (of_nat n :: u8) = n"
  by (simp add: unat_of_nat)

lemma utf16_inverse:
  assumes "scalar c"
  shows "from_utf16_lossy (utf16_units c @ us) = c # from_utf16_lossy us"
proof (cases "c < 0x10000")
  case True
  then show ?thesis using assms
    by (auto simp: utf16_units_def scalar_def unat_of_nat_small low_surrogate_def high_surrogate_def)
next
  case False
  define d where "d = c - 0x10000"
  have c: "c = 0x10000 + d" "d < 0x100000" using False assms by (simp_all add: d_def scalar_def)
  have q: "d div 0x400 < 0x400" "d mod 0x400 < 0x400" using c(2) by simp_all
  have h: "unat (of_nat (0xD800 + d div 0x400) :: u16) = 0xD800 + d div 0x400"
    and l: "unat (of_nat (0xDC00 + d mod 0x400) :: u16) = 0xDC00 + d mod 0x400"
    using q by (simp_all add: unat_of_nat_small del: of_nat_add)
  have "d div 0x400 * 0x400 + d mod 0x400 = d" by simp
  then show ?thesis using h l q False
    by (simp add: utf16_units_def low_surrogate_def high_surrogate_def c(1) del: of_nat_add)
qed

lemma from_encode_utf16: "list_all scalar cs \<Longrightarrow> from_utf16_lossy (encode_utf16 cs) = cs"
  by (induction cs) (simp_all add: encode_utf16_def utf16_inverse)

lemma chars_inverse:
  assumes "c < 0x110000"
  shows "chars (utf8_bytes c @ bs) = c # chars bs"
proof -
  have bnd: "c div 262144 < 5" "c div 4096 mod 64 < 64" "c div 64 mod 64 < 64" "c mod 64 < 64"
    using assms by simp_all
  have d: "c div 4096 = c div 64 div 64" "c div 262144 = c div 64 div 64 div 64"
    by (simp_all flip: div_mult2_eq)
  have split2: "c div 64 * 64 + c mod 64 = c"
    and "c div 64 div 64 * 64 + c div 64 mod 64 = c div 64"
    and "c div 64 div 64 div 64 * 64 + c div 64 div 64 mod 64 = c div 64 div 64" by simp_all
  then have split3: "c div 4096 * 4096 + c div 64 mod 64 * 64 + c mod 64 = c"
    and split4: "c div 262144 * 262144 + c div 4096 mod 64 * 4096 + c div 64 mod 64 * 64 + c mod 64 = c"
    unfolding d by linarith+
  consider "c < 0x80" | "0x80 \<le> c" "c < 0x800" | "0x800 \<le> c" "c < 0x10000" | "0x10000 \<le> c" by linarith
  then show ?thesis
  proof cases
    case 1
    then show ?thesis by (simp add: utf8_bytes_def unat_of_nat_byte)
  next
    case 2
    define q where "q = c div 64"
    have q: "q < 32" "q * 64 + c mod 64 = c" using 2 by (simp_all add: q_def)
    then show ?thesis using 2 bnd
      by (simp add: utf8_bytes_def unat_of_nat_byte del: of_nat_add flip: q_def)
  next
    case 3
    define q where "q = c div 4096"
    define r where "r = c div 64 mod 64"
    have q: "q < 16" "r < 64" "q * 4096 + r * 64 + c mod 64 = c"
      using 3 split3 by (simp_all add: q_def r_def)
    then show ?thesis using 3 bnd
      by (simp add: utf8_bytes_def unat_of_nat_byte del: of_nat_add flip: q_def r_def)
  next
    case 4
    define q where "q = c div 262144"
    define r where "r = c div 4096 mod 64"
    define t where "t = c div 64 mod 64"
    have q: "q < 5" "r < 64" "t < 64" "q * 262144 + r * 4096 + t * 64 + c mod 64 = c"
      using bnd split4 by (simp_all add: q_def r_def t_def)
    then show ?thesis using 4 bnd
      by (simp add: utf8_bytes_def unat_of_nat_byte del: of_nat_add flip: q_def r_def t_def)
  qed
qed

lemma chars_encode_utf8: "list_all scalar cs \<Longrightarrow> chars (encode_utf8 cs) = cs"
  by (induction cs) (simp_all add: encode_utf8_def chars_inverse scalar_def)

lemma utf16_no_zero: "list_all scalar cs \<Longrightarrow> 0 \<notin> set cs \<Longrightarrow> 0 \<notin> set (encode_utf16 cs)"
proof (induction cs)
  case (Cons c cs)
  have "0 \<notin> set (utf16_units c)"
  proof (cases "c < 0x10000")
    case True
    then have "unat (of_nat c :: u16) = c" by (rule unat_of_nat_small)
    then show ?thesis using True Cons.prems by (auto simp: utf16_units_def)
  next
    case False
    have "(c - 0x10000) div 0x400 < 0x400" using Cons.prems by (auto simp: scalar_def)
    then have "unat (of_nat (0xD800 + (c - 0x10000) div 0x400) :: u16) \<noteq> 0"
      "unat (of_nat (0xDC00 + (c - 0x10000) mod 0x400) :: u16) \<noteq> 0"
      using Cons.prems by (simp_all add: unat_of_nat_small scalar_def del: of_nat_add)
    then have "of_nat (0xD800 + (c - 0x10000) div 0x400) \<noteq> (0 :: u16)"
      "of_nat (0xDC00 + (c - 0x10000) mod 0x400) \<noteq> (0 :: u16)" by auto
    then show ?thesis using False by (simp add: utf16_units_def del: of_nat_add)
  qed
  with Cons show ?case by (simp add: encode_utf16_def)
qed (simp add: encode_utf16_def)

section \<open>Numbers as text\<close>

lemma hex_char_facts:
  assumes "n < 16"
  shows "hex_digit (hex_char n) = Some n" "hex_char n \<noteq> 0x2b"
    "unat (hex_char n) < 0x80" "\<not> white_space (unat (hex_char n))"
proof -
  show "hex_digit (hex_char n) = Some n" "hex_char n \<noteq> 0x2b" using hex_char_digit assms by auto
  have "unat (hex_char n) = (if n < 10 then 48 + n else 87 + n)"
    using assms by (simp add: hex_char_def unat_of_nat_byte del: of_nat_add)
  then show "unat (hex_char n) < 0x80" "\<not> white_space (unat (hex_char n))"
    using assms by (auto simp: white_space_def)
qed

lemma hex_digits_lower_hex: "hex_digits 0 (lower_hex n) = Some n"
  by (induction n rule: lower_hex.induct)
    (subst lower_hex.simps, simp add: hex_digits_snoc hex_char_facts(1))

lemma lower_hex_chars: "\<forall>c\<in>set (lower_hex n). c \<noteq> 0x2b \<and> unat c < 0x80 \<and> \<not> white_space (unat c)"
  by (induction n rule: lower_hex.induct) (subst lower_hex.simps, simp add: hex_char_facts)

lemma lower_hex_ne: "lower_hex n \<noteq> []"
  by (subst lower_hex.simps) simp

lemma chars_ascii: "\<forall>c\<in>set s. unat c < 0x80 \<Longrightarrow> chars s = map unat s"
  by (induction s) simp_all

lemma encode_ascii: "\<forall>c\<in>set s. unat c < 0x80 \<Longrightarrow> encode_utf8 (map unat s) = s"
  by (induction s) (simp_all add: encode_utf8_def utf8_bytes_def)

lemma dropWhile_none: "\<forall>x\<in>set xs. \<not> P x \<Longrightarrow> dropWhile P xs = xs"
  by (cases xs) auto

lemma str_trim_ascii: "\<forall>c\<in>set s. unat c < 0x80 \<and> \<not> white_space (unat c) \<Longrightarrow> str_trim s = s"
  by (simp add: str_trim_def chars_ascii encode_ascii dropWhile_none)
lemma pad_hex_chars: "\<forall>c\<in>set (pad_hex w n). c \<noteq> 0x2b \<and> unat c < 0x80 \<and> \<not> white_space (unat c)"
  using lower_hex_chars [of n] by (auto simp: pad_hex_def Let_def white_space_def)

lemma hex_digits_zeros: "hex_digits 0 (replicate k 0x30 @ xs) = hex_digits 0 xs"
  by (induction k) (simp_all add: hex_digit_def)

lemma from_str_radix16_pad_hex:
  "from_str_radix16 m (pad_hex w n) = (if n \<le> m then Some n else None)"
proof -
  have ne: "pad_hex w n \<noteq> []" by (simp add: pad_hex_def Let_def lower_hex_ne)
  moreover have "hex_digits 0 (pad_hex w n) = Some n"
    by (simp add: pad_hex_def Let_def hex_digits_zeros hex_digits_lower_hex)
  ultimately show ?thesis using pad_hex_chars [of w n]
    by (cases "pad_hex w n") (auto simp: from_str_radix16_def simp del: hex_digits.simps)
qed

section \<open>Pieces of well-formed text\<close>

lemma well_formed_iff: "well_formed_utf8 t \<longleftrightarrow> (\<exists>cs. list_all scalar cs \<and> t = encode_utf8 cs)"
proof
  assume "\<exists>cs. list_all scalar cs \<and> t = encode_utf8 cs"
  then show "well_formed_utf8 t" by (auto simp: well_formed_utf8_def chars_encode_utf8)
qed (metis well_formed_utf8_def)

lemma utf8_bytes_high: "0x80 \<le> c \<Longrightarrow> scalar c \<Longrightarrow> b \<in> set (utf8_bytes c) \<Longrightarrow> 0x80 \<le> unat b"
proof -
  assume c: "0x80 \<le> c" "scalar c" and b: "b \<in> set (utf8_bytes c)"
  have high: "0x80 \<le> unat (of_nat (m + n) :: u8)" if "0x80 \<le> m" "m + n < 256" for m n
    using that by (simp add: unat_of_nat_byte del: of_nat_add)
  have "c < 0x110000" using c(2) by (simp add: scalar_def)
  then have bounds: "c div 262144 < 5" "n mod 64 < 64" for n :: nat by simp_all
  then have tail: "0x80 \<le> unat (of_nat (0x80 + n mod 64) :: u8)" for n
    using bounds(2) [of n] by (intro high) linarith+
  have lead: "c < 2048 \<Longrightarrow> 0x80 \<le> unat (of_nat (0xC0 + c div 64) :: u8)"
    "c < 65536 \<Longrightarrow> 0x80 \<le> unat (of_nat (0xE0 + c div 4096) :: u8)"
    "0x80 \<le> unat (of_nat (0xF0 + c div 262144) :: u8)"
    by (intro high; use bounds in simp)+
  show ?thesis
    using c(1) b lead tail by (auto simp: utf8_bytes_def simp del: of_nat_add split: if_splits)
qed

lemma encode_split:
  assumes "list_all scalar cs" "encode_utf8 cs = a @ d # b" "unat d < 0x80"
  shows "\<exists>ca cb. cs = ca @ unat d # cb \<and> a = encode_utf8 ca \<and> b = encode_utf8 cb"
  using assms(1,2)
proof (induction cs arbitrary: a)
  case Nil
  then show ?case by (simp add: encode_utf8_def)
next
  case (Cons c cs)
  have cs: "utf8_bytes c @ encode_utf8 cs = a @ d # b" using Cons.prems(2) by (simp add: encode_utf8_def)
  then obtain us where "utf8_bytes c = a @ us \<and> us @ encode_utf8 cs = d # b \<or>
      utf8_bytes c @ us = a \<and> encode_utf8 cs = us @ d # b"
    unfolding append_eq_append_conv2 by blast
  then show ?case
  proof
    assume u: "utf8_bytes c = a @ us \<and> us @ encode_utf8 cs = d # b"
    show ?thesis
    proof (cases us)
      case Nil
      then obtain ca cb where "cs = ca @ unat d # cb" "[] = encode_utf8 ca" "b = encode_utf8 cb"
        using u Cons.IH [of "[]"] Cons.prems(1) by auto
      then have "c # cs = (c # ca) @ unat d # cb \<and> a = encode_utf8 (c # ca) \<and> b = encode_utf8 cb"
        using u Nil by (simp add: encode_utf8_def)
      then show ?thesis by blast
    next
      case (Cons v vs)
      then have "d \<in> set (utf8_bytes c)" "v = d" "vs @ encode_utf8 cs = b" using u by auto
      then have "\<not> 0x80 \<le> c" using utf8_bytes_high [of c d] assms(3) Cons.prems(1) by auto
      then have c: "c < 0x80" by simp
      then have "a = []" "vs = []" "of_nat c = d" using u Cons by (cases a; auto simp: utf8_bytes_def)+
      moreover from this have "unat d = c" using c by (auto simp: unat_of_nat)
      ultimately have "c # cs = [] @ unat d # cs \<and> a = encode_utf8 [] \<and> b = encode_utf8 cs"
        using \<open>vs @ encode_utf8 cs = b\<close> by (simp add: encode_utf8_def)
      then show ?thesis by blast
    qed
  next
    assume a: "utf8_bytes c @ us = a \<and> encode_utf8 cs = us @ d # b"
    then obtain ca cb where "cs = ca @ unat d # cb" "us = encode_utf8 ca" "b = encode_utf8 cb"
      using Cons.IH [of us] Cons.prems(1) by auto
    then have "c # cs = (c # ca) @ unat d # cb \<and> a = encode_utf8 (c # ca) \<and> b = encode_utf8 cb"
      using a by (auto simp: encode_utf8_def)
    then show ?thesis by blast
  qed
qed

lemma well_formed_split:
  assumes "well_formed_utf8 (a @ d # b)" "unat d < 0x80"
  shows "well_formed_utf8 a" "well_formed_utf8 b" "str_utf16 (a @ d # b) = str_utf16 a @ str_utf16 (d # b)"
proof -
  obtain cs where cs: "list_all scalar cs" "encode_utf8 cs = a @ d # b" using assms(1) well_formed_iff by metis
  obtain ca cb where c: "cs = ca @ unat d # cb" "a = encode_utf8 ca" "b = encode_utf8 cb"
    using encode_split [OF cs assms(2)] by blast
  then show "well_formed_utf8 a" "well_formed_utf8 b" using cs(1) by (auto simp: well_formed_iff)
  have "d # b = encode_utf8 (unat d # cb)" using assms(2) c(3) by (simp add: encode_utf8_def utf8_bytes_def)
  moreover have "list_all scalar (unat d # cb)" using cs(1) c(1) by simp
  ultimately have "chars (d # b) = unat d # cb" using chars_encode_utf8 by metis
  moreover have "chars (a @ d # b) = ca @ unat d # cb" using cs c(1) chars_encode_utf8 by metis
  moreover have "chars a = ca" using cs(1) c(1,2) chars_encode_utf8 by simp
  ultimately show "str_utf16 (a @ d # b) = str_utf16 a @ str_utf16 (d # b)"
    by (simp add: str_utf16_def encode_utf16_def)
qed

lemma text_round_trip: "well_formed_utf8 t \<Longrightarrow> encode_utf8 (from_utf16_lossy (str_utf16 t)) = t"
  by (simp add: well_formed_utf8_def str_utf16_def from_encode_utf16)

end
