(* ===== verification/Unix_Library.thy ===== *)
theory Unix_Library
  imports Bytes Handle_Table
begin

text \<open>
  The native half of the Unix transport, \<open>unixlib/src/lib.rs\<close>: the two calls of its dispatch
  table and the socket they use.

  The kernel is a script: a \<open>unix_conn\<close> says how one connection goes, answer by answer, and
  what arrives on it as a function of what was sent. A call on which nothing more happens
  ends with the socket's timeout (\<open>SO_SNDTIMEO\<close>, \<open>SO_RCVTIMEO\<close>), so a script that has run out
  means a timeout. A parked reply is a heap block: \<open>Box::into_raw\<close> is a creation in a
  \<open>htable\<close>, whose addresses are not reused here, and reclaiming a block that is not parked is
  the undefined behaviour the flag \<open>us_undefined\<close> records. A null pointer is \<open>None\<close>.
\<close>

section \<open>Constants\<close>

definition STATUS_SUCCESS :: u32 where "STATUS_SUCCESS = 0"
definition STATUS_INVALID_PARAMETER :: u32 where "STATUS_INVALID_PARAMETER = 0xC000000D"
definition STATUS_BUFFER_TOO_SMALL :: u32 where "STATUS_BUFFER_TOO_SMALL = 0xC0000023"
definition STATUS_CONNECTION_REFUSED :: u32 where "STATUS_CONNECTION_REFUSED = 0xC0000236"
definition STATUS_OBJECT_NAME_NOT_FOUND :: u32 where "STATUS_OBJECT_NAME_NOT_FOUND = 0xC0000034"
definition STATUS_ACCESS_DENIED :: u32 where "STATUS_ACCESS_DENIED = 0xC0000022"
definition STATUS_UNEXPECTED_IO_ERROR :: u32 where "STATUS_UNEXPECTED_IO_ERROR = 0xC00000E9"
definition STATUS_IO_TIMEOUT :: u32 where "STATUS_IO_TIMEOUT = 0xC00000B5"
definition STATUS_INVALID_NETWORK_RESPONSE :: u32 where "STATUS_INVALID_NETWORK_RESPONSE = 0xC0000C01"

lemmas status_defs = STATUS_SUCCESS_def STATUS_INVALID_PARAMETER_def STATUS_BUFFER_TOO_SMALL_def
  STATUS_CONNECTION_REFUSED_def STATUS_OBJECT_NAME_NOT_FOUND_def STATUS_ACCESS_DENIED_def
  STATUS_UNEXPECTED_IO_ERROR_def STATUS_IO_TIMEOUT_def STATUS_INVALID_NETWORK_RESPONSE_def

definition UNIX_MAX_MESSAGE_SIZE :: nat where "UNIX_MAX_MESSAGE_SIZE = 16 * 1024 * 1024"
definition UNIX_XML_MAGIC_V2 :: u32 where "UNIX_XML_MAGIC_V2 = 0x59445358"

text \<open>\<open>sizeof(sun_path)\<close> of the platform.\<close>

definition SUN_PATH_LEN :: nat where "SUN_PATH_LEN = 108"

section \<open>State\<close>

datatype errno = EINTR | EAGAIN | EINPROGRESS | ETIMEDOUT | ENOENT | EACCES | EPERM | OtherErrno

datatype send_answer = Sent nat | SendFails errno
datatype recv_answer = Arrived "u8 list" | RecvFails errno

record unix_conn =
  uc_socket :: bool
  uc_connect :: "errno option list"
  uc_sends :: "send_answer list"
  uc_peer :: "u8 list \<Rightarrow> recv_answer list"

record unix_side =
  us_conns :: "unix_conn list"
  us_sent :: "u8 list list"
  us_parked :: "u8 list htable"
  us_undefined :: bool

text \<open>A machine on which no service listens.\<close>

definition no_unix :: unix_side where
  "no_unix = \<lparr>us_conns = [], us_sent = [], us_parked = ht_new, us_undefined = False\<rparr>"

record exchange_params =
  xp_socket_path :: "u8 list option"
  xp_request :: "u8 list option"
  xp_request_len :: u64
  xp_timeout_ms :: u64
  xp_msg_type :: u32
  xp_reply_type :: u32
  xp_reply_len :: u64
  xp_reply_handle :: u64

record fetch_params =
  fp_reply_handle :: u64
  fp_buffer_null :: bool
  fp_buffer_len :: u64

section \<open>The socket\<close>

fun connect_loop :: "errno option list \<Rightarrow> u32 option" where
  "connect_loop [] = Some STATUS_IO_TIMEOUT"
| "connect_loop (None # rs) = None"
| "connect_loop (Some e # rs) =
     (case e of
        EINTR \<Rightarrow> connect_loop rs
      | EAGAIN \<Rightarrow> Some STATUS_IO_TIMEOUT
      | EINPROGRESS \<Rightarrow> Some STATUS_IO_TIMEOUT
      | ETIMEDOUT \<Rightarrow> Some STATUS_IO_TIMEOUT
      | ENOENT \<Rightarrow> Some STATUS_OBJECT_NAME_NOT_FOUND
      | EACCES \<Rightarrow> Some STATUS_ACCESS_DENIED
      | EPERM \<Rightarrow> Some STATUS_ACCESS_DENIED
      | OtherErrno \<Rightarrow> Some STATUS_CONNECTION_REFUSED)"

definition socket_connect :: "u8 list \<Rightarrow> unix_side \<Rightarrow> (u32 + unix_conn) \<times> unix_side" where
  "socket_connect path s =
     (if length path \<ge> SUN_PATH_LEN then (Inl STATUS_INVALID_PARAMETER, s)
      else case us_conns s of
        [] \<Rightarrow> (Inl STATUS_CONNECTION_REFUSED, s)
      | c # cs \<Rightarrow>
          (if \<not> uc_socket c then Inl STATUS_UNEXPECTED_IO_ERROR
           else case connect_loop (uc_connect c) of None \<Rightarrow> Inr c | Some status \<Rightarrow> Inl status,
           s\<lparr>us_conns := cs\<rparr>))"

text \<open>\<open>write_all\<close>: the error if any, and the bytes the kernel took. \<open>Sent n\<close> takes \<open>n + 1\<close> bytes
  or all that is left.\<close>

fun send_all :: "send_answer list \<Rightarrow> u8 list \<Rightarrow> u32 option \<times> u8 list" where
  "send_all rs [] = (None, [])"
| "send_all [] (b # bs) = (Some STATUS_IO_TIMEOUT, [])"
| "send_all (Sent n # rs) (b # bs) =
     (let (e, out) = send_all rs (drop n bs) in (e, b # take n bs @ out))"
| "send_all (SendFails e # rs) (b # bs) =
     (case e of
        EINTR \<Rightarrow> send_all rs (b # bs)
      | EAGAIN \<Rightarrow> (Some STATUS_IO_TIMEOUT, [])
      | _ \<Rightarrow> (Some STATUS_UNEXPECTED_IO_ERROR, []))"

text \<open>\<open>read_exact\<close>: a chunk longer than what is asked for keeps its rest for the next read, and an
  empty one is the end of the stream.\<close>

fun recv_exact :: "recv_answer list \<Rightarrow> nat \<Rightarrow> (u32 + u8 list) \<times> recv_answer list" where
  "recv_exact rs 0 = (Inr [], rs)"
| "recv_exact [] (Suc n) = (Inl STATUS_IO_TIMEOUT, [])"
| "recv_exact (Arrived bs # rs) (Suc n) =
     (if bs = [] then (Inl STATUS_UNEXPECTED_IO_ERROR, rs)
      else if Suc n < length bs then (Inr (take (Suc n) bs), Arrived (drop (Suc n) bs) # rs)
      else case recv_exact rs (Suc n - length bs) of
        (Inl e, rs1) \<Rightarrow> (Inl e, rs1)
      | (Inr out, rs1) \<Rightarrow> (Inr (bs @ out), rs1))"
| "recv_exact (RecvFails e # rs) (Suc n) =
     (case e of
        EINTR \<Rightarrow> recv_exact rs (Suc n)
      | EAGAIN \<Rightarrow> (Inl STATUS_IO_TIMEOUT, rs)
      | _ \<Rightarrow> (Inl STATUS_UNEXPECTED_IO_ERROR, rs))"

section \<open>The two calls\<close>

definition unix_frame :: "u32 \<Rightarrow> u8 list \<Rightarrow> u8 list" where
  "unix_frame msg_type request =
     u32_le UNIX_XML_MAGIC_V2 @ u16_le (ucast msg_type) @ u32_le (of_nat (length request)) @ request"

text \<open>The reply: its type, its length and its body.\<close>

definition receive_reply :: "recv_answer list \<Rightarrow> u32 + u16 \<times> u32 \<times> u8 list" where
  "receive_reply rs =
     (case recv_exact rs 10 of
        (Inl e, _) \<Rightarrow> Inl e
      | (Inr header, rs1) \<Rightarrow>
          if le_u32 (take 4 header) \<noteq> UNIX_XML_MAGIC_V2 then Inl STATUS_INVALID_NETWORK_RESPONSE
          else let sz = le_u32 (drop 6 header)
               in if unat sz > UNIX_MAX_MESSAGE_SIZE then Inl STATUS_INVALID_NETWORK_RESPONSE
                  else case recv_exact rs1 (unat sz) of
                    (Inl e, _) \<Rightarrow> Inl e
                  | (Inr body, _) \<Rightarrow> Inr (le_u16 (take 2 (drop 4 header)), sz, body))"

definition exchange_call ::
  "exchange_params \<Rightarrow> unix_side \<Rightarrow> u32 \<times> exchange_params \<times> unix_side" where
  "exchange_call params s =
     (let p = params\<lparr>xp_reply_handle := 0, xp_reply_len := 0, xp_reply_type := 0\<rparr>
      in case xp_socket_path p of
        None \<Rightarrow> (STATUS_INVALID_PARAMETER, p, s)
      | Some path \<Rightarrow>
          if xp_timeout_ms p = 0 then (STATUS_INVALID_PARAMETER, p, s)
          else if unat (xp_request_len p) > UNIX_MAX_MESSAGE_SIZE
              \<or> (xp_request_len p > 0 \<and> xp_request p = None)
          then (STATUS_INVALID_PARAMETER, p, s)
          else let request = take (unat (xp_request_len p))
                     (case xp_request p of None \<Rightarrow> [] | Some bs \<Rightarrow> bs)
               in case socket_connect path s of
                 (Inl status, s1) \<Rightarrow> (status, p, s1)
               | (Inr c, s1) \<Rightarrow>
                   let (failed, out) = send_all (uc_sends c) (unix_frame (xp_msg_type p) request);
                       s2 = s1\<lparr>us_sent := us_sent s1 @ [out]\<rparr>
                   in case failed of
                     Some status \<Rightarrow> (status, p, s2)
                   | None \<Rightarrow>
                       (case receive_reply (uc_peer c out) of
                          Inl status \<Rightarrow> (status, p, s2)
                        | Inr (reply_type, sz, body) \<Rightarrow>
                            let (h, t) = ht_create body (us_parked s2)
                            in (STATUS_SUCCESS,
                                p\<lparr>xp_reply_type := ucast reply_type, xp_reply_len := ucast sz,
                                  xp_reply_handle := h\<rparr>,
                                s2\<lparr>us_parked := t\<rparr>)))"

definition fetch_reply ::
  "fetch_params \<Rightarrow> unix_side \<Rightarrow> u32 \<times> u8 list \<times> unix_side" where
  "fetch_reply p s =
     (if fp_reply_handle p = 0 then (STATUS_INVALID_PARAMETER, [], s)
      else case ht_get (us_parked s) (fp_reply_handle p) of
        None \<Rightarrow> (STATUS_SUCCESS, [], s\<lparr>us_undefined := True\<rparr>)
      | Some body \<Rightarrow>
          let s1 = s\<lparr>us_parked := ht_close (fp_reply_handle p) (us_parked s)\<rparr>
          in if unat (fp_buffer_len p) < length body then (STATUS_BUFFER_TOO_SMALL, [], s1)
             else if body = [] then (STATUS_SUCCESS, [], s1)
             else if fp_buffer_null p then (STATUS_INVALID_PARAMETER, [], s1)
             else (STATUS_SUCCESS, body, s1))"

section \<open>What the loops do\<close>

text \<open>How many bytes the kernel takes, and the stream it delivers, whatever the chunks and however
  often it interrupts.\<close>

fun room_of :: "send_answer list \<Rightarrow> nat" where
  "room_of [] = 0"
| "room_of (Sent n # rs) = Suc n + room_of rs"
| "room_of (SendFails e # rs) = (if e = EINTR then room_of rs else 0)"

fun stream_of :: "recv_answer list \<Rightarrow> u8 list" where
  "stream_of [] = []"
| "stream_of (Arrived bs # rs) = (if bs = [] then [] else bs @ stream_of rs)"
| "stream_of (RecvFails e # rs) = (if e = EINTR then stream_of rs else [])"

lemma send_all_spec:
  "snd (send_all rs bs) = take (room_of rs) bs \<and> (fst (send_all rs bs) = None \<longleftrightarrow> length bs \<le> room_of rs)"
proof (induction rs bs rule: send_all.induct)
  case (3 n rs b bs)
  then show ?case by (auto simp: split_def take_add drop_take min_def)
next
  case (4 e rs b bs)
  then show ?case by (cases e) simp_all
qed simp_all

lemma recv_exact_spec:
  "n \<le> length (stream_of rs) \<Longrightarrow>
     \<exists>rs1. recv_exact rs n = (Inr (take n (stream_of rs)), rs1) \<and> stream_of rs1 = drop n (stream_of rs)"
proof (induction rs n rule: recv_exact.induct)
  case (3 bs rs n)
  have ne: "bs \<noteq> []" using 3(2) by auto
  show ?case
  proof (cases "Suc n < length bs")
    case False
    have "Suc n - length bs \<le> length (stream_of rs)" using 3(2) ne by simp
    then obtain rs1 where "recv_exact rs (Suc n - length bs) = (Inr (take (Suc n - length bs) (stream_of rs)), rs1)"
      "stream_of rs1 = drop (Suc n - length bs) (stream_of rs)"
      using 3(1) ne False by blast
    then show ?thesis using ne False by simp
  qed (use ne in auto)
next
  case (4 e rs n)
  then show ?case by (cases e) auto
qed auto

lemma recv_exact_short:
  "length (stream_of rs) < n \<Longrightarrow> \<exists>e. fst (recv_exact rs n) = Inl e"
proof (induction rs n rule: recv_exact.induct)
  case (3 bs rs n)
  show ?case
  proof (cases "bs = []")
    case False
    then have "\<not> Suc n < length bs" "length (stream_of rs) < Suc n - length bs" using 3(2) by auto
    then show ?thesis using 3(1) False by (fastforce split: prod.split sum.split)
  qed simp
next
  case (4 e rs n)
  then show ?case by (cases e) auto
qed auto

lemma recv_exact_Inr:
  "fst (recv_exact rs n) = Inr bs \<Longrightarrow> n \<le> length (stream_of rs) \<and> bs = take n (stream_of rs)"
  using recv_exact_short [of rs n] recv_exact_spec [of n rs] by (cases "n \<le> length (stream_of rs)") auto

text \<open>What is received depends on the stream alone, not on how it is cut.\<close>

lemma receive_reply_stream:
  assumes "stream_of rs = u32_le UNIX_XML_MAGIC_V2 @ u16_le t @ u32_le (of_nat (length body)) @ body @ rest"
    and "length body \<le> UNIX_MAX_MESSAGE_SIZE"
  shows "receive_reply rs = Inr (t, of_nat (length body), body)"
proof -
  have n: "unat (of_nat (length body) :: u32) = length body"
    using assms(2) by (simp add: unat_of_nat UNIX_MAX_MESSAGE_SIZE_def)
  define header where "header = u32_le UNIX_XML_MAGIC_V2 @ u16_le t @ u32_le (of_nat (length body))"
  have h: "stream_of rs = header @ body @ rest" "length header = 10" by (simp_all add: assms(1) header_def)
  obtain rs1 where r1: "recv_exact rs 10 = (Inr header, rs1)" "stream_of rs1 = body @ rest"
    using recv_exact_spec [of 10 rs] h by auto
  obtain rs2 where r2: "recv_exact rs1 (length body) = (Inr body, rs2)"
    using recv_exact_spec [of "length body" rs1] r1(2) by auto
  show ?thesis using assms(2) by (simp add: receive_reply_def r1 r2 header_def n Let_def)
qed

lemma receive_reply_Inr:
  assumes "receive_reply rs = Inr (t, sz, body)"
  shows "length body = unat sz" "unat sz \<le> UNIX_MAX_MESSAGE_SIZE"
proof -
  obtain rs1 rs2 where r: "recv_exact rs1 (unat sz) = (Inr body, rs2)" "unat sz \<le> UNIX_MAX_MESSAGE_SIZE"
    using assms by (auto simp: receive_reply_def Let_def split: prod.splits sum.splits if_splits)
  then show "length body = unat sz" "unat sz \<le> UNIX_MAX_MESSAGE_SIZE"
    using recv_exact_Inr [of rs1 "unat sz" body] by simp_all
qed

section \<open>Failures are reported\<close>

lemma connect_loop_fails: "connect_loop rs = Some e \<Longrightarrow> e \<noteq> 0"
  by (induction rs rule: connect_loop.induct) (auto simp: status_defs split: errno.splits)

lemma socket_connect_fails: "socket_connect path s = (Inl e, s') \<Longrightarrow> e \<noteq> 0"
  by (auto simp: socket_connect_def status_defs dest: connect_loop_fails
      split: if_splits list.splits option.splits)

lemma send_all_fails: "fst (send_all rs bs) = Some e \<Longrightarrow> e \<noteq> 0"
  by (induction rs bs rule: send_all.induct) (auto simp: status_defs split_def Let_def split: errno.splits)

lemma recv_exact_fails: "fst (recv_exact rs n) = Inl e \<Longrightarrow> e \<noteq> 0"
  by (induction rs n rule: recv_exact.induct)
    (auto simp: status_defs split: errno.splits if_splits prod.splits sum.splits)

lemma recv_exact_Inl: "recv_exact rs n = (Inl e, rs1) \<Longrightarrow> e \<noteq> 0"
  by (rule recv_exact_fails [of rs n]) simp

lemma receive_reply_fails: "receive_reply rs = Inl e \<Longrightarrow> e \<noteq> 0"
  by (auto simp: receive_reply_def Let_def STATUS_INVALID_NETWORK_RESPONSE_def
      dest: recv_exact_Inl split: prod.splits sum.splits if_splits)

lemma socket_connect_keeps:
  "socket_connect path s = (r, s') \<Longrightarrow>
     us_parked s' = us_parked s \<and> us_undefined s' = us_undefined s \<and> us_sent s' = us_sent s"
  by (auto simp: socket_connect_def split: if_splits list.splits)

text \<open>A call that fails parks nothing; one that succeeds parks one reply, of the length it reports.\<close>

lemma exchange_call_fails:
  assumes "exchange_call p s = (st, q, s')" "st \<noteq> STATUS_SUCCESS"
  shows "us_parked s' = us_parked s \<and> us_undefined s' = us_undefined s"
  using assms
  by (auto simp: exchange_call_def Let_def split: if_splits option.splits prod.splits sum.splits
      dest: socket_connect_keeps)

lemma exchange_call_parks:
  assumes "exchange_call p s = (STATUS_SUCCESS, q, s')"
  shows "\<exists>body. ht_create body (us_parked s) = (xp_reply_handle q, us_parked s')
     \<and> unat (xp_reply_len q) = length body \<and> length body \<le> UNIX_MAX_MESSAGE_SIZE
     \<and> us_undefined s' = us_undefined s"
proof -
  have inv: "STATUS_INVALID_PARAMETER \<noteq> STATUS_SUCCESS" by (simp add: status_defs)
  obtain path req c s1 out where s1: "socket_connect path s = (Inr c, s1)"
    and sd: "send_all (uc_sends c) (unix_frame (xp_msg_type p) req) = (None, out)"
    and rest: "(case receive_reply (uc_peer c out) of
        Inl status \<Rightarrow> (status, p\<lparr>xp_reply_handle := 0, xp_reply_len := 0, xp_reply_type := 0\<rparr>,
          s1\<lparr>us_sent := us_sent s1 @ [out]\<rparr>)
      | Inr (reply_type, sz, body) \<Rightarrow>
          let (h, t) = ht_create body (us_parked s1)
          in (STATUS_SUCCESS, p\<lparr>xp_reply_handle := h, xp_reply_len := ucast sz, xp_reply_type := ucast reply_type\<rparr>,
              s1\<lparr>us_sent := us_sent s1 @ [out], us_parked := t\<rparr>)) = (STATUS_SUCCESS, q, s')"
    using assms socket_connect_fails send_all_fails inv
    by (auto simp: exchange_call_def Let_def STATUS_SUCCESS_def split: if_splits option.splits prod.splits sum.splits)
      (metis fst_conv)+
  show ?thesis
  proof (cases "receive_reply (uc_peer c out)")
    case (Inl e)
    then show ?thesis using rest receive_reply_fails by (auto simp: STATUS_SUCCESS_def)
  next
    case (Inr v)
    obtain ty sz body where v: "v = (ty, sz, body)" by (cases v)
    have l: "length body = unat sz" "unat sz \<le> UNIX_MAX_MESSAGE_SIZE"
      using receive_reply_Inr Inr v by blast+
    have "unat (ucast sz :: u64) = unat sz" using unat_u32_less [of sz] by (simp add: unsigned_ucast_eq take_bit_nat_eq_self)
    then show ?thesis
      using rest Inr v l socket_connect_keeps [OF s1] by (auto simp: Let_def split_def)
  qed
qed

end
