(* ===== verification/Ipc.thy ===== *)
theory Ipc
  imports Codec Unix_Library
begin

text \<open>
  The blocking client to \<open>xodus-service\<close> of \<open>src/src/ipc.rs\<close> and its transport over the Unix
  library (\<open>src/src/ipc/unixlib.rs\<close>): where the service is, the handshake, the framing of a
  request and its reply, the typed exchange, the retried token request, and the calls built
  on it.

  The operating system is a parameter: a \<open>stream\<close> is a connected socket whose peer is an
  arbitrary function from what it was sent to what it answers, \<open>net\<close> holds what the coming
  connection attempts give, in order, the log of the connections used, and the native half
  of the Unix transport (Unix_Library). The environment
  variables, the XML serialiser and deserialiser (a library), the title's ids and the market
  are fields of \<open>ipc_env\<close>, and so are the two Wine calls of the Unix library, which
  Unix_Transport connects to the library itself. A deserialiser
  gets the bytes of the reply and fails on what is not UTF-8.
\<close>

section \<open>Constants\<close>

definition HANDSHAKE_MAGIC :: u32 where "HANDSHAKE_MAGIC = 0x55414458"
definition HANDSHAKE_ACCEPTED :: u8 where "HANDSHAKE_ACCEPTED = 1"
definition SECRET_LEN :: nat where "SECRET_LEN = 32"
definition XML_MAGIC_V2 :: u32 where "XML_MAGIC_V2 = 0x59445358"
definition MAX_MESSAGE_SIZE :: nat where "MAX_MESSAGE_SIZE = 16 * 1024 * 1024"
definition TOKEN_AND_SIGNATURE_RETRIES :: nat where "TOKEN_AND_SIGNATURE_RETRIES = 3"
definition MSG_TYPE_ERROR :: u16 where "MSG_TYPE_ERROR = 0xFFFF"

section \<open>Sockets\<close>

record stream =
  st_tx :: "u8 list"
  st_rx :: "u8 list"
  st_peer :: "u8 list \<Rightarrow> u8 list"
  st_writes :: "nat option"

definition write_all :: "u8 list \<Rightarrow> stream \<Rightarrow> bool \<times> stream" where
  "write_all bs st =
     (if st_writes st = Some 0 then (False, st)
      else (True, st\<lparr>st_tx := st_tx st @ bs, st_rx := st_rx st @ st_peer st (st_tx st @ bs),
             st_writes := map_option (\<lambda>n. n - 1) (st_writes st)\<rparr>))"

definition read_exact :: "nat \<Rightarrow> stream \<Rightarrow> u8 list option \<times> stream" where
  "read_exact n st =
     (if n \<le> length (st_rx st) then (Some (take n (st_rx st)), st\<lparr>st_rx := drop n (st_rx st)\<rparr>)
      else (None, st\<lparr>st_rx := []\<rparr>))"

record net =
  nt_attempts :: "stream option list"
  nt_log :: "(u16 \<times> stream) list"
  nt_sleeps :: nat
  nt_unix :: unix_side

section \<open>The environment\<close>

datatype ipc_request =
    MSATokenRequest (client_id: ustring) (allow_ui: bool) (msa_full_trust: bool)
  | XstsTokenRequest (xmethod: ustring) (xurl: ustring) (xbody: ustring) (force_refresh: bool)
      (xclient_id: ustring) (xtitle_id: ustring)
  | UserInfoRequest ustring ustring
  | InteractiveSignInRequest ustring ustring
  | LicenseRequest (content_id: ustring) (lmarket: ustring)
  | EntitledProductsRequest ustring
  | CollectionsIdRequest ustring ustring
  | PurchaseIdRequest ustring ustring
  | LicenseTokenRequest "ustring list" ustring
  | AssociatedProductsRequest ustring ustring u32
  | ProductsRequest "ustring list" ustring
  | ResolveProductIdRequest ustring ustring
  | GamerPictureRequest ustring

record user_claims =
  uc_xuid :: ustring
  uc_gamertag :: ustring
  uc_gamertag_modern :: ustring
  uc_age_group :: ustring

record ('e, 'c) ipc_env =
  var :: "string \<Rightarrow> ustring option"
  title_client_id :: ustring
  title_id :: ustring
  store_market :: ustring
  to_xml :: "ipc_request \<Rightarrow> ustring option"
  de_msa :: "ustring \<Rightarrow> (ustring \<times> int) option"
  de_xsts :: "ustring \<Rightarrow> (ustring \<times> ustring) option"
  de_user :: "ustring \<Rightarrow> user_claims option"
  de_sign_in :: "ustring \<Rightarrow> (bool \<times> user_claims) option"
  de_license :: "ustring \<Rightarrow> (bool \<times> int) option"
  de_entitled :: "ustring \<Rightarrow> 'e list option"
  de_key :: "ustring \<Rightarrow> ustring option"
  de_catalog :: "ustring \<Rightarrow> 'c list option"
  unix_exchange :: "(u64 \<Rightarrow> u16 \<Rightarrow> u8 list \<Rightarrow> nat \<Rightarrow> net \<Rightarrow> (u32 \<times> u32 \<times> u64 \<times> u64) \<times> net) option"
  unix_fetch :: "u64 \<Rightarrow> u64 \<Rightarrow> nat \<Rightarrow> net \<Rightarrow> (u32 \<times> u8 list) \<times> net"
  unix_handle :: u64

text \<open>\<open>endpoint\<close>: the port and the secret the launcher published.\<close>

definition endpoint :: "('e, 'c) ipc_env \<Rightarrow> (u16 \<times> u8 list) outcome" where
  "endpoint en =
     (case Option.bind (var en ''XODUS_TCP_PORT'') (parse_unsigned 65535) of
        None \<Rightarrow> Inl E_NOTIMPL
      | Some port \<Rightarrow>
          (case Option.bind (var en ''XODUS_TCP_SECRET'') hex_decode of
             None \<Rightarrow> Inl E_NOTIMPL
           | Some secret \<Rightarrow>
               if length secret = SECRET_LEN then Inr (of_nat port, secret) else Inl E_NOTIMPL))"

section \<open>One request over TCP\<close>

definition perform_handshake :: "u8 list \<Rightarrow> stream \<Rightarrow> unit outcome \<times> stream" where
  "perform_handshake secret st =
     (case write_all (u32_le HANDSHAKE_MAGIC) st of
        (False, st) \<Rightarrow> (Inl E_FAIL, st)
      | (True, st) \<Rightarrow>
          (case write_all secret st of
             (False, st) \<Rightarrow> (Inl E_FAIL, st)
           | (True, st) \<Rightarrow>
               (case read_exact 1 st of
                  (None, st) \<Rightarrow> (Inl E_FAIL, st)
                | (Some accepted, st) \<Rightarrow>
                    if hd accepted \<noteq> HANDSHAKE_ACCEPTED then (Inl E_FAIL, st) else (Inr (), st))))"

definition frame :: "u16 \<Rightarrow> u8 list \<Rightarrow> u8 list" where
  "frame msg_type payload =
     u32_le XML_MAGIC_V2 @ u16_le msg_type @ u32_le (of_nat (length payload)) @ payload"

definition read_reply :: "stream \<Rightarrow> (u16 \<times> u8 list) outcome \<times> stream" where
  "read_reply st =
     (case read_exact 4 st of
        (None, st) \<Rightarrow> (Inl E_FAIL, st)
      | (Some magic, st) \<Rightarrow>
          if le_u32 magic \<noteq> XML_MAGIC_V2 then (Inl E_FAIL, st)
          else (case read_exact 6 st of
             (None, st) \<Rightarrow> (Inl E_FAIL, st)
           | (Some header, st) \<Rightarrow>
               let reply_type = le_u16 (take 2 header);
                   size = unat (le_u32 (drop 2 header))
               in if size > MAX_MESSAGE_SIZE then (Inl E_FAIL, st)
                  else (case read_exact size st of
                     (None, st) \<Rightarrow> (Inl E_FAIL, st)
                   | (Some body, st) \<Rightarrow> (Inr (reply_type, body), st))))"

definition talk :: "u8 list \<Rightarrow> u16 \<Rightarrow> u8 list \<Rightarrow> stream \<Rightarrow> (u16 \<times> u8 list) outcome \<times> stream" where
  "talk secret msg_type payload st =
     (case perform_handshake secret st of
        (Inl e, st) \<Rightarrow> (Inl e, st)
      | (Inr _, st) \<Rightarrow>
          (case write_all (frame msg_type payload) st of
             (False, st) \<Rightarrow> (Inl E_FAIL, st)
           | (True, st) \<Rightarrow> read_reply st))"

definition request_over_tcp ::
  "('e, 'c) ipc_env \<Rightarrow> u16 \<Rightarrow> u8 list \<Rightarrow> net \<Rightarrow> (u16 \<times> u8 list) outcome \<times> net" where
  "request_over_tcp en msg_type payload n =
     (case endpoint en of
        Inl e \<Rightarrow> (Inl e, n)
      | Inr (port, secret) \<Rightarrow>
          (case nt_attempts n of
             Some st # rest \<Rightarrow>
               let (r, st) = talk secret msg_type payload st
               in (r, n\<lparr>nt_attempts := rest, nt_log := nt_log n @ [(port, st)]\<rparr>)
           | None # rest \<Rightarrow> (Inl E_FAIL, n\<lparr>nt_attempts := rest\<rparr>)
           | [] \<Rightarrow> (Inl E_FAIL, n)))"

section \<open>One request over the Unix library\<close>

definition unix_request ::
  "('e, 'c) ipc_env \<Rightarrow> (u64 \<Rightarrow> u16 \<Rightarrow> u8 list \<Rightarrow> nat \<Rightarrow> net \<Rightarrow> (u32 \<times> u32 \<times> u64 \<times> u64) \<times> net) \<Rightarrow>
     u16 \<Rightarrow> u8 list \<Rightarrow> nat \<Rightarrow> net \<Rightarrow> (u16 \<times> u8 list) outcome \<times> net" where
  "unix_request en call msg_type payload timeout_ms n =
     (let ((status, reply_type, reply_len, reply_handle), n1) =
            call (unix_handle en) msg_type payload (max timeout_ms 1) n
      in if status \<noteq> 0 then (Inl E_FAIL, n1)
         else let ((status2, body), n2) = unix_fetch en (unix_handle en) reply_handle (unat reply_len) n1
              in if status2 \<noteq> 0 then (Inl E_FAIL, n2) else (Inr (ucast reply_type, body), n2))"

definition request_with_timeout ::
  "('e, 'c) ipc_env \<Rightarrow> u16 \<Rightarrow> u8 list \<Rightarrow> nat \<Rightarrow> net \<Rightarrow> (u16 \<times> u8 list) outcome \<times> net" where
  "request_with_timeout en msg_type payload timeout_ms n =
     (case unix_exchange en of
        Some call \<Rightarrow> unix_request en call msg_type payload timeout_ms n
      | None \<Rightarrow> request_over_tcp en msg_type payload n)"

section \<open>Typed exchanges\<close>

definition exchange_with_timeout ::
  "('e, 'c) ipc_env \<Rightarrow> u16 \<Rightarrow> u16 \<Rightarrow> ipc_request \<Rightarrow> (ustring \<Rightarrow> 'r option) \<Rightarrow> nat \<Rightarrow> net \<Rightarrow>
     'r outcome \<times> net" where
  "exchange_with_timeout en req_type resp_type body de timeout_ms n =
     (case to_xml en body of
        None \<Rightarrow> (Inl E_FAIL, n)
      | Some payload \<Rightarrow>
          (case request_with_timeout en req_type payload timeout_ms n of
             (Inl e, n1) \<Rightarrow> (Inl e, n1)
           | (Inr (reply_type, reply_body), n1) \<Rightarrow>
               if reply_type \<noteq> resp_type then (Inl E_FAIL, n1)
               else (case de reply_body of
                  None \<Rightarrow> (Inl E_FAIL, n1)
                | Some r \<Rightarrow> (Inr r, n1))))"

definition exchange ::
  "('e, 'c) ipc_env \<Rightarrow> u16 \<Rightarrow> u16 \<Rightarrow> ipc_request \<Rightarrow> (ustring \<Rightarrow> 'r option) \<Rightarrow> net \<Rightarrow> 'r outcome \<times> net"
where
  "exchange en req_type resp_type body de n =
     exchange_with_timeout en req_type resp_type body de 10000 n"

text \<open>\<open>Result::map\<close> and \<open>?\<close> on the value of an exchange.\<close>

definition and_then :: "'a outcome \<times> 'n \<Rightarrow> ('a \<Rightarrow> 'b outcome) \<Rightarrow> 'b outcome \<times> 'n" where
  "and_then rn f = (case fst rn of Inl e \<Rightarrow> (Inl e, snd rn) | Inr x \<Rightarrow> (f x, snd rn))"

definition get_msa_token_silently ::
  "('e, 'c) ipc_env \<Rightarrow> ustring option \<Rightarrow> net \<Rightarrow> (ustring \<times> int) outcome \<times> net" where
  "get_msa_token_silently en scope n =
     exchange en 3 4 (MSATokenRequest (title_client_id en) False
       (scope = Some (utf8 ''service::user.auth.xboxlive.com::MBI_SSL''))) (de_msa en) n"

definition get_token_and_signature_once ::
  "('e, 'c) ipc_env \<Rightarrow> ustring \<Rightarrow> ustring \<Rightarrow> u8 list \<Rightarrow> net \<Rightarrow> (ustring \<times> ustring) outcome \<times> net" where
  "get_token_and_signature_once en m url body n =
     exchange en 5 6 (XstsTokenRequest m url (base64_encode body) False (title_client_id en)
       (title_id en)) (de_xsts en) n"

text \<open>The retry loop; the first argument counts the attempts left.\<close>

fun retry :: "nat \<Rightarrow> hresult \<Rightarrow> (net \<Rightarrow> 'a outcome \<times> net) \<Rightarrow> net \<Rightarrow> 'a outcome \<times> net" where
  "retry 0 last_err once n = (Inl last_err, n)"
| "retry (Suc k) last_err once n =
     (case once n of
        (Inr r, n1) \<Rightarrow> (Inr r, n1)
      | (Inl err, n1) \<Rightarrow>
          retry k err once (if k > 0 then n1\<lparr>nt_sleeps := nt_sleeps n1 + 1\<rparr> else n1))"

definition get_token_and_signature ::
  "('e, 'c) ipc_env \<Rightarrow> ustring \<Rightarrow> ustring \<Rightarrow> u8 list \<Rightarrow> net \<Rightarrow> (ustring \<times> ustring) outcome \<times> net" where
  "get_token_and_signature en m url body n =
     retry TOKEN_AND_SIGNATURE_RETRIES E_FAIL (get_token_and_signature_once en m url body) n"

definition get_user_info :: "('e, 'c) ipc_env \<Rightarrow> net \<Rightarrow> user_claims outcome \<times> net" where
  "get_user_info en n =
     exchange en 7 8 (UserInfoRequest (title_client_id en) (title_id en)) (de_user en) n"

definition interactive_sign_in ::
  "('e, 'c) ipc_env \<Rightarrow> net \<Rightarrow> user_claims option outcome \<times> net" where
  "interactive_sign_in en n =
     and_then (exchange_with_timeout en 23 24
         (InteractiveSignInRequest (title_client_id en) (title_id en)) (de_sign_in en) 600000 n)
       (\<lambda>(success, u). if \<not> success then Inr None else Inr (Some u))"

definition get_game_license :: "('e, 'c) ipc_env \<Rightarrow> net \<Rightarrow> (bool \<times> int) outcome \<times> net" where
  "get_game_license en n =
     (case var en ''XODUS_CONTENT_ID'' of
        None \<Rightarrow> (Inl E_NOTIMPL, n)
      | Some cid \<Rightarrow> exchange en 9 10 (LicenseRequest cid []) (de_license en) n)"

definition get_entitled_products ::
  "('e, 'c) ipc_env \<Rightarrow> ustring \<Rightarrow> net \<Rightarrow> 'e list outcome \<times> net" where
  "get_entitled_products en market n =
     exchange en 13 14 (EntitledProductsRequest market) (de_entitled en) n"

definition non_empty_store_key :: "ustring \<Rightarrow> ustring outcome" where
  "non_empty_store_key key = (if key = [] then Inl E_ACCESSDENIED else Inr key)"

definition get_user_collections_id ::
  "('e, 'c) ipc_env \<Rightarrow> ustring \<Rightarrow> ustring \<Rightarrow> net \<Rightarrow> ustring outcome \<times> net" where
  "get_user_collections_id en service_ticket publisher_user_id n =
     and_then (exchange en 15 16 (CollectionsIdRequest service_ticket publisher_user_id) (de_key en) n)
       non_empty_store_key"

definition get_user_purchase_id ::
  "('e, 'c) ipc_env \<Rightarrow> ustring \<Rightarrow> ustring \<Rightarrow> net \<Rightarrow> ustring outcome \<times> net" where
  "get_user_purchase_id en service_ticket publisher_user_id n =
     and_then (exchange en 29 30 (PurchaseIdRequest service_ticket publisher_user_id) (de_key en) n)
       non_empty_store_key"

definition get_license_token ::
  "('e, 'c) ipc_env \<Rightarrow> ustring list \<Rightarrow> ustring \<Rightarrow> net \<Rightarrow> ustring outcome \<times> net" where
  "get_license_token en product_ids custom n =
     exchange en 17 18 (LicenseTokenRequest product_ids custom) (de_key en) n"

definition get_associated_products ::
  "('e, 'c) ipc_env \<Rightarrow> u32 \<Rightarrow> net \<Rightarrow> 'c list outcome \<times> net" where
  "get_associated_products en max_items n =
     (case var en ''XODUS_PACKAGE_FAMILY_NAME'' of
        None \<Rightarrow> (Inl E_NOTIMPL, n)
      | Some pfn \<Rightarrow>
          exchange en 19 20 (AssociatedProductsRequest pfn (store_market en) max_items) (de_catalog en) n)"

definition get_products ::
  "('e, 'c) ipc_env \<Rightarrow> ustring list \<Rightarrow> net \<Rightarrow> 'c list outcome \<times> net" where
  "get_products en store_ids n =
     exchange en 27 28 (ProductsRequest store_ids (store_market en)) (de_catalog en) n"

definition resolve_product_id ::
  "('e, 'c) ipc_env \<Rightarrow> ustring \<Rightarrow> net \<Rightarrow> ustring option outcome \<times> net" where
  "resolve_product_id en pfn n =
     and_then (exchange en 21 22 (ResolveProductIdRequest pfn (store_market en)) (de_key en) n)
       (\<lambda>product_id. if product_id = [] then Inr None else Inr (Some product_id))"

definition get_gamer_picture :: "('e, 'c) ipc_env \<Rightarrow> net \<Rightarrow> u8 list option outcome \<times> net" where
  "get_gamer_picture en n =
     and_then (exchange en 25 26 (GamerPictureRequest (title_client_id en)) (de_key en) n)
       (\<lambda>picture. if picture = [] then Inr None
          else case base64_decode picture of None \<Rightarrow> Inl E_FAIL | Some bytes \<Rightarrow> Inr (Some bytes))"

text \<open>The products \<open>size_mb * 1024 * 1024\<close> wrap in the released build, which does not check
  overflow.\<close>

definition persistent_local_storage_space :: "('e, 'c) ipc_env \<Rightarrow> (u64 \<times> u64) option" where
  "persistent_local_storage_space en =
     (case (var en ''XODUS_PLS_SHAREABLE'',
            Option.bind (var en ''XODUS_PLS_SIZE_MB'') (parse_unsigned (2 ^ 64 - 1)),
            var en ''XODUS_PLS_GROWABLE_TO_MB'') of
        (Some _, Some size_mb, Some growable) \<Rightarrow>
          let growable_to_mb = (case parse_unsigned (2 ^ 64 - 1) growable of None \<Rightarrow> size_mb | Some g \<Rightarrow> g)
          in Some (of_nat size_mb * 1024 * 1024, of_nat (max growable_to_mb size_mb) * 1024 * 1024)
      | _ \<Rightarrow> None)"

fun split_on :: "u8 \<Rightarrow> ustring \<Rightarrow> ustring list" where
  "split_on sep [] = [[]]"
| "split_on sep (c # cs) =
     (if c = sep then [] # split_on sep cs
      else case split_on sep cs of [] \<Rightarrow> [[c]] | w # ws \<Rightarrow> (c # w) # ws)"

definition is_related_product :: "('e, 'c) ipc_env \<Rightarrow> ustring \<Rightarrow> bool" where
  "is_related_product en store_id =
     (case var en ''XODUS_RELATED_PRODUCTS'' of
        None \<Rightarrow> False
      | Some l \<Rightarrow> list_ex (\<lambda>w. w = store_id) (split_on 0x2c l))"

end
