(* ===== verification/Ipc_Props.thy ===== *)
theory Ipc_Props
  imports Ipc
begin

text \<open>
  What the client guarantees against any peer, and that it talks to a conforming service: the
  request leaves only after the peer accepted the handshake, a reply is bounded and of the
  expected type, a request to a conforming service is answered with exactly the service's
  reply, and the token request is retried as documented.
\<close>

section \<open>Reading and writing\<close>

lemma write_all_True:
  "write_all bs st = (True, st') \<Longrightarrow> st_tx st' = st_tx st @ bs
     \<and> st_rx st' = st_rx st @ st_peer st (st_tx st @ bs) \<and> st_peer st' = st_peer st"
  by (auto simp: write_all_def split: if_splits)

lemma write_all_False: "write_all bs st = (False, st') \<Longrightarrow> st' = st"
  by (auto simp: write_all_def split: if_splits)

lemma read_exact_tx: "read_exact n st = (r, st') \<Longrightarrow> st_tx st' = st_tx st"
  by (auto simp: read_exact_def split: if_splits)

lemma read_exact_Some: "read_exact n st = (Some bs, st') \<Longrightarrow> length bs = n \<and> bs = take n (st_rx st)"
  by (auto simp: read_exact_def split: if_splits)

lemma length_frame [simp]: "length (frame t p) = 10 + length p"
  by (simp add: frame_def u32_le_def u16_le_def)

lemma read_reply_bounded:
  "read_reply st = (Inr (t, body), st') \<Longrightarrow> length body \<le> MAX_MESSAGE_SIZE"
  by (auto simp: read_reply_def Let_def split: prod.splits option.splits if_splits
      dest!: read_exact_Some)

text \<open>A reply frame at the head of what was received is read back whole.\<close>

lemma read_exact_append:
  "length bs = n \<Longrightarrow> st_rx st = bs @ rest \<Longrightarrow> read_exact n st = (Some bs, st\<lparr>st_rx := rest\<rparr>)"
  by (simp add: read_exact_def)

lemma le_lengths [simp]: "length (u32_le w) = 4" "length (u16_le x) = 2"
  by (simp_all add: u32_le_def u16_le_def)

lemma read_reply_frame:
  assumes "st_rx st = frame t body @ rest" "length body \<le> MAX_MESSAGE_SIZE"
  shows "read_reply st = (Inr (t, body), st\<lparr>st_rx := rest\<rparr>)"
proof -
  have m: "read_exact 4 st = (Some (u32_le XML_MAGIC_V2), st\<lparr>st_rx :=
      u16_le t @ u32_le (of_nat (length body)) @ body @ rest\<rparr>)"
    by (rule read_exact_append) (simp_all add: assms(1) frame_def)
  have h: "read_exact 6 (st\<lparr>st_rx := u16_le t @ u32_le (of_nat (length body)) @ body @ rest\<rparr>)
      = (Some (u16_le t @ u32_le (of_nat (length body))), st\<lparr>st_rx := body @ rest\<rparr>)"
    by (subst read_exact_append [where bs = "u16_le t @ u32_le (of_nat (length body))" and rest = "body @ rest"])
      simp_all
  have n: "unat (of_nat (length body) :: u32) = length body"
    using assms(2) by (simp add: unat_of_nat MAX_MESSAGE_SIZE_def)
  have b: "read_exact (length body) (st\<lparr>st_rx := body @ rest\<rparr>) = (Some body, st\<lparr>st_rx := rest\<rparr>)"
    by (subst read_exact_append) simp_all
  show ?thesis using assms(2) by (simp add: read_reply_def m h n b Let_def)
qed

section \<open>The handshake gates the request\<close>

definition hello :: "u8 list \<Rightarrow> u8 list" where
  "hello secret = u32_le HANDSHAKE_MAGIC @ secret"

lemma handshake_tx:
  assumes "perform_handshake secret st = (r, st')" "st_tx st = []"
  shows "st_tx st' \<in> {[], u32_le HANDSHAKE_MAGIC, hello secret}"
  using assms
  by (auto simp: perform_handshake_def hello_def split: prod.splits bool.splits option.splits if_splits
      dest!: write_all_True write_all_False read_exact_tx)

lemma handshake_ok:
  assumes "perform_handshake secret st = (Inr (), st')"
  shows "st_tx st' = st_tx st @ hello secret \<and> (\<exists>rest.
     st_rx st @ st_peer st (st_tx st @ u32_le HANDSHAKE_MAGIC) @ st_peer st (st_tx st @ hello secret)
       = HANDSHAKE_ACCEPTED # rest)"
proof -
  from assms obtain st1 st2 acc where w: "write_all (u32_le HANDSHAKE_MAGIC) st = (True, st1)"
    "write_all secret st1 = (True, st2)" "read_exact 1 st2 = (Some acc, st')"
    "hd acc = HANDSHAKE_ACCEPTED"
    by (auto simp: perform_handshake_def split: prod.splits bool.splits option.splits if_splits)
  obtain rest where "st_rx st2 = HANDSHAKE_ACCEPTED # rest"
    using read_exact_Some [OF w(3)] w(4) by (cases "st_rx st2") auto
  then have "\<exists>rest. st_rx st @ st_peer st (st_tx st @ u32_le HANDSHAKE_MAGIC) @ st_peer st (st_tx st @ hello secret)
       = HANDSHAKE_ACCEPTED # rest"
    using write_all_True [OF w(1)] write_all_True [OF w(2)] by (simp add: hello_def)
  then show ?thesis
    using write_all_True [OF w(1)] write_all_True [OF w(2)] read_exact_tx [OF w(3)]
    by (simp add: hello_def)
qed

text \<open>C11: nothing of a request is sent to a peer that did not accept the secret. Whatever the
  peer answers, unless its first byte is the acceptance, the request fails and only (a part
  of) the handshake was written.\<close>

theorem request_needs_handshake:
  assumes "st_tx st = []" "talk secret t payload st = (r, st')"
    and "\<nexists>rest. st_rx st @ st_peer st (u32_le HANDSHAKE_MAGIC) @ st_peer st (hello secret)
          = HANDSHAKE_ACCEPTED # rest"
  shows "r = Inl E_FAIL \<and> st_tx st' \<in> {[], u32_le HANDSHAKE_MAGIC, hello secret}"
proof -
  obtain h st1 where h: "perform_handshake secret st = (h, st1)" by (cases "perform_handshake secret st")
  have "h \<noteq> Inr ()" using handshake_ok [of secret st st1] h assms(1,3) by auto
  then obtain e where e: "h = Inl e" by (cases h) auto
  moreover have "e = E_FAIL" using h e
    by (auto simp: perform_handshake_def split: prod.splits bool.splits option.splits if_splits)
  ultimately show ?thesis using assms(1,2) h handshake_tx [OF h assms(1)] by (simp add: talk_def)
qed

lemma request_needs_handshake_witness:
  "fst (talk (replicate 32 7) 3 [1] \<lparr>st_tx = [], st_rx = [], st_peer = (\<lambda>tx. [0]), st_writes = None\<rparr>)
     = Inl E_FAIL"
proof -
  define st where "st = \<lparr>st_tx = [], st_rx = [], st_peer = (\<lambda>tx :: u8 list. [0 :: u8]), st_writes = None\<rparr>"
  have st: "st_tx st = []" "\<nexists>rest. st_rx st @ st_peer st (u32_le HANDSHAKE_MAGIC)
      @ st_peer st (hello (replicate 32 7)) = HANDSHAKE_ACCEPTED # rest"
    by (simp_all add: st_def HANDSHAKE_ACCEPTED_def)
  from request_needs_handshake [OF st(1) prod.collapse [symmetric] st(2)] show ?thesis
    by (simp add: st_def)
qed

section \<open>A conforming service\<close>

text \<open>The contract of \<open>xodus-service\<close>: it accepts the secret it published, then answers each
  complete frame with the frame its handler makes.\<close>

definition parse_frame :: "u8 list \<Rightarrow> (u16 \<times> u8 list) option" where
  "parse_frame bs =
     (if length bs < 10 \<or> le_u32 (take 4 bs) \<noteq> XML_MAGIC_V2
         \<or> length bs \<noteq> 10 + unat (le_u32 (take 4 (drop 6 bs))) then None
      else Some (le_u16 (take 2 (drop 4 bs)), drop 10 bs))"

definition service :: "u8 list \<Rightarrow> (u16 \<Rightarrow> u8 list \<Rightarrow> u16 \<times> u8 list) \<Rightarrow> u8 list \<Rightarrow> u8 list" where
  "service secret handler tx =
     (if tx = hello secret then [HANDSHAKE_ACCEPTED]
      else if take 36 tx = hello secret
      then case parse_frame (drop 36 tx) of None \<Rightarrow> [] | Some (t, p) \<Rightarrow> case_prod frame (handler t p)
      else [])"

lemma parse_frame_frame: "length p < 2 ^ 32 \<Longrightarrow> parse_frame (frame t p) = Some (t, p)"
  by (simp add: parse_frame_def frame_def unat_of_nat)

lemma length_hello [simp]: "length (hello secret) = 4 + length secret"
  by (simp add: hello_def)

lemma hello_neq: "u32_le HANDSHAKE_MAGIC \<noteq> hello secret \<longleftrightarrow> secret \<noteq> []"
  by (auto simp: hello_def)

text \<open>The client against a conforming service: the handshake is accepted, the frame parses and the
  answer is read whole.\<close>

lemma request_answered:
  assumes "endpoint en = Inr (port, secret)" "length secret = SECRET_LEN" "unix_exchange en = None"
    and "nt_attempts n = Some \<lparr>st_tx = [], st_rx = [], st_peer = service secret handler,
           st_writes = None\<rparr> # rest"
    and "length payload < 2 ^ 32" "handler t payload = (rt, body)" "length body \<le> MAX_MESSAGE_SIZE"
  shows "\<exists>st'. request_with_timeout en t payload ms n
       = (Inr (rt, body), n\<lparr>nt_attempts := rest, nt_log := nt_log n @ [(port, st')]\<rparr>)
     \<and> st_tx st' = hello secret @ frame t payload"
proof -
  define st where "st = \<lparr>st_tx = [], st_rx = [], st_peer = service secret handler, st_writes = None\<rparr>"
  have ne: "u32_le HANDSHAKE_MAGIC \<noteq> hello secret" "length (hello secret) = 36"
    using assms(2) by (auto simp: hello_neq SECRET_LEN_def)
  have p1: "service secret handler (u32_le HANDSHAKE_MAGIC) = []"
    using ne by (auto simp: service_def dest: arg_cong [where f = length])
  have p2: "service secret handler (hello secret) = [HANDSHAKE_ACCEPTED]" by (simp add: service_def)
  have p3: "service secret handler (hello secret @ frame t payload) = frame rt body"
    using ne(2) assms(5,6)
    by (auto simp: service_def parse_frame_frame dest: arg_cong [where f = length])
  define st1 where "st1 = st\<lparr>st_tx := hello secret\<rparr>"
  have "perform_handshake secret st = (Inr (), st1)"
    using p1 p2
    by (simp add: perform_handshake_def write_all_def st_def hello_def read_exact_def
        HANDSHAKE_ACCEPTED_def st1_def)
  moreover have "write_all (frame t payload) st1
      = (True, st1\<lparr>st_tx := hello secret @ frame t payload, st_rx := frame rt body\<rparr>)"
    using p3 by (simp add: write_all_def st1_def st_def)
  moreover have "read_reply (st1\<lparr>st_tx := hello secret @ frame t payload, st_rx := frame rt body\<rparr>)
      = (Inr (rt, body), st1\<lparr>st_tx := hello secret @ frame t payload, st_rx := []\<rparr>)"
    using read_reply_frame [of "st1\<lparr>st_tx := hello secret @ frame t payload, st_rx := frame rt body\<rparr>"
        rt body "[]"] assms(7) by simp
  ultimately have "talk secret t payload st
      = (Inr (rt, body), st1\<lparr>st_tx := hello secret @ frame t payload, st_rx := []\<rparr>)"
    by (simp add: talk_def)
  then show ?thesis using assms(1,3,4)
    by (intro exI [where x = "st1\<lparr>st_tx := hello secret @ frame t payload, st_rx := []\<rparr>"])
      (simp add: request_with_timeout_def request_over_tcp_def Let_def flip: st_def)
qed

text \<open>C12: a request to a conforming service with the published secret is answered with exactly
  the type and the body the service's handler gives for it, whatever they are (up to the
  size limit), and exactly the handshake and the frame were sent.\<close>

theorem request_round_trip:
  assumes "endpoint en = Inr (port, secret)" "length secret = SECRET_LEN" "unix_exchange en = None"
    and "nt_attempts n = Some \<lparr>st_tx = [], st_rx = [], st_peer = service secret handler,
           st_writes = None\<rparr> # rest"
    and "length payload < 2 ^ 32" "handler t payload = (rt, body)" "length body \<le> MAX_MESSAGE_SIZE"
  shows "\<exists>st'. request_with_timeout en t payload ms n
       = (Inr (rt, body), n\<lparr>nt_attempts := rest, nt_log := nt_log n @ [(port, st')]\<rparr>)
     \<and> st_tx st' = hello secret @ frame t payload"
  by (rule request_answered [OF assms])

text \<open>A concrete environment: port 8080, a secret of 32 bytes, a serialiser that writes one byte.\<close>

definition demo_secret :: "u8 list" where "demo_secret = replicate 32 7"

definition demo_ipc :: "(nat, nat) ipc_env" where
  "demo_ipc =
     \<lparr>var = (\<lambda>v. if v = ''XODUS_TCP_PORT'' then Some (utf8 ''8080'')
              else if v = ''XODUS_TCP_SECRET'' then Some (hex_encode demo_secret) else None),
      title_client_id = [], title_id = [], store_market = [], to_xml = (\<lambda>r. Some [1]),
      de_msa = (\<lambda>b. Some (b, 5)), de_xsts = (\<lambda>b. Some (b, [])),
      de_user = (\<lambda>b. None), de_sign_in = (\<lambda>b. None), de_license = (\<lambda>b. None),
      de_entitled = (\<lambda>b. None), de_key = (\<lambda>b. Some b), de_catalog = (\<lambda>b. None),
      unix_exchange = None, unix_fetch = (\<lambda>h r l n. ((0, []), n)), unix_handle = 0\<rparr>"

definition demo_handler :: "u16 \<Rightarrow> u8 list \<Rightarrow> u16 \<times> u8 list" where
  "demo_handler t p = (t + 1, p @ p)"

definition demo_net :: net where
  "demo_net = \<lparr>nt_attempts = [Some \<lparr>st_tx = [], st_rx = [], st_peer = service demo_secret demo_handler,
       st_writes = None\<rparr>], nt_log = [], nt_sleeps = 0, nt_unix = no_unix\<rparr>"

lemma demo_endpoint: "endpoint demo_ipc = Inr (8080, demo_secret)"
proof -
  have "parse_unsigned 65535 (utf8 ''8080'') = Some 8080"
  proof -
    have u: "utf8 ''8080'' = [0x38, 0x30, 0x38, 0x30]" by code_simp
    show ?thesis unfolding u by (simp add: parse_unsigned_def)
  qed
  moreover have "length demo_secret = SECRET_LEN" by (simp add: demo_secret_def SECRET_LEN_def)
  ultimately show ?thesis by (simp add: endpoint_def demo_ipc_def hex_inverse)
qed

lemma request_round_trip_witness:
  "fst (request_with_timeout demo_ipc 3 [9] 10 demo_net) = Inr (4, [9, 9])"
proof -
  have "length demo_secret = SECRET_LEN" "unix_exchange demo_ipc = None"
    by (simp_all add: demo_secret_def SECRET_LEN_def demo_ipc_def)
  moreover have "nt_attempts demo_net = Some \<lparr>st_tx = [], st_rx = [],
      st_peer = service demo_secret demo_handler, st_writes = None\<rparr> # []"
    by (simp add: demo_net_def)
  moreover have "length [9 :: u8] < 2 ^ 32" "demo_handler 3 [9] = (4, [9, 9])"
    "length [9 :: u8, 9] \<le> MAX_MESSAGE_SIZE"
    by (simp_all add: demo_handler_def MAX_MESSAGE_SIZE_def)
  ultimately show ?thesis
    using request_round_trip [OF demo_endpoint, of demo_net demo_handler "[]" "[9]" 3 4 "[9, 9]" 10]
    by auto
qed

section \<open>What a typed exchange accepts\<close>

lemma talk_bounded:
  "talk secret t p st = (Inr (rt, body), st') \<Longrightarrow> length body \<le> MAX_MESSAGE_SIZE"
  by (auto simp: talk_def split: prod.splits sum.splits bool.splits dest: read_reply_bounded)

lemma tcp_bounded:
  "request_over_tcp en t p n = (Inr (rt, body), n') \<Longrightarrow> length body \<le> MAX_MESSAGE_SIZE"
  by (auto simp: request_over_tcp_def Let_def split: sum.splits prod.splits list.splits option.splits
      dest: talk_bounded)

text \<open>Against any peer, an exchange that succeeds got one reply of exactly the expected type
  whose body deserialises to the result, and over TCP no body is longer than 16 MiB; any
  other reply, the service's error reply included, is \<open>E_FAIL\<close> or the transport's error.\<close>

theorem exchange_sound:
  assumes "exchange en req_type resp_type body de n = (r, n')"
  shows "case r of
      Inr v \<Rightarrow> \<exists>payload reply. to_xml en body = Some payload
        \<and> request_with_timeout en req_type payload 10000 n = (Inr (resp_type, reply), n')
        \<and> de reply = Some v \<and> (unix_exchange en = None \<longrightarrow> length reply \<le> MAX_MESSAGE_SIZE)
    | Inl e \<Rightarrow> e \<in> {E_FAIL, E_NOTIMPL}"
proof -
  have tcp: "e \<in> {E_FAIL, E_NOTIMPL}" if "request_over_tcp en t p n = (Inl e, n')" for t p e n'
  proof -
    have "e = E_FAIL" if "talk s t p st = (Inl e, st')" for s st st'
      using that by (auto simp: talk_def read_reply_def perform_handshake_def Let_def
          split: prod.splits sum.splits bool.splits option.splits if_splits)
    moreover have "e = E_NOTIMPL" if "endpoint en = Inl e"
      using that by (auto simp: endpoint_def split: option.splits if_splits)
    ultimately show ?thesis using that
      by (auto simp: request_over_tcp_def Let_def split: sum.splits prod.splits list.splits option.splits)
  qed
  have err: "e \<in> {E_FAIL, E_NOTIMPL}" if "request_with_timeout en t p ms n = (Inl e, n')" for t p ms e n'
    using that tcp by (auto simp: request_with_timeout_def unix_request_def Let_def
        split: option.splits prod.splits if_splits)
  show ?thesis
  proof (cases r)
    case (Inl e)
    then show ?thesis using assms err
      by (auto simp: exchange_def exchange_with_timeout_def split: option.splits prod.splits sum.splits if_splits)
  next
    case (Inr v)
    then obtain payload reply where "to_xml en body = Some payload"
      "request_with_timeout en req_type payload 10000 n = (Inr (resp_type, reply), n')" "de reply = Some v"
      using assms
      by (auto simp: exchange_def exchange_with_timeout_def split: option.splits prod.splits sum.splits if_splits)
    moreover from this have "unix_exchange en = None \<Longrightarrow> length reply \<le> MAX_MESSAGE_SIZE"
      by (auto simp: request_with_timeout_def dest: tcp_bounded)
    ultimately show ?thesis using Inr by auto
  qed
qed

lemma exchange_sound_witness:
  "\<exists>r n'. exchange demo_ipc 3 4 (UserInfoRequest [] []) (de_key demo_ipc) demo_net = (r, n')
     \<and> (\<forall>e. r = Inl e \<longrightarrow> e \<in> {E_FAIL, E_NOTIMPL})"
proof -
  obtain r n' where e: "exchange demo_ipc 3 4 (UserInfoRequest [] []) (de_key demo_ipc) demo_net = (r, n')"
    by (cases "exchange demo_ipc 3 4 (UserInfoRequest [] []) (de_key demo_ipc) demo_net")
  from exchange_sound [OF e] e show ?thesis by (cases r) auto
qed

section \<open>Retrying\<close>

text \<open>The state after \<open>i\<close> failed attempts, each followed by a pause.\<close>

fun after_failures :: "nat \<Rightarrow> (net \<Rightarrow> 'a outcome \<times> net) \<Rightarrow> net \<Rightarrow> net" where
  "after_failures 0 once n = n"
| "after_failures (Suc i) once n =
     after_failures i once ((snd (once n))\<lparr>nt_sleeps := nt_sleeps (snd (once n)) + 1\<rparr>)"

definition attempt :: "nat \<Rightarrow> (net \<Rightarrow> 'a outcome \<times> net) \<Rightarrow> net \<Rightarrow> 'a outcome \<times> net" where
  "attempt i once n = once (after_failures i once n)"

lemma attempt_Suc:
  "attempt (Suc i) once n = attempt i once ((snd (once n))\<lparr>nt_sleeps := nt_sleeps (snd (once n)) + 1\<rparr>)"
  "attempt 0 once n = once n"
  by (simp_all add: attempt_def)

lemma retry_spec:
  "0 < k \<Longrightarrow> (\<exists>i<k. (\<forall>j<i. \<exists>e. fst (attempt j once n) = Inl e)
       \<and> (i + 1 = k \<or> (\<exists>r. fst (attempt i once n) = Inr r)) \<and> retry k e0 once n = attempt i once n)"
proof (induction k arbitrary: e0 n)
  case (Suc k)
  obtain r n1 where o: "once n = (r, n1)" by (cases "once n")
  show ?case
  proof (cases r)
    case (Inr x)
    then show ?thesis using o by (intro exI [where x = 0]) (simp add: attempt_Suc)
  next
    case (Inl e)
    show ?thesis
    proof (cases "k = 0")
      case True
      then show ?thesis using o Inl by (intro exI [where x = 0]) (simp add: attempt_Suc)
    next
      case False
      define n2 where "n2 = n1\<lparr>nt_sleeps := nt_sleeps n1 + 1\<rparr>"
      from Suc.IH [of n2 e] False obtain i where i: "i < k"
        "\<forall>j<i. \<exists>e. fst (attempt j once n2) = Inl e"
        "i + 1 = k \<or> (\<exists>r. fst (attempt i once n2) = Inr r)" "retry k e once n2 = attempt i once n2"
        by auto
      have sh: "attempt (Suc j) once n = attempt j once n2" for j by (simp add: attempt_Suc o n2_def)
      have "\<exists>e. fst (attempt j once n) = Inl e" if "j < Suc i" for j
        using that i(2) o Inl by (cases j) (simp_all add: sh attempt_Suc(2))
      moreover have "retry (Suc k) e0 once n = attempt (Suc i) once n"
        using o Inl False i(4) by (simp add: sh n2_def)
      ultimately show ?thesis using i(1,3) by (intro exI [where x = "Suc i"]) (simp add: sh)
    qed
  qed
qed simp

text \<open>C35: the token request gives the first of at most three attempts that succeeds, and the
  error of the third when none does; it never makes a fourth, and pauses only between
  attempts.\<close>

theorem token_request_retries:
  assumes "once = get_token_and_signature_once en m url body"
  shows "\<exists>i<3. (\<forall>j<i. \<exists>e. fst (attempt j once n) = Inl e)
     \<and> (i = 2 \<or> (\<exists>r. fst (attempt i once n) = Inr r))
     \<and> get_token_and_signature en m url body n = attempt i once n"
  using retry_spec [of 3 once n E_FAIL]
  by (simp add: get_token_and_signature_def assms TOKEN_AND_SIGNATURE_RETRIES_def)

lemma token_request_retries_witness:
  "\<exists>i<3. get_token_and_signature demo_ipc [] [] [] demo_net
     = attempt i (get_token_and_signature_once demo_ipc [] [] []) demo_net"
  using token_request_retries [OF refl, of demo_ipc "[]" "[]" "[]" demo_net] by blast

section \<open>Payloads through text\<close>

text \<open>A binary picture survives the XML text it rides in: a gamer picture the service
  encodes comes out as the same bytes, an empty one as "no picture", and a text that is not
  base64 is \<open>E_FAIL\<close>, never a partial buffer.\<close>

theorem gamer_picture_survives:
  assumes "exchange en 25 26 (GamerPictureRequest (title_client_id en)) (de_key en) n = (Inr reply, n')"
  shows "(reply = base64_encode picture \<longrightarrow>
       get_gamer_picture en n = (Inr (if picture = [] then None else Some picture), n'))
     \<and> (reply \<noteq> [] \<and> base64_decode reply = None \<longrightarrow> get_gamer_picture en n = (Inl E_FAIL, n'))"
proof -
  have "base64_encode picture = [] \<longleftrightarrow> picture = []"
    by (cases picture rule: base64_encode.cases) (simp_all add: Let_def)
  with assms show ?thesis by (simp add: get_gamer_picture_def and_then_def base64_inverse)
qed

definition demo_picture_ipc :: "(nat, nat) ipc_env" where
  "demo_picture_ipc = demo_ipc\<lparr>unix_exchange := Some (\<lambda>h t p ms n. ((0, 26, 8, 0), n)),
     unix_fetch := (\<lambda>h r l n. ((0, base64_encode [1, 2, 3, 4, 5]), n))\<rparr>"

lemma gamer_picture_survives_witness:
  "fst (get_gamer_picture demo_picture_ipc demo_net) = Inr (Some [1, 2, 3, 4, 5])"
proof -
  have "exchange demo_picture_ipc 25 26 (GamerPictureRequest (title_client_id demo_picture_ipc))
      (de_key demo_picture_ipc) demo_net = (Inr (base64_encode [1, 2, 3, 4, 5]), demo_net)"
    by (simp add: exchange_def exchange_with_timeout_def request_with_timeout_def unix_request_def
        demo_picture_ipc_def demo_ipc_def Let_def)
  from gamer_picture_survives [OF this, of "[1, 2, 3, 4, 5]"] show ?thesis by simp
qed

end
