(* ===== verification/Files.thy ===== *)
theory Files
  imports Codec "HOL-Library.AList"
begin

text \<open>
  The part of \<open>std::fs\<close> and \<open>std::path\<close> that the game-save store of
  \<open>src/src/com/xgamesave\<close> uses, with the rules of the Windows paths it runs on: a path is its
  list of components, a file system the list of its nodes in the order a directory lists
  them. \<open>fs_denied\<close> are the paths that cannot be created, written or removed (a full disk,
  missing rights); \<open>fs_now\<close> is the clock that stamps files. Names are compared exactly.
\<close>

type_synonym path = "ustring list"

datatype node = Dir | File "u8 list" nat

record fsys =
  fs_nodes :: "(path \<times> node) list"
  fs_denied :: "path \<Rightarrow> bool"
  fs_now :: nat

section \<open>Paths\<close>

fun split_by :: "('a \<Rightarrow> bool) \<Rightarrow> 'a list \<Rightarrow> 'a list list" where
  "split_by P [] = [[]]"
| "split_by P (c # cs) =
     (if P c then [] # split_by P cs
      else case split_by P cs of [] \<Rightarrow> [[c]] | w # ws \<Rightarrow> (c # w) # ws)"

definition is_separator :: "u8 \<Rightarrow> bool" where
  "is_separator c \<longleftrightarrow> c = 0x2f \<or> c = 0x5c"

definition has_drive :: "ustring \<Rightarrow> bool" where
  "has_drive s =
     (case s of
        d # c # _ \<Rightarrow> c = 0x3a \<and> (0x41 \<le> unat d \<and> unat d \<le> 0x5a \<or> 0x61 \<le> unat d \<and> unat d \<le> 0x7a)
      | _ \<Rightarrow> False)"

definition dot :: ustring where "dot = [0x2e]"
definition dot_dot :: ustring where "dot_dot = [0x2e, 0x2e]"

definition enter :: "path \<Rightarrow> ustring \<Rightarrow> path" where
  "enter p c = (if c = [] \<or> c = dot then p else if c = dot_dot then butlast p else p @ [c])"

text \<open>\<open>Path::join\<close>, resolved: an absolute name replaces the path.\<close>

definition join :: "path \<Rightarrow> ustring \<Rightarrow> path" where
  "join p name =
     (let parts = split_by is_separator name
      in if name \<noteq> [] \<and> (is_separator (hd name) \<or> has_drive name) then foldl enter [] parts
         else foldl enter p parts)"

text \<open>The place a path's text names.\<close>

definition path_of :: "ustring \<Rightarrow> path" where
  "path_of p = join [] p"

definition plain_name :: "ustring \<Rightarrow> bool" where
  "plain_name n \<longleftrightarrow> n \<noteq> [] \<and> n \<noteq> dot \<and> n \<noteq> dot_dot \<and> list_all (\<lambda>c. \<not> is_separator c) n \<and> \<not> has_drive n"

lemma split_by_none: "list_all (\<lambda>c. \<not> P c) xs \<Longrightarrow> split_by P xs = [xs]"
  by (induction xs) auto

lemma split_by_append:
  "split_by P (xs @ ys) = butlast (split_by P xs) @ (last (split_by P xs) @ hd (split_by P ys)) # tl (split_by P ys)"
proof (induction xs)
  case Nil
  have "split_by P ys \<noteq> []" by (induction ys) (auto split: list.split)
  then show ?case by (cases "split_by P ys") auto
next
  case (Cons x xs)
  have ne: "split_by P xs \<noteq> []" by (induction xs) (auto split: list.split)
  then show ?case using Cons by (cases "split_by P xs") auto
qed

lemma split_by_ne [simp]: "split_by P ys \<noteq> []"
  by (induction ys) (auto split: list.split)

lemma join_plain [simp]: "plain_name n \<Longrightarrow> join p n = p @ [n]"
  by (cases n) (simp_all add: plain_name_def join_def split_by_none enter_def)

section \<open>Operations\<close>

definition node_at :: "fsys \<Rightarrow> path \<Rightarrow> node option" where
  "node_at fs p = (if p = [] then Some Dir else map_of (fs_nodes fs) p)"

definition is_dir :: "fsys \<Rightarrow> path \<Rightarrow> bool" where
  "is_dir fs p \<longleftrightarrow> node_at fs p = Some Dir"

definition put_node :: "path \<Rightarrow> node \<Rightarrow> fsys \<Rightarrow> fsys" where
  "put_node p n fs = fs\<lparr>fs_nodes := AList.update p n (fs_nodes fs)\<rparr>"

definition drop_nodes :: "(path \<Rightarrow> bool) \<Rightarrow> fsys \<Rightarrow> fsys" where
  "drop_nodes P fs = fs\<lparr>fs_nodes := filter (\<lambda>(p, n). \<not> P p) (fs_nodes fs)\<rparr>"

fun make_dirs :: "path \<Rightarrow> path \<Rightarrow> fsys \<Rightarrow> bool \<times> fsys" where
  "make_dirs done_path [] fs = (True, fs)"
| "make_dirs done_path (c # cs) fs =
     (case node_at fs (done_path @ [c]) of
        Some Dir \<Rightarrow> make_dirs (done_path @ [c]) cs fs
      | Some (File _ _) \<Rightarrow> (False, fs)
      | None \<Rightarrow>
          if fs_denied fs (done_path @ [c]) then (False, fs)
          else make_dirs (done_path @ [c]) cs (put_node (done_path @ [c]) Dir fs))"

definition create_dir_all :: "path \<Rightarrow> fsys \<Rightarrow> bool \<times> fsys" where
  "create_dir_all p fs = make_dirs [] p fs"

definition write_file :: "path \<Rightarrow> u8 list \<Rightarrow> fsys \<Rightarrow> bool \<times> fsys" where
  "write_file p bytes fs =
     (if p = [] \<or> fs_denied fs p \<or> is_dir fs p \<or> \<not> is_dir fs (butlast p) then (False, fs)
      else (True, put_node p (File bytes (fs_now fs)) fs))"

definition remove_file :: "path \<Rightarrow> fsys \<Rightarrow> fsys" where
  "remove_file p fs =
     (case node_at fs p of
        Some (File _ _) \<Rightarrow> if fs_denied fs p then fs else drop_nodes (\<lambda>q. q = p) fs
      | _ \<Rightarrow> fs)"

datatype removal = Removed | NotFound | Failed

definition inside :: "path \<Rightarrow> path \<Rightarrow> bool" where
  "inside p q \<longleftrightarrow> take (length p) q = p"

definition remove_dir_all :: "path \<Rightarrow> fsys \<Rightarrow> removal \<times> fsys" where
  "remove_dir_all p fs =
     (case node_at fs p of
        None \<Rightarrow> (NotFound, fs)
      | Some (File _ _) \<Rightarrow> (Failed, fs)
      | Some Dir \<Rightarrow> if p = [] \<or> fs_denied fs p then (Failed, fs) else (Removed, drop_nodes (inside p) fs))"

definition read_file :: "path \<Rightarrow> fsys \<Rightarrow> u8 list option" where
  "read_file p fs = (case node_at fs p of Some (File bytes _) \<Rightarrow> Some bytes | _ \<Rightarrow> None)"

text \<open>\<open>read_dir\<close>: the names and nodes directly under a directory.\<close>

definition read_dir :: "path \<Rightarrow> fsys \<Rightarrow> (ustring \<times> node) list" where
  "read_dir p fs =
     (if is_dir fs p
      then map (\<lambda>(q, n). (last q, n)) (filter (\<lambda>(q, n). q \<noteq> [] \<and> butlast q = p) (fs_nodes fs))
      else [])"

section \<open>Laws\<close>

lemma node_at_root [simp]: "node_at fs [] = Some Dir"
  by (simp add: node_at_def)

lemma node_put: "node_at (put_node p n fs) q = (if q = [] then Some Dir else if q = p then Some n else node_at fs q)"
  by (simp add: node_at_def put_node_def update_conv')

lemma node_drop: "node_at (drop_nodes P fs) q = (if q \<noteq> [] \<and> P q then None else node_at fs q)"
proof -
  have "map_of (filter (\<lambda>(p, n). \<not> P p) xs) q = (if P q then None else map_of xs q)"
    for xs :: "(path \<times> node) list"
    by (induction xs) auto
  then show ?thesis by (simp add: node_at_def drop_nodes_def)
qed

lemma fs_frame [simp]:
  "fs_denied (put_node p n fs) = fs_denied fs" "fs_now (put_node p n fs) = fs_now fs"
  "fs_denied (drop_nodes P fs) = fs_denied fs" "fs_now (drop_nodes P fs) = fs_now fs"
  by (simp_all add: put_node_def drop_nodes_def)

lemma make_dirs_frame: "make_dirs a p fs = (b, fs') \<Longrightarrow>
     fs_denied fs' = fs_denied fs \<and> fs_now fs' = fs_now fs
     \<and> (\<forall>q. node_at fs q \<noteq> None \<longrightarrow> node_at fs' q = node_at fs q)"
proof (induction a p fs arbitrary: b fs' rule: make_dirs.induct)
  case (2 done_path c cs fs)
  show ?case
  proof (cases "node_at fs (done_path @ [c])")
    case None
    show ?thesis
    proof (cases "fs_denied fs (done_path @ [c])")
      case False
      define fs1 where "fs1 = put_node (done_path @ [c]) Dir fs"
      have "make_dirs (done_path @ [c]) cs fs1 = (b, fs')"
        using "2.prems" None False by (simp add: fs1_def)
      note ih = "2.IH"(1) [OF None False, folded fs1_def, OF this]
      have "node_at fs1 q = node_at fs q" if "node_at fs q \<noteq> None" for q
        using that None by (auto simp: fs1_def node_put)
      then show ?thesis using ih by (auto simp: fs1_def)
    qed (use "2.prems" None in auto)
  next
    case (Some n)
    then show ?thesis using "2.prems" "2.IH"(2) [OF Some] by (cases n) auto
  qed
qed auto

lemma make_dirs_exist:
  "is_dir fs a \<Longrightarrow> make_dirs a p fs = (True, fs') \<Longrightarrow> is_dir fs' (a @ p)"
proof (induction a p fs arbitrary: fs' rule: make_dirs.induct)
  case (2 done_path c cs fs)
  show ?case
  proof (cases "node_at fs (done_path @ [c])")
    case None
    with "2.prems" "2.IH"(1) [OF None] show ?thesis
      by (auto simp: is_dir_def node_put split: if_splits)
  next
    case (Some n)
    with "2.prems" "2.IH"(2) [OF Some] show ?thesis by (cases n) (auto simp: is_dir_def)
  qed
qed simp

lemma make_dirs_present: "(\<forall>i\<le>length p. is_dir fs (a @ take i p)) \<Longrightarrow> make_dirs a p fs = (True, fs)"
proof (induction p arbitrary: a)
  case (Cons c cs)
  have "is_dir fs (a @ take (Suc 0) (c # cs))" using Cons.prems [rule_format, of "Suc 0"] by simp
  then have d: "node_at fs (a @ [c]) = Some Dir" by (simp add: is_dir_def)
  have "\<forall>i\<le>length cs. is_dir fs ((a @ [c]) @ take i cs)"
  proof (intro allI impI)
    fix i assume "i \<le> length cs"
    then have "is_dir fs (a @ take (Suc i) (c # cs))" using Cons.prems [rule_format, of "Suc i"] by simp
    then show "is_dir fs ((a @ [c]) @ take i cs)" by simp
  qed
  with Cons.IH [of "a @ [c]"] d show ?case by simp
qed simp

end
