(* ===== verification/Game_Save.thy ===== *)
theory Game_Save
  imports Files Handle_Table
begin

text \<open>
  XGameSave: the on-disk engine of \<open>src/src/com/xgamesave/storage.rs\<close> and the synchronous entry
  points of \<open>src/src/com/xgamesave/object.rs\<close>. A container is a directory, a blob a file in it,
  an update a buffer of writes and deletes that \<open>XGameSaveSubmitUpdate\<close> applies. The state holds
  the file system, the three handle tables (the table of updates holds references to shared
  buffers), the save root, and the user ids behind user handles.

  A C string argument is an optional string, \<open>None\<close> for null or not UTF-8; a callback argument
  is optional and transforms the whole state; \<open>None\<close> results stand for out-parameters not
  written. The asynchronous variants are in Save_Async.
\<close>

section \<open>State\<close>

record update_state =
  us_root :: path
  us_display :: ustring
  us_writes :: "(ustring \<times> u8 list) list"
  us_deletes :: "ustring list"

record saves =
  gs_fs :: fsys
  gs_base :: path
  gs_users :: "u64 \<Rightarrow> u64 option"
  gs_providers :: "path htable"
  gs_containers :: "path htable"
  gs_updates :: "nat htable"
  gs_buffers :: "nat \<Rightarrow> update_state"
  gs_next_buffer :: nat

record XGameSaveContainerInfo =
  ci_name :: ustring
  ci_display :: ustring
  ci_blobs :: u32
  ci_size :: u64
  ci_modified :: nat

record XGameSaveBlobInfo =
  bi_name :: ustring
  bi_size :: u32

type_synonym 'z container_callback = "XGameSaveContainerInfo \<Rightarrow> 'z saves_scheme \<Rightarrow> bool \<times> 'z saves_scheme"
type_synonym 'z blob_callback = "XGameSaveBlobInfo \<Rightarrow> 'z saves_scheme \<Rightarrow> bool \<times> 'z saves_scheme"

section \<open>Layout\<close>

definition META_FILE :: ustring where
  "META_FILE = utf8 ''.xgamesave_display_name''"

fun decimal :: "nat \<Rightarrow> ustring" where
  "decimal n = (if n < 10 then [of_nat (48 + n)] else decimal (n div 10) @ [of_nat (48 + n mod 10)])"

declare decimal.simps [simp del]

definition provider_root :: "path \<Rightarrow> u64 \<Rightarrow> ustring \<Rightarrow> path" where
  "provider_root base user_id configuration_id =
     join (join base (decimal (unat user_id))) configuration_id"

definition containers_dir :: "path \<Rightarrow> path" where
  "containers_dir root = join root (utf8 ''containers'')"

definition container_dir :: "path \<Rightarrow> ustring \<Rightarrow> path" where
  "container_dir root name = join (containers_dir root) name"

definition read_display_name :: "path \<Rightarrow> fsys \<Rightarrow> ustring" where
  "read_display_name root fs = (case read_file (join root META_FILE) fs of None \<Rightarrow> [] | Some b \<Rightarrow> b)"

definition write_display_name :: "path \<Rightarrow> ustring \<Rightarrow> fsys \<Rightarrow> fsys" where
  "write_display_name root display fs = snd (write_file (join root META_FILE) display fs)"

text \<open>The blob files of a container, with their bytes and modification times.\<close>

definition blob_files :: "path \<Rightarrow> fsys \<Rightarrow> (ustring \<times> u8 list \<times> nat) list" where
  "blob_files root fs =
     concat (map (\<lambda>(name, n). case n of
         File bytes modified \<Rightarrow> if name \<noteq> META_FILE then [(name, bytes, modified)] else []
       | Dir \<Rightarrow> []) (read_dir root fs))"

definition container_total_size :: "path \<Rightarrow> fsys \<Rightarrow> u64" where
  "container_total_size root fs = sum_list (map (\<lambda>(n, b, t). of_nat (length b)) (blob_files root fs))"

definition container_last_modified :: "path \<Rightarrow> fsys \<Rightarrow> nat" where
  "container_last_modified root fs = foldl max 0 (map (\<lambda>(n, b, t). t) (blob_files root fs))"

section \<open>The engine\<close>

definition initialize_provider ::
  "u64 option \<Rightarrow> ustring option \<Rightarrow> 'z saves_scheme \<Rightarrow> u64 outcome \<times> 'z saves_scheme" where
  "initialize_provider user_id configuration_id s =
     (case configuration_id of
        None \<Rightarrow> (Inl E_INVALIDARG, s)
      | Some cfg \<Rightarrow>
          (case user_id of
             None \<Rightarrow> (Inl E_INVALIDARG, s)
           | Some u \<Rightarrow>
               let root = provider_root (gs_base s) u cfg
               in (case create_dir_all (containers_dir root) (gs_fs s) of
                     (False, fs) \<Rightarrow> (Inl E_FAIL, s\<lparr>gs_fs := fs\<rparr>)
                   | (True, fs) \<Rightarrow>
                       let (h, t) = ht_create root (gs_providers s)
                       in (Inr h, s\<lparr>gs_fs := fs, gs_providers := t\<rparr>))))"

definition PLACEHOLDER_QUOTA_BYTES :: int where
  "PLACEHOLDER_QUOTA_BYTES = 1024 * 1024 * 1024"

text \<open>\<open>i64::saturating_sub\<close>.\<close>

definition saturating_sub_i64 :: "int \<Rightarrow> int \<Rightarrow> int" where
  "saturating_sub_i64 a b = min (2 ^ 63 - 1) (max (- (2 ^ 63)) (a - b))"

definition used_bytes :: "path \<Rightarrow> fsys \<Rightarrow> u64" where
  "used_bytes root fs =
     sum_list (map (\<lambda>(name, n). container_total_size (join (containers_dir root) name) fs)
       (read_dir (containers_dir root) fs))"

definition remaining_quota :: "path \<Rightarrow> fsys \<Rightarrow> int" where
  "remaining_quota root fs =
     max 0 (saturating_sub_i64 PLACEHOLDER_QUOTA_BYTES (sint (used_bytes root fs)))"

definition delete_container :: "path \<Rightarrow> ustring option \<Rightarrow> fsys \<Rightarrow> hresult \<times> fsys" where
  "delete_container root name fs =
     (case name of
        None \<Rightarrow> (E_INVALIDARG, fs)
      | Some n \<Rightarrow>
          (case remove_dir_all (container_dir root n) fs of
             (Removed, fs1) \<Rightarrow> (S_OK, fs1)
           | (NotFound, fs1) \<Rightarrow> (S_OK, fs1)
           | (Failed, fs1) \<Rightarrow> (E_FAIL, fs1)))"

definition container_info :: "path \<Rightarrow> ustring \<Rightarrow> fsys \<Rightarrow> XGameSaveContainerInfo option" where
  "container_info root name fs =
     (let dir = container_dir root name
      in if \<not> is_dir fs dir then None
         else Some \<lparr>ci_name = name, ci_display = read_display_name dir fs,
                ci_blobs = of_nat (length (blob_files dir fs)),
                ci_size = container_total_size dir fs,
                ci_modified = container_last_modified dir fs\<rparr>)"

definition starts_with :: "ustring option \<Rightarrow> ustring \<Rightarrow> bool" where
  "starts_with pre name = (case pre of None \<Rightarrow> True | Some p \<Rightarrow> take (length p) name = p)"

fun enumerate_loop ::
  "path \<Rightarrow> ustring option \<Rightarrow> 'z container_callback \<Rightarrow> (ustring \<times> node) list \<Rightarrow> 'z saves_scheme \<Rightarrow>
     'z saves_scheme" where
  "enumerate_loop root pre cb [] s = s"
| "enumerate_loop root pre cb ((name, n) # rest) s =
     (if n \<noteq> Dir \<or> \<not> starts_with pre name then enumerate_loop root pre cb rest s
      else case container_info root name (gs_fs s) of
        None \<Rightarrow> enumerate_loop root pre cb rest s
      | Some info \<Rightarrow>
          (case cb info s of
             (False, s1) \<Rightarrow> s1
           | (True, s1) \<Rightarrow> enumerate_loop root pre cb rest s1))"

definition enumerate_containers ::
  "path \<Rightarrow> ustring option \<Rightarrow> 'z container_callback \<Rightarrow> 'z saves_scheme \<Rightarrow> 'z saves_scheme" where
  "enumerate_containers root pre cb s =
     enumerate_loop root pre cb (read_dir (containers_dir root) (gs_fs s)) s"

fun enumerate_blob_loop ::
  "ustring option \<Rightarrow> 'z blob_callback \<Rightarrow> (ustring \<times> u8 list \<times> nat) list \<Rightarrow> 'z saves_scheme \<Rightarrow>
     'z saves_scheme" where
  "enumerate_blob_loop pre cb [] s = s"
| "enumerate_blob_loop pre cb ((name, bytes, t) # rest) s =
     (if \<not> starts_with pre name then enumerate_blob_loop pre cb rest s
      else case cb \<lparr>bi_name = name, bi_size = of_nat (length bytes)\<rparr> s of
             (False, s1) \<Rightarrow> s1
           | (True, s1) \<Rightarrow> enumerate_blob_loop pre cb rest s1)"

definition enumerate_blobs ::
  "path \<Rightarrow> ustring option \<Rightarrow> 'z blob_callback \<Rightarrow> 'z saves_scheme \<Rightarrow> 'z saves_scheme" where
  "enumerate_blobs root pre cb s = enumerate_blob_loop pre cb (blob_files root (gs_fs s)) s"

section \<open>Providers and containers\<close>

definition XGameSaveInitializeProvider ::
  "u64 \<Rightarrow> ustring option \<Rightarrow> bool \<Rightarrow> 'z saves_scheme \<Rightarrow> hresult \<times> u64 option \<times> 'z saves_scheme" where
  "XGameSaveInitializeProvider user cfg out_null s =
     (if out_null then (E_POINTER, None, s)
      else case initialize_provider (gs_users s user) cfg s of
        (Inr h, s1) \<Rightarrow> (S_OK, Some h, s1)
      | (Inl hr, s1) \<Rightarrow> (hr, None, s1))"

definition XGameSaveCloseProvider :: "u64 \<Rightarrow> 'z saves_scheme \<Rightarrow> 'z saves_scheme" where
  "XGameSaveCloseProvider h s = s\<lparr>gs_providers := ht_close h (gs_providers s)\<rparr>"

definition XGameSaveGetRemainingQuota ::
  "u64 \<Rightarrow> bool \<Rightarrow> 'z saves_scheme \<Rightarrow> hresult \<times> int option" where
  "XGameSaveGetRemainingQuota provider out_null s =
     (if out_null then (E_POINTER, None)
      else case ht_get (gs_providers s) provider of
        None \<Rightarrow> (E_INVALIDARG, None)
      | Some root \<Rightarrow> (S_OK, Some (remaining_quota root (gs_fs s))))"

definition XGameSaveDeleteContainer ::
  "u64 \<Rightarrow> ustring option \<Rightarrow> 'z saves_scheme \<Rightarrow> hresult \<times> 'z saves_scheme" where
  "XGameSaveDeleteContainer provider name s =
     (case ht_get (gs_providers s) provider of
        None \<Rightarrow> (E_INVALIDARG, s)
      | Some root \<Rightarrow> let (hr, fs) = delete_container root name (gs_fs s) in (hr, s\<lparr>gs_fs := fs\<rparr>))"

definition XGameSaveGetContainerInfo ::
  "u64 \<Rightarrow> ustring option \<Rightarrow> 'z container_callback option \<Rightarrow> 'z saves_scheme \<Rightarrow> hresult \<times> 'z saves_scheme"
where
  "XGameSaveGetContainerInfo provider name callback s =
     (case ht_get (gs_providers s) provider of
        None \<Rightarrow> (E_INVALIDARG, s)
      | Some root \<Rightarrow>
          (case callback of
             None \<Rightarrow> (E_POINTER, s)
           | Some cb \<Rightarrow>
               (case name of
                  None \<Rightarrow> (E_INVALIDARG, s)
                | Some n \<Rightarrow>
                    (case container_info root n (gs_fs s) of
                       None \<Rightarrow> (S_OK, s)
                     | Some info \<Rightarrow> (S_OK, snd (cb info s))))))"

definition XGameSaveEnumerateContainerInfoByName ::
  "u64 \<Rightarrow> ustring option \<Rightarrow> 'z container_callback option \<Rightarrow> 'z saves_scheme \<Rightarrow> hresult \<times> 'z saves_scheme"
where
  "XGameSaveEnumerateContainerInfoByName provider pre callback s =
     (case ht_get (gs_providers s) provider of
        None \<Rightarrow> (E_INVALIDARG, s)
      | Some root \<Rightarrow>
          (case callback of
             None \<Rightarrow> (E_POINTER, s)
           | Some cb \<Rightarrow> (S_OK, enumerate_containers root pre cb s)))"

definition XGameSaveEnumerateContainerInfo ::
  "u64 \<Rightarrow> 'z container_callback option \<Rightarrow> 'z saves_scheme \<Rightarrow> hresult \<times> 'z saves_scheme" where
  "XGameSaveEnumerateContainerInfo provider callback s =
     (case ht_get (gs_providers s) provider of
        None \<Rightarrow> (E_INVALIDARG, s)
      | Some root \<Rightarrow>
          (case callback of
             None \<Rightarrow> (E_POINTER, s)
           | Some cb \<Rightarrow> (S_OK, enumerate_containers root None cb s)))"

definition XGameSaveCreateContainer ::
  "u64 \<Rightarrow> ustring option \<Rightarrow> bool \<Rightarrow> 'z saves_scheme \<Rightarrow> hresult \<times> u64 option \<times> 'z saves_scheme" where
  "XGameSaveCreateContainer provider name out_null s =
     (if out_null then (E_POINTER, None, s)
      else case ht_get (gs_providers s) provider of
        None \<Rightarrow> (E_INVALIDARG, None, s)
      | Some root \<Rightarrow>
          (case name of
             None \<Rightarrow> (E_INVALIDARG, None, s)
           | Some n \<Rightarrow>
               (case create_dir_all (container_dir root n) (gs_fs s) of
                  (False, fs) \<Rightarrow> (E_FAIL, None, s\<lparr>gs_fs := fs\<rparr>)
                | (True, fs) \<Rightarrow>
                    let (h, t) = ht_create (container_dir root n) (gs_containers s)
                    in (S_OK, Some h, s\<lparr>gs_fs := fs, gs_containers := t\<rparr>))))"

definition XGameSaveCloseContainer :: "u64 \<Rightarrow> 'z saves_scheme \<Rightarrow> 'z saves_scheme" where
  "XGameSaveCloseContainer h s = s\<lparr>gs_containers := ht_close h (gs_containers s)\<rparr>"

section \<open>Blobs\<close>

definition XGameSaveEnumerateBlobInfoByName ::
  "u64 \<Rightarrow> ustring option \<Rightarrow> 'z blob_callback option \<Rightarrow> 'z saves_scheme \<Rightarrow> hresult \<times> 'z saves_scheme" where
  "XGameSaveEnumerateBlobInfoByName container pre callback s =
     (case ht_get (gs_containers s) container of
        None \<Rightarrow> (E_INVALIDARG, s)
      | Some root \<Rightarrow>
          (case callback of
             None \<Rightarrow> (E_POINTER, s)
           | Some cb \<Rightarrow> (S_OK, enumerate_blobs root pre cb s)))"

definition XGameSaveEnumerateBlobInfo ::
  "u64 \<Rightarrow> 'z blob_callback option \<Rightarrow> 'z saves_scheme \<Rightarrow> hresult \<times> 'z saves_scheme" where
  "XGameSaveEnumerateBlobInfo container callback s =
     (case ht_get (gs_containers s) container of
        None \<Rightarrow> (E_INVALIDARG, s)
      | Some root \<Rightarrow>
          (case callback of
             None \<Rightarrow> (E_POINTER, s)
           | Some cb \<Rightarrow> (S_OK, enumerate_blobs root None cb s)))"

text \<open>The loop over the requested names: the blobs written out before it stops.\<close>

fun read_blobs ::
  "path \<Rightarrow> fsys \<Rightarrow> ustring option list \<Rightarrow> hresult \<times> (XGameSaveBlobInfo \<times> u8 list) list" where
  "read_blobs root fs [] = (S_OK, [])"
| "read_blobs root fs (None # names) = (E_INVALIDARG, [])"
| "read_blobs root fs (Some n # names) =
     (case read_file (join root n) fs of
        None \<Rightarrow> (E_FAIL, [])
      | Some bytes \<Rightarrow>
          let (hr, out) = read_blobs root fs names
          in (hr, (\<lparr>bi_name = n, bi_size = of_nat (length bytes)\<rparr>, bytes) # out))"

definition XGameSaveReadBlobData ::
  "u64 \<Rightarrow> ustring option list option \<Rightarrow> bool \<Rightarrow> nat \<Rightarrow> bool \<Rightarrow> 'z saves_scheme \<Rightarrow>
     hresult \<times> u32 option \<times> (XGameSaveBlobInfo \<times> u8 list) list" where
  "XGameSaveReadBlobData container names count_null blobs_size data_null s =
     (if count_null then (E_POINTER, None, [])
      else case ht_get (gs_containers s) container of
        None \<Rightarrow> (E_INVALIDARG, None, [])
      | Some root \<Rightarrow>
          (case names of
             None \<Rightarrow> (E_INVALIDARG, None, [])
           | Some ns \<Rightarrow>
               if ns = [] then (E_INVALIDARG, None, [])
               else if blobs_size < length ns \<or> data_null then (E_NOT_SUFFICIENT_BUFFER, None, [])
               else let (hr, out) = read_blobs root (gs_fs s) ns
                    in (hr, if hr = S_OK then Some (of_nat (length ns)) else None, out)))"

section \<open>Updates\<close>

definition XGameSaveCreateUpdate ::
  "u64 \<Rightarrow> ustring option \<Rightarrow> bool \<Rightarrow> 'z saves_scheme \<Rightarrow> hresult \<times> u64 option \<times> 'z saves_scheme" where
  "XGameSaveCreateUpdate container display out_null s =
     (if out_null then (E_POINTER, None, s)
      else case ht_get (gs_containers s) container of
        None \<Rightarrow> (E_INVALIDARG, None, s)
      | Some root \<Rightarrow>
          let u = \<lparr>us_root = root, us_display = (case display of None \<Rightarrow> [] | Some d \<Rightarrow> d),
                   us_writes = [], us_deletes = []\<rparr>;
              i = gs_next_buffer s;
              (h, t) = ht_create i (gs_updates s)
          in (S_OK, Some h, s\<lparr>gs_updates := t, gs_buffers := (gs_buffers s)(i := u),
                gs_next_buffer := i + 1\<rparr>))"

definition XGameSaveCloseUpdate :: "u64 \<Rightarrow> 'z saves_scheme \<Rightarrow> 'z saves_scheme" where
  "XGameSaveCloseUpdate h s = s\<lparr>gs_updates := ht_close h (gs_updates s)\<rparr>"

definition buffer_write :: "ustring \<Rightarrow> u8 list \<Rightarrow> update_state \<Rightarrow> update_state" where
  "buffer_write name bytes u =
     u\<lparr>us_deletes := filter (\<lambda>deleted. deleted \<noteq> name) (us_deletes u),
       us_writes := filter (\<lambda>(existing, b). existing \<noteq> name) (us_writes u) @ [(name, bytes)]\<rparr>"

definition buffer_delete :: "ustring \<Rightarrow> update_state \<Rightarrow> update_state" where
  "buffer_delete name u =
     u\<lparr>us_writes := filter (\<lambda>(existing, b). existing \<noteq> name) (us_writes u),
       us_deletes := us_deletes u @ [name]\<rparr>"

text \<open>The data argument is \<open>None\<close> when null; the bytes are those of the stated count.\<close>

definition XGameSaveSubmitBlobWrite ::
  "u64 \<Rightarrow> ustring option \<Rightarrow> u8 list option \<Rightarrow> nat \<Rightarrow> 'z saves_scheme \<Rightarrow> hresult \<times> 'z saves_scheme" where
  "XGameSaveSubmitBlobWrite h name data byte_count s =
     (case ht_get (gs_updates s) h of
        None \<Rightarrow> (E_INVALIDARG, s)
      | Some i \<Rightarrow>
          (case name of
             None \<Rightarrow> (E_INVALIDARG, s)
           | Some n \<Rightarrow>
               if data = None \<and> byte_count \<noteq> 0 then (E_POINTER, s)
               else let bytes = (if byte_count = 0 then [] else take byte_count (the data))
                    in (S_OK, s\<lparr>gs_buffers := (gs_buffers s)(i := buffer_write n bytes (gs_buffers s i))\<rparr>)))"

definition XGameSaveSubmitBlobDelete ::
  "u64 \<Rightarrow> ustring option \<Rightarrow> 'z saves_scheme \<Rightarrow> hresult \<times> 'z saves_scheme" where
  "XGameSaveSubmitBlobDelete h name s =
     (case ht_get (gs_updates s) h of
        None \<Rightarrow> (E_INVALIDARG, s)
      | Some i \<Rightarrow>
          (case name of
             None \<Rightarrow> (E_INVALIDARG, s)
           | Some n \<Rightarrow> (S_OK, s\<lparr>gs_buffers := (gs_buffers s)(i := buffer_delete n (gs_buffers s i))\<rparr>)))"

fun write_all_blobs :: "path \<Rightarrow> (ustring \<times> u8 list) list \<Rightarrow> fsys \<Rightarrow> bool \<times> fsys" where
  "write_all_blobs root [] fs = (True, fs)"
| "write_all_blobs root ((name, bytes) # ws) fs =
     (case write_file (join root name) bytes fs of
        (False, fs1) \<Rightarrow> (False, fs1)
      | (True, fs1) \<Rightarrow> write_all_blobs root ws fs1)"

definition delete_blobs :: "path \<Rightarrow> ustring list \<Rightarrow> fsys \<Rightarrow> fsys" where
  "delete_blobs root names fs = fold (\<lambda>n. remove_file (join root n)) names fs"

definition commit :: "update_state \<Rightarrow> fsys \<Rightarrow> hresult \<times> update_state \<times> fsys" where
  "commit u fs =
     (case create_dir_all (us_root u) fs of
        (False, fs1) \<Rightarrow> (E_FAIL, u, fs1)
      | (True, fs1) \<Rightarrow>
          (case write_all_blobs (us_root u) (us_writes u) fs1 of
             (False, fs2) \<Rightarrow> (E_FAIL, u, fs2)
           | (True, fs2) \<Rightarrow>
               let fs3 = delete_blobs (us_root u) (us_deletes u) fs2;
                   fs4 = (if us_display u \<noteq> [] then write_display_name (us_root u) (us_display u) fs3
                          else fs3)
               in (S_OK, u\<lparr>us_writes := [], us_deletes := []\<rparr>, fs4)))"

definition XGameSaveSubmitUpdate :: "u64 \<Rightarrow> 'z saves_scheme \<Rightarrow> hresult \<times> 'z saves_scheme" where
  "XGameSaveSubmitUpdate h s =
     (case ht_get (gs_updates s) h of
        None \<Rightarrow> (E_INVALIDARG, s)
      | Some i \<Rightarrow>
          let (hr, u, fs) = commit (gs_buffers s i) (gs_fs s)
          in (hr, s\<lparr>gs_fs := fs, gs_buffers := (gs_buffers s)(i := u)\<rparr>))"

section \<open>Folders\<close>

definition PATH_PAYLOAD_CAPACITY :: nat where
  "PATH_PAYLOAD_CAPACITY = 260"

record path_payload =
  pp_len :: nat
  pp_bytes :: "u8 list"

definition path_payload_new :: "ustring \<Rightarrow> path_payload outcome" where
  "path_payload_new path =
     (if length path \<ge> PATH_PAYLOAD_CAPACITY then Inl E_NOT_SUFFICIENT_BUFFER
      else Inr \<lparr>pp_len = length path,
             pp_bytes = path @ replicate (PATH_PAYLOAD_CAPACITY - length path) 0\<rparr>)"

definition XGameSaveFilesGetRemainingQuota ::
  "u64 \<Rightarrow> ustring option \<Rightarrow> bool \<Rightarrow> 'z saves_scheme \<Rightarrow> hresult \<times> int option" where
  "XGameSaveFilesGetRemainingQuota user cfg out_null s =
     (if out_null then (E_POINTER, None)
      else case cfg of
        None \<Rightarrow> (E_INVALIDARG, None)
      | Some c \<Rightarrow>
          (case gs_users s user of
             None \<Rightarrow> (E_INVALIDARG, None)
           | Some u \<Rightarrow> (S_OK, Some (remaining_quota (provider_root (gs_base s) u c) (gs_fs s)))))"

end
