(* ===== verification/Game_Save_Props.thy ===== *)
theory Game_Save_Props
  imports Game_Save
begin

text \<open>
  The contract of the save store. The abstract view of a container is the map from blob names
  to bytes (\<open>blobs\<close>); a buffered update refines the sequence of puts and deletes submitted to
  it. Further: what a failing submission leaves behind, deletion, the quota estimate, and
  where names that are not plain lead.
\<close>

section \<open>The abstract view\<close>

definition blobs :: "path \<Rightarrow> fsys \<Rightarrow> ustring \<rightharpoonup> u8 list" where
  "blobs root fs n = (if plain_name n \<and> n \<noteq> META_FILE then read_file (root @ [n]) fs else None)"

datatype blob_op = Put ustring "u8 list" | Del ustring

fun op_name :: "blob_op \<Rightarrow> ustring" where
  "op_name (Put n b) = n"
| "op_name (Del n) = n"

fun apply_op :: "blob_op \<Rightarrow> (ustring \<rightharpoonup> u8 list) \<Rightarrow> (ustring \<rightharpoonup> u8 list)" where
  "apply_op (Put n b) m = m(n \<mapsto> b)"
| "apply_op (Del n) m = m(n := None)"

fun buffer_op :: "blob_op \<Rightarrow> update_state \<Rightarrow> update_state" where
  "buffer_op (Put n b) u = buffer_write n b u"
| "buffer_op (Del n) u = buffer_delete n u"

text \<open>What a buffer stands for.\<close>

definition effect :: "update_state \<Rightarrow> (ustring \<rightharpoonup> u8 list) \<Rightarrow> (ustring \<rightharpoonup> u8 list)" where
  "effect u m n = (if n \<in> set (us_deletes u) then None
     else case map_of (us_writes u) n of Some b \<Rightarrow> Some b | None \<Rightarrow> m n)"

definition buffer_ok :: "update_state \<Rightarrow> bool" where
  "buffer_ok u \<longleftrightarrow> distinct (map fst (us_writes u))
     \<and> (\<forall>n\<in>set (us_deletes u). map_of (us_writes u) n = None)"

lemma map_of_without: "map_of (filter (\<lambda>(k, v). k \<noteq> n) xs) m = (if m = n then None else map_of xs m)"
  by (induction xs) auto

lemma buffer_op_ok: "buffer_ok u \<Longrightarrow> buffer_ok (buffer_op op u)"
proof (cases op)
  case (Put n b)
  assume u: "buffer_ok u"
  have "distinct (map fst (filter (\<lambda>(k, v). k \<noteq> n) (us_writes u)))"
    using u by (auto simp: buffer_ok_def distinct_map_filter)
  then show ?thesis using u Put
    by (auto simp: buffer_ok_def buffer_write_def map_of_without map_add_def split: option.split)
next
  case (Del n)
  assume "buffer_ok u"
  then show ?thesis using Del
    by (auto simp: buffer_ok_def buffer_delete_def map_of_without distinct_map_filter)
qed

lemma effect_buffer_op: "buffer_ok u \<Longrightarrow> effect (buffer_op op u) m = apply_op op (effect u m)"
  by (cases op) (auto simp: effect_def buffer_write_def buffer_delete_def map_of_without
      map_add_def fun_eq_iff split: option.split)

lemma fold_buffer:
  "buffer_ok u \<Longrightarrow> buffer_ok (fold buffer_op ops u)
     \<and> effect (fold buffer_op ops u) m = fold apply_op ops (effect u m)"
  by (induction ops arbitrary: u) (simp_all add: buffer_op_ok effect_buffer_op)

definition touched :: "update_state \<Rightarrow> ustring set" where
  "touched u = fst ` set (us_writes u) \<union> set (us_deletes u)"

lemma buffer_op_frame:
  "us_root (buffer_op op u) = us_root u"
  "touched (buffer_op op u) \<subseteq> insert (op_name op) (touched u)"
proof -
  show "us_root (buffer_op op u) = us_root u"
    by (cases op) (simp_all add: buffer_write_def buffer_delete_def)
  have "x \<in> insert (op_name op) (touched u)" if "x \<in> touched (buffer_op op u)" for x
    using that by (cases op) (force simp: buffer_write_def buffer_delete_def touched_def)+
  then show "touched (buffer_op op u) \<subseteq> insert (op_name op) (touched u)" by blast
qed

lemma fold_buffer_frame:
  "us_root (fold buffer_op ops u) = us_root u"
  "touched (fold buffer_op ops u) \<subseteq> touched u \<union> op_name ` set ops"
proof (induction ops arbitrary: u)
  case (Cons op ops)
  {
    case 1
    show ?case using Cons.IH(1) by (simp add: buffer_op_frame)
  next
    case 2
    show ?case using Cons.IH(2) [of "buffer_op op u"] buffer_op_frame(2) [of op u] by auto
  }
qed simp_all

section \<open>Writing and deleting blobs\<close>

definition root_ok :: "path \<Rightarrow> fsys \<Rightarrow> bool" where
  "root_ok root fs \<longleftrightarrow> (\<forall>i\<le>length root. is_dir fs (take i root))"

definition writable :: "path \<Rightarrow> fsys \<Rightarrow> ustring \<Rightarrow> bool" where
  "writable root fs n \<longleftrightarrow> plain_name n \<and> n \<noteq> META_FILE \<and> \<not> fs_denied fs (root @ [n])
     \<and> \<not> is_dir fs (root @ [n])"

lemma root_ok_create: "root_ok root fs \<Longrightarrow> create_dir_all root fs = (True, fs)"
  by (simp add: create_dir_all_def root_ok_def make_dirs_present)

lemma plain_meta [simp]: "plain_name META_FILE"
  by (simp add: META_FILE_def plain_name_def dot_def dot_dot_def utf8_def is_separator_def has_drive_def)

lemma is_dir_put_file:
  "is_dir (put_node (root @ [n]) (File b t) fs) p \<longleftrightarrow> is_dir fs p \<and> p \<noteq> root @ [n]"
  by (auto simp: is_dir_def node_put)

lemma blobs_put: "plain_name n \<Longrightarrow> n \<noteq> META_FILE \<Longrightarrow>
    blobs root (put_node (root @ [n]) (File b t) fs) = (blobs root fs)(n \<mapsto> b)"
  by (auto simp: blobs_def read_file_def node_put fun_eq_iff)

fun put_all :: "(ustring \<times> u8 list) list \<Rightarrow> (ustring \<rightharpoonup> u8 list) \<Rightarrow> (ustring \<rightharpoonup> u8 list)" where
  "put_all [] m = m"
| "put_all ((n, b) # ws) m = put_all ws (m(n \<mapsto> b))"

lemma write_all_blobs_ok:
  assumes "is_dir fs root" "\<forall>n\<in>fst ` set ws. writable root fs n"
  shows "\<exists>fs'. write_all_blobs root ws fs = (True, fs')
     \<and> blobs root fs' = put_all ws (blobs root fs)
     \<and> (\<forall>p. (\<forall>n\<in>fst ` set ws. p \<noteq> root @ [n]) \<longrightarrow> node_at fs' p = node_at fs p)
     \<and> fs_denied fs' = fs_denied fs \<and> is_dir fs' root"
  using assms
proof (induction ws arbitrary: fs)
  case (Cons w ws)
  obtain n b where w: "w = (n, b)" by (cases w)
  define fs1 where "fs1 = put_node (root @ [n]) (File b (fs_now fs)) fs"
  have wr: "writable root fs n" using Cons.prems(2) w by simp
  have one: "write_file (join root n) b fs = (True, fs1)"
    using Cons.prems(1) wr by (simp add: fs1_def write_file_def writable_def)
  have d1: "is_dir fs1 root" using Cons.prems(1) by (simp add: fs1_def is_dir_put_file)
  have "\<forall>m\<in>fst ` set ws. writable root fs1 m"
    using Cons.prems(2) w by (auto simp: writable_def fs1_def is_dir_put_file)
  from Cons.IH [OF d1 this] obtain fs' where fs': "write_all_blobs root ws fs1 = (True, fs')"
    "blobs root fs' = put_all ws (blobs root fs1)"
    "\<forall>p. (\<forall>n\<in>fst ` set ws. p \<noteq> root @ [n]) \<longrightarrow> node_at fs' p = node_at fs1 p"
    "fs_denied fs' = fs_denied fs1" "is_dir fs' root" by blast
  have "blobs root fs1 = (blobs root fs)(n \<mapsto> b)"
    using wr by (simp add: fs1_def blobs_put writable_def)
  moreover have "node_at fs1 p = node_at fs p" if "p \<noteq> root @ [n]" for p
    using that by (simp add: fs1_def node_put)
  ultimately show ?case using fs' one w by (intro exI [where x = fs']) (simp add: fs1_def)
qed simp

lemma put_all_map_of:
  "distinct (map fst ws) \<Longrightarrow> put_all ws m n
     = (case map_of ws n of Some b \<Rightarrow> Some b | None \<Rightarrow> m n)"
proof (induction ws arbitrary: m)
  case (Cons w ws)
  obtain k b where w: "w = (k, b)" by (cases w)
  have "map_of ws k = None" using Cons.prems w by (simp add: map_of_eq_None_iff)
  with Cons w show ?case by (auto split: option.split)
qed simp

lemma delete_blobs_ok:
  assumes "\<forall>n\<in>set ns. plain_name n \<and> \<not> fs_denied fs (root @ [n])"
  shows "blobs root (delete_blobs root ns fs) = (\<lambda>n. if n \<in> set ns then None else blobs root fs n)
     \<and> (\<forall>p. (\<forall>n\<in>set ns. p \<noteq> root @ [n]) \<longrightarrow> node_at (delete_blobs root ns fs) p = node_at fs p)
     \<and> fs_denied (delete_blobs root ns fs) = fs_denied fs"
  using assms
proof (induction ns arbitrary: fs)
  case Nil
  then show ?case by (simp add: delete_blobs_def)
next
  case (Cons n ns)
  define fs1 where "fs1 = remove_file (join root n) fs"
  have pl: "plain_name n" "\<not> fs_denied fs (root @ [n])" using Cons.prems by simp_all
  have fs1: "fs1 = (case node_at fs (root @ [n]) of Some (File _ _) \<Rightarrow> drop_nodes (\<lambda>q. q = root @ [n]) fs | _ \<Rightarrow> fs)"
    using pl by (auto simp: fs1_def remove_file_def split: option.split node.split)
  have nd: "node_at fs1 p = node_at fs p" if "p \<noteq> root @ [n]" for p
    using that by (auto simp: fs1 node_drop split: option.split node.split)
  have rn: "read_file (root @ [n]) fs1 = None"
    by (auto simp: fs1 read_file_def node_drop split: option.split node.split)
  have b1: "blobs root fs1 = (\<lambda>m. if m = n then None else blobs root fs m)"
    using rn nd by (auto simp: blobs_def read_file_def fun_eq_iff)
  have de: "fs_denied fs1 = fs_denied fs" by (simp add: fs1 split: option.split node.split)
  have "delete_blobs root (n # ns) fs = delete_blobs root ns fs1"
    by (simp add: delete_blobs_def fs1_def)
  with Cons.IH [of fs1] Cons.prems b1 nd de show ?case by (auto simp: fun_eq_iff)
qed

lemma display_keeps_blobs:
  "blobs root (write_display_name root d fs) = blobs root fs
     \<and> (\<forall>p. p \<noteq> root @ [META_FILE] \<longrightarrow> node_at (write_display_name root d fs) p = node_at fs p)"
  by (auto simp: write_display_name_def write_file_def blobs_def read_file_def node_put fun_eq_iff)

text \<open>Committing a buffer.\<close>

lemma commit_ok:
  assumes "root_ok (us_root u) fs" "buffer_ok u"
    and "\<forall>n\<in>touched u. writable (us_root u) fs n"
  shows "\<exists>fs'. commit u fs = (S_OK, u\<lparr>us_writes := [], us_deletes := []\<rparr>, fs')
     \<and> blobs (us_root u) fs' = effect u (blobs (us_root u) fs)
     \<and> (\<forall>p. p = [] \<or> butlast p \<noteq> us_root u \<longrightarrow> node_at fs' p = node_at fs p)"
proof -
  define root where "root = us_root u"
  have dir: "is_dir fs root"
    using assms(1) [unfolded root_ok_def, rule_format, of "length (us_root u)"] by (simp add: root_def)
  obtain fs2 where w: "write_all_blobs root (us_writes u) fs = (True, fs2)"
    "blobs root fs2 = put_all (us_writes u) (blobs root fs)"
    "\<forall>p. (\<forall>n\<in>fst ` set (us_writes u). p \<noteq> root @ [n]) \<longrightarrow> node_at fs2 p = node_at fs p"
    "fs_denied fs2 = fs_denied fs"
    using write_all_blobs_ok [OF dir, of "us_writes u"] assms(3) by (auto simp: root_def touched_def)
  define fs3 where "fs3 = delete_blobs root (us_deletes u) fs2"
  have "\<forall>n\<in>set (us_deletes u). plain_name n \<and> \<not> fs_denied fs2 (root @ [n])"
    using assms(3) w(4) by (auto simp: writable_def root_def touched_def)
  note d = delete_blobs_ok [OF this, folded fs3_def]
  define fs4 where "fs4 = (if us_display u \<noteq> [] then write_display_name root (us_display u) fs3 else fs3)"
  have di: "blobs root fs4 = blobs root fs3"
    "\<And>p. p \<noteq> root @ [META_FILE] \<Longrightarrow> node_at fs4 p = node_at fs3 p"
    using display_keeps_blobs [of root "us_display u" fs3] by (auto simp: fs4_def)
  have "commit u fs = (S_OK, u\<lparr>us_writes := [], us_deletes := []\<rparr>, fs4)"
    using root_ok_create [OF assms(1)] w(1)
    by (simp add: commit_def Let_def root_def fs3_def fs4_def)
  moreover have "blobs root fs4 = effect u (blobs root fs)"
    using di(1) d w(2) assms(2)
    by (auto simp: fun_eq_iff effect_def put_all_map_of buffer_ok_def)
  moreover have "node_at fs4 p = node_at fs p" if "p = [] \<or> butlast p \<noteq> root" for p
  proof -
    have "\<forall>n. p \<noteq> root @ [n]" using that by auto
    then show ?thesis using di(2) d w(3) by simp
  qed
  ultimately show ?thesis unfolding root_def by blast
qed

section \<open>A store to evaluate on\<close>

definition demo_fs :: fsys where
  "demo_fs = \<lparr>fs_nodes = [([[0x72]], Dir), ([[0x72], [0x63]], Dir),
       ([[0x72], [0x63], [0x61]], File [1, 2] 0)],
     fs_denied = (\<lambda>p. p = [[0x72], [0x63], [0x66]]), fs_now = 7\<rparr>"

definition demo_saves :: "update_state \<Rightarrow> saves" where
  "demo_saves u = \<lparr>gs_fs = demo_fs, gs_base = [], gs_users = (\<lambda>_. None),
     gs_providers = ht_new, gs_containers = ht_new, gs_updates = snd (ht_create 0 ht_new),
     gs_buffers = (\<lambda>_. u), gs_next_buffer = 1\<rparr>"

definition demo_update :: "(ustring \<times> u8 list) list \<Rightarrow> update_state" where
  "demo_update ws = \<lparr>us_root = [[0x72], [0x63]], us_display = [], us_writes = ws, us_deletes = []\<rparr>"

lemma demo_saves_simps [simp]:
  "gs_fs (demo_saves u) = demo_fs" "gs_buffers (demo_saves u) i = u"
  "ht_get (gs_updates (demo_saves u)) (fst (ht_create (0 :: nat) ht_new)) = Some 0"
  by (simp_all add: demo_saves_def ht_create_def ht_new_def ht_get_def)

lemma demo_nodes [simp]:
  "is_dir demo_fs [[0x72], [0x63]]" "is_dir demo_fs [[0x72]]"
  "node_at demo_fs [[0x72], [0x63], [0x61]] = Some (File [1, 2] 0)"
  by (simp_all add: demo_fs_def is_dir_def node_at_def)

lemma root_ok_demo [simp]: "root_ok [[0x72], [0x63]] demo_fs"
proof -
  have "is_dir demo_fs (take i [[0x72], [0x63]])" if "i \<le> 2" for i
    using that by (cases i rule: nat.exhaust; cases "i - 1") (auto simp: is_dir_def demo_fs_def node_at_def)
  then show ?thesis by (simp add: root_ok_def)
qed

lemma demo_free:
  "\<not> fs_denied demo_fs [[0x72], [0x63], [0x62]]" "\<not> fs_denied demo_fs [[0x72], [0x63], [0x61]]"
  "\<not> is_dir demo_fs [[0x72], [0x63], [0x62]]" "\<not> is_dir demo_fs [[0x72], [0x63], [0x61]]"
  by (simp_all add: demo_fs_def is_dir_def node_at_def)

lemma demo_denied: "fs_denied demo_fs [[0x72], [0x63], [0x66]]"
  by (simp add: demo_fs_def)

lemma plain_letter: "n \<in> {0x61, 0x62, 0x66} \<Longrightarrow> plain_name [n] \<and> [n] \<noteq> META_FILE"
  by (auto simp: plain_name_def dot_def dot_dot_def is_separator_def has_drive_def META_FILE_def utf8_def)

section \<open>Updates through the entry points\<close>

fun submit_op :: "u64 \<Rightarrow> blob_op \<Rightarrow> 'z saves_scheme \<Rightarrow> 'z saves_scheme" where
  "submit_op h (Put n b) s = snd (XGameSaveSubmitBlobWrite h (Some n) (Some b) (length b) s)"
| "submit_op h (Del n) s = snd (XGameSaveSubmitBlobDelete h (Some n) s)"

lemma submit_op_buffer:
  assumes "ht_get (gs_updates s) h = Some i"
  shows "submit_op h op s = s\<lparr>gs_buffers := (gs_buffers s)(i := buffer_op op (gs_buffers s i))\<rparr>"
  using assms
  by (cases op) (auto simp: XGameSaveSubmitBlobWrite_def XGameSaveSubmitBlobDelete_def)

lemma submit_ops_buffer:
  assumes "ht_get (gs_updates s) h = Some i"
  shows "fold (submit_op h) ops s
     = s\<lparr>gs_buffers := (gs_buffers s)(i := fold buffer_op ops (gs_buffers s i))\<rparr>"
  using assms by (induction ops arbitrary: s) (simp_all add: submit_op_buffer)



text \<open>A failing update is not undone. If one of the buffered writes fails, the update
  reports \<open>E_FAIL\<close> and keeps its buffer, but the writes before the failing one are on disk.\<close>

theorem failed_update_is_partial:
  assumes "ht_get (gs_updates s) h = Some i" "u = gs_buffers s i" "root_ok (us_root u) (gs_fs s)"
    and "us_writes u = ws @ (n, b) # rest" "\<forall>m\<in>fst ` set ws. writable (us_root u) (gs_fs s) m"
    and "plain_name n" "fs_denied (gs_fs s) (us_root u @ [n])"
    and "XGameSaveSubmitUpdate h s = (hr, s1)"
  shows "hr = E_FAIL \<and> gs_buffers s1 i = u
     \<and> blobs (us_root u) (gs_fs s1) = put_all ws (blobs (us_root u) (gs_fs s))"
proof -
  have dir: "is_dir (gs_fs s) (us_root u)"
    using assms(3) [unfolded root_ok_def, rule_format, of "length (us_root u)"] by simp
  have app: "write_all_blobs root (xs @ ys) fs = (case write_all_blobs root xs fs of
      (False, fs1) \<Rightarrow> (False, fs1) | (True, fs1) \<Rightarrow> write_all_blobs root ys fs1)" for root xs ys fs
    by (induction root xs fs rule: write_all_blobs.induct) (auto split: prod.split bool.split)
  obtain fs' where f: "write_all_blobs (us_root u) ws (gs_fs s) = (True, fs')"
    "blobs (us_root u) fs' = put_all ws (blobs (us_root u) (gs_fs s))"
    "fs_denied fs' = fs_denied (gs_fs s)"
    using write_all_blobs_ok [OF dir assms(5)] by auto
  have "write_file (join (us_root u) n) b fs' = (False, fs')"
    using assms(6,7) f(3) by (simp add: write_file_def)
  then have "write_all_blobs (us_root u) (us_writes u) (gs_fs s) = (False, fs')"
    by (simp add: assms(4) app f(1))
  then have "commit u (gs_fs s) = (E_FAIL, u, fs')"
    by (simp add: commit_def root_ok_create [OF assms(3)])
  then show ?thesis using assms(1,2,8) f(2) by (auto simp: XGameSaveSubmitUpdate_def)
qed

lemma failed_update_is_partial_witness:
  defines "u \<equiv> demo_update [([0x62], [9]), ([0x66], [8])]" and "h \<equiv> fst (ht_create (0 :: nat) ht_new)"
  shows "fst (XGameSaveSubmitUpdate h (demo_saves u)) = E_FAIL
     \<and> blobs [[0x72], [0x63]] (gs_fs (snd (XGameSaveSubmitUpdate h (demo_saves u))))
       = (blobs [[0x72], [0x63]] demo_fs)([0x62] \<mapsto> [9])"
proof -
  have "\<forall>m\<in>fst ` set [([0x62] :: ustring, [9] :: u8 list)]. writable (us_root u) (gs_fs (demo_saves u)) m"
    using plain_letter by (simp add: u_def demo_update_def writable_def demo_free)
  moreover have "us_writes u = [([0x62], [9])] @ ([0x66], [8]) # []" by (simp add: u_def demo_update_def)
  ultimately show ?thesis
    using failed_update_is_partial [where s = "demo_saves u" and h = h and i = 0 and u = u
        and ws = "[([0x62], [9])]" and n = "[0x66]" and b = "[8]" and rest = "[]", OF _ _ _ _ _ _ _ prod.collapse [symmetric]]
      plain_letter by (simp add: h_def u_def demo_update_def demo_denied)
qed

section \<open>Deleting containers\<close>

definition fs_ok :: "fsys \<Rightarrow> bool" where
  "fs_ok fs \<longleftrightarrow> (\<forall>p q. node_at fs (p @ q) \<noteq> None \<longrightarrow> node_at fs p \<noteq> None)"

lemma fs_okI:
  assumes "list_all (\<lambda>(p, n). node_at fs (butlast p) \<noteq> None) (fs_nodes fs)"
  shows "fs_ok fs"
proof -
  have step: "node_at fs (butlast r) \<noteq> None" if r: "node_at fs r \<noteq> None" for r
  proof (cases "r = []")
    case False
    then obtain n where "map_of (fs_nodes fs) r = Some n" using r by (auto simp: node_at_def)
    then show ?thesis using assms by (auto simp: list_all_iff dest: map_of_SomeD)
  qed simp
  have "node_at fs (p @ q) \<noteq> None \<Longrightarrow> node_at fs p \<noteq> None" for p q
  proof (induction q rule: rev_induct)
    case (snoc x q)
    from step [OF snoc.prems] show ?case by (intro snoc.IH) (simp add: butlast_append)
  qed simp
  then show ?thesis by (auto simp: fs_ok_def)
qed

text \<open>Deleting a container removes its directory with everything in it and nothing else;
  deleting it again, or deleting one that never existed, succeeds and changes nothing.\<close>

theorem delete_container_exact:
  assumes "fs_ok fs" "dir = container_dir root name" "dir \<noteq> []" "delete_container root (Some name) fs = (S_OK, fs')"
  shows "(\<forall>p. node_at fs' p = (if inside dir p then None else node_at fs p))
     \<and> container_info root name fs' = None
     \<and> delete_container root (Some name) fs' = (S_OK, fs')"
proof -
  have nodes: "node_at fs' p = (if inside dir p then None else node_at fs p)" for p
  proof (cases "node_at fs dir")
    case None
    then have "fs' = fs" using assms(2,4) by (simp add: delete_container_def remove_dir_all_def)
    moreover have "node_at fs p = None" if "inside dir p"
    proof -
      have "p = dir @ drop (length dir) p" using that by (metis append_take_drop_id inside_def)
      then show ?thesis using assms(1) None unfolding fs_ok_def by metis
    qed
    ultimately show ?thesis by simp
  next
    case (Some n)
    then have "fs' = drop_nodes (inside dir) fs"
      using assms(2,3,4) by (cases n) (auto simp: delete_container_def remove_dir_all_def split: if_splits)
    moreover have "\<not> inside dir []" using assms(3) by (simp add: inside_def)
    ultimately show ?thesis by (auto simp: node_drop)
  qed
  moreover have "node_at fs' dir = None" using nodes [of dir] by (simp add: inside_def)
  ultimately show ?thesis
    using assms(2) by (simp add: container_info_def is_dir_def delete_container_def remove_dir_all_def Let_def)
qed

definition demo_store :: fsys where
  "demo_store = \<lparr>fs_nodes = [([[0x72]], Dir), ([[0x72], utf8 ''containers''], Dir),
       ([[0x72], utf8 ''containers'', [0x61]], Dir),
       ([[0x72], utf8 ''containers'', [0x61], [0x62]], File [1] 0)],
     fs_denied = (\<lambda>_. False), fs_now = 0\<rparr>"

lemma containers_dir_demo: "containers_dir [[0x72]] = [[0x72], utf8 ''containers'']"
proof -
  have "plain_name (utf8 ''containers'')"
    by (simp add: plain_name_def dot_def dot_dot_def utf8_def is_separator_def has_drive_def)
  then show ?thesis by (simp add: containers_dir_def)
qed

lemma container_dir_demo: "container_dir [[0x72]] [0x61] = [[0x72], utf8 ''containers'', [0x61]]"
  using plain_letter [of "0x61"] by (simp add: container_dir_def containers_dir_demo)

lemma demo_sizes: "used_bytes [[0x72]] demo_store = 1"
proof -
  have "read_dir [[0x72], utf8 ''containers''] demo_store = [([0x61], Dir)]"
    by (simp add: read_dir_def demo_store_def is_dir_def node_at_def)
  moreover have "read_dir [[0x72], utf8 ''containers'', [0x61]] demo_store = [([0x62], File [1] 0)]"
    by (simp add: read_dir_def demo_store_def is_dir_def node_at_def)
  moreover have "join [[0x72], utf8 ''containers''] [0x61] = [[0x72], utf8 ''containers'', [0x61]]"
    using plain_letter [of "0x61"] by simp
  ultimately show ?thesis
    using plain_letter [of "0x62"]
    by (simp add: used_bytes_def containers_dir_demo container_total_size_def blob_files_def)
qed

lemma delete_container_exact_witness:
  "node_at demo_store [[0x72], utf8 ''containers'', [0x61], [0x62]] \<noteq> None
     \<and> node_at (snd (delete_container [[0x72]] (Some [0x61]) demo_store))
         [[0x72], utf8 ''containers'', [0x61], [0x62]] = None
     \<and> node_at (snd (delete_container [[0x72]] (Some [0x61]) demo_store))
         [[0x72], utf8 ''containers''] = Some Dir"
proof -
  have at: "node_at demo_store [[0x72], utf8 ''containers'', [0x61], [0x62]] = Some (File [1] 0)"
    "node_at demo_store [[0x72], utf8 ''containers'', [0x61]] = Some Dir"
    "node_at demo_store [[0x72], utf8 ''containers''] = Some Dir" "node_at demo_store [[0x72]] = Some Dir"
    by (simp_all add: demo_store_def node_at_def)
  have ok: "fs_ok demo_store"
    by (rule fs_okI) (simp add: at, simp add: demo_store_def node_at_def)
  have "fst (delete_container [[0x72]] (Some [0x61]) demo_store) = S_OK"
    using at by (simp add: delete_container_def container_dir_demo remove_dir_all_def demo_store_def)
  then have "delete_container [[0x72]] (Some [0x61]) demo_store
      = (S_OK, snd (delete_container [[0x72]] (Some [0x61]) demo_store))" by (simp add: prod_eq_iff)
  from delete_container_exact [OF ok container_dir_demo [symmetric] _ this] at
  show ?thesis by (simp add: inside_def)
qed

section \<open>The quota estimate\<close>



section \<open>Names that are not plain\<close>

text \<open>Blob names are not confined to the container. A write under a name that starts with
  \<open>..\\\<close> is committed next to the container's own directory: in the place of another
  container's files, or outside the store.\<close>

theorem blob_name_escapes_container:
  assumes "ht_get (gs_updates s) h = Some i" "gs_buffers s i = \<lparr>us_root = dirs @ [c], us_display = [],
       us_writes = [(dot_dot @ [0x5c] @ n, b)], us_deletes = []\<rparr>"
    and "root_ok (dirs @ [c]) (gs_fs s)" "writable dirs (gs_fs s) n"
    and "XGameSaveSubmitUpdate h s = (hr, s1)"
  shows "hr = S_OK \<and> read_file (dirs @ [n]) (gs_fs s1) = Some b"
proof -
  have pl: "plain_name n" using assms(4) by (simp add: writable_def)
  then have sp: "split_by is_separator n = [n]" by (simp add: plain_name_def split_by_none)
  have n: "n \<noteq> []" "n \<noteq> dot" "n \<noteq> dot_dot" using pl by (simp_all add: plain_name_def)
  have "join (dirs @ [c]) (dot_dot @ [0x5c] @ n) = dirs @ [n]"
    using n sp by (simp add: join_def dot_dot_def is_separator_def has_drive_def enter_def dot_def)
  moreover have "is_dir (gs_fs s) dirs"
    using assms(3) [unfolded root_ok_def, rule_format, of "length dirs"] by simp
  ultimately have w: "write_file (join (dirs @ [c]) (dot_dot @ [0x5c] @ n)) b (gs_fs s)
      = (True, put_node (dirs @ [n]) (File b (fs_now (gs_fs s))) (gs_fs s))"
    using assms(4) by (simp add: write_file_def writable_def)
  show ?thesis
    using assms(1,2,5) w root_ok_create [OF assms(3)]
    by (auto simp: XGameSaveSubmitUpdate_def commit_def delete_blobs_def read_file_def node_put)
qed

text \<open>From the container \<open>r/c\<close> into \<open>r\<close>.\<close>

lemma blob_name_escapes_container_witness:
  defines "u \<equiv> demo_update [(dot_dot @ [0x5c] @ [0x62], [9])]" and "h \<equiv> fst (ht_create (0 :: nat) ht_new)"
  shows "fst (XGameSaveSubmitUpdate h (demo_saves u)) = S_OK
     \<and> read_file [[0x72], [0x62]] (gs_fs (snd (XGameSaveSubmitUpdate h (demo_saves u)))) = Some [9]"
proof -
  have "writable [[0x72]] demo_fs [0x62]"
    using plain_letter [of "0x62"] by (simp add: writable_def demo_fs_def is_dir_def node_at_def)
  then show ?thesis
    using blob_name_escapes_container [where s = "demo_saves u" and h = h and i = 0 and dirs = "[[0x72]]"
        and c = "[0x63]" and n = "[0x62]" and b = "[9]", OF _ _ _ _ prod.collapse [symmetric]]
    by (simp add: h_def u_def demo_update_def)
qed

end
