(* ===== verification/Unix_Transport.thy ===== *)
theory Unix_Transport
  imports Ipc_Props Unicode
begin

text \<open>
  The Unix transport as a whole: \<open>src/src/ipc/unixlib.rs\<close> finds the library and makes the two
  calls, \<open>unixlib/src/lib.rs\<close> (Unix_Library) serves them. Wine's dispatcher, which runs entry
  \<open>code\<close> of the table a handle points to, is the one link outside the repository: the handle
  found is taken to be the library's table. The interface \<open>parked_replies\<close> is the contract of
  the two calls about who owns a reply.
\<close>

section \<open>Finding the library\<close>

definition handle_from_env :: "(string \<Rightarrow> ustring option) \<Rightarrow> u64 option" where
  "handle_from_env vars =
     (case vars ''XODUS_UNIXLIB_HANDLE'' of
        None \<Rightarrow> None
      | Some raw \<Rightarrow>
          (case from_str_radix16 (2 ^ 64 - 1) (str_trim raw) of
             Some h \<Rightarrow> if h \<noteq> 0 then Some (of_nat h) else None
           | None \<Rightarrow> None))"

text \<open>\<open>publish_handle\<close> of \<open>unixlib/src/lib.rs\<close> puts the address of the dispatch table in the
  environment.\<close>

definition publish_handle :: "u64 \<Rightarrow> (string \<Rightarrow> ustring option) \<Rightarrow> string \<Rightarrow> ustring option" where
  "publish_handle address vars = vars(''XODUS_UNIXLIB_HANDLE'' \<mapsto> lower_hex (unat address))"

text \<open>\<open>entry\<close>: whether ntdll exports the unix call; \<open>builtin\<close>: what Wine answers for a builtin.\<close>

definition resolve :: "(string \<Rightarrow> ustring option) \<Rightarrow> bool \<Rightarrow> u64 option \<Rightarrow> (u8 list \<times> u64) option" where
  "resolve vars entry builtin =
     (case vars ''XODUS_SOCKET_PATH'' of
        None \<Rightarrow> None
      | Some path \<Rightarrow>
          if path = [] \<or> 0 \<in> set path \<or> \<not> entry then None
          else case handle_from_env vars of
            Some h \<Rightarrow> Some (path, h)
          | None \<Rightarrow> map_option (\<lambda>h. (path, h)) builtin)"

text \<open>The address the library publishes when it is loaded is the handle the runtime finds: no
  digit is lost between \<open>\{:x\}\<close> and \<open>from_str_radix\<close>, and the builtin query is not asked.\<close>

theorem published_handle_found:
  assumes "vars ''XODUS_SOCKET_PATH'' = Some path" "path \<noteq> []" "0 \<notin> set path" "address \<noteq> 0"
  shows "resolve (publish_handle address vars) True builtin = Some (path, address)"
proof -
  have "str_trim (lower_hex (unat address)) = lower_hex (unat address)"
    using lower_hex_chars by (intro str_trim_ascii) blast
  moreover have "from_str_radix16 (2 ^ 64 - 1) (lower_hex n) = (if n \<le> 2 ^ 64 - 1 then Some n else None)" for n
  proof (cases "lower_hex n")
    case (Cons c cs)
    then have "c \<noteq> 0x2b" using lower_hex_chars [of n] by simp
    then show ?thesis using hex_digits_lower_hex [of n] unfolding from_str_radix16_def Cons
      by (simp del: hex_digits.simps)
  qed (simp add: lower_hex_ne)
  moreover have "unat address \<le> 2 ^ 64 - 1" using unsigned_less [of address, where ?'a = nat] by simp
  ultimately have h: "from_str_radix16 (2 ^ 64 - 1) (str_trim (lower_hex (unat address))) = Some (unat address)"
    by (simp only: if_True)
  have v: "publish_handle address vars ''XODUS_UNIXLIB_HANDLE'' = Some (lower_hex (unat address))"
    "publish_handle address vars ''XODUS_SOCKET_PATH'' = Some path"
    using assms(1) by (simp_all add: publish_handle_def)
  have "handle_from_env (publish_handle address vars) = Some address"
    unfolding handle_from_env_def v option.case h using assms(4) by (simp add: unat_eq_0)
  then show ?thesis using assms by (simp add: resolve_def v)
qed

lemma published_handle_found_witness:
  "resolve (publish_handle 0x7f00 [''XODUS_SOCKET_PATH'' \<mapsto> [0x2f, 0x78]]) True None = Some ([0x2f, 0x78], 0x7f00)"
  by (rule published_handle_found) simp_all

section \<open>The two calls through the dispatcher\<close>

definition native_exchange ::
  "u8 list \<Rightarrow> u64 \<Rightarrow> u16 \<Rightarrow> u8 list \<Rightarrow> nat \<Rightarrow> net \<Rightarrow> (u32 \<times> u32 \<times> u64 \<times> u64) \<times> net" where
  "native_exchange path handle msg_type payload timeout_ms n =
     (let (status, p, s) = exchange_call
            \<lparr>xp_socket_path = Some path, xp_request = Some payload,
             xp_request_len = of_nat (length payload), xp_timeout_ms = of_nat timeout_ms,
             xp_msg_type = ucast msg_type, xp_reply_type = 0, xp_reply_len = 0, xp_reply_handle = 0\<rparr>
            (nt_unix n)
      in ((status, xp_reply_type p, xp_reply_len p, xp_reply_handle p), n\<lparr>nt_unix := s\<rparr>))"

definition native_fetch :: "u64 \<Rightarrow> u64 \<Rightarrow> nat \<Rightarrow> net \<Rightarrow> (u32 \<times> u8 list) \<times> net" where
  "native_fetch handle reply_handle len n =
     (let (status, written, s) = fetch_reply
            \<lparr>fp_reply_handle = reply_handle, fp_buffer_null = False, fp_buffer_len = of_nat len\<rparr> (nt_unix n)
      in ((status, written @ replicate (len - length written) 0), n\<lparr>nt_unix := s\<rparr>))"

definition with_unix_library ::
  "bool \<Rightarrow> u64 option \<Rightarrow> ('e, 'c) ipc_env \<Rightarrow> ('e, 'c) ipc_env" where
  "with_unix_library entry builtin en =
     (let t = resolve (var en) entry builtin
      in en\<lparr>unix_exchange := map_option (\<lambda>(path, h). native_exchange path) t,
            unix_fetch := native_fetch,
            unix_handle := (case t of None \<Rightarrow> 0 | Some (path, h) \<Rightarrow> h)\<rparr>)"

lemma request_over_unix:
  assumes "resolve (var en) entry builtin = Some (path, h)"
  shows "request_with_timeout (with_unix_library entry builtin en) t payload ms n
     = unix_request (with_unix_library entry builtin en) (native_exchange path) t payload ms n"
    "unix_fetch (with_unix_library entry builtin en) = native_fetch"
  using assms by (simp_all add: request_with_timeout_def with_unix_library_def)

section \<open>Who owns a reply\<close>

locale parked_replies =
  fixes call :: "u64 \<Rightarrow> u16 \<Rightarrow> u8 list \<Rightarrow> nat \<Rightarrow> net \<Rightarrow> (u32 \<times> u32 \<times> u64 \<times> u64) \<times> net"
    and fetch :: "u64 \<Rightarrow> u64 \<Rightarrow> nat \<Rightarrow> net \<Rightarrow> (u32 \<times> u8 list) \<times> net"
    and parked :: "net \<Rightarrow> u64 \<Rightarrow> u8 list option"
    and sane :: "net \<Rightarrow> bool"
    and room :: "net \<Rightarrow> bool"
  assumes call_fails: "sane n \<Longrightarrow> room n \<Longrightarrow> call h t p ms n = ((st, ty, len, r), n') \<Longrightarrow> st \<noteq> 0 \<Longrightarrow>
        sane n' \<and> parked n' = parked n"
    and call_parks: "sane n \<Longrightarrow> room n \<Longrightarrow> call h t p ms n = ((0, ty, len, r), n') \<Longrightarrow>
        sane n' \<and> (\<exists>body. parked n r = None \<and> parked n' = (parked n)(r \<mapsto> body) \<and> unat len = length body
          \<and> length body \<le> UNIX_MAX_MESSAGE_SIZE)"
    and fetch_releases: "sane n \<Longrightarrow> parked n r = Some body \<Longrightarrow> length body \<le> UNIX_MAX_MESSAGE_SIZE \<Longrightarrow>
        fetch h r (length body) n = (sb, n') \<Longrightarrow>
        sb = (0, body) \<and> sane n' \<and> parked n' = (parked n)(r := None)"
begin

text \<open>A request never leaves a reply behind, and gets the whole of the one it was given.\<close>

lemma request_releases:
  assumes "sane n" "room n" "unix_fetch en = fetch" "unix_request en call t payload ms n = (r, n')"
  shows "sane n' \<and> parked n' = parked n
     \<and> (case r of Inl e \<Rightarrow> e = E_FAIL | Inr (ty, body) \<Rightarrow> length body \<le> UNIX_MAX_MESSAGE_SIZE)"
proof -
  obtain st ty len h n1 where c: "call (unix_handle en) t payload (max ms 1) n = ((st, ty, len, h), n1)"
    by (metis prod.exhaust)
  note u = assms(4) [unfolded unix_request_def c Let_def prod.case assms(3)]
  show ?thesis
  proof (cases "st = 0")
    case False
    then show ?thesis
      using call_fails [OF assms(1,2) c False] u by auto
  next
    case True
    then obtain body where p: "sane n1" "parked n h = None" "parked n1 = (parked n)(h \<mapsto> body)"
      "unat len = length body" "length body \<le> UNIX_MAX_MESSAGE_SIZE"
      using call_parks [OF assms(1,2)] c by blast
    obtain sb n2 where f: "fetch (unix_handle en) h (length body) n1 = (sb, n2)" by fastforce
    have "sb = (0, body) \<and> sane n2 \<and> parked n2 = (parked n1)(h := None)"
      using fetch_releases [OF p(1) _ p(5) f] p(3) by simp
    moreover have "(parked n1)(h := None) = parked n" using p(2,3) by auto
    ultimately show ?thesis
      using u True f p(4,5) by auto
  qed
qed

end

section \<open>The library keeps the contract\<close>

definition unix_parked :: "net \<Rightarrow> u64 \<Rightarrow> u8 list option" where
  "unix_parked n h = ht_get (us_parked (nt_unix n)) h"

definition unix_sane :: "net \<Rightarrow> bool" where
  "unix_sane n \<longleftrightarrow> ht_inv (us_parked (nt_unix n)) \<and> \<not> us_undefined (nt_unix n)"

definition unix_room :: "net \<Rightarrow> bool" where
  "unix_room n \<longleftrightarrow> ht_room (us_parked (nt_unix n)) (Suc 0)"

lemma native_call_fails:
  assumes "unix_sane n" "native_exchange path h t p ms n = ((st, ty, len, r), n')" "st \<noteq> 0"
  shows "unix_sane n' \<and> unix_parked n' = unix_parked n"
proof -
  obtain q where "exchange_call \<lparr>xp_socket_path = Some path, xp_request = Some p,
      xp_request_len = of_nat (length p), xp_timeout_ms = of_nat ms, xp_msg_type = ucast t,
      xp_reply_type = 0, xp_reply_len = 0, xp_reply_handle = 0\<rparr> (nt_unix n) = (st, q, nt_unix n')"
    using assms(2) by (auto simp: native_exchange_def split: prod.splits)
  from exchange_call_fails [OF this] assms(1,3) show ?thesis
    by (auto simp: unix_sane_def unix_parked_def STATUS_SUCCESS_def fun_eq_iff)
qed

lemma native_call_parks:
  assumes "unix_sane n" "unix_room n" "native_exchange path h t p ms n = ((0, ty, len, r), n')"
  shows "unix_sane n' \<and> (\<exists>body. unix_parked n r = None \<and> unix_parked n' = (unix_parked n)(r \<mapsto> body)
     \<and> unat len = length body \<and> length body \<le> UNIX_MAX_MESSAGE_SIZE)"
proof -
  obtain q where q: "exchange_call \<lparr>xp_socket_path = Some path, xp_request = Some p,
      xp_request_len = of_nat (length p), xp_timeout_ms = of_nat ms, xp_msg_type = ucast t,
      xp_reply_type = 0, xp_reply_len = 0, xp_reply_handle = 0\<rparr> (nt_unix n) = (0, q, nt_unix n')"
    "len = xp_reply_len q" "r = xp_reply_handle q"
    using assms(3) by (auto simp: native_exchange_def split: prod.splits)
  obtain body where b: "ht_create body (us_parked (nt_unix n)) = (r, us_parked (nt_unix n'))"
    "unat len = length body" "length body \<le> UNIX_MAX_MESSAGE_SIZE"
    "us_undefined (nt_unix n') = us_undefined (nt_unix n)"
    using exchange_call_parks [unfolded STATUS_SUCCESS_def, OF q(1)] q(2,3) by blast
  have i: "ht_inv (us_parked (nt_unix n))" "ht_room (us_parked (nt_unix n)) (Suc 0)"
    using assms(1,2) by (simp_all add: unix_sane_def unix_room_def)
  have "unix_sane n'" using ht.create_inv [OF i b(1)] b(4) assms(1) by (simp add: unix_sane_def)
  moreover have "unix_parked n r = None"
    using ht.get_unissued [OF i(1) ht.create_fresh [OF i b(1)]] by (simp add: unix_parked_def)
  moreover have "unix_parked n' = (unix_parked n)(r \<mapsto> body)"
    using ht.create_get [OF i b(1)] by (auto simp: unix_parked_def)
  ultimately show ?thesis using b(2,3) by blast
qed

lemma native_fetch_releases:
  assumes "unix_sane n" "unix_parked n r = Some body" "length body \<le> UNIX_MAX_MESSAGE_SIZE"
    and "native_fetch h r (length body) n = (sb, n')"
  shows "sb = (0, body) \<and> unix_sane n' \<and> unix_parked n' = (unix_parked n)(r := None)"
proof -
  have g: "ht_get (us_parked (nt_unix n)) r = Some body" "r \<noteq> 0"
    using assms(2) by (auto simp: unix_parked_def)
  have l: "unat (of_nat (length body) :: u64) = length body"
    using assms(3) by (simp add: unat_of_nat UNIX_MAX_MESSAGE_SIZE_def)
  have "native_fetch h r (length body) n
      = ((0, body), n\<lparr>nt_unix := (nt_unix n)\<lparr>us_parked := ht_close r (us_parked (nt_unix n))\<rparr>\<rparr>)"
    by (simp add: native_fetch_def fetch_reply_def g l STATUS_SUCCESS_def Let_def)
  then show ?thesis
    using assms(1,4) ht.close_inv by (auto simp: unix_sane_def unix_parked_def fun_eq_iff ht.close_get)
qed

interpretation unix: parked_replies "native_exchange path" native_fetch unix_parked unix_sane unix_room
  for path
  by unfold_locales
    (erule (2) native_call_fails, erule (2) native_call_parks, erule (3) native_fetch_releases)

text \<open>C16: a request over the Unix library owns its reply: against any service, and however the kernel
  cuts, interrupts or breaks the connection, no parked reply is left behind, none is reclaimed
  that was not parked, an error is \<open>E_FAIL\<close> and a reply is at most 16 MiB.\<close>

theorem unix_replies_released:
  assumes "resolve (var en) entry builtin = Some (path, h)" "unix_sane n" "unix_room n"
    and "request_with_timeout (with_unix_library entry builtin en) t payload ms n = (r, n')"
  shows "unix_parked n' = unix_parked n \<and> \<not> us_undefined (nt_unix n')
     \<and> (case r of Inl e \<Rightarrow> e = E_FAIL | Inr (ty, body) \<Rightarrow> length body \<le> UNIX_MAX_MESSAGE_SIZE)"
  using unix.request_releases [OF assms(2,3) request_over_unix(2) [OF assms(1)]
      assms(4) [unfolded request_over_unix(1) [OF assms(1)]]]
  by (auto simp: unix_sane_def)

section \<open>A conforming service\<close>

lemma ucast_u16_u32: "ucast (ucast (t :: u16) :: u32) = t"
  using unsigned_less [where ?'a = nat and w = t] by (simp add: word_unat_eq_iff unsigned_ucast_eq unsigned_take_bit_eq take_bit_nat_eq_self)

lemma unix_frame: "unix_frame (ucast t) p = frame t p"
  by (simp add: unix_frame_def frame_def UNIX_XML_MAGIC_V2_def XML_MAGIC_V2_def ucast_u16_u32)

lemma unix_request_answered:
  assumes "resolve (var en) entry builtin = Some (path, h)" "unix_sane n" "unix_room n"
    and "us_conns (nt_unix n) = c # cs" "uc_socket c" "connect_loop (uc_connect c) = None"
    and "length path < SUN_PATH_LEN" "length payload \<le> UNIX_MAX_MESSAGE_SIZE" "ms < 2 ^ 64"
    and "length (frame t payload) \<le> room_of (uc_sends c)"
    and "stream_of (uc_peer c (frame t payload)) = frame rt body @ rest"
    and "length body \<le> UNIX_MAX_MESSAGE_SIZE"
  shows "\<exists>n'. request_with_timeout (with_unix_library entry builtin en) t payload ms n = (Inr (rt, body), n')
     \<and> us_sent (nt_unix n') = us_sent (nt_unix n) @ [frame t payload] \<and> us_conns (nt_unix n') = cs
     \<and> unix_parked n' = unix_parked n"
proof -
  define s1 where "s1 = (nt_unix n)\<lparr>us_conns := cs\<rparr>"
  define s2 where "s2 = s1\<lparr>us_sent := us_sent s1 @ [frame t payload]\<rparr>"
  obtain r pk where pk: "ht_create body (us_parked (nt_unix n)) = (r, pk)" by fastforce
  have sz: "unat (of_nat (length payload) :: u64) = length payload"
    using assms(8) by (simp add: unat_of_nat UNIX_MAX_MESSAGE_SIZE_def)
  have ms: "of_nat (max ms 1) \<noteq> (0 :: u64)"
    using assms(9) by (simp add: word_unat_eq_iff unat_of_nat take_bit_nat_eq_self)
  have sk: "socket_connect path (nt_unix n) = (Inr c, s1)"
    using assms(4-7) by (simp add: socket_connect_def s1_def)
  have sd: "send_all (uc_sends c) (frame t payload) = (None, frame t payload)"
    using send_all_spec [of "uc_sends c" "frame t payload"] assms(10) by (metis prod.collapse take_all)
  have rr: "receive_reply (uc_peer c (frame t payload)) = Inr (rt, of_nat (length body), body)"
    using receive_reply_stream [of "uc_peer c (frame t payload)" rt body rest] assms(11,12)
    by (simp add: frame_def UNIX_XML_MAGIC_V2_def XML_MAGIC_V2_def)
  have "exchange_call \<lparr>xp_socket_path = Some path, xp_request = Some payload,
      xp_request_len = of_nat (length payload), xp_timeout_ms = of_nat (max ms 1), xp_msg_type = ucast t,
      xp_reply_type = 0, xp_reply_len = 0, xp_reply_handle = 0\<rparr> (nt_unix n)
    = (STATUS_SUCCESS, \<lparr>xp_socket_path = Some path, xp_request = Some payload,
      xp_request_len = of_nat (length payload), xp_timeout_ms = of_nat (max ms 1), xp_msg_type = ucast t,
      xp_reply_type = ucast rt, xp_reply_len = ucast (of_nat (length body) :: u32), xp_reply_handle = r\<rparr>,
      s2\<lparr>us_parked := pk\<rparr>)"
    using assms(8) ms
    by (simp add: exchange_call_def Let_def sz sk unix_frame sd rr s1_def s2_def pk del: of_nat_max)
  then have call: "native_exchange path hd t payload (max ms 1) n
      = ((0, ucast rt, ucast (of_nat (length body) :: u32), r), n\<lparr>nt_unix := s2\<lparr>us_parked := pk\<rparr>\<rparr>)" for hd
    by (simp add: native_exchange_def STATUS_SUCCESS_def)
  define n1 where "n1 = n\<lparr>nt_unix := s2\<lparr>us_parked := pk\<rparr>\<rparr>"
  have p: "unix_sane n1" "unix_parked n r = None" "unix_parked n1 = (unix_parked n)(r \<mapsto> body)"
  proof -
    have i: "ht_inv (us_parked (nt_unix n))" "ht_room (us_parked (nt_unix n)) (Suc 0)"
      using assms(2,3) by (simp_all add: unix_sane_def unix_room_def)
    show "unix_sane n1" using ht.create_inv [OF i pk] assms(2) by (simp add: unix_sane_def n1_def s2_def s1_def)
    show "unix_parked n r = None"
      using ht.get_unissued [OF i(1) ht.create_fresh [OF i pk]] by (simp add: unix_parked_def)
    show "unix_parked n1 = (unix_parked n)(r \<mapsto> body)"
      using ht.create_get [OF i pk] by (auto simp: unix_parked_def n1_def)
  qed
  obtain sb n2 where f: "native_fetch (unix_handle (with_unix_library entry builtin en)) r (length body) n1 = (sb, n2)"
    by fastforce
  have rel: "sb = (0, body) \<and> unix_sane n2 \<and> unix_parked n2 = (unix_parked n1)(r := None)"
    using native_fetch_releases [OF p(1) _ assms(12) f] p(3) by simp
  have fr: "us_sent (nt_unix n2) = us_sent (nt_unix n1)" "us_conns (nt_unix n2) = us_conns (nt_unix n1)"
    using f by (auto simp: native_fetch_def fetch_reply_def Let_def split: if_splits option.splits)
  have l: "unat (ucast (of_nat (length body) :: u32) :: u64) = length body"
    using assms(12) by (simp add: unsigned_ucast_eq unat_of_nat take_bit_nat_eq_self UNIX_MAX_MESSAGE_SIZE_def)
  have "unix_request (with_unix_library entry builtin en) (native_exchange path) t payload ms n = (Inr (rt, body), n2)"
    unfolding unix_request_def call n1_def [symmetric] request_over_unix(2) [OF assms(1)]
    using f rel by (simp add: l ucast_u16_u32)
  moreover have "unix_parked n2 = unix_parked n"
    using rel p(2,3) by auto
  ultimately show ?thesis
    using fr request_over_unix(1) [OF assms(1)] by (simp add: n1_def s2_def s1_def)
qed

text \<open>Over a socket on which the kernel takes the whole frame and delivers the service's answer,
  in whatever pieces and with however many interruptions, the request gets exactly the type
  and body the service's handler gives for it, and exactly the frame was sent.\<close>

theorem unix_round_trip:
  assumes "resolve (var en) entry builtin = Some (path, h)" "unix_sane n" "unix_room n"
    and "us_conns (nt_unix n) = c # cs" "uc_socket c" "connect_loop (uc_connect c) = None"
    and "length path < SUN_PATH_LEN" "length payload \<le> UNIX_MAX_MESSAGE_SIZE" "ms < 2 ^ 64"
    and "length (frame t payload) \<le> room_of (uc_sends c)"
    and "stream_of (uc_peer c (frame t payload)) = frame rt body @ rest"
    and "length body \<le> UNIX_MAX_MESSAGE_SIZE"
  shows "\<exists>n'. request_with_timeout (with_unix_library entry builtin en) t payload ms n = (Inr (rt, body), n')
     \<and> us_sent (nt_unix n') = us_sent (nt_unix n) @ [frame t payload] \<and> us_conns (nt_unix n') = cs
     \<and> unix_parked n' = unix_parked n"
  by (rule unix_request_answered [OF assms])

section \<open>A connection on which the service answers\<close>

text \<open>The kernel is interrupted, takes the frame in pieces of one byte and then the rest, and
  delivers the answer in two pieces.\<close>

definition unix_service :: "(u16 \<Rightarrow> u8 list \<Rightarrow> u16 \<times> u8 list) \<Rightarrow> u8 list \<Rightarrow> recv_answer list" where
  "unix_service handler out =
     (case parse_frame out of
        None \<Rightarrow> []
      | Some (t, p) \<Rightarrow>
          let reply = case_prod frame (handler t p)
          in [RecvFails EINTR, Arrived (take 3 reply), RecvFails EINTR, Arrived (drop 3 reply)])"

definition service_conn :: "(u16 \<Rightarrow> u8 list \<Rightarrow> u16 \<times> u8 list) \<Rightarrow> nat \<Rightarrow> unix_conn" where
  "service_conn handler room =
     \<lparr>uc_socket = True, uc_connect = [Some EINTR, None],
      uc_sends = [Sent 0, SendFails EINTR, Sent room], uc_peer = unix_service handler\<rparr>"

lemma frame_longer: "3 < length (frame t p)" by (simp add: frame_def)

lemma unix_service_stream:
  assumes "length payload < 2 ^ 32" "handler t payload = (rt, body)"
  shows "stream_of (unix_service handler (frame t payload)) = frame rt body"
proof -
  have "frame rt body \<noteq> []" using frame_longer [of rt body] by (metis list.size(3) not_less_zero)
  then show ?thesis
    using frame_longer [of rt body] parse_frame_frame [OF assms(1), of t]
    by (simp add: unix_service_def assms(2) Let_def)
qed

definition demo_unix_ipc :: "(nat, nat) ipc_env" where
  "demo_unix_ipc = demo_ipc\<lparr>var := (\<lambda>v. if v = ''XODUS_SOCKET_PATH'' then Some (utf8 ''/run/x'')
     else if v = ''XODUS_UNIXLIB_HANDLE'' then Some (utf8 '' 7f00 '') else var demo_ipc v)\<rparr>"

definition demo_unix_net :: net where
  "demo_unix_net = demo_net\<lparr>nt_unix := no_unix\<lparr>us_conns := [service_conn demo_handler 100]\<rparr>\<rparr>"

lemma demo_resolve: "resolve (var demo_unix_ipc) True None = Some (utf8 ''/run/x'', 0x7f00)"
proof -
  have "utf8 ''/run/x'' = [0x2f, 0x72, 0x75, 0x6e, 0x2f, 0x78]" by code_simp
  moreover have "handle_from_env (var demo_unix_ipc) = Some 0x7f00"
  proof -
    have u: "utf8 '' 7f00 '' = [0x20, 0x37, 0x66, 0x30, 0x30, 0x20]" by code_simp
    have c: "chars [0x20, 0x37, 0x66, 0x30, 0x30, 0x20] = [0x20, 0x37, 0x66, 0x30, 0x30, 0x20]" by simp
    have t: "str_trim (utf8 '' 7f00 '') = [0x37, 0x66, 0x30, 0x30]"
      unfolding u str_trim_def c by (simp add: white_space_def encode_utf8_def utf8_bytes_def)
    have d: "hex_digits 0 [0x37, 0x66, 0x30, 0x30] = Some 0x7f00"
      by (simp add: hex_digit_def)
    have "from_str_radix16 m [0x37, 0x66, 0x30, 0x30] = (if 0x7f00 \<le> m then Some 0x7f00 else None)" for m
      unfolding from_str_radix16_def by (simp add: d Let_def del: hex_digits.simps)
    then have h: "from_str_radix16 (2 ^ 64 - 1) (str_trim (utf8 '' 7f00 '')) = Some 0x7f00"
      unfolding t by simp
    have v: "var demo_unix_ipc ''XODUS_UNIXLIB_HANDLE'' = Some (utf8 '' 7f00 '')"
      by (simp add: demo_unix_ipc_def)
    show ?thesis unfolding handle_from_env_def v option.case h by simp
  qed
  ultimately show ?thesis by (simp add: resolve_def demo_unix_ipc_def)
qed

lemma ht_next_new: "ht_next ht_new = 1" by (simp add: ht_new_def)

lemma demo_unix_ready: "unix_sane demo_unix_net" "unix_room demo_unix_net"
  by (simp_all add: unix_sane_def unix_room_def demo_unix_net_def no_unix_def ht_room_def
    has_room_def ht_next_new)

lemma unix_replies_released_witness:
  "unix_parked (snd (request_with_timeout (with_unix_library True None demo_unix_ipc) 3 [9] 10 demo_unix_net))
     = unix_parked demo_unix_net"
  using unix_replies_released [OF demo_resolve demo_unix_ready prod.collapse [symmetric]] by blast

lemma unix_round_trip_witness:
  "fst (request_with_timeout (with_unix_library True None demo_unix_ipc) 3 [9] 10 demo_unix_net) = Inr (4, [9, 9])"
proof -
  have "us_conns (nt_unix demo_unix_net) = service_conn demo_handler 100 # []"
    by (simp add: demo_unix_net_def)
  moreover have "uc_socket (service_conn demo_handler 100)"
    "connect_loop (uc_connect (service_conn demo_handler 100)) = None"
    by (simp_all add: service_conn_def)
  moreover have "length (utf8 ''/run/x'') < SUN_PATH_LEN" "length [9 :: u8] \<le> UNIX_MAX_MESSAGE_SIZE"
    "10 < (2 :: nat) ^ 64" "length [9 :: u8, 9] \<le> UNIX_MAX_MESSAGE_SIZE"
    by (code_simp, simp_all add: UNIX_MAX_MESSAGE_SIZE_def)
  moreover have "length (frame 3 [9]) \<le> room_of (uc_sends (service_conn demo_handler 100))"
    by (simp add: service_conn_def frame_def)
  moreover have "stream_of (uc_peer (service_conn demo_handler 100) (frame 3 [9])) = frame 4 [9, 9] @ []"
    using unix_service_stream [of "[9]" demo_handler 3 4 "[9, 9]"]
    by (simp add: service_conn_def demo_handler_def)
  ultimately show ?thesis
    using unix_round_trip [OF demo_resolve demo_unix_ready] by (metis fst_conv)
qed

section \<open>Both transports agree\<close>

text \<open>C15: a typed exchange does not depend on the transport: with the same service behind the TCP
  endpoint and behind the Unix socket, it gives the same result, a value or an error, for
  every request both can carry.\<close>

theorem transports_agree:
  assumes "endpoint en = Inr (port, secret)" "length secret = SECRET_LEN" "unix_exchange en = None"
    and "nt_attempts n = Some \<lparr>st_tx = [], st_rx = [], st_peer = service secret handler,
           st_writes = None\<rparr> # rest"
    and "resolve (var en) entry builtin = Some (path, h)" "unix_sane n" "unix_room n"
    and "us_conns (nt_unix n) = service_conn handler room # cs" "length path < SUN_PATH_LEN"
    and "to_xml en req = Some payload" "length payload + 9 \<le> room" "length payload \<le> UNIX_MAX_MESSAGE_SIZE"
    and "\<And>t p. length (snd (handler t p)) \<le> UNIX_MAX_MESSAGE_SIZE" "ms < 2 ^ 64"
  shows "fst (exchange_with_timeout en rq rs req de ms n)
     = fst (exchange_with_timeout (with_unix_library entry builtin en) rq rs req de ms n)"
proof -
  obtain rt body where hd: "handler rq payload = (rt, body)" by fastforce
  have l: "length body \<le> UNIX_MAX_MESSAGE_SIZE" "UNIX_MAX_MESSAGE_SIZE = MAX_MESSAGE_SIZE"
    using assms(13) [of rq payload] hd by (simp_all add: UNIX_MAX_MESSAGE_SIZE_def MAX_MESSAGE_SIZE_def)
  have p: "length payload < 2 ^ 32" using assms(12) by (simp add: UNIX_MAX_MESSAGE_SIZE_def)
  have tcp: "fst (request_with_timeout en rq payload ms n) = Inr (rt, body)"
    using request_answered [OF assms(1-4) p hd, of ms] l by auto
  have unix: "fst (request_with_timeout (with_unix_library entry builtin en) rq payload ms n) = Inr (rt, body)"
    using unix_request_answered [OF assms(5-8) _ _ assms(9,12,14), of rq rt body "[]"] unix_service_stream [of payload handler rq] p hd l
      assms(11)
    by (force simp: service_conn_def frame_def)
  have "to_xml (with_unix_library entry builtin en) req = Some payload"
    using assms(10) by (simp add: with_unix_library_def Let_def)
  moreover obtain n1 n2 where "request_with_timeout en rq payload ms n = (Inr (rt, body), n1)"
    "request_with_timeout (with_unix_library entry builtin en) rq payload ms n = (Inr (rt, body), n2)"
    using tcp unix by (metis prod.collapse)
  ultimately show ?thesis using assms(10)
    by (simp add: exchange_with_timeout_def split: option.split)
qed

definition demo_both_net :: net where
  "demo_both_net = demo_net\<lparr>nt_unix := no_unix\<lparr>us_conns := [service_conn (\<lambda>t p. (t + 1, [5])) 100]\<rparr>,
     nt_attempts := [Some \<lparr>st_tx = [], st_rx = [], st_peer = service demo_secret (\<lambda>t p. (t + 1, [5])),
       st_writes = None\<rparr>]\<rparr>"

lemma transports_agree_witness:
  "fst (exchange_with_timeout demo_unix_ipc 3 4 (GamerPictureRequest []) (de_key demo_ipc) 10 demo_both_net)
     = fst (exchange_with_timeout (with_unix_library True None demo_unix_ipc) 3 4 (GamerPictureRequest [])
         (de_key demo_ipc) 10 demo_both_net)"
proof -
  have e: "endpoint demo_unix_ipc = Inr (8080, demo_secret)"
  proof -
    have "var demo_unix_ipc ''XODUS_TCP_PORT'' = var demo_ipc ''XODUS_TCP_PORT''"
      "var demo_unix_ipc ''XODUS_TCP_SECRET'' = var demo_ipc ''XODUS_TCP_SECRET''"
      by (simp_all add: demo_unix_ipc_def)
    with demo_endpoint show ?thesis by (simp only: endpoint_def)
  qed
  have "length demo_secret = SECRET_LEN" "unix_exchange demo_unix_ipc = None"
    by (simp_all add: demo_secret_def SECRET_LEN_def demo_ipc_def demo_unix_ipc_def)
  moreover have "nt_attempts demo_both_net = Some \<lparr>st_tx = [], st_rx = [],
      st_peer = service demo_secret (\<lambda>t p. (t + 1, [5])), st_writes = None\<rparr> # []"
    by (simp add: demo_both_net_def)
  moreover have "unix_sane demo_both_net" "unix_room demo_both_net"
    by (simp_all add: unix_sane_def unix_room_def demo_both_net_def no_unix_def ht_room_def
        has_room_def ht_next_new)
  moreover have "us_conns (nt_unix demo_both_net) = service_conn (\<lambda>t p. (t + 1, [5])) 100 # []"
    by (simp add: demo_both_net_def)
  moreover have "length (utf8 ''/run/x'') < SUN_PATH_LEN" by code_simp
  moreover have "to_xml demo_unix_ipc (GamerPictureRequest []) = Some [1]"
    by (simp add: demo_unix_ipc_def demo_ipc_def)
  moreover have "length [1 :: u8] + 9 \<le> 100" "length [1 :: u8] \<le> UNIX_MAX_MESSAGE_SIZE"
    "length (snd (q + 1 :: u16, [5 :: u8])) \<le> UNIX_MAX_MESSAGE_SIZE" "10 < (2 :: nat) ^ 64" for q
    by (simp_all add: UNIX_MAX_MESSAGE_SIZE_def)
  ultimately show ?thesis
    using transports_agree [OF e, where n = demo_both_net and entry = True and builtin = None and
        req = "GamerPictureRequest []" and rq = 3 and rs = 4 and ms = 10 and de = "de_key demo_ipc"] demo_resolve
    by blast
qed

end
