(* ===== verification/Pending_Results.thy ===== *)
theory Pending_Results
  imports Codec
begin

text \<open>
  The side tables of \<open>src/src/com/xuser/impl.rs\<close> and \<open>src/src/com/xstore.rs\<close> for results whose
  size is not known in advance (\<open>PendingMap\<close>): the worker stores an outcome under the address
  of the caller's block, and a pair of entry points reports its size and copies it out. The
  interface \<open>pending_result\<close> is what the two entry points of such a pair promise; its lemmas
  are the two-call protocol every caller follows.
\<close>

type_synonym 'v pending = "u64 \<rightharpoonup> 'v outcome"

definition pending_insert :: "u64 \<Rightarrow> 'v outcome \<Rightarrow> 'v pending \<Rightarrow> 'v pending" where
  "pending_insert key r m = m(key \<mapsto> r)"

lemma pending_insert_same [simp]: "pending_insert key r m key = Some r"
  and pending_insert_other: "k \<noteq> key \<Longrightarrow> pending_insert key r m k = m k"
  by (simp_all add: pending_insert_def)

text \<open>What the worker reports to the engine: the stored outcome without its value.\<close>

definition outcome_unit :: "'v outcome \<Rightarrow> u8 list outcome" where
  "outcome_unit r = (case r of Inl hr \<Rightarrow> Inl hr | Inr _ \<Rightarrow> Inr [])"

text \<open>How an \<open>*Async\<close> entry point starts its closure: \<open>run_sync\<close> does nothing for a null block,
  and drops the closure when \<open>XAsyncBegin\<close> refuses the block. \<open>begun\<close> is what \<open>XAsyncBegin\<close>
  answered; the flag says whether the closure will be run.\<close>

definition run_sync_start :: "u64 \<Rightarrow> hresult \<Rightarrow> hresult \<times> bool" where
  "run_sync_start block begun = (if block = 0 then (S_OK, False) else (begun, begun = S_OK))"

section \<open>The interface\<close>

locale pending_result =
  fixes table :: "'s \<Rightarrow> 'v pending"
    and result_size :: "u64 \<Rightarrow> 's \<Rightarrow> hresult \<times> nat option"
    and result :: "'p \<Rightarrow> u64 \<Rightarrow> nat \<Rightarrow> 's \<Rightarrow> hresult \<times> 'o option"
    and usable :: "'p \<Rightarrow> bool"
    and needed :: "'v \<Rightarrow> nat"
    and content :: "'p \<Rightarrow> 'v \<Rightarrow> 'o"
  assumes size_unknown: "table s key = None \<Longrightarrow> result_size key s = (E_ILLEGAL_METHOD_CALL, None)"
    and size_failed: "table s key = Some (Inl hr) \<Longrightarrow> result_size key s = (hr, None)"
    and size_ready: "table s key = Some (Inr v) \<Longrightarrow> result_size key s = (S_OK, Some (needed v))"
    and result_unknown: "table s key = None \<Longrightarrow> result p key n s = (E_ILLEGAL_METHOD_CALL, None)"
    and result_failed: "table s key = Some (Inl hr) \<Longrightarrow> result p key n s = (hr, None)"
    and result_small: "table s key = Some (Inr v) \<Longrightarrow> n < needed v \<Longrightarrow>
          result p key n s = (E_NOT_SUFFICIENT_BUFFER, None)"
    and result_ready: "table s key = Some (Inr v) \<Longrightarrow> needed v \<le> n \<Longrightarrow> usable p \<Longrightarrow>
          result p key n s = (S_OK, Some (content p v))"
begin

text \<open>A buffer of the reported size is always enough.\<close>

lemma two_calls:
  assumes "result_size key s = (S_OK, Some n)" "usable p"
  shows "\<exists>v. table s key = Some (Inr v) \<and> needed v = n \<and> result p key n s = (S_OK, Some (content p v))"
proof (cases "table s key")
  case None
  then show ?thesis using assms size_unknown by simp
next
  case (Some r)
  then show ?thesis using assms size_failed size_ready result_ready by (cases r) auto
qed

text \<open>Neither call consumes the result: a caller with too small a buffer can come again.\<close>

lemma too_small_then_retry:
  assumes "table s key = Some (Inr v)" "n < needed v" "usable p"
  shows "result p key n s = (E_NOT_SUFFICIENT_BUFFER, None)"
    "result_size key s = (S_OK, Some (needed v))"
    "result p key (needed v) s = (S_OK, Some (content p v))"
  using assms by (simp_all add: result_small size_ready result_ready)

lemma stored_failure:
  assumes "table s key = Some (Inl hr)"
  shows "fst (result_size key s) = hr" "fst (result p key n s) = hr"
  using assms by (simp_all add: size_failed result_failed)

end

end
