(* ===== verification/XUser.thy ===== *)
theory XUser
  imports Ipc Pending_Results Unicode Handle_Table
begin

text \<open>
  XUser: the sign-in engine of \<open>src/src/com/xuser/core.rs\<close> and the entry points of
  \<open>src/src/com/xuser/impl.rs\<close>.

  Users are reference-counted allocations named by their address (never reused): \<open>xu_strong\<close>
  is the count of each \<open>Arc\<close>, and a weak entry of the registry is alive while its count is
  positive. A dropped user keeps its record, which nothing can reach any more. Two fields
  are logs, not state of the program: the handles issued and the events fired.

  The closures the \<open>*Async\<close> entry points hand to \<open>run_sync\<close> are the datatype \<open>user_work\<close>;
  \<open>start_work\<close> files one for a worker when the engine took the block (\<open>begun\<close>, what
  \<open>XAsyncBegin\<close> of XAsync_Api answered), and \<open>run_user_work\<close> is the body, run later. Game code is the parameter \<open>user_env\<close>: the change-event callbacks
  are transformers of the whole state that may also never return (\<open>None\<close>), and
  \<open>ue_order\<close> is the order in which the hash map of registrations is walked. A function
  that would block forever on the mutex of the registrations (or of the prompt handlers), which
  its own thread holds, returns \<open>None\<close>.
\<close>

section \<open>State\<close>

datatype sign_state = SignedIn | SigningOut | SignedOut

definition sign_state_raw :: "sign_state \<Rightarrow> u32" where
  "sign_state_raw v = (case v of SignedIn \<Rightarrow> 0 | SigningOut \<Rightarrow> 1 | SignedOut \<Rightarrow> 2)"

record user_state =
  u_local_id :: u64
  u_user_id :: u64
  u_is_guest :: bool
  u_state :: sign_state
  u_gamertag :: ustring
  u_gamertag_modern :: ustring
  u_age_group :: u32

datatype user_work =
    WorkAddUser bool
  | WorkAddById
  | WorkGamerPicture u64
  | WorkToken u64 ustring ustring "u8 list"
  | WorkToken16 u64 ustring ustring "u8 list"
  | WorkMsaToken u64 "ustring option"
  | WorkResolvePrivilege
  | WorkSignOut nat

type_synonym registration = "u64 \<times> u64 \<times> u64"

record xusers =
  xu_heap :: "nat \<Rightarrow> user_state"
  xu_next :: nat
  xu_strong :: "nat \<Rightarrow> nat"
  xu_registry :: "nat list"
  xu_handles :: "nat htable"
  xu_issued :: "u64 list"
  xu_events :: "registration list"
  xu_next_token :: u64
  xu_event_lock :: bool
  xu_fired :: "(u64 \<times> u64 \<times> u32) list"
  xu_pictures :: "u8 list pending"
  xu_tokens :: "(ustring \<times> ustring) pending"
  xu_tokens16 :: "(ustring \<times> ustring) pending"
  xu_msa_tokens :: "(ustring \<times> int) pending"
  xu_remote :: "(u64 option \<times> u64 option \<times> u64) option"
  xu_remote_lock :: bool
  xu_net :: net
  xu_works :: "user_work list"

record ('e, 'c, 'w) user_env =
  ue_ipc :: "('e, 'c) ipc_env"
  ue_callback :: "u64 \<Rightarrow> u64 \<Rightarrow> u64 \<Rightarrow> u32 \<Rightarrow> 'w \<Rightarrow> 'w option"
  ue_order :: "registration list \<Rightarrow> registration list"
  ue_close_prompt :: "u64 \<Rightarrow> 'w \<Rightarrow> 'w option"

type_synonym ('e, 'c, 'z) uenv = "('e, 'c, 'z xusers_scheme) user_env"

section \<open>References\<close>

definition arc_clone :: "nat \<Rightarrow> 'z xusers_scheme \<Rightarrow> 'z xusers_scheme" where
  "arc_clone p s = s\<lparr>xu_strong := (xu_strong s)(p := xu_strong s p + 1)\<rparr>"

definition arc_drop :: "nat \<Rightarrow> 'z xusers_scheme \<Rightarrow> 'z xusers_scheme" where
  "arc_drop p s = s\<lparr>xu_strong := (xu_strong s)(p := xu_strong s p - 1)\<rparr>"

text \<open>\<open>UserHandleTable\<close>: creating moves the reference into the table.\<close>

definition user_handle_create :: "nat \<Rightarrow> 'z xusers_scheme \<Rightarrow> u64 \<times> 'z xusers_scheme" where
  "user_handle_create p s =
     (let (h, t) = ht_create p (xu_handles s)
      in (h, s\<lparr>xu_handles := t, xu_issued := xu_issued s @ [h]\<rparr>))"

definition user_handle_get :: "'z xusers_scheme \<Rightarrow> u64 \<Rightarrow> nat option" where
  "user_handle_get s h = ht_get (xu_handles s) h"

definition user_handle_close :: "u64 \<Rightarrow> 'z xusers_scheme \<Rightarrow> 'z xusers_scheme" where
  "user_handle_close h s =
     (case ht_get (xu_handles s) h of
        None \<Rightarrow> s
      | Some p \<Rightarrow> s\<lparr>xu_handles := ht_close h (xu_handles s),
                    xu_strong := (xu_strong s)(p := xu_strong s p - 1)\<rparr>)"

section \<open>The registry\<close>

definition register_user :: "nat \<Rightarrow> 'z xusers_scheme \<Rightarrow> 'z xusers_scheme" where
  "register_user p s = s\<lparr>xu_registry := filter (\<lambda>q. xu_strong s q > 0) (xu_registry s) @ [p]\<rparr>"

definition find_user :: "(user_state \<Rightarrow> bool) \<Rightarrow> 'z xusers_scheme \<Rightarrow> nat option" where
  "find_user P s = find (\<lambda>p. xu_strong s p > 0 \<and> P (xu_heap s p)) (xu_registry s)"

definition parse_age_group :: "ustring \<Rightarrow> u32" where
  "parse_age_group agg =
     (if agg = utf8 ''Adult'' then 3 else if agg = utf8 ''Teen'' then 2
      else if agg = utf8 ''Child'' then 1 else 0)"

section \<open>Change events\<close>

definition CHANGE_EVENT_SIGNED_IN_AGAIN :: u32 where "CHANGE_EVENT_SIGNED_IN_AGAIN = 0"
definition CHANGE_EVENT_SIGNING_OUT :: u32 where "CHANGE_EVENT_SIGNING_OUT = 1"
definition CHANGE_EVENT_SIGNED_OUT :: u32 where "CHANGE_EVENT_SIGNED_OUT = 2"

fun fire_loop ::
  "('e, 'c, 'z) uenv \<Rightarrow> u64 \<Rightarrow> u32 \<Rightarrow> registration list \<Rightarrow> 'z xusers_scheme \<Rightarrow> 'z xusers_scheme option"
where
  "fire_loop env local_id event [] s = Some s"
| "fire_loop env local_id event ((token, callback, context) # rs) s =
     (case ue_callback env callback context local_id event
            (s\<lparr>xu_fired := xu_fired s @ [(token, local_id, event)]\<rparr>) of
        None \<Rightarrow> None
      | Some s1 \<Rightarrow> fire_loop env local_id event rs s1)"

text \<open>The lock is held over all the callbacks.\<close>

definition fire_change_event ::
  "('e, 'c, 'z) uenv \<Rightarrow> u64 \<Rightarrow> u32 \<Rightarrow> 'z xusers_scheme \<Rightarrow> 'z xusers_scheme option" where
  "fire_change_event env local_id event s =
     (if xu_event_lock s then None
      else case fire_loop env local_id event (ue_order env (xu_events s)) (s\<lparr>xu_event_lock := True\<rparr>) of
             None \<Rightarrow> None
           | Some s1 \<Rightarrow> Some (s1\<lparr>xu_event_lock := False\<rparr>))"

definition register_change_event ::
  "u64 \<Rightarrow> u64 \<Rightarrow> 'z xusers_scheme \<Rightarrow> (u64 \<times> 'z xusers_scheme) option" where
  "register_change_event context callback s =
     (let token = xu_next_token s; s1 = s\<lparr>xu_next_token := token + 1\<rparr>
      in if xu_event_lock s1 then None
         else Some (token, s1\<lparr>xu_events := (token, callback, context)
                 # filter (\<lambda>(t, r). t \<noteq> token) (xu_events s1)\<rparr>))"

definition unregister_change_event ::
  "u64 \<Rightarrow> 'z xusers_scheme \<Rightarrow> (bool \<times> 'z xusers_scheme) option" where
  "unregister_change_event token s =
     (if xu_event_lock s then None
      else Some (list_ex (\<lambda>(t, r). t = token) (xu_events s),
                 s\<lparr>xu_events := filter (\<lambda>(t, r). t \<noteq> token) (xu_events s)\<rparr>))"

section \<open>Signing in\<close>

text \<open>The two arms of \<open>user_handle_from_info\<close>: the account is known, or a user is made.\<close>

definition sign_in_known :: "nat \<Rightarrow> 'z xusers_scheme \<Rightarrow> u64 \<times> 'z xusers_scheme" where
  "sign_in_known p s = user_handle_create p (arc_clone p s)"

definition new_user :: "u64 \<Rightarrow> user_claims \<Rightarrow> user_state" where
  "new_user user_id info = \<lparr>u_local_id = user_id, u_user_id = user_id, u_is_guest = False,
     u_state = SignedIn, u_gamertag = uc_gamertag info, u_gamertag_modern = uc_gamertag_modern info,
     u_age_group = parse_age_group (uc_age_group info)\<rparr>"

definition arc_new :: "user_state \<Rightarrow> 'z xusers_scheme \<Rightarrow> nat \<times> 'z xusers_scheme" where
  "arc_new u s =
     (let p = xu_next s
      in (p, s\<lparr>xu_heap := (xu_heap s)(p := u), xu_next := p + 1,
               xu_strong := (xu_strong s)(p := 1)\<rparr>))"

definition sign_in_new ::
  "('e, 'c, 'z) uenv \<Rightarrow> u64 \<Rightarrow> user_claims \<Rightarrow> 'z xusers_scheme \<Rightarrow> (u64 \<times> 'z xusers_scheme) option" where
  "sign_in_new env user_id info s =
     (let (p, s1) = arc_new (new_user user_id info) s
      in case fire_change_event env user_id CHANGE_EVENT_SIGNED_IN_AGAIN (register_user p s1) of
           None \<Rightarrow> None
         | Some s2 \<Rightarrow> Some (user_handle_create p s2))"

definition parse_u64 :: "ustring \<Rightarrow> nat option" where
  "parse_u64 s = parse_unsigned (2 ^ 64 - 1) s"

definition user_handle_from_info ::
  "('e, 'c, 'z) uenv \<Rightarrow> user_claims \<Rightarrow> 'z xusers_scheme \<Rightarrow> (u64 outcome \<times> 'z xusers_scheme) option"
where
  "user_handle_from_info env info s =
     (case parse_u64 (uc_xuid info) of
        None \<Rightarrow> Some (Inl E_FAIL, s)
      | Some n \<Rightarrow>
          let user_id = of_nat n
          in case find_user (\<lambda>u. u_user_id u = user_id) s of
               Some p \<Rightarrow> let (h, s1) = sign_in_known p s in Some (Inr h, s1)
             | None \<Rightarrow> map_option (\<lambda>(h, s1). (Inr h, s1)) (sign_in_new env user_id info s))"

definition with_net :: "(net \<Rightarrow> 'r \<times> net) \<Rightarrow> 'z xusers_scheme \<Rightarrow> 'r \<times> 'z xusers_scheme" where
  "with_net f s = (let (r, n) = f (xu_net s) in (r, s\<lparr>xu_net := n\<rparr>))"

definition sign_in_interactively ::
  "('e, 'c, 'z) uenv \<Rightarrow> 'z xusers_scheme \<Rightarrow> (u64 outcome \<times> 'z xusers_scheme) option" where
  "sign_in_interactively env s =
     (case with_net (interactive_sign_in (ue_ipc env)) s of
        (Inl hr, s1) \<Rightarrow> Some (Inl hr, s1)
      | (Inr (Some info), s1) \<Rightarrow> user_handle_from_info env info s1
      | (Inr None, s1) \<Rightarrow> Some (Inl E_ABORT, s1))"

definition add_user ::
  "('e, 'c, 'z) uenv \<Rightarrow> bool \<Rightarrow> 'z xusers_scheme \<Rightarrow> (u64 outcome \<times> 'z xusers_scheme) option" where
  "add_user env ui_allowed s =
     (case with_net (get_user_info (ue_ipc env)) s of
        (Inr info, s1) \<Rightarrow> user_handle_from_info env info s1
      | (Inl err, s1) \<Rightarrow> if \<not> ui_allowed then Some (Inl err, s1) else sign_in_interactively env s1)"

definition set_sign_state :: "nat \<Rightarrow> sign_state \<Rightarrow> 'z xusers_scheme \<Rightarrow> 'z xusers_scheme" where
  "set_sign_state p v s = s\<lparr>xu_heap := (xu_heap s)(p := (xu_heap s p)\<lparr>u_state := v\<rparr>)\<rparr>"

definition sign_out ::
  "('e, 'c, 'z) uenv \<Rightarrow> nat \<Rightarrow> 'z xusers_scheme \<Rightarrow> 'z xusers_scheme option" where
  "sign_out env p s =
     (case fire_change_event env (u_local_id (xu_heap s p)) CHANGE_EVENT_SIGNING_OUT
             (set_sign_state p SigningOut s) of
        None \<Rightarrow> None
      | Some s1 \<Rightarrow> fire_change_event env (u_local_id (xu_heap s1 p)) CHANGE_EVENT_SIGNED_OUT
                    (set_sign_state p SignedOut s1))"

section \<open>The bodies of the asynchronous calls\<close>

definition handle_payload :: "u64 outcome \<Rightarrow> u8 list outcome" where
  "handle_payload r = (case r of Inl hr \<Rightarrow> Inl hr | Inr h \<Rightarrow> Inr (u64_le h))"

definition work_gamer_picture ::
  "('e, 'c, 'z) uenv \<Rightarrow> u64 \<Rightarrow> 'z xusers_scheme \<Rightarrow> u8 list outcome \<times> 'z xusers_scheme" where
  "work_gamer_picture env key s =
     (let (r, s1) = with_net (get_gamer_picture (ue_ipc env)) s;
          r1 = map_sum id (\<lambda>picture. case picture of None \<Rightarrow> [] | Some bytes \<Rightarrow> bytes) r
      in (outcome_unit r1, s1\<lparr>xu_pictures := pending_insert key r1 (xu_pictures s1)\<rparr>))"

definition work_token ::
  "('e, 'c, 'z) uenv \<Rightarrow> u64 \<Rightarrow> ustring \<Rightarrow> ustring \<Rightarrow> u8 list \<Rightarrow> 'z xusers_scheme \<Rightarrow>
     u8 list outcome \<times> 'z xusers_scheme" where
  "work_token env key m url body s =
     (let (r, s1) = with_net (get_token_and_signature (ue_ipc env) m url body) s
      in (outcome_unit r, s1\<lparr>xu_tokens := pending_insert key r (xu_tokens s1)\<rparr>))"

definition work_token16 ::
  "('e, 'c, 'z) uenv \<Rightarrow> u64 \<Rightarrow> ustring \<Rightarrow> ustring \<Rightarrow> u8 list \<Rightarrow> 'z xusers_scheme \<Rightarrow>
     u8 list outcome \<times> 'z xusers_scheme" where
  "work_token16 env key m url body s =
     (let (r, s1) = with_net (get_token_and_signature (ue_ipc env) m url body) s
      in (outcome_unit r, s1\<lparr>xu_tokens16 := pending_insert key r (xu_tokens16 s1)\<rparr>))"

definition work_msa_token ::
  "('e, 'c, 'z) uenv \<Rightarrow> u64 \<Rightarrow> ustring option \<Rightarrow> 'z xusers_scheme \<Rightarrow> u8 list outcome \<times> 'z xusers_scheme"
where
  "work_msa_token env key scope s =
     (let (r, s1) = with_net (get_msa_token_silently (ue_ipc env) scope) s
      in (outcome_unit r, s1\<lparr>xu_msa_tokens := pending_insert key r (xu_msa_tokens s1)\<rparr>))"

lemmas net_work_defs = work_gamer_picture_def work_token_def work_token16_def work_msa_token_def

definition run_user_work ::
  "('e, 'c, 'z) uenv \<Rightarrow> user_work \<Rightarrow> 'z xusers_scheme \<Rightarrow> (u8 list outcome \<times> 'z xusers_scheme) option"
where
  "run_user_work env w s =
     (case w of
        WorkAddUser ui_allowed \<Rightarrow> map_option (map_prod handle_payload id) (add_user env ui_allowed s)
      | WorkAddById \<Rightarrow> map_option (map_prod handle_payload id) (sign_in_interactively env s)
      | WorkGamerPicture key \<Rightarrow> Some (work_gamer_picture env key s)
      | WorkToken key m url body \<Rightarrow> Some (work_token env key m url body s)
      | WorkToken16 key m url body \<Rightarrow> Some (work_token16 env key m url body s)
      | WorkMsaToken key scope \<Rightarrow> Some (work_msa_token env key scope s)
      | WorkResolvePrivilege \<Rightarrow> Some (Inr [], s)
      | WorkSignOut p \<Rightarrow> map_option (\<lambda>s1. (Inr [], s1)) (sign_out env p s))"

text \<open>What a closure owns is released with it.\<close>

definition drop_user_work :: "user_work \<Rightarrow> 'z xusers_scheme \<Rightarrow> 'z xusers_scheme" where
  "drop_user_work w s = (case w of WorkSignOut p \<Rightarrow> arc_drop p s | _ \<Rightarrow> s)"

definition start_work ::
  "u64 \<Rightarrow> hresult \<Rightarrow> user_work \<Rightarrow> 'z xusers_scheme \<Rightarrow> hresult \<times> 'z xusers_scheme" where
  "start_work block begun w s =
     (case run_sync_start block begun of
        (hr, True) \<Rightarrow> (hr, s\<lparr>xu_works := xu_works s @ [w]\<rparr>)
      | (hr, False) \<Rightarrow> (hr, drop_user_work w s))"

end
