(* ===== verification/XUser_Api.thy ===== *)
theory XUser_Api
  imports XUser
begin

text \<open>
  The \<open>IXUser\<close> and \<open>IXUserDevice\<close> objects of \<open>src/src/com/xuser/impl.rs\<close>. A null out-pointer
  is a flag; what is written through out-pointers is an optional result. An \<open>*Async\<close> entry
  point checks its arguments and starts its closure on the caller's block (\<open>start_work\<close>): the
  engine's \<open>run_sync\<close> of XAsync_Api answers, runs it on a worker and delivers its outcome. C strings are the text after
  the lossy conversion, \<open>None\<close> when null. The GDK structures are laid out for 64-bit
  Windows.
\<close>

unbundle bit_operations_syntax

section \<open>Handles and lookups\<close>

definition XUserDuplicateHandle ::
  "u64 \<Rightarrow> bool \<Rightarrow> 'z xusers_scheme \<Rightarrow> hresult \<times> u64 option \<times> 'z xusers_scheme" where
  "XUserDuplicateHandle handle out_null s =
     (if out_null then (E_POINTER, None, s)
      else case user_handle_get s handle of
        None \<Rightarrow> (E_INVALIDARG, None, s)
      | Some p \<Rightarrow> let (h, s1) = user_handle_create p (arc_clone p s) in (S_OK, Some h, s1))"

definition XUserCloseHandle :: "u64 \<Rightarrow> 'z xusers_scheme \<Rightarrow> 'z xusers_scheme" where
  "XUserCloseHandle user s = user_handle_close user s"

definition XUserCompare :: "u64 \<Rightarrow> u64 \<Rightarrow> 'z xusers_scheme \<Rightarrow> int" where
  "XUserCompare user1 user2 s =
     (case (user_handle_get s user1, user_handle_get s user2) of
        (None, None) \<Rightarrow> 0
      | (Some a, Some b) \<Rightarrow> if a = b then 0 else 1
      | _ \<Rightarrow> 1)"

definition XUserGetMaxUsers :: "bool \<Rightarrow> hresult \<times> u32 option" where
  "XUserGetMaxUsers out_null = (if out_null then (E_POINTER, None) else (S_OK, Some 1))"

text \<open>The getters: a null check, the handle check, one field.\<close>

definition get_field :: "(user_state \<Rightarrow> 'a) \<Rightarrow> u64 \<Rightarrow> bool \<Rightarrow> 'z xusers_scheme \<Rightarrow> hresult \<times> 'a option"
where
  "get_field f user out_null s =
     (if out_null then (E_POINTER, None)
      else case user_handle_get s user of
        None \<Rightarrow> (E_INVALIDARG, None)
      | Some p \<Rightarrow> (S_OK, Some (f (xu_heap s p))))"

definition XUserGetLocalId :: "u64 \<Rightarrow> bool \<Rightarrow> 'z xusers_scheme \<Rightarrow> hresult \<times> u64 option" where
  "XUserGetLocalId = get_field u_local_id"

definition XUserGetId :: "u64 \<Rightarrow> bool \<Rightarrow> 'z xusers_scheme \<Rightarrow> hresult \<times> u64 option" where
  "XUserGetId = get_field u_user_id"

definition XUserGetIsGuest :: "u64 \<Rightarrow> bool \<Rightarrow> 'z xusers_scheme \<Rightarrow> hresult \<times> u8 option" where
  "XUserGetIsGuest = get_field (\<lambda>u. if u_is_guest u then 1 else 0)"

definition XUserGetState :: "u64 \<Rightarrow> bool \<Rightarrow> 'z xusers_scheme \<Rightarrow> hresult \<times> u32 option" where
  "XUserGetState = get_field (\<lambda>u. sign_state_raw (u_state u))"

definition XUserGetAgeGroup :: "u64 \<Rightarrow> bool \<Rightarrow> 'z xusers_scheme \<Rightarrow> hresult \<times> u32 option" where
  "XUserGetAgeGroup = get_field u_age_group"

text \<open>The finders: a handle to the first live user of the registry that matches, or 0.\<close>

definition find_handle ::
  "(user_state \<Rightarrow> bool) \<Rightarrow> 'z xusers_scheme \<Rightarrow> hresult \<times> u64 option \<times> 'z xusers_scheme" where
  "find_handle P s =
     (case find_user P s of
        None \<Rightarrow> (E_INVALIDARG, Some 0, s)
      | Some p \<Rightarrow> let (h, s1) = user_handle_create p (arc_clone p s) in (S_OK, Some h, s1))"

definition XUserFindUserByLocalId ::
  "u64 \<Rightarrow> bool \<Rightarrow> 'z xusers_scheme \<Rightarrow> hresult \<times> u64 option \<times> 'z xusers_scheme" where
  "XUserFindUserByLocalId local_id out_null s =
     (if out_null then (E_POINTER, None, s) else find_handle (\<lambda>u. u_local_id u = local_id) s)"

definition XUserFindUserById ::
  "u64 \<Rightarrow> bool \<Rightarrow> 'z xusers_scheme \<Rightarrow> hresult \<times> u64 option \<times> 'z xusers_scheme" where
  "XUserFindUserById user_id out_null s =
     (if out_null then (E_POINTER, None, s) else find_handle (\<lambda>u. u_user_id u = user_id) s)"

definition XUserFindForDevice ::
  "bool \<Rightarrow> bool \<Rightarrow> 'z xusers_scheme \<Rightarrow> hresult \<times> u64 option \<times> 'z xusers_scheme" where
  "XUserFindForDevice device_null out_null s =
     (if device_null \<or> out_null then (E_POINTER, None, s)
      else find_handle (\<lambda>u. u_state u = SignedIn) s)"

definition user_id_for_handle :: "u64 \<Rightarrow> 'z xusers_scheme \<Rightarrow> u64 option" where
  "user_id_for_handle handle s =
     map_option (\<lambda>p. u_user_id (xu_heap s p)) (user_handle_get s handle)"

definition XUserIsStoreUser :: "u64 \<Rightarrow> 'z xusers_scheme \<Rightarrow> u8" where
  "XUserIsStoreUser user s = (if user_handle_get s user \<noteq> None then 1 else 0)"

definition XUserCheckPrivilege ::
  "u64 \<Rightarrow> bool \<Rightarrow> bool \<Rightarrow> 'z xusers_scheme \<Rightarrow> hresult \<times> u8 option \<times> u32 option" where
  "XUserCheckPrivilege user has_null reason_null s =
     (if has_null then (E_POINTER, None, None)
      else if user_handle_get s user = None then (E_INVALIDARG, None, None)
      else (S_OK, Some 1, if reason_null then None else Some 0))"

definition XUserGetSignOutDeferral :: "bool \<Rightarrow> hresult \<times> u64 option" where
  "XUserGetSignOutDeferral out_null = (if out_null then (E_POINTER, None) else (S_OK, Some 1))"

definition XUserIsSignOutPresent :: u8 where "XUserIsSignOutPresent = 0"

definition GAMERTAG_COMPONENT_MODERN :: u32 where "GAMERTAG_COMPONENT_MODERN = 1"

definition XUserGetGamertag ::
  "u64 \<Rightarrow> u32 \<Rightarrow> nat \<Rightarrow> bool \<Rightarrow> bool \<Rightarrow> 'z xusers_scheme \<Rightarrow> hresult \<times> u8 list option \<times> nat option"
where
  "XUserGetGamertag user component gamertag_size gamertag_null used_null s =
     (case user_handle_get s user of
        None \<Rightarrow> (E_INVALIDARG, None, None)
      | Some p \<Rightarrow>
          let u = xu_heap s p;
              bytes = (if component = GAMERTAG_COMPONENT_MODERN \<and> u_gamertag_modern u \<noteq> []
                       then u_gamertag_modern u else u_gamertag u);
              needed = length bytes + 1;
              used = (if used_null then None else Some needed)
          in if gamertag_null \<or> gamertag_size = 0 then (S_OK, None, used)
             else if gamertag_size < needed then (E_NOT_SUFFICIENT_BUFFER, None, used)
             else (S_OK, Some (bytes @ [0]), used))"

section \<open>Registrations\<close>

definition XUserRegisterForChangeEvent ::
  "u64 \<Rightarrow> u64 option \<Rightarrow> bool \<Rightarrow> 'z xusers_scheme \<Rightarrow> (hresult \<times> u64 option \<times> 'z xusers_scheme) option"
where
  "XUserRegisterForChangeEvent context callback token_null s =
     (case callback of
        None \<Rightarrow> Some (E_POINTER, None, s)
      | Some cb \<Rightarrow>
          if token_null then Some (E_POINTER, None, s)
          else map_option (\<lambda>(raw, s1). (S_OK, Some raw, s1)) (register_change_event context cb s))"

definition XUserUnregisterForChangeEvent ::
  "u64 \<Rightarrow> 'z xusers_scheme \<Rightarrow> (u8 \<times> 'z xusers_scheme) option" where
  "XUserUnregisterForChangeEvent token s =
     map_option (\<lambda>(found, s1). (if found then 1 else 0, s1)) (unregister_change_event token s)"

definition XUserRegisterForDeviceAssociationChanged ::
  "u64 option \<Rightarrow> bool \<Rightarrow> 'z xusers_scheme \<Rightarrow> hresult \<times> u64 option \<times> 'z xusers_scheme" where
  "XUserRegisterForDeviceAssociationChanged callback token_null s =
     (if callback = None \<or> token_null then (E_POINTER, None, s)
      else (S_OK, Some (xu_next_token s), s\<lparr>xu_next_token := xu_next_token s + 1\<rparr>))"

definition XUserPlatformRemoteConnectSetEventHandlers ::
  "(u64 option \<times> u64 option \<times> u64) option \<Rightarrow> 'z xusers_scheme \<Rightarrow> (hresult \<times> 'z xusers_scheme) option"
where
  "XUserPlatformRemoteConnectSetEventHandlers handlers s =
     (case handlers of
        None \<Rightarrow> Some (E_POINTER, s)
      | Some h \<Rightarrow> if xu_remote_lock s then None else Some (S_OK, s\<lparr>xu_remote := Some h\<rparr>))"

definition XUserPlatformRemoteConnectCancelPrompt ::
  "('e, 'c, 'z) uenv \<Rightarrow> 'z xusers_scheme \<Rightarrow> (hresult \<times> 'z xusers_scheme) option" where
  "XUserPlatformRemoteConnectCancelPrompt env s =
     (if xu_remote_lock s then None
      else case xu_remote s of
        Some (_, Some close, _) \<Rightarrow>
          map_option (\<lambda>s1. (S_OK, s1\<lparr>xu_remote_lock := False\<rparr>))
            (ue_close_prompt env close (s\<lparr>xu_remote_lock := True\<rparr>))
      | _ \<Rightarrow> Some (S_OK, s))"

section \<open>Asynchronous entry points\<close>

definition XUserAddAsync :: "u32 \<Rightarrow> u64 \<Rightarrow> hresult \<Rightarrow> 'z xusers_scheme \<Rightarrow> hresult \<times> 'z xusers_scheme" where
  "XUserAddAsync options block begun s =
     (if options AND 5 = 0 then (E_ABORT, s)
      else start_work block begun (WorkAddUser (options AND 4 \<noteq> 0)) s)"

definition XUserAddByIdWithUiAsync :: "u64 \<Rightarrow> hresult \<Rightarrow> 'z xusers_scheme \<Rightarrow> hresult \<times> 'z xusers_scheme" where
  "XUserAddByIdWithUiAsync block begun s = start_work block begun WorkAddById s"

definition XUserGetGamerPictureAsync :: "u64 \<Rightarrow> u64 \<Rightarrow> hresult \<Rightarrow> 'z xusers_scheme \<Rightarrow> hresult \<times> 'z xusers_scheme"
where
  "XUserGetGamerPictureAsync user block begun s =
     (if user_handle_get s user = None then (E_INVALIDARG, s)
      else start_work block begun (WorkGamerPicture block) s)"

definition XUserGetTokenAndSignatureAsync ::
  "u64 \<Rightarrow> ustring option \<Rightarrow> ustring option \<Rightarrow> u8 list option \<Rightarrow> u64 \<Rightarrow> hresult \<Rightarrow> 'z xusers_scheme \<Rightarrow>
     hresult \<times> 'z xusers_scheme" where
  "XUserGetTokenAndSignatureAsync user m url body block begun s =
     (if user_handle_get s user = None then (E_INVALIDARG, s)
      else case (m, url) of
        (Some mm, Some u) \<Rightarrow>
          start_work block begun (WorkToken block mm u (case body of None \<Rightarrow> [] | Some b \<Rightarrow> b)) s
      | _ \<Rightarrow> (E_POINTER, s))"

definition XUserGetTokenAndSignatureUtf16Async ::
  "u64 \<Rightarrow> u16 list option \<Rightarrow> u16 list option \<Rightarrow> u8 list option \<Rightarrow> u64 \<Rightarrow> hresult \<Rightarrow> 'z xusers_scheme \<Rightarrow>
     hresult \<times> 'z xusers_scheme" where
  "XUserGetTokenAndSignatureUtf16Async user m url body block begun s =
     (if user_handle_get s user = None then (E_INVALIDARG, s)
      else case (m, url) of
        (Some mm, Some u) \<Rightarrow>
          start_work block begun (WorkToken16 block (read_utf16_cstr mm) (read_utf16_cstr u)
                   (case body of None \<Rightarrow> [] | Some b \<Rightarrow> b)) s
      | _ \<Rightarrow> (E_POINTER, s))"

definition XUserGetMsaTokenSilentlyAsync ::
  "u64 \<Rightarrow> ustring option \<Rightarrow> u64 \<Rightarrow> hresult \<Rightarrow> 'z xusers_scheme \<Rightarrow> hresult \<times> 'z xusers_scheme" where
  "XUserGetMsaTokenSilentlyAsync user scope block begun s =
     (if user_handle_get s user = None then (E_INVALIDARG, s)
      else start_work block begun (WorkMsaToken block scope) s)"

definition XUserResolvePrivilegeWithUiAsync :: "u64 \<Rightarrow> hresult \<Rightarrow> 'z xusers_scheme \<Rightarrow> hresult \<times> 'z xusers_scheme" where
  "XUserResolvePrivilegeWithUiAsync block begun s = start_work block begun WorkResolvePrivilege s"

text \<open>Entry points that are not implemented.\<close>

definition XUserResolveIssueWithUiAsync :: hresult where "XUserResolveIssueWithUiAsync = E_NOTIMPL"
definition XUserResolveIssueWithUiResult :: hresult where "XUserResolveIssueWithUiResult = E_NOTIMPL"
definition XUserResolveIssueWithUiUtf16Async :: hresult where "XUserResolveIssueWithUiUtf16Async = E_NOTIMPL"
definition XUserResolveIssueWithUiUtf16Result :: hresult where "XUserResolveIssueWithUiUtf16Result = E_NOTIMPL"

text \<open>The closure of a sign-out holds a reference to its user.\<close>

definition XUserSignOutAsync :: "u64 \<Rightarrow> u64 \<Rightarrow> hresult \<Rightarrow> 'z xusers_scheme \<Rightarrow> hresult \<times> 'z xusers_scheme" where
  "XUserSignOutAsync user block begun s =
     (case user_handle_get s user of
        None \<Rightarrow> (E_INVALIDARG, s)
      | Some p \<Rightarrow> start_work block begun (WorkSignOut p) (arc_clone p s))"

section \<open>Results of unknown size\<close>

definition stored_size :: "'v pending \<Rightarrow> ('v \<Rightarrow> nat) \<Rightarrow> u64 \<Rightarrow> bool \<Rightarrow> hresult \<times> nat option" where
  "stored_size m needed key out_null =
     (if out_null then (E_POINTER, None)
      else case m key of
        Some (Inr v) \<Rightarrow> (S_OK, Some (needed v))
      | Some (Inl hr) \<Rightarrow> (hr, None)
      | None \<Rightarrow> (E_ILLEGAL_METHOD_CALL, None))"

definition XUserGetGamerPictureResultSize :: "u64 \<Rightarrow> bool \<Rightarrow> 'z xusers_scheme \<Rightarrow> hresult \<times> nat option"
where
  "XUserGetGamerPictureResultSize key out_null s = stored_size (xu_pictures s) length key out_null"

definition XUserGetGamerPictureResult ::
  "u64 \<Rightarrow> nat \<Rightarrow> bool \<Rightarrow> bool \<Rightarrow> 'z xusers_scheme \<Rightarrow> hresult \<times> u8 list option \<times> nat option" where
  "XUserGetGamerPictureResult key buffer_size buffer_null used_null s =
     (case xu_pictures s key of
        Some (Inr picture) \<Rightarrow>
          if length picture > buffer_size then (E_NOT_SUFFICIENT_BUFFER, None, None)
          else if buffer_null \<and> picture \<noteq> [] then (E_POINTER, None, None)
          else (S_OK, Some picture, if used_null then None else Some (length picture))
      | Some (Inl hr) \<Rightarrow> (hr, None, None)
      | None \<Rightarrow> (E_ILLEGAL_METHOD_CALL, None, None))"

text \<open>\<open>size_of::<XUserGetTokenAndSignatureData>()\<close>, and of its UTF-16 variant.\<close>

definition token_header_size :: nat where "token_header_size = 32"

definition token_needed :: "ustring \<times> ustring \<Rightarrow> nat" where
  "token_needed v = token_header_size + length (fst v) + 1 + length (snd v) + 1"

text \<open>The buffer at address \<open>base\<close>: the two sizes, the two pointers, the two C strings.\<close>

definition token_block :: "u64 \<Rightarrow> ustring \<times> ustring \<Rightarrow> u8 list" where
  "token_block base v =
     (let (token, signature) = v;
          token_size = length token + 1;
          signature_size = length signature + 1;
          token_ptr = base + of_nat token_header_size;
          signature_ptr = token_ptr + of_nat token_size
      in u64_le (of_nat token_size) @ u64_le (of_nat signature_size) @ u64_le token_ptr
         @ u64_le signature_ptr @ token @ [0] @ signature @ [0])"

definition XUserGetTokenAndSignatureResultSize ::
  "u64 \<Rightarrow> bool \<Rightarrow> 'z xusers_scheme \<Rightarrow> hresult \<times> nat option" where
  "XUserGetTokenAndSignatureResultSize key out_null s = stored_size (xu_tokens s) token_needed key out_null"

definition XUserGetTokenAndSignatureResult ::
  "u64 \<Rightarrow> nat \<Rightarrow> u64 \<Rightarrow> bool \<Rightarrow> bool \<Rightarrow> 'z xusers_scheme \<Rightarrow> hresult \<times> u8 list option \<times> nat option" where
  "XUserGetTokenAndSignatureResult key buffer_size buffer ptr_null used_null s =
     (case xu_tokens s key of
        Some (Inr v) \<Rightarrow>
          if token_needed v > buffer_size then (E_NOT_SUFFICIENT_BUFFER, None, None)
          else if buffer = 0 \<or> ptr_null then (E_POINTER, None, None)
          else (S_OK, Some (token_block buffer v), if used_null then None else Some (token_needed v))
      | Some (Inl hr) \<Rightarrow> (hr, None, None)
      | None \<Rightarrow> (E_ILLEGAL_METHOD_CALL, None, None))"

definition units_needed :: "ustring \<times> ustring \<Rightarrow> nat" where
  "units_needed v = token_header_size
     + (length (str_utf16 (fst v)) + 1 + (length (str_utf16 (snd v)) + 1)) * 2"

definition units_bytes :: "u16 list \<Rightarrow> u8 list" where
  "units_bytes us = concat (map u16_le us)"

definition units_block :: "u64 \<Rightarrow> ustring \<times> ustring \<Rightarrow> u8 list" where
  "units_block base v =
     (let token_units = str_utf16 (fst v) @ [0];
          signature_units = str_utf16 (snd v) @ [0];
          token_ptr = base + of_nat token_header_size;
          signature_ptr = base + of_nat (token_header_size + length token_units * 2)
      in u64_le (of_nat (length token_units)) @ u64_le (of_nat (length signature_units))
         @ u64_le token_ptr @ u64_le signature_ptr
         @ units_bytes token_units @ units_bytes signature_units)"

definition XUserGetTokenAndSignatureUtf16ResultSize ::
  "u64 \<Rightarrow> bool \<Rightarrow> 'z xusers_scheme \<Rightarrow> hresult \<times> nat option" where
  "XUserGetTokenAndSignatureUtf16ResultSize key out_null s =
     stored_size (xu_tokens16 s) units_needed key out_null"

definition XUserGetTokenAndSignatureUtf16Result ::
  "u64 \<Rightarrow> nat \<Rightarrow> u64 \<Rightarrow> bool \<Rightarrow> bool \<Rightarrow> 'z xusers_scheme \<Rightarrow> hresult \<times> u8 list option \<times> nat option" where
  "XUserGetTokenAndSignatureUtf16Result key buffer_size buffer ptr_null used_null s =
     (case xu_tokens16 s key of
        Some (Inr v) \<Rightarrow>
          if units_needed v > buffer_size then (E_NOT_SUFFICIENT_BUFFER, None, None)
          else if buffer = 0 \<or> ptr_null then (E_POINTER, None, None)
          else (S_OK, Some (units_block buffer v), if used_null then None else Some (units_needed v))
      | Some (Inl hr) \<Rightarrow> (hr, None, None)
      | None \<Rightarrow> (E_ILLEGAL_METHOD_CALL, None, None))"

definition XUserGetMsaTokenSilentlyResultSize ::
  "u64 \<Rightarrow> bool \<Rightarrow> 'z xusers_scheme \<Rightarrow> hresult \<times> nat option" where
  "XUserGetMsaTokenSilentlyResultSize key out_null s =
     stored_size (xu_msa_tokens s) (\<lambda>v. length (fst v) + 1) key out_null"

definition XUserGetMsaTokenSilentlyResult ::
  "u64 \<Rightarrow> nat \<Rightarrow> bool \<Rightarrow> bool \<Rightarrow> 'z xusers_scheme \<Rightarrow> hresult \<times> u8 list option \<times> nat option" where
  "XUserGetMsaTokenSilentlyResult key token_size token_null used_null s =
     (case xu_msa_tokens s key of
        Some (Inr (token, expiry)) \<Rightarrow>
          let needed = length token + 1
          in if needed > token_size then (E_NOT_SUFFICIENT_BUFFER, None, None)
             else if token_null then (E_POINTER, None, None)
             else (S_OK, Some (token @ [0]), if used_null then None else Some needed)
      | Some (Inl hr) \<Rightarrow> (hr, None, None)
      | None \<Rightarrow> (E_ILLEGAL_METHOD_CALL, None, None))"

end
