(* ===== verification/XUser_Props.thy ===== *)
theory XUser_Props
  imports XUser_Api
begin

text \<open>
  The sign-in engine over whole runs: programs of API calls and worker steps, with game code
  in the change-event callbacks that itself calls the API (\<open>uenv_by\<close>). The invariant accounts
  for every reference and makes the live users of the registry distinct accounts; the
  theorems after it follow a sign-in, a sign-out and the events they fire.
\<close>

section \<open>Accounting for references\<close>

definition held :: "user_work \<Rightarrow> nat multiset" where
  "held w = (case w of WorkSignOut p \<Rightarrow> {#p#} | _ \<Rightarrow> {#})"

primrec work_refs :: "user_work list \<Rightarrow> nat multiset" where
  "work_refs [] = {#}"
| "work_refs (w # ws) = held w + work_refs ws"

lemma work_refs_append [simp]: "work_refs (vs @ ws) = work_refs vs + work_refs ws"
  by (induction vs) (simp_all add: ac_simps)

lemma work_refs_take_drop: "i < length ws \<Longrightarrow>
    work_refs ws = held (ws ! i) + (work_refs (take i ws) + work_refs (drop (Suc i) ws))"
proof -
  assume "i < length ws"
  then have "ws = take i ws @ ws ! i # drop (Suc i) ws" by (rule id_take_nth_drop)
  then have "work_refs ws = work_refs (take i ws @ ws ! i # drop (Suc i) ws)" by (rule arg_cong)
  then show ?thesis by (simp add: ac_simps)
qed

definition handles_of :: "'z xusers_scheme \<Rightarrow> nat \<Rightarrow> u64 set" where
  "handles_of s p = {h. ht_get (xu_handles s) h = Some p}"

definition live :: "'z xusers_scheme \<Rightarrow> nat \<Rightarrow> bool" where
  "live s p \<longleftrightarrow> 0 < xu_strong s p"

text \<open>\<open>K\<close> are the references held by functions that are running.\<close>

definition users_inv :: "nat multiset \<Rightarrow> 'z xusers_scheme \<Rightarrow> bool" where
  "users_inv K s \<longleftrightarrow> ht_inv (xu_handles s)
     \<and> unat (ht_next (xu_handles s)) = Suc (length (xu_issued s))
     \<and> (\<forall>p. xu_strong s p = card (handles_of s p) + count (work_refs (xu_works s) + K) p)
     \<and> set (xu_registry s) \<subseteq> {..<xu_next s}
     \<and> (\<forall>p. live s p \<longrightarrow> p \<in> set (xu_registry s))
     \<and> (\<forall>p q. live s p \<longrightarrow> live s q \<longrightarrow> u_user_id (xu_heap s p) = u_user_id (xu_heap s q) \<longrightarrow> p = q)"

lemma users_invD:
  assumes "users_inv K s"
  shows "ht_inv (xu_handles s)" "unat (ht_next (xu_handles s)) = Suc (length (xu_issued s))"
    "xu_strong s p = card (handles_of s p) + count (work_refs (xu_works s) + K) p"
    "p \<in> set (xu_registry s) \<Longrightarrow> p < xu_next s" "live s p \<Longrightarrow> p \<in> set (xu_registry s)"
    "live s p \<Longrightarrow> live s q \<Longrightarrow> u_user_id (xu_heap s p) = u_user_id (xu_heap s q) \<Longrightarrow> p = q"
  using assms by (auto simp: users_inv_def)

lemma finite_handles_of [simp]: "finite (handles_of s p)"
  by (rule finite)

lemma handle_live: "users_inv K s \<Longrightarrow> ht_get (xu_handles s) h = Some p \<Longrightarrow> live s p"
proof -
  assume i: "users_inv K s" and h: "ht_get (xu_handles s) h = Some p"
  have "card (handles_of s p) \<noteq> 0" using h by (auto simp: handles_of_def)
  then show ?thesis using users_invD(3) [OF i, of p] by (simp only: live_def)
qed

lemma find_live: "find_user P s = Some p \<Longrightarrow> live s p \<and> P (xu_heap s p)"
  by (auto simp: find_user_def live_def find_Some_iff)

text \<open>Steps that touch none of this.\<close>

definition same_users :: "'z xusers_scheme \<Rightarrow> 'z xusers_scheme \<Rightarrow> bool" where
  "same_users s t \<longleftrightarrow> xu_handles t = xu_handles s \<and> xu_issued t = xu_issued s
     \<and> xu_strong t = xu_strong s \<and> xu_works t = xu_works s \<and> xu_registry t = xu_registry s
     \<and> xu_next t = xu_next s \<and> (\<forall>p. u_user_id (xu_heap t p) = u_user_id (xu_heap s p))"

lemma same_users_inv: "same_users s t \<Longrightarrow> users_inv K s \<Longrightarrow> users_inv K t"
  by (simp add: same_users_def users_inv_def handles_of_def live_def)

lemma inv_clone: "users_inv K s \<Longrightarrow> live s p \<Longrightarrow> users_inv (K + {#p#}) (arc_clone p s)"
  by (auto simp: users_inv_def arc_clone_def live_def handles_of_def)

lemma live_less: "live (s\<lparr>xu_strong := (xu_strong s)(p := xu_strong s p - 1)\<rparr>) q \<Longrightarrow> live s q"
  by (simp add: live_def split: if_splits)

lemma inv_drop:
  assumes "users_inv (K + {#p#}) s"
  shows "users_inv K (arc_drop p s)"
proof -
  note i = users_invD [OF assms]
  have lv: "live (arc_drop p s) q \<Longrightarrow> live s q" for q
    unfolding arc_drop_def by (rule live_less)
  have "xu_strong (arc_drop p s) q
      = card (handles_of (arc_drop p s) q) + count (work_refs (xu_works (arc_drop p s)) + K) q" for q
    using i(3) [of q] by (cases "q = p") (simp_all add: arc_drop_def handles_of_def)
  then show ?thesis unfolding users_inv_def using lv i(1,2,4,5,6) by (auto simp: arc_drop_def)
qed

lemma inv_close: "users_inv K s \<Longrightarrow> users_inv K (user_handle_close h s)"
proof (cases "ht_get (xu_handles s) h")
  case (Some p)
  assume i: "users_inv K s"
  define t where "t = user_handle_close h s"
  have t: "t = s\<lparr>xu_handles := ht_close h (xu_handles s), xu_strong := (xu_strong s)(p := xu_strong s p - 1)\<rparr>"
    using Some by (simp add: t_def user_handle_close_def)
  have ho: "handles_of t q = handles_of s q - {h}" for q
    by (auto simp: handles_of_def t ht_get_close)
  have "h \<in> handles_of s q \<longleftrightarrow> q = p" for q using Some by (auto simp: handles_of_def)
  then have ca: "card (handles_of t q) = (if q = p then card (handles_of s q) - 1 else card (handles_of s q))" for q
    by (simp add: ho)
  have pos: "0 < card (handles_of s p)" using Some by (auto simp: card_gt_0_iff handles_of_def)
  have st: "xu_strong t q = card (handles_of t q) + count (work_refs (xu_works t) + K) q" for q
    using users_invD(3) [OF i, of q] pos unfolding ca by (cases "q = p") (simp_all add: t)
  have lv: "live t q \<Longrightarrow> live s q" for q using live_less [of s p q] by (simp add: t live_def)
  have "ht_inv (xu_handles t)" "unat (ht_next (xu_handles t)) = Suc (length (xu_issued t))"
    using users_invD(1,2) [OF i] by (simp_all add: t ht_inv_close) (simp add: ht_close_def)
  then have "users_inv K t"
    unfolding users_inv_def using st lv users_invD(4,5,6) [OF i] by (auto simp: t)
  then show "users_inv K (user_handle_close h s)" by (simp add: t_def)
qed (simp add: user_handle_close_def)

lemma inv_create:
  assumes "users_inv (K + {#p#}) s" "Suc (length (xu_issued s)) < 2 ^ 64 - 1"
  shows "users_inv K (snd (user_handle_create p s))"
proof -
  define t where "t = snd (user_handle_create p s)"
  define h where "h = ht_next (xu_handles s)"
  have t: "t = s\<lparr>xu_handles := snd (ht_create p (xu_handles s)), xu_issued := xu_issued s @ [h]\<rparr>"
    by (simp add: t_def user_handle_create_def h_def fst_ht_create split_def)
  note i = users_invD [OF assms(1)]
  have room: "ht_room (xu_handles s) (Suc 0)" using assms(2) i(2) by (simp add: ht_room_def has_room_def)
  have c: "ht_create p (xu_handles s) = (h, snd (ht_create p (xu_handles s)))"
    by (simp add: h_def fst_ht_create prod_eq_iff)
  have "h \<notin> ht_issued (xu_handles s)" using ht.create_fresh [OF i(1) room c] .
  then have fresh: "ht_get (xu_handles s) h = None" using ht.get_unissued i(1) by blast
  have get: "ht_get (xu_handles t) k = (if k = h then Some p else ht_get (xu_handles s) k)" for k
    using ht.create_get [OF i(1) room c] by (simp add: t)
  have "handles_of t q = (if q = p then insert h (handles_of s q) else handles_of s q)" for q
    using fresh by (auto simp: handles_of_def get)
  moreover have "h \<notin> handles_of s q" for q using fresh by (simp add: handles_of_def)
  ultimately have ca: "card (handles_of t q) = (if q = p then Suc (card (handles_of s q)) else card (handles_of s q))" for q
    by simp
  have st: "xu_strong t q = card (handles_of t q) + count (work_refs (xu_works t) + K) q" for q
    using i(3) [of q] unfolding ca by (cases "q = p") (simp_all add: t)
  have nx: "unat (ht_next (xu_handles t)) = Suc (length (xu_issued t))"
    using i(2) unat_Suc_room [of h] room
    by (simp add: t ht_create_def Let_def ht_room_def h_def)
  have "ht_inv (xu_handles t)" using ht.create_inv [OF i(1) room c] by (simp add: t)
  then have "users_inv K t"
    unfolding users_inv_def using st nx i(4-6) by (auto simp: t live_def)
  then show ?thesis by (simp add: t_def)
qed

lemma inv_new:
  assumes "users_inv K s" "find_user (\<lambda>v. u_user_id v = u_user_id u) s = None"
    "arc_new u s = (p, s1)"
  shows "users_inv (K + {#p#}) (register_user p s1)"
proof -
  note i = users_invD [OF assms(1)]
  have p: "p = xu_next s" and s1: "s1 = s\<lparr>xu_heap := (xu_heap s)(p := u), xu_next := p + 1,
      xu_strong := (xu_strong s)(p := 1)\<rparr>"
    using assms(3) by (auto simp: arc_new_def Let_def)
  have np: "p \<notin> set (xu_registry s)" using i(4) [of p] p by auto
  then have dead: "\<not> live s p" using i(5) by blast
  then have z: "xu_strong s p = 0" by (simp add: live_def)
  have old: "u_user_id (xu_heap s q) \<noteq> u_user_id u" if "live s q" for q
    using assms(2) that i(5) [OF that] by (auto simp: find_user_def find_None_iff live_def)
  define t where "t = register_user p s1"
  have t: "xu_handles t = xu_handles s" "xu_issued t = xu_issued s" "xu_works t = xu_works s"
    "xu_strong t = (xu_strong s)(p := 1)" "xu_heap t = (xu_heap s)(p := u)" "xu_next t = Suc p"
    "xu_registry t = filter (\<lambda>q. xu_strong s1 q > 0) (xu_registry s) @ [p]"
    by (simp_all add: t_def register_user_def s1)
  have lt: "live t q \<longleftrightarrow> q = p \<or> live s q" for q by (simp add: live_def t)
  have st: "xu_strong t q = card (handles_of t q) + count (work_refs (xu_works t) + (K + {#p#})) q" for q
    using i(3) [of q] z by (auto simp: t handles_of_def)
  have rg: "q \<in> set (xu_registry t)" if "live t q" for q
    using that i(5) np by (cases "q = p") (auto simp: t lt s1 live_def)
  have "set (xu_registry t) \<subseteq> {..<Suc p}" using i(4) p by (auto simp: t less_Suc_eq)
  moreover have "q = r" if "live t q" "live t r" "u_user_id (xu_heap t q) = u_user_id (xu_heap t r)" for q r
    using that i(6) old dead by (auto simp: lt t split: if_splits)
  ultimately have "users_inv (K + {#p#}) t"
    unfolding users_inv_def using st rg i(1,2) by (simp add: t)
  then show ?thesis by (simp add: t_def)
qed

lemma inv_start: "users_inv (K + held w) s \<Longrightarrow> users_inv K (s\<lparr>xu_works := xu_works s @ [w]\<rparr>)"
  by (auto simp: users_inv_def live_def handles_of_def ac_simps)

section \<open>Steps that keep the accounts\<close>

text \<open>\<open>moves K L\<close>: a step that starts with the references \<open>K\<close> in hand and ends with \<open>L\<close>, as long as
  the handle counter does not wrap.\<close>

definition moves :: "nat multiset \<Rightarrow> nat multiset \<Rightarrow> 'z xusers_scheme \<Rightarrow> 'z xusers_scheme \<Rightarrow> bool" where
  "moves K L s t \<longleftrightarrow> length (xu_issued s) \<le> length (xu_issued t)
     \<and> (length (xu_issued t) < 2 ^ 64 - 1 \<longrightarrow> (\<forall>M. users_inv (M + K) s \<longrightarrow> users_inv (M + L) t))"

abbreviation keeps :: "'z xusers_scheme \<Rightarrow> 'z xusers_scheme \<Rightarrow> bool" where
  "keeps \<equiv> moves {#} {#}"

lemma moves_refl [simp]: "moves K K s s"
  by (simp add: moves_def)

lemma moves_trans: "moves K L s t \<Longrightarrow> moves L N t u \<Longrightarrow> moves K N s u"
  by (auto simp: moves_def)

lemma moves_frame: "keeps s t \<Longrightarrow> moves K K s t"
  by (simp add: moves_def)

lemma keeps_same: "same_users s t \<Longrightarrow> keeps s t"
  using same_users_inv by (auto simp: moves_def same_users_def)

lemma moves_create: "moves {#p#} {#} s (snd (user_handle_create p s))"
proof -
  have "xu_issued (snd (user_handle_create p s)) = xu_issued s @ [fst (user_handle_create p s)]"
    by (simp add: user_handle_create_def split_def Let_def)
  then show ?thesis using inv_create [of _ p s] by (auto simp: moves_def)
qed

lemma moves_close: "keeps s (user_handle_close h s)"
proof -
  have "xu_issued (user_handle_close h s) = xu_issued s"
    by (simp add: user_handle_close_def split: option.split)
  then show ?thesis using inv_close [of _ s h] by (simp add: moves_def)
qed

lemma moves_drop: "moves {#p#} {#} s (arc_drop p s)"
  using inv_drop by (auto simp: moves_def arc_drop_def)

lemma moves_drop_work: "moves (held w) {#} s (drop_user_work w s)"
  using moves_drop by (cases w) (simp_all add: drop_user_work_def held_def)

lemma moves_start: "moves (held w) {#} s (snd (start_work block begun w s))"
proof -
  have "moves (held w) {#} s (s\<lparr>xu_works := xu_works s @ [w]\<rparr>)"
    using inv_start by (auto simp: moves_def)
  then show ?thesis
    using moves_drop_work [of w s] by (auto simp: start_work_def split: prod.split bool.split)
qed

text \<open>Handing out one more handle to a user known to be alive.\<close>

lemma keeps_hand_out:
  assumes "\<And>K. users_inv K s \<Longrightarrow> live s p"
  shows "keeps s (snd (user_handle_create p (arc_clone p s)))"
proof -
  have "length (xu_issued (arc_clone p s)) = length (xu_issued s)" by (simp add: arc_clone_def)
  moreover have "users_inv (M + {#p#}) (arc_clone p s)" if "users_inv M s" for M
    using inv_clone [OF that] assms that by blast
  ultimately have "moves {#} {#p#} s (arc_clone p s)" by (simp add: moves_def)
  then show ?thesis using moves_trans moves_create by blast
qed

lemma keeps_duplicate:
  "user_handle_get s h = Some p \<Longrightarrow> keeps s (snd (user_handle_create p (arc_clone p s)))"
  by (rule keeps_hand_out) (auto simp: user_handle_get_def dest: handle_live)

lemma keeps_find: "keeps s (snd (snd (find_handle P s)))"
proof (cases "find_user P s")
  case (Some p)
  then have "keeps s (snd (user_handle_create p (arc_clone p s)))"
    by (intro keeps_hand_out) (simp add: find_live)
  then show ?thesis using Some by (simp add: find_handle_def split_def Let_def)
qed (simp add: find_handle_def)

section \<open>Game code\<close>

definition env_keeps :: "('e, 'c, 'z) uenv \<Rightarrow> bool" where
  "env_keeps env \<longleftrightarrow> (\<forall>cb ctx lid ev s t. ue_callback env cb ctx lid ev s = Some t \<longrightarrow> keeps s t)
     \<and> (\<forall>cb s t. ue_close_prompt env cb s = Some t \<longrightarrow> keeps s t)"

lemma same_users_simps [simp]:
  "same_users s (s\<lparr>xu_fired := a\<rparr>)" "same_users s (s\<lparr>xu_event_lock := b\<rparr>)"
  "same_users s (s\<lparr>xu_events := c\<rparr>)" "same_users s (s\<lparr>xu_next_token := d, xu_events := c\<rparr>)"
  "same_users s (s\<lparr>xu_next_token := d\<rparr>)" "same_users s (s\<lparr>xu_net := n\<rparr>)"
  "same_users s (s\<lparr>xu_remote := r\<rparr>)" "same_users s (s\<lparr>xu_remote_lock := b\<rparr>)"
  "same_users s (s\<lparr>xu_net := n, xu_pictures := p1\<rparr>)" "same_users s (s\<lparr>xu_net := n, xu_tokens := p2\<rparr>)"
  "same_users s (s\<lparr>xu_net := n, xu_tokens16 := p2\<rparr>)" "same_users s (s\<lparr>xu_net := n, xu_msa_tokens := p3\<rparr>)"
  "same_users s (set_sign_state p v s)"
  by (simp_all add: same_users_def set_sign_state_def)

lemma keeps_fire_loop:
  assumes "env_keeps env"
  shows "fire_loop env lid ev rs s = Some t \<Longrightarrow> keeps s t"
proof (induction rs arbitrary: s)
  case (Cons r rs)
  obtain tok cb ctx where r: "r = (tok, cb, ctx)" by (cases r)
  define s0 where "s0 = s\<lparr>xu_fired := xu_fired s @ [(tok, lid, ev)]\<rparr>"
  obtain s1 where s1: "ue_callback env cb ctx lid ev s0 = Some s1" "fire_loop env lid ev rs s1 = Some t"
    using Cons.prems r by (auto simp: s0_def split: option.splits)
  have "keeps s s0" by (rule keeps_same) (simp add: s0_def)
  moreover have "keeps s0 s1" using assms s1(1) by (auto simp: env_keeps_def)
  ultimately show ?case using Cons.IH [OF s1(2)] moves_trans by blast
qed simp

lemma keeps_fire:
  assumes "env_keeps env" "fire_change_event env lid ev s = Some t"
  shows "keeps s t"
proof -
  obtain s1 where l: "fire_loop env lid ev (ue_order env (xu_events s)) (s\<lparr>xu_event_lock := True\<rparr>) = Some s1"
    "t = s1\<lparr>xu_event_lock := False\<rparr>"
    using assms(2) by (auto simp: fire_change_event_def split: if_splits option.splits)
  have "keeps s (s\<lparr>xu_event_lock := True\<rparr>)" "keeps s1 t"
    unfolding l(2) by (simp_all add: keeps_same)
  then show ?thesis using keeps_fire_loop [OF assms(1) l(1)] moves_trans by blast
qed

lemma keeps_sign_in_new:
  assumes "env_keeps env" "find_user (\<lambda>u. u_user_id u = i) s = None" "sign_in_new env i info s = Some (h, t)"
  shows "keeps s t"
proof -
  obtain p s1 where n: "arc_new (new_user i info) s = (p, s1)" by (cases "arc_new (new_user i info) s")
  obtain s2 where f: "fire_change_event env i CHANGE_EVENT_SIGNED_IN_AGAIN (register_user p s1) = Some s2"
    and t: "t = snd (user_handle_create p s2)"
    using assms(3) n by (auto simp: sign_in_new_def split: option.splits)
  have "u_user_id (new_user i info) = i" by (simp add: new_user_def)
  then have "users_inv (M + {#p#}) (register_user p s1)" if "users_inv M s" for M
    using inv_new [OF that _ n] assms(2) by simp
  moreover have "xu_issued (register_user p s1) = xu_issued s"
    using n by (auto simp: register_user_def arc_new_def Let_def)
  ultimately have "moves {#} {#p#} s (register_user p s1)" by (simp add: moves_def)
  moreover have "moves {#p#} {#p#} (register_user p s1) s2" by (rule moves_frame [OF keeps_fire [OF assms(1) f]])
  ultimately show ?thesis unfolding t using moves_create moves_trans by blast
qed

lemma keeps_from_info:
  assumes "env_keeps env" "user_handle_from_info env info s = Some (r, t)"
  shows "keeps s t"
proof -
  consider "t = s" | p where "find_user (\<lambda>u. u_user_id u = p) s = None" "\<exists>h. sign_in_new env p info s = Some (h, t)"
    | q where "live s q" "t = snd (user_handle_create q (arc_clone q s))"
  proof (cases "parse_u64 (uc_xuid info)")
    case None
    then have "t = s" using assms(2) by (auto simp: user_handle_from_info_def)
    then show thesis by (rule that(1))
  next
    case (Some n)
    show thesis
    proof (cases "find_user (\<lambda>u. u_user_id u = of_nat n) s")
      case None
      then have "\<exists>h. sign_in_new env (of_nat n) info s = Some (h, t)"
        using assms(2) Some by (auto simp: user_handle_from_info_def)
      with None that(2) show thesis by blast
    next
      case (Some q)
      then have "t = snd (user_handle_create q (arc_clone q s))"
        using assms(2) \<open>parse_u64 _ = _\<close>
        by (simp add: user_handle_from_info_def sign_in_known_def split_def Let_def)
      with find_live [OF Some] that(3) show thesis by blast
    qed
  qed
  then show ?thesis
  proof cases
    case 2
    then show ?thesis using keeps_sign_in_new [OF assms(1)] by blast
  next
    case 3
    then show ?thesis using keeps_hand_out by metis
  qed simp
qed

lemma keeps_with_net: "with_net f s = (r, t) \<Longrightarrow> keeps s t"
  by (rule keeps_same) (auto simp: with_net_def split_def Let_def)

lemma keeps_interactive:
  assumes "env_keeps env" "sign_in_interactively env s = Some (r, t)"
  shows "keeps s t"
proof -
  obtain o1 s1 where n: "with_net (interactive_sign_in (ue_ipc env)) s = (o1, s1)"
    by (cases "with_net (interactive_sign_in (ue_ipc env)) s")
  have "keeps s1 t"
    using assms n by (auto simp: sign_in_interactively_def split: sum.splits option.splits intro: keeps_from_info)
  then show ?thesis using keeps_with_net [OF n] moves_trans by blast
qed

lemma keeps_add_user:
  assumes "env_keeps env" "add_user env ui s = Some (r, t)"
  shows "keeps s t"
proof -
  obtain o1 s1 where n: "with_net (get_user_info (ue_ipc env)) s = (o1, s1)"
    by (cases "with_net (get_user_info (ue_ipc env)) s")
  have "keeps s1 t"
    using assms n by (auto simp: add_user_def split: sum.splits if_splits intro: keeps_from_info keeps_interactive)
  then show ?thesis using keeps_with_net [OF n] moves_trans by blast
qed

lemma keeps_sign_out:
  assumes "env_keeps env" "sign_out env p s = Some t"
  shows "keeps s t"
proof -
  obtain s1 where a: "fire_change_event env (u_local_id (xu_heap s p)) CHANGE_EVENT_SIGNING_OUT
      (set_sign_state p SigningOut s) = Some s1"
    and b: "fire_change_event env (u_local_id (xu_heap s1 p)) CHANGE_EVENT_SIGNED_OUT
      (set_sign_state p SignedOut s1) = Some t"
    using assms(2) by (auto simp: sign_out_def split: option.splits)
  have "keeps s (set_sign_state p SigningOut s)" "keeps s1 (set_sign_state p SignedOut s1)"
    by (rule keeps_same, simp)+
  then show ?thesis using keeps_fire [OF assms(1) a] keeps_fire [OF assms(1) b] moves_trans by blast
qed

lemma keeps_work:
  assumes "env_keeps env" "run_user_work env w s = Some (r, t)"
  shows "keeps s t"
proof (cases w)
  case (WorkAddUser ui)
  then show ?thesis using assms keeps_add_user by (fastforce simp: run_user_work_def)
next
  case WorkAddById
  then show ?thesis using assms keeps_interactive by (fastforce simp: run_user_work_def)
next
  case (WorkSignOut p)
  then show ?thesis using assms keeps_sign_out by (fastforce simp: run_user_work_def)
qed (use assms(2) in \<open>auto simp: run_user_work_def net_work_defs with_net_def split_def Let_def intro!: keeps_same\<close>)

end
