(* ===== verification/XUser_Runs.thy ===== *)
theory XUser_Runs
  imports XUser_Props
begin

text \<open>
  Whole runs of the sign-in engine: programs of API calls and worker steps from the initial
  state, with game code in the callbacks that is itself a program, to any depth of nesting.
  The theorems state what holds after every such run, and follow single sign-ins, sign-outs
  and the events they fire.
\<close>

section \<open>Programs\<close>

datatype user_op =
    UDuplicate u64
  | UClose u64
  | UFindLocal u64
  | UFindId u64
  | UFindDevice
  | URegister u64 u64
  | UUnregister u64
  | URegisterDevice
  | USetHandlers "u64 option" "u64 option" u64
  | UCancelPrompt
  | UAdd u32 u64 hresult
  | UAddById u64 hresult
  | UPicture u64 u64 hresult
  | UToken u64 ustring ustring "u8 list" u64 hresult
  | UToken16 u64 "u16 list" "u16 list" "u8 list" u64 hresult
  | UMsaToken u64 "ustring option" u64 hresult
  | UResolve u64 hresult
  | USignOut u64 u64 hresult
  | URunWork nat

fun exec_user :: "('e, 'c, 'z) uenv \<Rightarrow> user_op \<Rightarrow> 'z xusers_scheme \<Rightarrow> 'z xusers_scheme option" where
  "exec_user env (UDuplicate h) s = Some (snd (snd (XUserDuplicateHandle h False s)))"
| "exec_user env (UClose h) s = Some (XUserCloseHandle h s)"
| "exec_user env (UFindLocal i) s = Some (snd (snd (XUserFindUserByLocalId i False s)))"
| "exec_user env (UFindId i) s = Some (snd (snd (XUserFindUserById i False s)))"
| "exec_user env UFindDevice s = Some (snd (snd (XUserFindForDevice False False s)))"
| "exec_user env (URegister ctx cb) s =
     map_option (snd \<circ> snd) (XUserRegisterForChangeEvent ctx (Some cb) False s)"
| "exec_user env (UUnregister token) s = map_option snd (XUserUnregisterForChangeEvent token s)"
| "exec_user env URegisterDevice s =
     Some (snd (snd (XUserRegisterForDeviceAssociationChanged (Some 1) False s)))"
| "exec_user env (USetHandlers a b c) s =
     map_option snd (XUserPlatformRemoteConnectSetEventHandlers (Some (a, b, c)) s)"
| "exec_user env UCancelPrompt s = map_option snd (XUserPlatformRemoteConnectCancelPrompt env s)"
| "exec_user env (UAdd options b begun) s = Some (snd (XUserAddAsync options b begun s))"
| "exec_user env (UAddById b begun) s = Some (snd (XUserAddByIdWithUiAsync b begun s))"
| "exec_user env (UPicture h b begun) s = Some (snd (XUserGetGamerPictureAsync h b begun s))"
| "exec_user env (UToken h m url body b begun) s =
     Some (snd (XUserGetTokenAndSignatureAsync h (Some m) (Some url) (Some body) b begun s))"
| "exec_user env (UToken16 h m url body b begun) s =
     Some (snd (XUserGetTokenAndSignatureUtf16Async h (Some m) (Some url) (Some body) b begun s))"
| "exec_user env (UMsaToken h scope b begun) s = Some (snd (XUserGetMsaTokenSilentlyAsync h scope b begun s))"
| "exec_user env (UResolve b begun) s = Some (snd (XUserResolvePrivilegeWithUiAsync b begun s))"
| "exec_user env (USignOut h b begun) s = Some (snd (XUserSignOutAsync h b begun s))"
| "exec_user env (URunWork i) s =
     (if length (xu_works s) \<le> i then Some s
      else let w = xu_works s ! i
           in case run_user_work env w (s\<lparr>xu_works := take i (xu_works s) @ drop (Suc i) (xu_works s)\<rparr>) of
                None \<Rightarrow> None
              | Some (r, s1) \<Rightarrow> Some (drop_user_work w s1))"

primrec exec_users :: "('e, 'c, 'z) uenv \<Rightarrow> user_op list \<Rightarrow> 'z xusers_scheme \<Rightarrow> 'z xusers_scheme option"
where
  "exec_users env [] s = Some s"
| "exec_users env (op # ops) s =
     (case exec_user env op s of None \<Rightarrow> None | Some s1 \<Rightarrow> exec_users env ops s1)"

record user_game =
  ug_change :: "u64 \<Rightarrow> u64 \<Rightarrow> u64 \<Rightarrow> u32 \<Rightarrow> user_op list"
  ug_prompt :: "u64 \<Rightarrow> user_op list"

text \<open>Game code nested to depth \<open>n\<close>; a callback below that does nothing.\<close>

fun uenv_by :: "('e, 'c) ipc_env \<Rightarrow> (registration list \<Rightarrow> registration list) \<Rightarrow> user_game \<Rightarrow> nat \<Rightarrow>
  ('e, 'c, 'z) uenv" where
  "uenv_by ipc ord g 0 = \<lparr>ue_ipc = ipc, ue_callback = (\<lambda>cb ctx lid ev s. Some s), ue_order = ord,
     ue_close_prompt = (\<lambda>cb s. Some s)\<rparr>"
| "uenv_by ipc ord g (Suc n) = \<lparr>ue_ipc = ipc,
     ue_callback = (\<lambda>cb ctx lid ev s. exec_users (uenv_by ipc ord g n) (ug_change g cb ctx lid ev) s),
     ue_order = ord,
     ue_close_prompt = (\<lambda>cb s. exec_users (uenv_by ipc ord g n) (ug_prompt g cb) s)\<rparr>"

definition users_start :: "net \<Rightarrow> xusers" where
  "users_start n = \<lparr>xu_heap = (\<lambda>_. new_user 0 \<lparr>uc_xuid = [], uc_gamertag = [], uc_gamertag_modern = [],
       uc_age_group = []\<rparr>), xu_next = 0, xu_strong = (\<lambda>_. 0), xu_registry = [], xu_handles = ht_new,
     xu_issued = [], xu_events = [], xu_next_token = 1, xu_event_lock = False, xu_fired = [],
     xu_pictures = Map.empty, xu_tokens = Map.empty, xu_tokens16 = Map.empty,
     xu_msa_tokens = Map.empty, xu_remote = None, xu_remote_lock = False, xu_net = n, xu_works = []\<rparr>"

lemma users_inv_start: "users_inv {#} (users_start n)"
  by (simp add: users_inv_def users_start_def handles_of_def live_def ht_get_def ht_new_def ht_inv_def)

section \<open>Every step keeps the accounts\<close>

lemma keeps_start: "held w = {#} \<Longrightarrow> keeps s (snd (start_work block begun w s))"
  using moves_start [of w s] by simp

lemma keeps_async:
  "keeps s (snd (XUserAddAsync options b begun s))" "keeps s (snd (XUserAddByIdWithUiAsync b begun s))"
  "keeps s (snd (XUserGetGamerPictureAsync h b begun s))"
  "keeps s (snd (XUserGetTokenAndSignatureAsync h m url body b begun s))"
  "keeps s (snd (XUserGetTokenAndSignatureUtf16Async h m16 url16 body b begun s))"
  "keeps s (snd (XUserGetMsaTokenSilentlyAsync h scope b begun s))"
  "keeps s (snd (XUserResolvePrivilegeWithUiAsync b begun s))"
  by (auto simp: XUserAddAsync_def XUserAddByIdWithUiAsync_def XUserGetGamerPictureAsync_def
      XUserGetTokenAndSignatureAsync_def XUserGetTokenAndSignatureUtf16Async_def
      XUserGetMsaTokenSilentlyAsync_def XUserResolvePrivilegeWithUiAsync_def held_def
      intro!: keeps_start split: option.split)

lemma keeps_sign_out_start: "keeps s (snd (XUserSignOutAsync h b begun s))"
proof (cases "user_handle_get s h")
  case (Some p)
  have l: "live s p" if "users_inv M s" for M
    using handle_live [OF that] Some by (simp add: user_handle_get_def)
  have "xu_issued (arc_clone p s) = xu_issued s" by (simp add: arc_clone_def)
  then have "moves {#} {#p#} s (arc_clone p s)"
    using inv_clone l by (auto simp: moves_def)
  moreover have "moves {#p#} {#} (arc_clone p s) (snd (start_work b begun (WorkSignOut p) (arc_clone p s)))"
    using moves_start [of "WorkSignOut p" "arc_clone p s"] by (simp add: held_def)
  ultimately show ?thesis using Some moves_trans by (auto simp: XUserSignOutAsync_def)
qed (simp add: XUserSignOutAsync_def)

lemma keeps_run_work:
  assumes "env_keeps env" "exec_user env (URunWork i) s = Some t"
  shows "keeps s t"
proof (cases "length (xu_works s) \<le> i")
  case False
  define w where "w = xu_works s ! i"
  define s0 where "s0 = s\<lparr>xu_works := take i (xu_works s) @ drop (Suc i) (xu_works s)\<rparr>"
  obtain r s1 where r: "run_user_work env w s0 = Some (r, s1)" and t: "t = drop_user_work w s1"
    using assms(2) False by (auto simp: w_def s0_def Let_def split: option.splits)
  have "work_refs (xu_works s) = held w + work_refs (xu_works s0)"
    using work_refs_take_drop [of i "xu_works s"] False by (simp add: w_def s0_def)
  then have "users_inv (M + held w) s0" if "users_inv M s" for M
    using that by (simp add: users_inv_def s0_def live_def handles_of_def ac_simps)
  then have "moves {#} (held w) s s0" by (simp add: moves_def s0_def)
  moreover have "moves (held w) (held w) s0 s1" by (rule moves_frame [OF keeps_work [OF assms(1) r]])
  moreover have "moves (held w) {#} s1 t"
    unfolding t by (rule moves_drop_work)
  ultimately show ?thesis using moves_trans by blast
qed (use assms(2) in simp)

lemma keeps_exec:
  assumes "env_keeps env" "exec_user env op s = Some t"
  shows "keeps s t"
proof (cases op)
  case (UDuplicate h)
  then show ?thesis using assms(2) keeps_duplicate
    by (fastforce simp: XUserDuplicateHandle_def split_def Let_def split: option.splits)
next
  case (UClose h)
  then show ?thesis using assms(2) moves_close by (auto simp: XUserCloseHandle_def)
next
  case (URegister ctx cb)
  then show ?thesis using assms(2)
    by (auto simp: XUserRegisterForChangeEvent_def register_change_event_def Let_def intro!: keeps_same split: if_splits)
next
  case (UUnregister token)
  then show ?thesis using assms(2)
    by (auto simp: XUserUnregisterForChangeEvent_def unregister_change_event_def intro!: keeps_same split: if_splits)
next
  case (USetHandlers a b c)
  then show ?thesis using assms(2)
    by (auto simp: XUserPlatformRemoteConnectSetEventHandlers_def intro!: keeps_same split: if_splits)
next
  case UCancelPrompt
  show ?thesis
  proof (cases "t = s")
    case False
    then obtain cb s1 where c: "ue_close_prompt env cb (s\<lparr>xu_remote_lock := True\<rparr>) = Some s1"
      "t = s1\<lparr>xu_remote_lock := False\<rparr>"
      using assms(2) UCancelPrompt
      by (auto simp: XUserPlatformRemoteConnectCancelPrompt_def split: if_splits option.splits)
    have "keeps s (s\<lparr>xu_remote_lock := True\<rparr>)" "keeps s1 t"
      unfolding c(2) by (simp_all add: keeps_same)
    moreover have "keeps (s\<lparr>xu_remote_lock := True\<rparr>) s1" using assms(1) c(1) by (auto simp: env_keeps_def)
    ultimately show ?thesis using moves_trans by blast
  qed simp
next
  case URegisterDevice
  then show ?thesis using assms(2)
    by (auto simp: XUserRegisterForDeviceAssociationChanged_def intro!: keeps_same)
next
  case (URunWork i)
  then show ?thesis using assms keeps_run_work by metis
qed (use assms(2) keeps_find keeps_async keeps_sign_out_start in
    \<open>auto simp: XUserFindUserByLocalId_def XUserFindUserById_def XUserFindForDevice_def\<close>)

lemma keeps_exec_all: "env_keeps env \<Longrightarrow> exec_users env ops s = Some t \<Longrightarrow> keeps s t"
proof (induction ops arbitrary: s)
  case (Cons op ops)
  obtain s1 where "exec_user env op s = Some s1" "exec_users env ops s1 = Some t"
    using Cons.prems(2) by (auto split: option.splits)
  then show ?case using keeps_exec [OF Cons.prems(1)] Cons.IH [OF Cons.prems(1)] moves_trans by blast
qed simp

lemma uenv_by_keeps: "env_keeps (uenv_by ipc ord g n)"
proof (induction n)
  case (Suc n)
  then show ?case using keeps_exec_all [OF Suc] by (auto simp: env_keeps_def)
qed (simp add: env_keeps_def)

lemma runs_inv:
  assumes "exec_users (uenv_by ipc ord g n) ops (users_start nt) = Some s" "length (xu_issued s) < 2 ^ 64 - 1"
  shows "users_inv {#} s"
  using keeps_exec_all [OF uenv_by_keeps assms(1)] assms(2) users_inv_start [of nt]
  by (simp add: moves_def)

section \<open>Live users\<close>

lemma count_work_refs: "count (work_refs ws) p = count (mset ws) (WorkSignOut p)"
  by (induction ws) (auto simp: held_def split: user_work.split)

lemma live_iff:
  assumes "users_inv {#} s"
  shows "live s p \<longleftrightarrow> (\<exists>h. user_handle_get s h = Some p) \<or> WorkSignOut p \<in> set (xu_works s)"
proof -
  have "live s p \<longleftrightarrow> card (handles_of s p) \<noteq> 0 \<or> count (work_refs (xu_works s)) p \<noteq> 0"
    using users_invD(3) [OF assms, of p] by (simp add: live_def del: card_0_eq)
  moreover have "card (handles_of s p) \<noteq> 0 \<longleftrightarrow> (\<exists>h. user_handle_get s h = Some p)"
    by (auto simp: handles_of_def user_handle_get_def)
  moreover have "count (work_refs (xu_works s)) p \<noteq> 0 \<longleftrightarrow> WorkSignOut p \<in> set (xu_works s)"
    by (simp add: count_work_refs)
  ultimately show ?thesis by blast
qed

lemma find_user_iff:
  assumes "users_inv {#} s"
  shows "find_user P s \<noteq> None \<longleftrightarrow> (\<exists>p. live s p \<and> P (xu_heap s p))"
  using users_invD(5) [OF assms] by (auto simp: find_user_def find_None_iff live_def)

lemma same_account_compare:
  assumes "users_inv {#} s" "user_handle_get s h = Some p" "user_handle_get s k = Some q"
    "u_user_id (xu_heap s p) = u_user_id (xu_heap s q)"
  shows "p = q"
  using users_invD(6) [OF assms(1)] handle_live [OF assms(1)] assms(2-4) by (auto simp: user_handle_get_def)


section \<open>An account to sign in with\<close>

definition demo_claims :: user_claims where
  "demo_claims = \<lparr>uc_xuid = [0x37], uc_gamertag = [0x41], uc_gamertag_modern = [], uc_age_group = utf8 ''Teen''\<rparr>"

text \<open>A service reached through the Unix library that answers every request with status 0.\<close>

definition demo_ipc :: "(unit, unit) ipc_env" where
  "demo_ipc = \<lparr>var = (\<lambda>_. None), title_client_id = [], title_id = [], store_market = [],
     to_xml = (\<lambda>_. Some []), de_msa = (\<lambda>_. Some ([0x54], 9)), de_xsts = (\<lambda>_. Some ([0x54], [0x53])),
     de_user = (\<lambda>_. Some demo_claims), de_sign_in = (\<lambda>_. None), de_license = (\<lambda>_. None),
     de_entitled = (\<lambda>_. None), de_key = (\<lambda>_. None), de_catalog = (\<lambda>_. None),
     unix_exchange = Some (\<lambda>_ m _ _ n. ((0, ucast m + 1, 0, 0), n)),
     unix_fetch = (\<lambda>_ _ _ n. ((0, []), n)), unix_handle = 1\<rparr>"

definition demo_net :: net where "demo_net = \<lparr>nt_attempts = [], nt_log = [], nt_sleeps = 0, nt_unix = no_unix\<rparr>"

lemma demo_user_info: "get_user_info demo_ipc n = (Inr demo_claims, n)"
  by (simp add: get_user_info_def exchange_def exchange_with_timeout_def request_with_timeout_def
      unix_request_def demo_ipc_def)

lemma demo_token: "get_token_and_signature demo_ipc m url body n = (Inr ([0x54], [0x53]), n)"
  by (simp add: get_token_and_signature_def get_token_and_signature_once_def exchange_def
      exchange_with_timeout_def request_with_timeout_def unix_request_def demo_ipc_def
      TOKEN_AND_SIGNATURE_RETRIES_def numeral_3_eq_3)

text \<open>A callback that looks the user up, and takes a handle of its own.\<close>

definition demo_game :: user_game where
  "demo_game = \<lparr>ug_change = (\<lambda>cb ctx lid ev. [UFindId lid]), ug_prompt = (\<lambda>_. [])\<rparr>"

definition demo_run :: "user_op list \<Rightarrow> xusers option" where
  "demo_run ops = exec_users (uenv_by demo_ipc id demo_game (Suc 0)) ops (users_start demo_net)"

lemma parse_demo: "parse_u64 (uc_xuid demo_claims) = Some 7"
  by (simp add: parse_u64_def parse_unsigned_def demo_claims_def Let_def)

lemmas demo_defs = demo_run_def demo_game_def users_start_def start_work_def run_sync_start_def Let_def
  XUserRegisterForChangeEvent_def register_change_event_def XUserAddAsync_def run_user_work_def
  add_user_def with_net_def demo_user_info user_handle_from_info_def parse_demo find_user_def
  sign_in_new_def arc_new_def register_user_def fire_change_event_def XUserFindUserById_def
  find_handle_def arc_clone_def user_handle_create_def ht_create_def ht_new_def new_user_def
  handle_payload_def drop_user_work_def


section \<open>Events\<close>

text \<open>Callbacks that leave the engine alone.\<close>

definition quiet_env :: "('e, 'c, 'z) uenv \<Rightarrow> bool" where
  "quiet_env env \<longleftrightarrow> (\<forall>cb ctx lid ev s. ue_callback env cb ctx lid ev s = Some s)"

definition notices :: "u64 \<Rightarrow> u32 \<Rightarrow> registration list \<Rightarrow> (u64 \<times> u64 \<times> u32) list" where
  "notices lid ev rs = map (\<lambda>(token, r). (token, lid, ev)) rs"

lemma quiet_fire_loop:
  "quiet_env env \<Longrightarrow> fire_loop env lid ev rs s = Some (s\<lparr>xu_fired := xu_fired s @ notices lid ev rs\<rparr>)"
proof (induction rs arbitrary: s)
  case (Cons r rs)
  then show ?case by (cases r) (simp add: quiet_env_def notices_def)
qed (simp add: notices_def)

lemma quiet_fire:
  assumes "quiet_env env" "\<not> xu_event_lock s"
  shows "fire_change_event env lid ev s
     = Some (s\<lparr>xu_fired := xu_fired s @ notices lid ev (ue_order env (xu_events s))\<rparr>)"
  using assms by (simp add: fire_change_event_def quiet_fire_loop)

lemma handle_after_create:
  assumes "users_inv K s" "Suc (length (xu_issued s)) < 2 ^ 64 - 1" "user_handle_create p s = (h, t)"
  shows "user_handle_get t k = (if k = h then Some p else user_handle_get s k)"
    "user_handle_get s h = None" "xu_heap t = xu_heap s" "xu_fired t = xu_fired s"
    "xu_strong t = xu_strong s" "xu_registry t = xu_registry s" "xu_event_lock t = xu_event_lock s"
proof -
  note i = users_invD(1,2) [OF assms(1)]
  have room: "ht_room (xu_handles s) (Suc 0)" using assms(2) i(2) by (simp add: ht_room_def has_room_def)
  have c: "ht_create p (xu_handles s) = (h, xu_handles t)"
    using assms(3) by (auto simp: user_handle_create_def split_def Let_def)
  show "user_handle_get t k = (if k = h then Some p else user_handle_get s k)"
    using ht.create_get [OF i(1) room c] by (simp add: user_handle_get_def)
  show "user_handle_get s h = None"
    using ht.create_fresh [OF i(1) room c] ht.get_unissued [OF i(1)] by (simp add: user_handle_get_def)
  show "xu_heap t = xu_heap s" "xu_fired t = xu_fired s" "xu_strong t = xu_strong s"
    "xu_registry t = xu_registry s" "xu_event_lock t = xu_event_lock s"
    using assms(3) by (auto simp: user_handle_create_def split_def Let_def)
qed

text \<open>A first sign-in, with quiet callbacks.\<close>

lemma quiet_sign_in_new:
  assumes "users_inv {#} s" "Suc (length (xu_issued s)) < 2 ^ 64 - 1" "quiet_env env" "\<not> xu_event_lock s"
    and "find_user (\<lambda>u. u_user_id u = i) s = None" "sign_in_new env i info s = Some (h, t)"
  shows "user_handle_get t h = Some (xu_next s)" "xu_heap t = (xu_heap s)(xu_next s := new_user i info)"
    "xu_fired t = xu_fired s @ notices i CHANGE_EVENT_SIGNED_IN_AGAIN (ue_order env (xu_events s))"
    "user_handle_get s k = Some q \<Longrightarrow> user_handle_get t k = Some q" "xu_next t = Suc (xu_next s)"
    "users_inv {#} t" "xu_issued t = xu_issued s @ [h]" "\<not> xu_event_lock t"
proof -
  define s1 where "s1 = register_user (xu_next s) (snd (arc_new (new_user i info) s))"
  define s2 where "s2 = s1\<lparr>xu_fired := xu_fired s1 @ notices i CHANGE_EVENT_SIGNED_IN_AGAIN (ue_order env (xu_events s1))\<rparr>"
  have s1: "xu_heap s1 = (xu_heap s)(xu_next s := new_user i info)" "xu_handles s1 = xu_handles s"
    "xu_fired s1 = xu_fired s" "xu_events s1 = xu_events s" "xu_next s1 = Suc (xu_next s)"
    "xu_issued s1 = xu_issued s" "xu_event_lock s1 = xu_event_lock s"
    by (simp_all add: s1_def register_user_def arc_new_def Let_def)
  have n: "arc_new (new_user i info) s = (xu_next s, snd (arc_new (new_user i info) s))"
    by (simp add: arc_new_def Let_def)
  have s1_new: "register_user (xu_next s) (snd (arc_new (new_user i info) s)) = s1"
    "fst (arc_new (new_user i info) s) = xu_next s"
    by (simp add: s1_def) (simp add: arc_new_def Let_def)
  have iv: "users_inv {#xu_next s#} s1"
    using inv_new [OF assms(1) _ n] assms(5) by (simp add: s1_def new_user_def)
  have "same_users s1 s2" by (simp add: s2_def)
  then have iv2: "users_inv {#xu_next s#} s2" using same_users_inv iv by blast
  have "fire_change_event env i CHANGE_EVENT_SIGNED_IN_AGAIN s1 = Some s2"
    using quiet_fire [OF assms(3)] assms(4) s1(7) by (simp add: s2_def)
  then have c: "user_handle_create (xu_next s) s2 = (h, t)"
    using assms(6) by (simp add: sign_in_new_def case_prod_beta s1_new)
  have iss: "xu_issued s2 = xu_issued s" by (simp add: s2_def s1)
  note a = handle_after_create [OF iv2 assms(2) [folded iss] c]
  show "user_handle_get t h = Some (xu_next s)" using a(1) by simp
  show "xu_heap t = (xu_heap s)(xu_next s := new_user i info)" using a(3) by (simp add: s2_def s1)
  show "xu_fired t = xu_fired s @ notices i CHANGE_EVENT_SIGNED_IN_AGAIN (ue_order env (xu_events s))"
    using a(4) by (simp add: s2_def s1)
  show "user_handle_get s k = Some q \<Longrightarrow> user_handle_get t k = Some q"
    using a(1) [of k] a(2) by (auto simp: s2_def s1 user_handle_get_def)
  have "t = snd (user_handle_create (xu_next s) s2)" using c by simp
  then show "users_inv {#} t" using inv_create [of "{#}" "xu_next s" s2] iv2 assms(2) iss by simp
  show "xu_issued t = xu_issued s @ [h]" "xu_next t = Suc (xu_next s)"
    using c iss s1 by (auto simp: user_handle_create_def split_def Let_def s2_def)
  show "\<not> xu_event_lock t" using a(7) assms(4) by (simp add: s2_def s1)
qed

end
