(* ===== verification/XUser_Signing.thy ===== *)
theory XUser_Signing
  imports XUser_Runs
begin

text \<open>
  Signing in and out: what the game sees of a sign-in, of a second one of the same account,
  of a sign-out, and of one account signed in by two threads at once; and the lock the events
  are fired under.
\<close>

section \<open>A sign-in seen by the game\<close>

lemma getters:
  "user_handle_get s h = Some p \<Longrightarrow> XUserGetId h False s = (S_OK, Some (u_user_id (xu_heap s p)))"
  "user_handle_get s h = Some p \<Longrightarrow> XUserGetState h False s = (S_OK, Some (sign_state_raw (u_state (xu_heap s p))))"
  "user_handle_get s h = Some p \<Longrightarrow> XUserGetAgeGroup h False s = (S_OK, Some (u_age_group (xu_heap s p)))"
  by (simp_all add: XUserGetId_def XUserGetState_def XUserGetAgeGroup_def get_field_def)

lemma with_net_eq: "f (xu_net s) = (r, n) \<Longrightarrow> with_net f s = (r, s\<lparr>xu_net := n\<rparr>)"
  by (simp add: with_net_def)

lemma same_users_net [simp]: "users_inv K (s\<lparr>xu_net := n\<rparr>) = users_inv K s"
  by (simp add: users_inv_def handles_of_def live_def)

section \<open>States to evaluate on\<close>

definition demo_quiet :: "(unit, unit, unit) uenv" where
  "demo_quiet = uenv_by demo_ipc id demo_game 0"

definition demo_listening :: xusers where
  "demo_listening = (users_start demo_net)\<lparr>xu_events := [(1, 5, 6)]\<rparr>"

definition demo_signed_out :: xusers where
  "demo_signed_out = (users_start demo_net)\<lparr>xu_heap := (\<lambda>_. (new_user 7 demo_claims)\<lparr>u_state := SignedOut\<rparr>),
     xu_next := 1, xu_strong := (\<lambda>p. if p = 0 then 1 else 0), xu_registry := [0],
     xu_handles := snd (ht_create 0 ht_new), xu_issued := [1]\<rparr>"

lemma demo_quiet_quiet: "quiet_env demo_quiet"
  by (simp add: quiet_env_def demo_quiet_def)

lemma demo_listening_inv: "users_inv {#} demo_listening"
  unfolding demo_listening_def by (rule same_users_inv [OF _ users_inv_start [of demo_net]]) simp

lemma demo_selectors [simp]:
  "xu_net demo_listening = demo_net" "xu_issued demo_listening = []" "\<not> xu_event_lock demo_listening"
  "xu_events demo_listening = [(1, 5, 6)]" "xu_fired demo_listening = []" "find_user P demo_listening = None"
  "ue_ipc demo_quiet = demo_ipc" "ue_order demo_quiet = id"
  "xu_net demo_signed_out = demo_net" "xu_issued demo_signed_out = [1]" "\<not> xu_event_lock demo_signed_out"
  "u_user_id (xu_heap demo_signed_out p) = 7" "u_local_id (xu_heap demo_signed_out p) = 7"
  "u_state (xu_heap demo_signed_out p) = SignedOut"
  "user_handle_get demo_signed_out 1 = Some 0" "xu_fired demo_signed_out = []"
  by (simp_all add: demo_listening_def users_start_def find_user_def demo_quiet_def demo_signed_out_def
      new_user_def user_handle_get_def ht_get_def ht_create_def ht_new_def)

lemma demo_signed_out_inv: "users_inv {#} demo_signed_out"
proof -
  have g: "ht_get (xu_handles demo_signed_out) h = (if h = 1 then Some 0 else None)" for h
    by (simp add: demo_signed_out_def ht_get_def ht_create_def ht_new_def)
  have ho: "handles_of demo_signed_out p = (if p = 0 then {1} else {})" for p
    by (auto simp: handles_of_def g split: if_splits)
  have "ht_inv (xu_handles demo_signed_out)"
    using ht_inv_create [OF _ ht_inv_new] by (simp add: demo_signed_out_def ht_room_def has_room_def ht_new_def)
  then show ?thesis
    by (simp add: users_inv_def ho) (auto simp: demo_signed_out_def users_start_def live_def
        ht_create_def ht_new_def split: if_splits)
qed

lemma demo_age: "parse_age_group (uc_age_group demo_claims) = 2"
  by (simp add: parse_age_group_def demo_claims_def utf8_def)



section \<open>Signing in again\<close>

lemma known_sign_in:
  assumes "users_inv {#} s" "Suc (length (xu_issued s)) < 2 ^ 64 - 1" "user_handle_get s h = Some p"
    and "get_user_info (ue_ipc env) (xu_net s) = (Inr info, n)" "parse_u64 (uc_xuid info) = Some i"
    and "u_user_id (xu_heap s p) = of_nat i"
  shows "\<exists>k t. add_user env ui s = Some (Inr k, t) \<and> user_handle_get t k = Some p
     \<and> user_handle_get t h = Some p \<and> xu_heap t = xu_heap s \<and> xu_fired t = xu_fired s
     \<and> k \<noteq> h \<and> xu_registry t = xu_registry s \<and> (\<forall>q. live t q \<longleftrightarrow> live s q)"
proof -
  define s0 where "s0 = s\<lparr>xu_net := n\<rparr>"
  have iv: "users_inv {#} s0" using assms(1) by (simp add: s0_def)
  have lv: "live s0 p" using handle_live [OF assms(1)] assms(3) by (simp add: user_handle_get_def s0_def live_def)
  have "find_user (\<lambda>u. u_user_id u = of_nat i) s0 \<noteq> None"
    using find_user_iff [OF iv] lv assms(6) by (auto simp: s0_def)
  then obtain q where q: "find_user (\<lambda>u. u_user_id u = of_nat i) s0 = Some q" by blast
  then have qp: "q = p" using find_live [OF q] users_invD(6) [OF iv _ lv] assms(6) by (auto simp: s0_def)
  define s1 where "s1 = arc_clone p s0"
  have iv1: "users_inv {#p#} s1" using inv_clone [OF iv lv] by (simp add: s1_def)
  have s1: "xu_issued s1 = xu_issued s" "xu_heap s1 = xu_heap s" "xu_fired s1 = xu_fired s"
    "xu_handles s1 = xu_handles s" "xu_registry s1 = xu_registry s"
    by (simp_all add: s1_def s0_def arc_clone_def)
  obtain k t where c: "user_handle_create p s1 = (k, t)" by (cases "user_handle_create p s1")
  note a = handle_after_create [OF iv1 assms(2) [folded s1(1)] c]
  have run: "add_user env ui s = Some (Inr k, t)"
    using with_net_eq [where f = "get_user_info (ue_ipc env)", OF assms(4)] assms(5) q qp c
    by (simp add: add_user_def user_handle_from_info_def sign_in_known_def s0_def s1_def)
  have ne: "k \<noteq> h" using a(2) assms(3) by (auto simp: user_handle_get_def s1)
  have "xu_strong t q = xu_strong s q + (if q = p then 1 else 0)" for q
    using a(5) by (simp add: s1_def s0_def arc_clone_def)
  then have "live t q \<longleftrightarrow> live s q" for q using lv by (auto simp: live_def s0_def)
  then show ?thesis using run a ne assms(3) s1 by (auto simp: user_handle_get_def)
qed

text \<open>A sign-in after a sign-out does not sign in. While the game still holds a handle to an
  account that signed out, \<open>XUserAddAsync\<close> for the account succeeds, but the user stays
  signed out: the new handle names the old user, its state is \<open>SignedOut\<close>, no event is fired,
  and with no other user \<open>XUserFindForDevice\<close> finds nobody.\<close>

theorem sign_in_after_sign_out:
  assumes "users_inv {#} s" "Suc (length (xu_issued s)) < 2 ^ 64 - 1" "user_handle_get s h = Some p"
    and "get_user_info (ue_ipc env) (xu_net s) = (Inr info, n)" "parse_u64 (uc_xuid info) = Some i"
    and "u_user_id (xu_heap s p) = of_nat i" "\<forall>q. live s q \<longrightarrow> u_state (xu_heap s q) = SignedOut"
  shows "\<exists>k t. add_user env ui s = Some (Inr k, t) \<and> k \<noteq> h \<and> XUserCompare h k t = 0
     \<and> XUserGetState k False t = (S_OK, Some 2) \<and> xu_fired t = xu_fired s
     \<and> fst (XUserFindForDevice False False t) = E_INVALIDARG"
proof -
  obtain k t where t: "add_user env ui s = Some (Inr k, t)" "user_handle_get t k = Some p"
    "user_handle_get t h = Some p" "xu_heap t = xu_heap s" "xu_fired t = xu_fired s" "k \<noteq> h"
    "\<And>q. live t q \<longleftrightarrow> live s q"
    using known_sign_in [OF assms(1-6)] by blast
  have "live s p" using handle_live [OF assms(1)] assms(3) by (simp add: user_handle_get_def)
  then have st: "u_state (xu_heap s p) = SignedOut" using assms(7) by blast
  have "find_user (\<lambda>u. u_state u = SignedIn) t = None"
  proof (cases "find_user (\<lambda>u. u_state u = SignedIn) t")
    case (Some q)
    then show ?thesis using find_live [OF Some] assms(7) t(4,7) by auto
  qed
  then have "fst (XUserFindForDevice False False t) = E_INVALIDARG"
    by (simp add: XUserFindForDevice_def find_handle_def)
  then show ?thesis
    using t getters(2) [OF t(2)] st by (auto simp: XUserCompare_def sign_state_raw_def)
qed

lemma sign_in_after_sign_out_witness:
  "\<exists>k t. add_user demo_quiet False demo_signed_out = Some (Inr k, t)
     \<and> XUserGetState k False t = (S_OK, Some 2) \<and> fst (XUserFindForDevice False False t) = E_INVALIDARG"
proof -
  have "get_user_info (ue_ipc demo_quiet) (xu_net demo_signed_out) = (Inr demo_claims, demo_net)"
    by (simp add: demo_user_info)
  from sign_in_after_sign_out [OF demo_signed_out_inv _ _ this parse_demo, of 1 0 False]
  show ?thesis by auto
qed

section \<open>Signing out\<close>



section \<open>The lock over the callbacks\<close>

text \<open>A change-event callback that registers or unregisters for change events never returns:
  the events are fired under the lock it needs. So the sign-out (or first sign-in) that fires
  the event never completes.\<close>

theorem callback_must_not_register:
  assumes "ue_order env (xu_events s) = (token, cb, ctx) # rs" "env = uenv_by ipc ord g (Suc n)"
    and "\<forall>lid ev. ug_change g cb ctx lid ev = op # ops" "op = URegister c k \<or> op = UUnregister tok"
  shows "sign_out env p s = None
     \<and> (find_user (\<lambda>u. u_user_id u = i) s = None \<longrightarrow> sign_in_new env i info s = None)"
proof -
  have call: "ue_callback env cb ctx lid ev t = None" if "xu_event_lock t" for lid ev t
    using that assms(2-4)
    by (auto simp: XUserRegisterForChangeEvent_def XUserUnregisterForChangeEvent_def
        register_change_event_def unregister_change_event_def Let_def)
  have fire: "fire_change_event env lid ev t = None" if "xu_events t = xu_events s" for lid ev t
    using assms(1) call that by (simp add: fire_change_event_def)
  then show ?thesis
    by (simp add: sign_out_def sign_in_new_def set_sign_state_def register_user_def arc_new_def Let_def)
qed

lemma callback_must_not_register_witness:
  "sign_out (uenv_by demo_ipc id \<lparr>ug_change = (\<lambda>_ _ _ _. [URegister 1 2]), ug_prompt = (\<lambda>_. [])\<rparr> 1)
     0 demo_listening = None"
  using callback_must_not_register [where s = demo_listening and n = 0 and ops = "[]" and p = 0
      and op = "URegister 1 2" and c = 1 and k = 2 and token = 1 and cb = 5 and ctx = 6 and rs = "[]"
      and env = "uenv_by demo_ipc id \<lparr>ug_change = (\<lambda>_ _ _ _. [URegister 1 2]), ug_prompt = (\<lambda>_. [])\<rparr> 1"
      and g = "\<lparr>ug_change = (\<lambda>_ _ _ _. [URegister 1 2]), ug_prompt = (\<lambda>_. [])\<rparr>" and ipc = demo_ipc and ord = id]
  by simp

section \<open>Two threads\<close>

text \<open>The lookup and the registration of a sign-in are two locked steps. If two sign-ins of
  one account both look it up before either registers it, the account gets two users: both
  handles carry its id, yet \<open>XUserCompare\<close> tells them apart.\<close>

theorem concurrent_sign_ins_duplicate:
  assumes "users_inv {#} s" "Suc (Suc (length (xu_issued s))) < 2 ^ 64 - 1" "quiet_env env" "\<not> xu_event_lock s"
    and "find_user (\<lambda>u. u_user_id u = i) s = None"
    and "sign_in_new env i info s = Some (h1, s1)" "sign_in_new env i info s1 = Some (h2, s2)"
  shows "XUserCompare h1 h2 s2 = 1 \<and> XUserGetId h1 False s2 = (S_OK, Some i)
     \<and> XUserGetId h2 False s2 = (S_OK, Some i)"
proof -
  note f = quiet_sign_in_new [OF assms(1) _ assms(3-6)]
  define j where "j = xu_next s"
  have h1: "user_handle_get s1 h1 = Some j" and n1: "xu_next s1 = Suc j"
    using f(1,5) assms(2) by (simp_all add: j_def)
  have iv1: "users_inv {#} s1" and iss: "xu_issued s1 = xu_issued s @ [h1]" using f(6,7) assms(2) by simp_all
  have dead: "\<not> live s1 (Suc j)" using users_invD(4,5) [OF iv1, of "Suc j"] n1 by auto
  define u2 where "u2 = register_user (Suc j) (snd (arc_new (new_user i info) s1))"
  define v2 where "v2 = u2\<lparr>xu_fired := xu_fired u2 @ notices i CHANGE_EVENT_SIGNED_IN_AGAIN (ue_order env (xu_events u2))\<rparr>"
  have u2: "xu_handles u2 = xu_handles s1" "xu_heap u2 = (xu_heap s1)(Suc j := new_user i info)"
    "xu_event_lock u2 = xu_event_lock s1" "xu_issued u2 = xu_issued s1"
    by (simp_all add: u2_def register_user_def arc_new_def Let_def n1)
  have "fire_change_event env i CHANGE_EVENT_SIGNED_IN_AGAIN u2 = Some v2"
    using quiet_fire [OF assms(3)] f(8) assms(2) u2(3) by (simp add: v2_def)
  then have c: "user_handle_create (Suc j) v2 = (h2, s2)"
    using assms(7) by (simp add: sign_in_new_def case_prod_beta u2_def n1 [symmetric] arc_new_def Let_def)
  have room: "ht_room (xu_handles s1) (Suc 0)"
    using users_invD(2) [OF iv1] assms(2) iss by (simp add: ht_room_def has_room_def)
  have c1: "ht_create (Suc j) (xu_handles s1) = (h2, xu_handles s2)"
    using c by (auto simp: user_handle_create_def split_def Let_def v2_def u2)
  have get: "user_handle_get s2 k = (if k = h2 then Some (Suc j) else user_handle_get s1 k)" for k
    using ht.create_get [OF users_invD(1) [OF iv1] room c1] by (simp add: user_handle_get_def)
  have "user_handle_get s1 h2 = None"
    using ht.create_fresh [OF users_invD(1) [OF iv1] room c1] ht.get_unissued [OF users_invD(1) [OF iv1]]
    by (simp add: user_handle_get_def)
  then have g: "user_handle_get s2 h1 = Some j" "user_handle_get s2 h2 = Some (Suc j)"
    using get h1 by auto
  have "xu_heap s2 = (xu_heap s1)(Suc j := new_user i info)"
    using c by (auto simp: user_handle_create_def split_def Let_def v2_def u2)
  then have "u_user_id (xu_heap s2 j) = i" "u_user_id (xu_heap s2 (Suc j)) = i"
    using f(2) assms(2) by (simp_all add: j_def new_user_def)
  then show ?thesis using g getters(1) [OF g(1)] getters(1) [OF g(2)] by (simp add: XUserCompare_def)
qed

lemma concurrent_sign_ins_duplicate_witness:
  "\<exists>h1 h2 s1 s2. sign_in_new demo_quiet 7 demo_claims demo_listening = Some (h1, s1)
     \<and> sign_in_new demo_quiet 7 demo_claims s1 = Some (h2, s2) \<and> XUserCompare h1 h2 s2 = 1"
proof -
  obtain h1 s1 where a: "sign_in_new demo_quiet 7 demo_claims demo_listening = Some (h1, s1)"
    and l: "\<not> xu_event_lock s1"
    using quiet_fire [OF demo_quiet_quiet]
    by (simp add: sign_in_new_def split_def register_user_def arc_new_def Let_def user_handle_create_def)
  obtain h2 s2 where b: "sign_in_new demo_quiet 7 demo_claims s1 = Some (h2, s2)"
    using quiet_fire [OF demo_quiet_quiet] l
    by (simp add: sign_in_new_def split_def register_user_def arc_new_def Let_def user_handle_create_def)
  from concurrent_sign_ins_duplicate [OF demo_listening_inv _ demo_quiet_quiet _ _ a b]
  have "XUserCompare h1 h2 s2 = 1" by simp
  then show ?thesis using a b by blast
qed

end
