(* ===== verification/XUser_Results.thy ===== *)
theory XUser_Results
  imports XUser_Signing
begin

text \<open>
  The results of unknown size of the user calls: each pair of entry points is an instance of
  the two-call protocol of Pending_Results, and the structures they write are read back the
  way a game reads them, through the pointers and sizes in the header. The last theorem is
  what reusing a block does.
\<close>

section \<open>The pairs\<close>

definition written :: "hresult \<times> u8 list option \<times> nat option \<Rightarrow> hresult \<times> (u8 list \<times> nat) option" where
  "written r = (case r of
     (hr, Some b, Some n) \<Rightarrow> (hr, Some (b, n)) | (hr, _, _) \<Rightarrow> (hr, None))"

lemma written_simps [simp]:
  "written (hr, None, u) = (hr, None)" "written (hr, Some b, Some n) = (hr, Some (b, n))"
  by (simp_all add: written_def split: option.split)

interpretation picture: pending_result xu_pictures
  "\<lambda>key. XUserGetGamerPictureResultSize key False"
  "\<lambda>null key n s. written (XUserGetGamerPictureResult key n null False s)"
  "\<lambda>null. \<not> null" length "\<lambda>null v. (v, length v)"
  by unfold_locales
    (auto simp: XUserGetGamerPictureResultSize_def XUserGetGamerPictureResult_def stored_size_def not_less)

interpretation token: pending_result xu_tokens
  "\<lambda>key. XUserGetTokenAndSignatureResultSize key False"
  "\<lambda>base key n s. written (XUserGetTokenAndSignatureResult key n base False False s)"
  "\<lambda>base. base \<noteq> 0" token_needed "\<lambda>base v. (token_block base v, token_needed v)"
  by unfold_locales
    (auto simp: XUserGetTokenAndSignatureResultSize_def XUserGetTokenAndSignatureResult_def stored_size_def not_less)

interpretation token16: pending_result xu_tokens16
  "\<lambda>key. XUserGetTokenAndSignatureUtf16ResultSize key False"
  "\<lambda>base key n s. written (XUserGetTokenAndSignatureUtf16Result key n base False False s)"
  "\<lambda>base. base \<noteq> 0" units_needed "\<lambda>base v. (units_block base v, units_needed v)"
  by unfold_locales
    (auto simp: XUserGetTokenAndSignatureUtf16ResultSize_def XUserGetTokenAndSignatureUtf16Result_def
      stored_size_def not_less)

interpretation msa: pending_result xu_msa_tokens
  "\<lambda>key. XUserGetMsaTokenSilentlyResultSize key False"
  "\<lambda>null key n s. written (XUserGetMsaTokenSilentlyResult key n null False s)"
  "\<lambda>null. \<not> null" "\<lambda>v. length (fst v) + 1" "\<lambda>null v. (fst v @ [0], length (fst v) + 1)"
  by unfold_locales
    (auto simp: XUserGetMsaTokenSilentlyResultSize_def XUserGetMsaTokenSilentlyResult_def stored_size_def
      Let_def not_less)

section \<open>Reading the buffers\<close>

definition word_at :: "nat \<Rightarrow> u8 list \<Rightarrow> u64" where
  "word_at i buf = le_u64 (take 8 (drop i buf))"

definition c_string_at :: "u64 \<Rightarrow> u8 list \<Rightarrow> u64 \<Rightarrow> ustring" where
  "c_string_at base buf ptr = takeWhile (\<lambda>c. c \<noteq> 0) (drop (unat (ptr - base)) buf)"

lemma header_words:
  "word_at 0 (u64_le a @ u64_le b @ u64_le c @ u64_le d @ rest) = a"
  "word_at 8 (u64_le a @ u64_le b @ u64_le c @ u64_le d @ rest) = b"
  "word_at 16 (u64_le a @ u64_le b @ u64_le c @ u64_le d @ rest) = c"
  "word_at 24 (u64_le a @ u64_le b @ u64_le c @ u64_le d @ rest) = d"
  "drop 32 (u64_le a @ u64_le b @ u64_le c @ u64_le d @ rest) = rest"
  by (simp_all add: word_at_def)

lemma header_drop: "drop (32 + k) (u64_le a @ u64_le b @ u64_le c @ u64_le d @ rest) = drop k rest"
  by (metis add.commute drop_drop header_words(5))

lemma unat_offset: "n < 2 ^ 64 \<Longrightarrow> unat (base + of_nat n - base :: u64) = n"
  by (simp add: unat_of_nat)

lemma takeWhile_terminated: "0 \<notin> set xs \<Longrightarrow> takeWhile (\<lambda>c. c \<noteq> (0 :: u8)) (xs @ 0 # ys) = xs"
  by (induction xs) auto

text \<open>C18: the token buffer is readable. After the size call answered \<open>n\<close>, the result call with
  \<open>n\<close> bytes succeeds and fills exactly them: the sizes in the header count the terminators, and
  the pointers lead to the token and to the signature.\<close>

theorem token_result_readable:
  assumes "XUserGetTokenAndSignatureResultSize key False s = (S_OK, Some n)" "base \<noteq> 0" "n < 2 ^ 64"
    and "xu_tokens s key = Some (Inr (tok, sig))" "0 \<notin> set tok" "0 \<notin> set sig"
  shows "\<exists>buf. XUserGetTokenAndSignatureResult key n base False False s = (S_OK, Some buf, Some n)
     \<and> length buf = n \<and> word_at 0 buf = of_nat (length tok + 1) \<and> word_at 8 buf = of_nat (length sig + 1)
     \<and> c_string_at base buf (word_at 16 buf) = tok \<and> c_string_at base buf (word_at 24 buf) = sig"
proof -
  define buf where "buf = token_block base (tok, sig)"
  have n: "n = token_needed (tok, sig)" and
    w: "written (XUserGetTokenAndSignatureResult key n base False False s) = (S_OK, Some (buf, n))"
    using token.two_calls [OF assms(1,2)] assms(4) by (auto simp: buf_def)
  then have r: "XUserGetTokenAndSignatureResult key n base False False s = (S_OK, Some buf, Some n)"
    by (auto simp: written_def split: prod.splits option.splits)
  have len: "length buf = n" by (simp add: n buf_def token_block_def token_needed_def token_header_size_def Let_def)
  have b: "buf = u64_le (of_nat (length tok + 1)) @ u64_le (of_nat (length sig + 1))
      @ u64_le (base + of_nat 32) @ u64_le (base + of_nat (32 + (length tok + 1)))
      @ tok @ 0 # sig @ 0 # []"
    by (simp add: buf_def token_block_def token_header_size_def Let_def add.assoc)
  have small: "32 + (length tok + 1) < 2 ^ 64"
    using assms(3) by (simp add: n token_needed_def token_header_size_def)
  have h: "word_at 0 buf = of_nat (length tok + 1)" "word_at 8 buf = of_nat (length sig + 1)"
    "word_at 16 buf = base + of_nat 32" "word_at 24 buf = base + of_nat (32 + (length tok + 1))"
    unfolding b by (rule header_words)+
  have "drop (32 + (length tok + 1)) buf = sig @ 0 # []" "drop 32 buf = tok @ 0 # sig @ 0 # []"
    unfolding b header_drop header_words(5) by simp_all
  then have "c_string_at base buf (word_at 24 buf) = sig" "c_string_at base buf (word_at 16 buf) = tok"
    unfolding c_string_at_def h unat_offset [OF small] using unat_offset [of 32 base] assms(5,6)
    by (simp_all add: takeWhile_terminated)
  with r len h show ?thesis by blast
qed

definition demo_tokens :: xusers where
  "demo_tokens = demo_listening\<lparr>xu_tokens := [9 \<mapsto> Inr ([0x54, 0x55], [0x53])],
     xu_tokens16 := [9 \<mapsto> Inr ([0x54, 0x55], [0x53])]\<rparr>"

lemma token_result_readable_witness:
  "\<exists>buf. XUserGetTokenAndSignatureResult 9 37 4096 False False demo_tokens = (S_OK, Some buf, Some 37)
     \<and> c_string_at 4096 buf (word_at 16 buf) = [0x54, 0x55] \<and> c_string_at 4096 buf (word_at 24 buf) = [0x53]"
proof -
  have "XUserGetTokenAndSignatureResultSize 9 False demo_tokens = (S_OK, Some 37)"
    by (simp add: XUserGetTokenAndSignatureResultSize_def stored_size_def demo_tokens_def token_needed_def
        token_header_size_def)
  from token_result_readable [OF this, of 4096 "[0x54, 0x55]" "[0x53]"] show ?thesis
    by (auto simp: demo_tokens_def)
qed

section \<open>UTF-16\<close>

definition units_at :: "u64 \<Rightarrow> u8 list \<Rightarrow> u64 \<Rightarrow> nat \<Rightarrow> u16 list" where
  "units_at base buf ptr k = map (\<lambda>i. le_u16 (take 2 (drop (unat (ptr - base) + 2 * i) buf))) [0..<k]"

lemma length_units_bytes [simp]: "length (units_bytes us) = 2 * length us"
  by (induction us) (simp_all add: units_bytes_def)

lemma units_bytes_nth:
  "i < length us \<Longrightarrow> take 2 (drop (2 * i) (units_bytes us @ rest)) = u16_le (us ! i)"
proof (induction us arbitrary: i)
  case (Cons u us)
  then show ?case by (cases i) (simp_all add: units_bytes_def)
qed simp

lemma units_at_bytes:
  assumes "drop (unat (ptr - base)) buf = units_bytes us @ rest" "k \<le> length us"
  shows "units_at base buf ptr k = take k us"
proof (rule nth_equalityI)
  fix i assume "i < length (units_at base buf ptr k)"
  then have i: "i < k" by (simp add: units_at_def)
  have "drop (unat (ptr - base) + 2 * i) buf = drop (2 * i) (units_bytes us @ rest)"
    by (metis add.commute assms(1) drop_drop)
  then show "units_at base buf ptr k ! i = take k us ! i"
    using i assms(2) units_bytes_nth [of i us rest] by (simp add: units_at_def)
qed (use assms(2) in \<open>simp add: units_at_def\<close>)

text \<open>The UTF-16 variant gives the same text. After the size call answered \<open>n\<close>, the result
  call with \<open>n\<close> bytes succeeds; the counts in the header include the terminators, and the units
  at the two pointers, read back as text, are the token and the signature.\<close>

theorem utf16_token_readable:
  assumes "XUserGetTokenAndSignatureUtf16ResultSize key False s = (S_OK, Some n)" "base \<noteq> 0" "n < 2 ^ 64"
    and "xu_tokens16 s key = Some (Inr (encode_utf8 ts, encode_utf8 gs))"
    and "list_all scalar ts" "list_all scalar gs"
  shows "\<exists>buf k l. XUserGetTokenAndSignatureUtf16Result key n base False False s = (S_OK, Some buf, Some n)
     \<and> length buf = n \<and> word_at 0 buf = of_nat (k + 1) \<and> word_at 8 buf = of_nat (l + 1)
     \<and> from_utf16_lossy (units_at base buf (word_at 16 buf) k) = ts
     \<and> from_utf16_lossy (units_at base buf (word_at 24 buf) l) = gs"
proof -
  define v where "v = (encode_utf8 ts, encode_utf8 gs)"
  define tu where "tu = encode_utf16 ts @ [0]"
  define gu where "gu = encode_utf16 gs @ [0]"
  define buf where "buf = units_block base v"
  have su: "str_utf16 (fst v) = encode_utf16 ts" "str_utf16 (snd v) = encode_utf16 gs"
    using assms(5,6) by (simp_all add: str_utf16_def v_def chars_encode_utf8)
  have n: "n = units_needed v" and
    w: "written (XUserGetTokenAndSignatureUtf16Result key n base False False s) = (S_OK, Some (buf, n))"
    using token16.two_calls [OF assms(1,2)] assms(4) by (auto simp: buf_def v_def)
  then have r: "XUserGetTokenAndSignatureUtf16Result key n base False False s = (S_OK, Some buf, Some n)"
    by (auto simp: written_def split: prod.splits option.splits)
  have b: "buf = u64_le (of_nat (length tu)) @ u64_le (of_nat (length gu)) @ u64_le (base + of_nat 32)
      @ u64_le (base + of_nat (32 + length tu * 2)) @ units_bytes tu @ units_bytes gu"
    by (simp add: buf_def units_block_def su tu_def gu_def token_header_size_def Let_def)
  have nn: "n = 32 + (length tu + length gu) * 2"
    by (simp add: n units_needed_def su tu_def gu_def token_header_size_def)
  have h: "word_at 0 buf = of_nat (length tu)" "word_at 8 buf = of_nat (length gu)"
    "word_at 16 buf = base + of_nat 32" "word_at 24 buf = base + of_nat (32 + length tu * 2)"
    unfolding b by (rule header_words)+
  have small: "32 + length tu * 2 < 2 ^ 64" using assms(3) nn by simp
  have d1: "drop (unat (word_at 16 buf - base)) buf = units_bytes tu @ units_bytes gu"
    unfolding h using unat_offset [of 32 base] by (simp add: b header_words(5))
  have d2: "drop (unat (word_at 24 buf - base)) buf = units_bytes gu @ []"
    unfolding h unat_offset [OF small] unfolding b header_drop by simp
  have "units_at base buf (word_at 16 buf) (length (encode_utf16 ts)) = encode_utf16 ts"
    using units_at_bytes [OF d1] by (simp add: tu_def)
  moreover have "units_at base buf (word_at 24 buf) (length (encode_utf16 gs)) = encode_utf16 gs"
    using units_at_bytes [OF d2] by (simp add: gu_def)
  moreover have "length buf = n" by (simp add: b nn)
  ultimately show ?thesis
    using r h(1,2) assms(5,6)
    by (intro exI [where x = buf] exI [where x = "length (encode_utf16 ts)"]
        exI [where x = "length (encode_utf16 gs)"]) (simp add: tu_def gu_def from_encode_utf16)
qed

lemma utf16_token_readable_witness:
  "\<exists>buf k. XUserGetTokenAndSignatureUtf16Result 9 42 4096 False False demo_tokens = (S_OK, Some buf, Some 42)
     \<and> from_utf16_lossy (units_at 4096 buf (word_at 16 buf) k) = [0x54, 0x55]"
proof -
  have "XUserGetTokenAndSignatureUtf16ResultSize 9 False demo_tokens = (S_OK, Some 42)"
    by (simp add: XUserGetTokenAndSignatureUtf16ResultSize_def stored_size_def demo_tokens_def
        units_needed_def token_header_size_def str_utf16_def encode_utf16_def utf16_units_def)
  from utf16_token_readable [OF this, of 4096 "[0x54, 0x55]" "[0x53]"] show ?thesis
    by (auto simp: demo_tokens_def encode_utf8_def utf8_bytes_def scalar_def)
qed

section \<open>Reusing a block\<close>

text \<open>A stored result outlives its call. When a game starts a second token call on the block
  of a finished one, the two result calls answer for the first call, with \<open>S_OK\<close>, until the
  worker of the second has run; only then do they answer for the second.\<close>

theorem reused_block_answers_old:
  assumes "user_handle_get s user = Some p" "xu_tokens s key = Some (Inr old)" "base \<noteq> 0"
    and "XUserGetTokenAndSignatureAsync user (Some m) (Some url) (Some body) key S_OK s = (hr, s1)" "key \<noteq> 0"
    and "get_token_and_signature (ue_ipc env) m url body (xu_net s1) = (r, n)"
    and "run_user_work env (last (xu_works s1)) s1 = Some (out, s2)"
  shows "hr = S_OK \<and> XUserGetTokenAndSignatureResultSize key False s1 = (S_OK, Some (token_needed old))
     \<and> written (XUserGetTokenAndSignatureResult key (token_needed old) base False False s1)
         = (S_OK, Some (token_block base old, token_needed old))
     \<and> xu_tokens s2 key = Some r"
proof -
  have s1: "s1 = s\<lparr>xu_works := xu_works s @ [WorkToken key m url body]\<rparr>" and hr: "hr = S_OK"
    using assms(1,4,5) by (simp_all add: XUserGetTokenAndSignatureAsync_def start_work_def run_sync_start_def)
  have "xu_tokens s1 key = Some (Inr old)" using assms(2) by (simp add: s1)
  moreover have "xu_tokens s2 key = Some r"
    using assms(6,7) by (auto simp: s1 run_user_work_def net_work_defs with_net_def Let_def)
  ultimately show ?thesis using hr token.size_ready token.result_ready [of s1 key old] assms(3) by simp
qed

lemma reused_block_answers_old_witness:
  defines "s \<equiv> demo_signed_out\<lparr>xu_tokens := [9 \<mapsto> Inr ([0x4f], [0x4f])]\<rparr>"
  shows "let s1 = snd (XUserGetTokenAndSignatureAsync 1 (Some []) (Some []) (Some []) 9 S_OK s)
     in XUserGetTokenAndSignatureResultSize 9 False s1 = (S_OK, Some 36)
        \<and> (\<exists>out s2. run_user_work demo_quiet (WorkToken 9 [] [] []) s1 = Some (out, s2)
              \<and> xu_tokens s2 9 = Some (Inr ([0x54], [0x53])))"
proof -
  define s1 where "s1 = snd (XUserGetTokenAndSignatureAsync 1 (Some []) (Some []) (Some []) 9 S_OK s)"
  have h: "user_handle_get s 1 = Some 0"
    using demo_selectors(15) by (simp add: s_def user_handle_get_def)
  have l: "last (xu_works s1) = WorkToken 9 [] [] []"
    using h by (simp add: s1_def XUserGetTokenAndSignatureAsync_def start_work_def run_sync_start_def)
  have t: "get_token_and_signature (ue_ipc demo_quiet) [] [] [] (xu_net s1) = (Inr ([0x54], [0x53]), xu_net s1)"
    by (simp add: demo_token)
  obtain out s2 where w: "run_user_work demo_quiet (last (xu_works s1)) s1 = Some (out, s2)"
    unfolding l by (simp add: run_user_work_def net_work_defs with_net_def Let_def split_def)
  have o: "xu_tokens s 9 = Some (Inr ([0x4f], [0x4f]))" by (simp add: s_def)
  have c: "XUserGetTokenAndSignatureAsync 1 (Some []) (Some []) (Some []) 9 S_OK s
      = (fst (XUserGetTokenAndSignatureAsync 1 (Some []) (Some []) (Some []) 9 S_OK s), s1)" by (simp add: s1_def)
  have "XUserGetTokenAndSignatureResultSize 9 False s1 = (S_OK, Some 36)" "xu_tokens s2 9 = Some (Inr ([0x54], [0x53]))"
    using reused_block_answers_old [OF h o _ c _ t w, of 1] by (simp_all add: token_needed_def token_header_size_def)
  then show ?thesis using w [unfolded l] unfolding Let_def s1_def [symmetric] by blast
qed

end
