(* ===== verification/XStore.thy ===== *)
theory XStore
  imports Ipc Pending_Results Handle_Table
begin

text \<open>
  XStore (\<open>src/src/com/xstore.rs\<close>): the game license, product queries and their handles, the
  opaque tokens, and the license-change registrations that are never called. The entry points
  that only report \<open>E_NOTIMPL\<close> or do nothing are not restated. A C string argument is its text
  after the lossy conversion, \<open>None\<close> when null.

  \<open>f32\<close> is a parameter: prices are values of a type \<open>'f\<close> with a comparison, a zero and the text
  of \<open>{:.2}\<close>. The catalog entries of the service are the records the source reads, field by
  field. A product's C strings are their bytes: a string with a NUL inside becomes empty
  (\<open>CString::new(..).unwrap_or_default()\<close>). The closures given to \<open>run_sync\<close> are \<open>store_work\<close>.
\<close>

section \<open>Data\<close>

definition STORE_SKU_ID_SIZE :: nat where "STORE_SKU_ID_SIZE = 18"
definition TRIAL_UNIQUE_ID_MAX_SIZE :: nat where "TRIAL_UNIQUE_ID_MAX_SIZE = 64"

record XStoreGameLicense =
  gl_sku :: "u8 list"
  gl_active :: bool
  gl_trial_owned :: bool
  gl_disc :: bool
  gl_trial :: bool
  gl_trial_seconds :: u32
  gl_trial_id :: "u8 list"
  gl_expiration :: int

definition license_default :: XStoreGameLicense where
  "license_default = \<lparr>gl_sku = replicate STORE_SKU_ID_SIZE 0, gl_active = False,
     gl_trial_owned = False, gl_disc = False, gl_trial = False, gl_trial_seconds = 0,
     gl_trial_id = replicate TRIAL_UNIQUE_ID_MAX_SIZE 0, gl_expiration = 0\<rparr>"

record 'f f32_ops =
  f_less :: "'f \<Rightarrow> 'f \<Rightarrow> bool"
  f_zero :: 'f
  f_text :: "'f \<Rightarrow> ustring"

record 'f catalog_entry =
  ce_store_id :: ustring
  ce_title :: ustring
  ce_kind :: ustring
  ce_currency :: ustring
  ce_base_price :: 'f
  ce_price :: 'f
  ce_recurrence_price :: 'f
  ce_sale_end :: int

record entitled_product =
  ep_store_id :: ustring
  ep_title :: ustring
  ep_kind :: ustring

record 'f XStorePrice =
  pr_base :: 'f
  pr_price :: 'f
  pr_recurrence :: 'f
  pr_currency :: ustring
  pr_formatted_base :: "u8 list"
  pr_formatted :: "u8 list"
  pr_formatted_recurrence :: "u8 list"
  pr_on_sale :: bool
  pr_sale_end :: int

record 'f XStoreProduct =
  sp_store_id :: ustring
  sp_title :: ustring
  sp_kind :: u32
  sp_price :: "'f XStorePrice"
  sp_digital :: bool
  sp_in_collection :: bool

datatype store_work =
    WorkGameLicense
  | WorkEntitled
  | WorkProducts "ustring list"
  | WorkAssociated u32
  | WorkCollectionsId u64 ustring ustring
  | WorkPurchaseId u64 ustring ustring
  | WorkLicenseToken u64 "ustring list" ustring

record 'f xstore =
  xs_queries :: "'f XStoreProduct list htable"
  xs_change_tokens :: u64
  xs_collections :: "ustring pending"
  xs_purchases :: "ustring pending"
  xs_licenses :: "ustring pending"
  xs_net :: net
  xs_works :: "store_work list"

record 'f store_env =
  se_ipc :: "(entitled_product, 'f catalog_entry) ipc_env"
  se_f32 :: "'f f32_ops"

section \<open>The game license\<close>

definition build_full_game_license :: XStoreGameLicense where
  "build_full_game_license = license_default\<lparr>gl_active := True, gl_trial_owned := False,
     gl_disc := False, gl_trial := False, gl_trial_seconds := 0, gl_expiration := 0\<rparr>"

definition net_call :: "(net \<Rightarrow> 'r \<times> net) \<Rightarrow> ('f, 'z) xstore_scheme \<Rightarrow> 'r \<times> ('f, 'z) xstore_scheme" where
  "net_call f s = (let (r, n) = f (xs_net s) in (r, s\<lparr>xs_net := n\<rparr>))"

definition query_game_license ::
  "'f store_env \<Rightarrow> ('f, 'z) xstore_scheme \<Rightarrow> XStoreGameLicense \<times> ('f, 'z) xstore_scheme" where
  "query_game_license env s =
     (case net_call (get_game_license (se_ipc env)) s of
        (Inr (is_active, expiration_date), s1) \<Rightarrow>
          (license_default\<lparr>gl_active := is_active, gl_expiration := expiration_date\<rparr>, s1)
      | (Inl e, s1) \<Rightarrow> (build_full_game_license, s1))"

section \<open>Products\<close>

definition c_string :: "ustring \<Rightarrow> ustring" where
  "c_string s = (if 0 \<in> set s then [] else s)"

definition ascii_lower :: "u8 \<Rightarrow> u8" where
  "ascii_lower c = (if 65 \<le> unat c \<and> unat c \<le> 90 then c + 32 else c)"

definition eq_ignore_case :: "ustring \<Rightarrow> ustring \<Rightarrow> bool" where
  "eq_ignore_case a b \<longleftrightarrow> map ascii_lower a = map ascii_lower b"

definition product_kinds :: "(string \<times> u32) list" where
  "product_kinds = [(''Consumable'', 0x01), (''Durable'', 0x02), (''Game'', 0x04), (''Pass'', 0x08),
     (''UnmanagedConsumable'', 0x10)]"

definition product_kind_flag :: "ustring \<Rightarrow> u32" where
  "product_kind_flag kind =
     (case find (\<lambda>(name, flag). eq_ignore_case kind (utf8 name)) product_kinds of
        None \<Rightarrow> 0 | Some (name, flag) \<Rightarrow> flag)"

definition price_text :: "'f f32_ops \<Rightarrow> 'f \<Rightarrow> ustring \<Rightarrow> ustring" where
  "price_text fo amount currency_code =
     (if currency_code = [] then []
      else if currency_code = utf8 ''USD'' then 0x24 # f_text fo amount
      else f_text fo amount @ 0x20 # currency_code)"

text \<open>The sixteen bytes of a formatted price.\<close>

definition format_price :: "'f f32_ops \<Rightarrow> 'f \<Rightarrow> ustring \<Rightarrow> u8 list" where
  "format_price fo amount currency_code =
     (let t = take 15 (price_text fo amount currency_code) in t @ replicate (16 - length t) 0)"

definition store_price :: "'f f32_ops \<Rightarrow> 'f catalog_entry \<Rightarrow> ustring \<Rightarrow> 'f XStorePrice" where
  "store_price fo e currency_code =
     \<lparr>pr_base = ce_base_price e, pr_price = ce_price e, pr_recurrence = ce_recurrence_price e,
      pr_currency = currency_code,
      pr_formatted_base = format_price fo (ce_base_price e) (ce_currency e),
      pr_formatted = format_price fo (ce_price e) (ce_currency e),
      pr_formatted_recurrence = format_price fo (ce_recurrence_price e) (ce_currency e),
      pr_on_sale = f_less fo (ce_price e) (ce_base_price e),
      pr_sale_end = ce_sale_end e\<rparr>"

definition price_default :: "'f f32_ops \<Rightarrow> 'f XStorePrice" where
  "price_default fo = \<lparr>pr_base = f_zero fo, pr_price = f_zero fo, pr_recurrence = f_zero fo,
     pr_currency = [], pr_formatted_base = replicate 16 0, pr_formatted = replicate 16 0,
     pr_formatted_recurrence = replicate 16 0, pr_on_sale = False, pr_sale_end = 0\<rparr>"

definition entitled_entry :: "'f f32_ops \<Rightarrow> entitled_product \<Rightarrow> 'f XStoreProduct" where
  "entitled_entry fo e =
     \<lparr>sp_store_id = c_string (ep_store_id e), sp_title = c_string (ep_title e),
      sp_kind = product_kind_flag (ep_kind e), sp_price = price_default fo,
      sp_digital = True, sp_in_collection = True\<rparr>"

definition catalog_product :: "'f f32_ops \<Rightarrow> 'f catalog_entry \<Rightarrow> 'f XStoreProduct" where
  "catalog_product fo e =
     \<lparr>sp_store_id = c_string (ce_store_id e), sp_title = c_string (ce_title e),
      sp_kind = product_kind_flag (ce_kind e), sp_price = store_price fo e (c_string (ce_currency e)),
      sp_digital = True, sp_in_collection = False\<rparr>"

definition create_query ::
  "'f XStoreProduct list \<Rightarrow> ('f, 'z) xstore_scheme \<Rightarrow> u64 \<times> ('f, 'z) xstore_scheme" where
  "create_query entries s = (let (h, t) = ht_create entries (xs_queries s) in (h, s\<lparr>xs_queries := t\<rparr>))"

definition or_empty :: "'a list outcome \<Rightarrow> 'a list" where
  "or_empty r = (case r of Inl e \<Rightarrow> [] | Inr xs \<Rightarrow> xs)"

definition query_entitled_products ::
  "'f store_env \<Rightarrow> ('f, 'z) xstore_scheme \<Rightarrow> u64 \<times> ('f, 'z) xstore_scheme" where
  "query_entitled_products env s =
     (let (r, s1) = net_call (get_entitled_products (se_ipc env) (store_market (se_ipc env))) s
      in create_query (map (entitled_entry (se_f32 env)) (or_empty r)) s1)"

definition build_product_query ::
  "'f store_env \<Rightarrow> 'f catalog_entry list \<Rightarrow> ('f, 'z) xstore_scheme \<Rightarrow> u64 \<times> ('f, 'z) xstore_scheme" where
  "build_product_query env products s = create_query (map (catalog_product (se_f32 env)) products) s"

definition query_associated_products ::
  "'f store_env \<Rightarrow> u32 \<Rightarrow> ('f, 'z) xstore_scheme \<Rightarrow> u64 \<times> ('f, 'z) xstore_scheme" where
  "query_associated_products env max_items s =
     (let (r, s1) = net_call (get_associated_products (se_ipc env) 0) s
      in build_product_query env (or_empty r) s1)"

definition query_products ::
  "'f store_env \<Rightarrow> ustring list \<Rightarrow> ('f, 'z) xstore_scheme \<Rightarrow> u64 \<times> ('f, 'z) xstore_scheme" where
  "query_products env store_ids s =
     (let (r, s1) = net_call (get_products (se_ipc env) store_ids) s
      in build_product_query env (or_empty r) s1)"

text \<open>A \<open>char**\<close> argument: \<open>None\<close> when null, and so are its null elements.\<close>

definition read_string_array :: "ustring option list option \<Rightarrow> ustring list" where
  "read_string_array a = (case a of None \<Rightarrow> [] | Some es \<Rightarrow> List.map_filter id es)"

definition c_string_or_empty :: "ustring option \<Rightarrow> ustring" where
  "c_string_or_empty p = (case p of None \<Rightarrow> [] | Some s \<Rightarrow> s)"

section \<open>Opaque results\<close>

definition opaque_result_size :: "ustring pending \<Rightarrow> u64 \<Rightarrow> bool \<Rightarrow> hresult \<times> nat option" where
  "opaque_result_size results key null =
     (if null then (E_POINTER, None)
      else case results key of
        Some (Inr v) \<Rightarrow> (S_OK, Some (length v + 1))
      | Some (Inl hr) \<Rightarrow> (hr, None)
      | None \<Rightarrow> (E_ILLEGAL_METHOD_CALL, None))"

definition opaque_result :: "ustring pending \<Rightarrow> u64 \<Rightarrow> nat \<Rightarrow> bool \<Rightarrow> hresult \<times> u8 list option" where
  "opaque_result results key buffer_size result_null =
     (case results key of
        Some (Inr v) \<Rightarrow>
          if length v + 1 > buffer_size then (E_NOT_SUFFICIENT_BUFFER, None)
          else if result_null then (E_POINTER, None)
          else (S_OK, Some (v @ [0]))
      | Some (Inl hr) \<Rightarrow> (hr, None)
      | None \<Rightarrow> (E_ILLEGAL_METHOD_CALL, None))"

interpretation opaque: pending_result "\<lambda>m :: ustring pending. m"
  "\<lambda>key m. opaque_result_size m key False" "\<lambda>null key n m. opaque_result m key n null"
  "\<lambda>null. \<not> null" "\<lambda>v. length v + 1" "\<lambda>null v. v @ [0]"
  by unfold_locales (auto simp: opaque_result_size_def opaque_result_def not_less)

section \<open>The bodies of the asynchronous calls\<close>

datatype store_value = ValueLicense XStoreGameLicense | ValueHandle u64 | ValueNone

definition store_opaque_result ::
  "u64 \<Rightarrow> ustring outcome \<Rightarrow> ustring pending \<Rightarrow> store_value outcome \<times> ustring pending" where
  "store_opaque_result key r results = (map_sum id (\<lambda>_. ValueNone) r, pending_insert key r results)"

definition work_collections_id ::
  "'f store_env \<Rightarrow> u64 \<Rightarrow> ustring \<Rightarrow> ustring \<Rightarrow> ('f, 'z) xstore_scheme \<Rightarrow>
     store_value outcome \<times> ('f, 'z) xstore_scheme" where
  "work_collections_id env key service_ticket publisher_user_id s =
     (let (r, s1) = net_call (get_user_collections_id (se_ipc env) service_ticket publisher_user_id) s;
          (v, t) = store_opaque_result key r (xs_collections s1)
      in (v, s1\<lparr>xs_collections := t\<rparr>))"

definition work_purchase_id ::
  "'f store_env \<Rightarrow> u64 \<Rightarrow> ustring \<Rightarrow> ustring \<Rightarrow> ('f, 'z) xstore_scheme \<Rightarrow>
     store_value outcome \<times> ('f, 'z) xstore_scheme" where
  "work_purchase_id env key service_ticket publisher_user_id s =
     (let (r, s1) = net_call (get_user_purchase_id (se_ipc env) service_ticket publisher_user_id) s;
          (v, t) = store_opaque_result key r (xs_purchases s1)
      in (v, s1\<lparr>xs_purchases := t\<rparr>))"

definition work_license_token ::
  "'f store_env \<Rightarrow> u64 \<Rightarrow> ustring list \<Rightarrow> ustring \<Rightarrow> ('f, 'z) xstore_scheme \<Rightarrow>
     store_value outcome \<times> ('f, 'z) xstore_scheme" where
  "work_license_token env key product_ids custom s =
     (let (r, s1) = net_call (get_license_token (se_ipc env) product_ids custom) s;
          (v, t) = store_opaque_result key r (xs_licenses s1)
      in (v, s1\<lparr>xs_licenses := t\<rparr>))"

definition run_store_work ::
  "'f store_env \<Rightarrow> store_work \<Rightarrow> ('f, 'z) xstore_scheme \<Rightarrow> store_value outcome \<times> ('f, 'z) xstore_scheme"
where
  "run_store_work env w s =
     (case w of
        WorkGameLicense \<Rightarrow> map_prod (Inr \<circ> ValueLicense) id (query_game_license env s)
      | WorkEntitled \<Rightarrow> map_prod (Inr \<circ> ValueHandle) id (query_entitled_products env s)
      | WorkProducts ids \<Rightarrow> map_prod (Inr \<circ> ValueHandle) id (query_products env ids s)
      | WorkAssociated k \<Rightarrow> map_prod (Inr \<circ> ValueHandle) id (query_associated_products env k s)
      | WorkCollectionsId key ticket user \<Rightarrow> work_collections_id env key ticket user s
      | WorkPurchaseId key ticket user \<Rightarrow> work_purchase_id env key ticket user s
      | WorkLicenseToken key ids custom \<Rightarrow> work_license_token env key ids custom s)"

section \<open>Entry points\<close>

definition XStoreCreateContext :: "hresult \<times> u64" where
  "XStoreCreateContext = (0, 1)"

text \<open>As in XUser: the closure is filed for a worker when the engine took the block.\<close>

definition start_store ::
  "u64 \<Rightarrow> u64 \<Rightarrow> hresult \<Rightarrow> store_work \<Rightarrow> ('f, 'z) xstore_scheme \<Rightarrow> hresult \<times> ('f, 'z) xstore_scheme"
where
  "start_store context block begun w s =
     (if context = 0 then (E_POINTER, s)
      else case run_sync_start block begun of
        (hr, True) \<Rightarrow> (hr, s\<lparr>xs_works := xs_works s @ [w]\<rparr>)
      | (hr, False) \<Rightarrow> (hr, s))"

definition XStoreQueryGameLicenseAsync ::
  "u64 \<Rightarrow> u64 \<Rightarrow> hresult \<Rightarrow> ('f, 'z) xstore_scheme \<Rightarrow> hresult \<times> ('f, 'z) xstore_scheme" where
  "XStoreQueryGameLicenseAsync context block begun s = start_store context block begun WorkGameLicense s"

definition XStoreQueryEntitledProductsAsync ::
  "u64 \<Rightarrow> u64 \<Rightarrow> hresult \<Rightarrow> ('f, 'z) xstore_scheme \<Rightarrow> hresult \<times> ('f, 'z) xstore_scheme" where
  "XStoreQueryEntitledProductsAsync context block begun s = start_store context block begun WorkEntitled s"

definition XStoreQueryProductsAsync ::
  "u64 \<Rightarrow> ustring option list option \<Rightarrow> u64 \<Rightarrow> hresult \<Rightarrow> ('f, 'z) xstore_scheme \<Rightarrow>
     hresult \<times> ('f, 'z) xstore_scheme" where
  "XStoreQueryProductsAsync context store_ids block begun s =
     start_store context block begun (WorkProducts (read_string_array store_ids)) s"

definition XStoreQueryAssociatedProductsAsync ::
  "u64 \<Rightarrow> u32 \<Rightarrow> u64 \<Rightarrow> hresult \<Rightarrow> ('f, 'z) xstore_scheme \<Rightarrow> hresult \<times> ('f, 'z) xstore_scheme" where
  "XStoreQueryAssociatedProductsAsync context max_items block begun s =
     start_store context block begun (WorkAssociated max_items) s"

definition XStoreGetUserCollectionsIdAsync ::
  "u64 \<Rightarrow> ustring option \<Rightarrow> ustring option \<Rightarrow> u64 \<Rightarrow> hresult \<Rightarrow>
     ('f, 'z) xstore_scheme \<Rightarrow> hresult \<times> ('f, 'z) xstore_scheme"
where
  "XStoreGetUserCollectionsIdAsync context ticket user block begun s =
     start_store context block begun
       (WorkCollectionsId block (c_string_or_empty ticket) (c_string_or_empty user)) s"

definition XStoreGetUserPurchaseIdAsync ::
  "u64 \<Rightarrow> ustring option \<Rightarrow> ustring option \<Rightarrow> u64 \<Rightarrow> hresult \<Rightarrow>
     ('f, 'z) xstore_scheme \<Rightarrow> hresult \<times> ('f, 'z) xstore_scheme"
where
  "XStoreGetUserPurchaseIdAsync context ticket user block begun s =
     start_store context block begun
       (WorkPurchaseId block (c_string_or_empty ticket) (c_string_or_empty user)) s"

definition XStoreQueryLicenseTokenAsync ::
  "u64 \<Rightarrow> ustring option list option \<Rightarrow> ustring option \<Rightarrow> u64 \<Rightarrow> hresult \<Rightarrow> ('f, 'z) xstore_scheme \<Rightarrow>
     hresult \<times> ('f, 'z) xstore_scheme" where
  "XStoreQueryLicenseTokenAsync context product_ids custom block begun s =
     start_store context block begun (WorkLicenseToken block
       (case product_ids of None \<Rightarrow> [] | Some ps \<Rightarrow> map c_string_or_empty ps) (c_string_or_empty custom)) s"

definition XStoreRegisterGameLicenseChanged ::
  "u64 \<Rightarrow> bool \<Rightarrow> bool \<Rightarrow> ('f, 'z) xstore_scheme \<Rightarrow> hresult \<times> u64 option \<times> ('f, 'z) xstore_scheme" where
  "XStoreRegisterGameLicenseChanged context callback_null token_null s =
     (if context = 0 \<or> callback_null \<or> token_null then (E_POINTER, None, s)
      else (S_OK, Some (xs_change_tokens s), s\<lparr>xs_change_tokens := xs_change_tokens s + 1\<rparr>))"

definition XStoreUnregisterGameLicenseChanged :: "u64 \<Rightarrow> ('f, 'z) xstore_scheme \<Rightarrow> bool" where
  "XStoreUnregisterGameLicenseChanged token s =
     (if token = 0 \<or> unat token \<ge> unat (xs_change_tokens s) then False else True)"

type_synonym ('f, 'z) product_callback =
  "'f XStoreProduct \<Rightarrow> ('f, 'z) xstore_scheme \<Rightarrow> u8 \<times> ('f, 'z) xstore_scheme"

fun enumerate_entries ::
  "('f, 'z) product_callback \<Rightarrow> 'f XStoreProduct list \<Rightarrow> ('f, 'z) xstore_scheme \<Rightarrow> ('f, 'z) xstore_scheme" where
  "enumerate_entries cb [] s = s"
| "enumerate_entries cb (e # es) s =
     (case cb e s of (keep_going, s1) \<Rightarrow> if keep_going = 0 then s1 else enumerate_entries cb es s1)"

definition XStoreEnumerateProductsQuery ::
  "u64 \<Rightarrow> ('f, 'z) product_callback option \<Rightarrow> ('f, 'z) xstore_scheme \<Rightarrow> hresult \<times> ('f, 'z) xstore_scheme" where
  "XStoreEnumerateProductsQuery handle callback s =
     (case callback of
        None \<Rightarrow> (E_POINTER, s)
      | Some cb \<Rightarrow>
          (case ht_get (xs_queries s) handle of
             None \<Rightarrow> (E_INVALIDARG, s)
           | Some entries \<Rightarrow> (S_OK, enumerate_entries cb entries s)))"

definition XStoreProductsQueryHasMorePages :: "u64 \<Rightarrow> bool" where
  "XStoreProductsQueryHasMorePages handle = False"

definition XStoreCloseProductsQueryHandle :: "u64 \<Rightarrow> ('f, 'z) xstore_scheme \<Rightarrow> ('f, 'z) xstore_scheme" where
  "XStoreCloseProductsQueryHandle h s = s\<lparr>xs_queries := ht_close h (xs_queries s)\<rparr>"

definition XStoreGetUserCollectionsIdResultSize :: "u64 \<Rightarrow> bool \<Rightarrow> ('f, 'z) xstore_scheme \<Rightarrow> hresult \<times> nat option" where
  "XStoreGetUserCollectionsIdResultSize key null s = opaque_result_size (xs_collections s) key null"

definition XStoreGetUserCollectionsIdResult ::
  "u64 \<Rightarrow> nat \<Rightarrow> bool \<Rightarrow> ('f, 'z) xstore_scheme \<Rightarrow> hresult \<times> u8 list option" where
  "XStoreGetUserCollectionsIdResult key buffer_size result_null s =
     opaque_result (xs_collections s) key buffer_size result_null"

definition XStoreGetUserPurchaseIdResultSize :: "u64 \<Rightarrow> bool \<Rightarrow> ('f, 'z) xstore_scheme \<Rightarrow> hresult \<times> nat option" where
  "XStoreGetUserPurchaseIdResultSize key null s = opaque_result_size (xs_purchases s) key null"

definition XStoreGetUserPurchaseIdResult ::
  "u64 \<Rightarrow> nat \<Rightarrow> bool \<Rightarrow> ('f, 'z) xstore_scheme \<Rightarrow> hresult \<times> u8 list option" where
  "XStoreGetUserPurchaseIdResult key buffer_size result_null s =
     opaque_result (xs_purchases s) key buffer_size result_null"

definition XStoreQueryLicenseTokenResultSize :: "u64 \<Rightarrow> bool \<Rightarrow> ('f, 'z) xstore_scheme \<Rightarrow> hresult \<times> nat option" where
  "XStoreQueryLicenseTokenResultSize key null s = opaque_result_size (xs_licenses s) key null"

definition XStoreQueryLicenseTokenResult ::
  "u64 \<Rightarrow> nat \<Rightarrow> bool \<Rightarrow> ('f, 'z) xstore_scheme \<Rightarrow> hresult \<times> u8 list option" where
  "XStoreQueryLicenseTokenResult key buffer_size result_null s =
     opaque_result (xs_licenses s) key buffer_size result_null"

end
