(* ===== verification/XStore_Props.thy ===== *)
theory XStore_Props
  imports XStore
begin

text \<open>
  What the store promises: product queries show the catalog they were made from, in order and
  for as long as their handle is open; enumeration is a walk over a prefix of it; prices are
  rendered into sixteen terminated bytes; opaque tokens reach the caller whole; the license
  answer and the license-change tokens.
\<close>

section \<open>A small store\<close>

definition demo_entry :: "int catalog_entry" where
  "demo_entry = \<lparr>ce_store_id = utf8 ''9N'', ce_title = utf8 ''Realms'', ce_kind = utf8 ''Durable'',
     ce_currency = utf8 ''EUR'', ce_base_price = 8, ce_price = 7, ce_recurrence_price = 7, ce_sale_end = 0\<rparr>"

definition demo_f32 :: "int f32_ops" where
  "demo_f32 = \<lparr>f_less = (<), f_zero = 0, f_text = (\<lambda>x. utf8 ''7.99'')\<rparr>"

text \<open>A service behind the Unix library that answers every request with the next type.\<close>

definition demo_store_ipc :: "(entitled_product, int catalog_entry) ipc_env" where
  "demo_store_ipc = \<lparr>var = (\<lambda>_. None), title_client_id = [], title_id = [], store_market = [],
     to_xml = (\<lambda>_. Some []), de_msa = (\<lambda>_. None), de_xsts = (\<lambda>_. None), de_user = (\<lambda>_. None),
     de_sign_in = (\<lambda>_. None), de_license = (\<lambda>_. None), de_entitled = (\<lambda>_. None),
     de_key = (\<lambda>_. Some [0x4b]), de_catalog = (\<lambda>_. Some [demo_entry]),
     unix_exchange = Some (\<lambda>_ m _ _ n. ((0, ucast m + 1, 0, 0), n)),
     unix_fetch = (\<lambda>_ _ _ n. ((0, []), n)), unix_handle = 1\<rparr>"

definition demo_store_env :: "int store_env" where
  "demo_store_env = \<lparr>se_ipc = demo_store_ipc, se_f32 = demo_f32\<rparr>"

definition demo_store :: "int xstore" where
  "demo_store = \<lparr>xs_queries = ht_new, xs_change_tokens = 1, xs_collections = Map.empty,
     xs_purchases = Map.empty, xs_licenses = Map.empty,
     xs_net = \<lparr>nt_attempts = [], nt_log = [], nt_sleeps = 0, nt_unix = no_unix\<rparr>, xs_works = []\<rparr>"

lemma demo_products: "get_products (se_ipc demo_store_env) ids n = (Inr [demo_entry], n)"
  by (simp add: get_products_def exchange_def exchange_with_timeout_def request_with_timeout_def
      unix_request_def demo_store_ipc_def demo_store_env_def)

lemma demo_collections:
  "get_user_collections_id (se_ipc demo_store_env) t u n = (Inr [0x4b], n)"
  by (simp add: get_user_collections_id_def and_then_def non_empty_store_key_def exchange_def
      exchange_with_timeout_def request_with_timeout_def unix_request_def demo_store_ipc_def
      demo_store_env_def)

lemma demo_queries: "ht_inv (xs_queries demo_store)" "ht_room (xs_queries demo_store) (Suc 0)"
  "xs_net (demo_store) = \<lparr>nt_attempts = [], nt_log = [], nt_sleeps = 0, nt_unix = no_unix\<rparr>" "xs_works demo_store = []"
  "xs_change_tokens demo_store = 1"
  by (simp_all add: demo_store_def ht_room_def has_room_def ht_new_def ht_inv_def)

section \<open>Enumeration\<close>

text \<open>The walk over all of a list of products.\<close>

definition walk ::
  "('f, 'z) product_callback \<Rightarrow> 'f XStoreProduct list \<Rightarrow> ('f, 'z) xstore_scheme \<Rightarrow> ('f, 'z) xstore_scheme" where
  "walk cb es s = fold (\<lambda>e t. snd (cb e t)) es s"

lemma walk_simps [simp]: "walk cb [] s = s" "walk cb (e # es) s = walk cb es (snd (cb e s))"
  by (simp_all add: walk_def)

definition answer_at ::
  "('f, 'z) product_callback \<Rightarrow> 'f XStoreProduct list \<Rightarrow> nat \<Rightarrow> ('f, 'z) xstore_scheme \<Rightarrow> u8" where
  "answer_at cb es i s = fst (cb (es ! i) (walk cb (take i es) s))"

lemma answer_at_simps [simp]:
  "answer_at cb (e # es) 0 s = fst (cb e s)"
  "answer_at cb (e # es) (Suc i) s = answer_at cb es i (snd (cb e s))"
  by (simp_all add: answer_at_def)

lemma enumerate_prefix:
  "\<exists>n. enumerate_entries cb es s = walk cb (take n es) s \<and> n \<le> length es
     \<and> (\<forall>i. Suc i < n \<longrightarrow> answer_at cb es i s \<noteq> 0)
     \<and> (n < length es \<longrightarrow> 0 < n \<and> answer_at cb es (n - 1) s = 0)"
proof (induction es arbitrary: s)
  case (Cons e es)
  show ?case
  proof (cases "fst (cb e s) = 0")
    case True
    then show ?thesis by (intro exI [of _ "Suc 0"]) (simp add: case_prod_beta)
  next
    case False
    obtain n where n: "enumerate_entries cb es (snd (cb e s)) = walk cb (take n es) (snd (cb e s))"
      "n \<le> length es" "\<forall>i. Suc i < n \<longrightarrow> answer_at cb es i (snd (cb e s)) \<noteq> 0"
      "n < length es \<longrightarrow> 0 < n \<and> answer_at cb es (n - 1) (snd (cb e s)) = 0"
      using Cons.IH by blast
    have "answer_at cb (e # es) i s \<noteq> 0" if "Suc i < Suc n" for i
      using that n(3) False by (cases i) auto
    moreover have "answer_at cb (e # es) n s = 0" if "n < length es"
      using that n(4) by (cases n) auto
    ultimately show ?thesis
      using False n(1,2) by (intro exI [of _ "Suc n"]) (simp add: case_prod_beta)
  qed
qed simp

text \<open>\<open>XStoreEnumerateProductsQuery\<close> is a walk over a prefix of the products the query held when
  it was called: each is shown once, in order, until the callback answers 0, whatever the
  callback does to the state in between, closing this very query included.\<close>

theorem enumeration_walks_prefix:
  assumes "ht_get (xs_queries s) handle = Some es"
  shows "\<exists>n. XStoreEnumerateProductsQuery handle (Some cb) s = (S_OK, walk cb (take n es) s)
     \<and> n \<le> length es \<and> (\<forall>i. Suc i < n \<longrightarrow> answer_at cb es i s \<noteq> 0)
     \<and> (n < length es \<longrightarrow> 0 < n \<and> answer_at cb es (n - 1) s = 0)"
  using enumerate_prefix [of cb es s] assms by (simp add: XStoreEnumerateProductsQuery_def)

lemma enumeration_walks_prefix_witness:
  defines "cb \<equiv> \<lambda>e t. (0, t\<lparr>xs_change_tokens := xs_change_tokens t + 1\<rparr>) :: u8 \<times> int xstore"
    and "p \<equiv> catalog_product demo_f32 demo_entry"
    and "s \<equiv> demo_store\<lparr>xs_queries := snd (ht_create [catalog_product demo_f32 demo_entry,
        catalog_product demo_f32 demo_entry] ht_new)\<rparr>"
  shows "XStoreEnumerateProductsQuery 1 (Some cb) s = (S_OK, s\<lparr>xs_change_tokens := 2\<rparr>)"
proof -
  have h: "ht_get (xs_queries s) 1 = Some [p, p]"
    by (simp add: s_def p_def ht_create_def ht_get_def ht_new_def)
  obtain n where n: "XStoreEnumerateProductsQuery 1 (Some cb) s = (S_OK, walk cb (take n [p, p]) s)"
    "n \<le> 2" "\<forall>i. Suc i < n \<longrightarrow> answer_at cb [p, p] i s \<noteq> 0" "n < 2 \<longrightarrow> 0 < n"
    using enumeration_walks_prefix [OF h, of cb] by (metis length_Cons list.size(3) numeral_2_eq_2)
  have "n \<noteq> 2" using n(3) [THEN spec, of 0] by (auto simp: cb_def)
  then have "n = 1" using n(2,4) by linarith
  then show ?thesis using n(1) by (simp add: cb_def s_def demo_queries)
qed

section \<open>Prices\<close>

lemma take_while_pad:
  "(0::u8) \<notin> set t \<Longrightarrow> takeWhile (\<lambda>c. c \<noteq> 0) (t @ replicate k 0) = t"
  by (induction t) (auto intro: takeWhile_eq_Nil_iff [THEN iffD2] simp: takeWhile_eq_Nil_iff)

lemma format_price_shape:
  "length (format_price fo amount code) = 16" "format_price fo amount code ! 15 = 0"
  by (simp_all add: format_price_def Let_def nth_append min_def)

text \<open>A formatted price always fits: sixteen bytes, the last of them 0, and for a text without
  NUL what a C caller reads is the text, cut to fifteen bytes.\<close>

theorem formatted_price_fits:
  assumes "0 \<notin> set (price_text fo amount code)"
  shows "length (format_price fo amount code) = 16 \<and> last (format_price fo amount code) = 0
     \<and> takeWhile (\<lambda>c. c \<noteq> 0) (format_price fo amount code) = take 15 (price_text fo amount code)"
proof -
  have "0 \<notin> set (take 15 (price_text fo amount code))" using assms by (meson in_set_takeD)
  then have "takeWhile (\<lambda>c. c \<noteq> 0) (format_price fo amount code) = take 15 (price_text fo amount code)"
    by (simp add: format_price_def take_while_pad)
  moreover have "format_price fo amount code \<noteq> []" using format_price_shape(1) [of fo amount code] by auto
  ultimately show ?thesis using format_price_shape [of fo amount code] by (simp add: last_conv_nth)
qed

lemma formatted_price_fits_witness:
  "takeWhile (\<lambda>c. c \<noteq> 0) (format_price demo_f32 7 (utf8 ''EUR'')) = utf8 ''7.99 EUR''"
proof -
  have "price_text demo_f32 7 (utf8 ''EUR'') = utf8 ''7.99 EUR''"
    by (simp add: price_text_def demo_f32_def utf8_def)
  then show ?thesis using formatted_price_fits [of demo_f32 7 "utf8 ''EUR''"] by (simp add: utf8_def)
qed

section \<open>Queries and their handles\<close>

lemma create_query_facts:
  assumes "ht_inv (xs_queries s)" "ht_room (xs_queries s) (Suc 0)" "create_query es s = (h, t)"
  shows "h \<noteq> 0" "ht_get (xs_queries s) h = None"
    "ht_get (xs_queries t) k = (if k = h then Some es else ht_get (xs_queries s) k)"
    "ht_inv (xs_queries t)" "xs_net t = xs_net s"
proof -
  have c: "ht_create es (xs_queries s) = (h, xs_queries t)" and n: "xs_net t = xs_net s"
    using assms(3) by (auto simp: create_query_def split_def Let_def)
  show "h \<noteq> 0" by (rule ht.create_nonzero [OF assms(1,2) c])
  show "ht_get (xs_queries s) h = None"
    by (rule ht.get_unissued [OF assms(1) ht.create_fresh [OF assms(1,2) c]])
  show "ht_get (xs_queries t) k = (if k = h then Some es else ht_get (xs_queries s) k)"
    by (rule ht.create_get [OF assms(1,2) c])
  show "ht_inv (xs_queries t)" by (rule ht.create_inv [OF assms(1,2) c])
  show "xs_net t = xs_net s" by (rule n)
qed

text \<open>What the three product queries ask the service, and the products of its answer.\<close>

fun service_products ::
  "'f store_env \<Rightarrow> store_work \<Rightarrow> net \<Rightarrow> ('f XStoreProduct list outcome \<times> net) option" where
  "service_products env WorkEntitled n =
     Some (apfst (map_sum id (map (entitled_entry (se_f32 env))))
       (get_entitled_products (se_ipc env) (store_market (se_ipc env)) n))"
| "service_products env (WorkProducts ids) n =
     Some (apfst (map_sum id (map (catalog_product (se_f32 env)))) (get_products (se_ipc env) ids n))"
| "service_products env (WorkAssociated k) n =
     Some (apfst (map_sum id (map (catalog_product (se_f32 env)))) (get_associated_products (se_ipc env) 0 n))"
| "service_products env _ n = None"

lemma map_or_empty: "map f (or_empty r) = or_empty (map_sum id (map f) r)"
  by (cases r) (simp_all add: or_empty_def)

lemma run_query_work:
  assumes "service_products env w (xs_net s) = Some (r, n)"
  shows "run_store_work env w s
     = map_prod (Inr \<circ> ValueHandle) id (create_query (or_empty r) (s\<lparr>xs_net := n\<rparr>))"
  using assms
  by (cases w) (auto simp: run_store_work_def query_entitled_products_def query_products_def
      query_associated_products_def build_product_query_def net_call_def split_def map_or_empty
      apfst_def map_prod_def)

text \<open>A finished product query always hands out a fresh, non-null handle; enumerating it shows
  the products of the service's answer, one entry each and in its order, and none when the
  request failed. Other queries are undisturbed, and a closed handle is refused.\<close>

theorem query_shows_catalog:
  assumes "service_products env w (xs_net s) = Some (r, n)" "ht_inv (xs_queries s)"
    and "ht_room (xs_queries s) (Suc 0)" "run_store_work env w s = (out, t)"
  shows "\<exists>h. out = Inr (ValueHandle h) \<and> h \<noteq> 0 \<and> ht_get (xs_queries s) h = None
     \<and> XStoreEnumerateProductsQuery h (Some cb) t = (S_OK, enumerate_entries cb (or_empty r) t)
     \<and> (\<forall>k. k \<noteq> h \<longrightarrow> ht_get (xs_queries t) k = ht_get (xs_queries s) k)
     \<and> fst (XStoreEnumerateProductsQuery h (Some cb) (XStoreCloseProductsQueryHandle h t)) = E_INVALIDARG"
proof -
  define s1 where "s1 = s\<lparr>xs_net := n\<rparr>"
  obtain h where c: "create_query (or_empty r) s1 = (h, t)" and out: "out = Inr (ValueHandle h)"
    using assms(4) run_query_work [OF assms(1)] by (cases "create_query (or_empty r) s1") (auto simp: s1_def)
  have q: "xs_queries s1 = xs_queries s" by (simp add: s1_def)
  note f = create_query_facts [of s1, unfolded q, OF assms(2,3) c]
  have "fst (XStoreEnumerateProductsQuery h (Some cb) (XStoreCloseProductsQueryHandle h t)) = E_INVALIDARG"
    by (simp add: XStoreEnumerateProductsQuery_def XStoreCloseProductsQueryHandle_def ht_get_close)
  then show ?thesis using f(1,2,3) out by (auto simp: XStoreEnumerateProductsQuery_def)
qed

lemma query_shows_catalog_witness:
  defines "cb \<equiv> \<lambda>e t. (1, t\<lparr>xs_change_tokens := xs_change_tokens t + 1\<rparr>) :: u8 \<times> int xstore"
  shows "\<exists>h t. run_store_work demo_store_env (WorkProducts [[0x39]]) demo_store = (Inr (ValueHandle h), t)
     \<and> XStoreEnumerateProductsQuery h (Some cb) t
         = (S_OK, snd (cb (catalog_product demo_f32 demo_entry) t))"
proof -
  obtain out t where w: "run_store_work demo_store_env (WorkProducts [[0x39]]) demo_store = (out, t)"
    by fastforce
  have "service_products demo_store_env (WorkProducts [[0x39]]) (xs_net demo_store)
      = Some (Inr [catalog_product demo_f32 demo_entry], xs_net demo_store)"
    by (simp add: demo_products) (simp add: demo_store_env_def)
  from query_shows_catalog [OF this demo_queries(1,2) w, of cb] show ?thesis
    using w by (auto simp: or_empty_def split_def)
qed

section \<open>The game license\<close>

lemma exchange_value:
  "fst (exchange en a b body de n) = Inr v \<longleftrightarrow>
     (\<exists>payload reply. to_xml en body = Some payload
        \<and> fst (request_with_timeout en a payload 10000 n) = Inr (b, reply) \<and> de reply = Some v)"
  by (auto simp: exchange_def exchange_with_timeout_def split: option.split prod.split sum.split if_splits)

text \<open>C36: the license query never fails, and tells the game it is not licensed in exactly one case:
  the launcher named the content, and the service sent back a license reply that says so.
  Every other outcome, an error reply of a service that was reached included, is an active
  license.\<close>

theorem license_denied_iff:
  "\<exists>l. fst (run_store_work env WorkGameLicense s) = Inr (ValueLicense l)
     \<and> (\<not> gl_active l \<longleftrightarrow>
          (\<exists>cid payload reply expires. var (se_ipc env) ''XODUS_CONTENT_ID'' = Some cid
             \<and> to_xml (se_ipc env) (LicenseRequest cid []) = Some payload
             \<and> fst (request_with_timeout (se_ipc env) 9 payload 10000 (xs_net s)) = Inr (10, reply)
             \<and> de_license (se_ipc env) reply = Some (False, expires)))"
proof -
  obtain r n where g: "get_game_license (se_ipc env) (xs_net s) = (r, n)" by fastforce
  have iff: "r = Inr (False, e) \<longleftrightarrow>
      (\<exists>cid payload reply. var (se_ipc env) ''XODUS_CONTENT_ID'' = Some cid
         \<and> to_xml (se_ipc env) (LicenseRequest cid []) = Some payload
         \<and> fst (request_with_timeout (se_ipc env) 9 payload 10000 (xs_net s)) = Inr (10, reply)
         \<and> de_license (se_ipc env) reply = Some (False, e))" for e
  proof (cases "var (se_ipc env) ''XODUS_CONTENT_ID''")
    case None
    then show ?thesis using g by (auto simp: get_game_license_def)
  next
    case (Some cid)
    then have "fst (exchange (se_ipc env) 9 10 (LicenseRequest cid []) (de_license (se_ipc env)) (xs_net s)) = r"
      using g by (simp add: get_game_license_def)
    then have "r = Inr (False, e) \<longleftrightarrow>
        fst (exchange (se_ipc env) 9 10 (LicenseRequest cid []) (de_license (se_ipc env)) (xs_net s)) = Inr (False, e)"
      by auto
    then show ?thesis unfolding exchange_value using Some by auto
  qed
  define l where "l = fst (query_game_license env s)"
  have out: "fst (run_store_work env WorkGameLicense s) = Inr (ValueLicense l)"
    by (simp add: run_store_work_def l_def)
  have "\<not> gl_active l \<longleftrightarrow> (\<exists>e. r = Inr (False, e))"
    by (cases r) (auto simp: l_def query_game_license_def net_call_def g build_full_game_license_def split: prod.split)
  then show ?thesis using out iff by blast
qed

section \<open>License-change tokens\<close>

primrec registrations :: "nat \<Rightarrow> ('f, 'z) xstore_scheme \<Rightarrow> u64 option list \<times> ('f, 'z) xstore_scheme" where
  "registrations 0 s = ([], s)"
| "registrations (Suc n) s =
     (let (tokens, s1) = registrations n s;
          (hr, token, s2) = XStoreRegisterGameLicenseChanged 1 False False s1
      in (tokens @ [token], s2))"

lemma registrations_tokens:
  "registrations n s = (map (\<lambda>i. Some (xs_change_tokens s + of_nat i)) [0..<n],
     s\<lparr>xs_change_tokens := xs_change_tokens s + of_nat n\<rparr>)"
  by (induction n) (simp_all add: XStoreRegisterGameLicenseChanged_def ac_simps)

lemma unat_succ: "i < 2 ^ 64 - 1 \<Longrightarrow> unat (1 + of_nat i :: u64) = Suc i"
  by (simp add: unat_word_ariths unat_of_nat take_bit_nat_eq_self)

lemma token_among:
  assumes "n < 2 ^ 64 - 1"
  shows "Some (token :: u64) \<in> set (map (\<lambda>i. Some (1 + of_nat i)) [0..<n])
     \<longleftrightarrow> token \<noteq> 0 \<and> unat token < unat (1 + of_nat n :: u64)"
proof
  assume "Some token \<in> set (map (\<lambda>i. Some (1 + of_nat i)) [0..<n])"
  then obtain i where i: "i < n" "token = 1 + of_nat i" by auto
  then have "unat token = Suc i" using unat_succ [of i] assms by simp
  then show "token \<noteq> 0 \<and> unat token < unat (1 + of_nat n :: u64)"
    using i(1) unat_succ [OF assms] by auto
next
  assume t: "token \<noteq> 0 \<and> unat token < unat (1 + of_nat n :: u64)"
  then have "0 < unat token" by (simp add: unat_gt_0)
  then obtain i where i: "unat token = Suc i" using gr0_implies_Suc by blast
  have "i < n" using t i unat_succ [OF assms] by simp
  then have "unat (1 + of_nat i :: u64) = unat token" using unat_succ [of i] i assms by simp
  then have "token = 1 + of_nat i" by (simp add: word_unat_eq_iff)
  with \<open>i < n\<close> show "Some token \<in> set (map (\<lambda>i. Some (1 + of_nat i)) [0..<n])" by auto
qed

text \<open>After \<open>n\<close> registrations from the start (the 64-bit counter not wrapped) the tokens are
  distinct, none is 0, and unregistering succeeds for exactly the tokens handed out.\<close>

theorem change_tokens_exact:
  assumes "xs_change_tokens s = 1" "n < 2 ^ 64 - 1" "registrations n s = (tokens, t)"
  shows "distinct tokens \<and> Some 0 \<notin> set tokens \<and> length tokens = n
     \<and> (XStoreUnregisterGameLicenseChanged token t \<longleftrightarrow> Some token \<in> set tokens)"
proof -
  have tk: "tokens = map (\<lambda>i. Some (1 + of_nat i)) [0..<n]" and t: "xs_change_tokens t = 1 + of_nat n"
    using assms(1,3) by (auto simp: registrations_tokens)
  have "XStoreUnregisterGameLicenseChanged token t \<longleftrightarrow> Some token \<in> set tokens" for token
    unfolding tk token_among [OF assms(2)] XStoreUnregisterGameLicenseChanged_def t
    by (metis linorder_not_less)
  moreover have "inj_on (\<lambda>i. Some (1 + of_nat i :: u64)) {..<n}"
  proof (rule inj_onI)
    fix i j
    assume ij: "i \<in> {..<n}" "j \<in> {..<n}" "Some (1 + of_nat i :: u64) = Some (1 + of_nat j)"
    have "i < 2 ^ 64 - 1" "j < 2 ^ 64 - 1" using ij(1,2) assms(2) by (meson lessThan_iff less_trans)+
    then have "Suc i = Suc j" using ij(3) unat_succ by (metis option.inject)
    then show "i = j" by (rule Suc_inject)
  qed
  then have "distinct tokens" by (simp add: tk distinct_map lessThan_atLeast0)
  moreover have "Some 0 \<notin> set tokens" unfolding tk token_among [OF assms(2)] by blast
  moreover have "length tokens = n" by (simp add: tk)
  ultimately show ?thesis by blast
qed

lemma change_tokens_exact_witness:
  "\<exists>t. registrations 2 demo_store = ([Some 1, Some 2], t)
     \<and> XStoreUnregisterGameLicenseChanged 2 t \<and> \<not> XStoreUnregisterGameLicenseChanged 3 t"
proof -
  obtain t where r: "registrations 2 demo_store = ([Some 1, Some 2], t)"
    by (simp add: registrations_tokens demo_queries numeral_2_eq_2)
  show ?thesis
    using change_tokens_exact [OF demo_queries(5) _ r, of 2] change_tokens_exact [OF demo_queries(5) _ r, of 3] r
    by auto
qed

section \<open>Opaque tokens\<close>

lemma and_then_key: "fst (and_then rn non_empty_store_key) = Inr v \<Longrightarrow> v \<noteq> []"
  by (auto simp: and_then_def non_empty_store_key_def split: sum.splits if_splits)

text \<open>A collections id asked for on a fresh block arrives whole: once the worker has run, the size
  is its length and the NUL, a buffer of that size receives exactly its bytes and the NUL, and
  a smaller one is refused without losing it. A failure is reported by all three calls, an
  empty key as \<open>E_ACCESSDENIED\<close>, and the other tables and blocks are untouched.\<close>

theorem collections_id_delivered:
  assumes "context \<noteq> 0" "block \<noteq> 0"
    and "XStoreGetUserCollectionsIdAsync context ticket user block S_OK s = (hr, s1)"
    and "run_store_work env (last (xs_works s1)) s1 = (out, s2)"
    and "get_user_collections_id (se_ipc env) (c_string_or_empty ticket) (c_string_or_empty user) (xs_net s) = (r, n)"
  shows "hr = S_OK \<and> xs_licenses s2 = xs_licenses s \<and> xs_purchases s2 = xs_purchases s
     \<and> (\<forall>b. b \<noteq> block \<longrightarrow> xs_collections s2 b = xs_collections s b)
     \<and> (case r of
          Inl e \<Rightarrow> out = Inl e \<and> fst (XStoreGetUserCollectionsIdResultSize block False s2) = e
            \<and> fst (XStoreGetUserCollectionsIdResult block k False s2) = e
        | Inr v \<Rightarrow> out = Inr ValueNone \<and> v \<noteq> []
            \<and> XStoreGetUserCollectionsIdResultSize block False s2 = (S_OK, Some (length v + 1))
            \<and> XStoreGetUserCollectionsIdResult block k False s2
                = (if k \<le> length v then (E_NOT_SUFFICIENT_BUFFER, None) else (S_OK, Some (v @ [0]))))"
proof -
  define w where "w = WorkCollectionsId block (c_string_or_empty ticket) (c_string_or_empty user)"
  have s1: "s1 = s\<lparr>xs_works := xs_works s @ [w]\<rparr>" and hr: "hr = S_OK"
    using assms(1-3) by (simp_all add: XStoreGetUserCollectionsIdAsync_def start_store_def run_sync_start_def w_def)
  have s2: "s2 = s1\<lparr>xs_net := n, xs_collections := pending_insert block r (xs_collections s)\<rparr>"
    and out: "out = map_sum id (\<lambda>_. ValueNone) r"
    using assms(4,5) by (simp_all add: s1 w_def run_store_work_def work_collections_id_def net_call_def
        store_opaque_result_def Let_def)
  have "v \<noteq> []" if "r = Inr v" for v
    using that assms(5) and_then_key by (metis fst_conv get_user_collections_id_def)
  then show ?thesis
    using opaque.stored_failure [of "xs_collections s2" block] opaque.size_ready [of "xs_collections s2" block]
      opaque.result_ready [of "xs_collections s2" block _ k False]
      opaque.result_small [of "xs_collections s2" block _ k False]
    by (auto simp: hr s2 s1 out pending_insert_other XStoreGetUserCollectionsIdResultSize_def
        XStoreGetUserCollectionsIdResult_def not_le split: sum.split)
qed

lemma collections_id_delivered_witness:
  "\<exists>s :: int xstore. XStoreGetUserCollectionsIdResultSize 5 False s = (S_OK, Some 2)
     \<and> XStoreGetUserCollectionsIdResult 5 2 False s = (S_OK, Some [0x4b, 0])"
proof -
  obtain hr s1 where a: "XStoreGetUserCollectionsIdAsync 1 None None 5 S_OK demo_store = (hr, s1)"
    by fastforce
  obtain out s2 where b: "run_store_work demo_store_env (last (xs_works s1)) s1 = (out, s2)"
    by fastforce
  have "(1::u64) \<noteq> 0" "(5::u64) \<noteq> 0" by simp_all
  from collections_id_delivered [OF this a b demo_collections, of 2]
  have "XStoreGetUserCollectionsIdResultSize 5 False s2 = (S_OK, Some 2)"
    "XStoreGetUserCollectionsIdResult 5 2 False s2 = (S_OK, Some [0x4b, 0])" by simp_all
  then show ?thesis by blast
qed

end
