(* ===== verification/Pick_Operation.thy ===== *)
theory Pick_Operation
  imports Prelude
begin

text \<open>
  The operation a file pick hands back (\<open>src/src/com/pickers/async_op.rs\<close>) and the deferral that
  brings its work back to the title's thread (\<open>deferred.rs\<close>).

  A call is split where the code unlocks the operation's mutex: the section under the lock is
  one definition, which also says whether a handler is to be invoked, and the invocation is
  another. The message loop is a map from the message-only windows to the word stored in them,
  with the messages posted. A job is its result: the dialog it shows is a step that ends at any
  time, and a modal dialog runs the same loop.
\<close>

section \<open>The operation\<close>

datatype async_status = Started | Completed | Canceled | StatusError

record ('p, 'h) operation =
  op_status :: async_status
  op_error :: hresult
  op_picked :: "'p option"
  op_handler :: "'h option"

definition operation_default :: "('p, 'h) operation" where
  "operation_default = \<lparr>op_status = Started, op_error = S_OK, op_picked = None, op_handler = None\<rparr>"

text \<open>\<open>finish\<close> under the lock: the handler to invoke, if one is registered.\<close>

definition finish_locked ::
  "'p option outcome \<Rightarrow> ('p, 'h) operation \<Rightarrow> 'h option \<times> ('p, 'h) operation" where
  "finish_locked result o1 =
     (let o2 = (case result of
          Inr picked \<Rightarrow> o1\<lparr>op_status := Completed, op_picked := picked\<rparr>
        | Inl error \<Rightarrow> o1\<lparr>op_status := StatusError, op_error := error\<rparr>)
      in (op_handler o2, o2))"

text \<open>\<open>SetCompleted\<close> under the lock.\<close>

definition set_completed_locked ::
  "'h option \<Rightarrow> ('p, 'h) operation \<Rightarrow> 'h option \<times> ('p, 'h) operation" where
  "set_completed_locked handler o1 =
     (let o2 = o1\<lparr>op_handler := handler\<rparr>;
          complete_now = (op_status o2 \<noteq> Started)
      in (if complete_now then handler else None, o2))"

text \<open>\<open>Error::empty\<close> reads back as \<open>S_OK\<close> with a null result.\<close>

definition error_empty :: hresult where "error_empty = S_OK"

definition op_completed :: "('p, 'h) operation \<Rightarrow> 'h outcome" where
  "op_completed o1 = (case op_handler o1 of None \<Rightarrow> Inl error_empty | Some h \<Rightarrow> Inr h)"

definition get_results :: "('p \<Rightarrow> 'v) \<Rightarrow> ('p, 'h) operation \<Rightarrow> 'v outcome" where
  "get_results create_result o1 =
     (case op_status o1 of
        Completed \<Rightarrow>
          (case op_picked o1 of
             None \<Rightarrow> Inl error_empty
           | Some path \<Rightarrow> Inr (create_result path))
      | StatusError \<Rightarrow> Inl (op_error o1)
      | _ \<Rightarrow> Inl E_ILLEGAL_METHOD_CALL)"

definition op_id :: "('p, 'h) operation \<Rightarrow> nat outcome" where "op_id o1 = Inr 1"

definition op_get_status :: "('p, 'h) operation \<Rightarrow> async_status outcome" where
  "op_get_status o1 = Inr (op_status o1)"

definition op_error_code :: "('p, 'h) operation \<Rightarrow> hresult outcome" where
  "op_error_code o1 = Inr (op_error o1)"

definition op_cancel :: "('p, 'h) operation \<Rightarrow> unit outcome \<times> ('p, 'h) operation" where
  "op_cancel o1 = (Inr (), o1)"

definition op_close :: "('p, 'h) operation \<Rightarrow> unit outcome \<times> ('p, 'h) operation" where
  "op_close o1 = (Inr (), o1)"

section \<open>Deferred work\<close>

definition WM_RUN_DEFERRED :: u32 where "WM_RUN_DEFERRED = 0x8000"

record 'w deferred =
  df_windows :: "nat \<Rightarrow> 'w option option"
  df_posted :: "nat list"
  df_next :: nat

definition deferred_new :: "'w deferred" where
  "deferred_new = \<lparr>df_windows = Map.empty, df_posted = [], df_next = 0\<rparr>"

text \<open>\<open>created\<close> and \<open>posts\<close>: whether Windows makes the window and takes the message.\<close>

definition run_later :: "bool \<Rightarrow> bool \<Rightarrow> 'w \<Rightarrow> 'w deferred \<Rightarrow> bool \<times> 'w deferred" where
  "run_later created posts work d =
     (if \<not> created then (False, d)
      else let w = df_next d;
               d1 = d\<lparr>df_next := w + 1, df_windows := (df_windows d)(w \<mapsto> Some work)\<rparr>
           in if posts then (True, d1\<lparr>df_posted := df_posted d1 @ [w]\<rparr>)
              else (False, d1\<lparr>df_windows := (df_windows d1)(w := None)\<rparr>))"

text \<open>The window procedure: the work to run, if the message carries any.\<close>

definition deferred_wnd_proc :: "nat \<Rightarrow> u32 \<Rightarrow> 'w deferred \<Rightarrow> 'w option \<times> 'w deferred" where
  "deferred_wnd_proc w message d =
     (if message \<noteq> WM_RUN_DEFERRED then (None, d)
      else let stored = (case df_windows d w of None \<Rightarrow> None | Some v \<Rightarrow> v)
           in (stored, d\<lparr>df_windows := (df_windows d)(w := None)\<rparr>))"

section \<open>Picks in progress\<close>

text \<open>An operation is an index into \<open>pk_ops\<close>; the work deferred for it is that index. The other
  fields are where the calls stand: jobs that run, and handlers about to be invoked.\<close>

record ('p, 'h) picks =
  pk_ops :: "('p, 'h) operation list"
  pk_loop :: "nat deferred"
  pk_running :: "nat list"
  pk_to_invoke :: "(nat \<times> 'h) list"
  pk_calls :: "(nat \<times> 'h \<times> async_status) list"

definition picks_new :: "('p, 'h) picks" where
  "picks_new = \<lparr>pk_ops = [], pk_loop = deferred_new, pk_running = [], pk_to_invoke = [], pk_calls = []\<rparr>"

definition owe :: "nat \<Rightarrow> 'h option \<Rightarrow> ('p, 'h) picks \<Rightarrow> ('p, 'h) picks" where
  "owe k handler s =
     (case handler of None \<Rightarrow> s | Some h \<Rightarrow> s\<lparr>pk_to_invoke := pk_to_invoke s @ [(k, h)]\<rparr>)"

definition pick_finish :: "nat \<Rightarrow> 'p option outcome \<Rightarrow> ('p, 'h) picks \<Rightarrow> ('p, 'h) picks" where
  "pick_finish k result s =
     (let (handler, o1) = finish_locked result (pk_ops s ! k)
      in owe k handler (s\<lparr>pk_ops := (pk_ops s)[k := o1]\<rparr>))"

definition set_completed :: "nat \<Rightarrow> 'h option \<Rightarrow> ('p, 'h) picks \<Rightarrow> ('p, 'h) picks" where
  "set_completed k v s =
     (let (handler, o1) = set_completed_locked v (pk_ops s ! k)
      in owe k handler (s\<lparr>pk_ops := (pk_ops s)[k := o1]\<rparr>))"

text \<open>\<open>invoke\<close> for the pending call at position \<open>i\<close>: the status is read under the lock, then the
  handler runs.\<close>

definition pick_invoke :: "nat \<Rightarrow> ('p, 'h) picks \<Rightarrow> ('p, 'h) picks" where
  "pick_invoke i s =
     (let (k, h) = pk_to_invoke s ! i
      in s\<lparr>pk_to_invoke := take i (pk_to_invoke s) @ drop (Suc i) (pk_to_invoke s),
           pk_calls := pk_calls s @ [(k, h, op_status (pk_ops s ! k))]\<rparr>)"

definition pick_start :: "bool \<Rightarrow> bool \<Rightarrow> ('p, 'h) picks \<Rightarrow> nat \<times> ('p, 'h) picks" where
  "pick_start created posts s =
     (let k = length (pk_ops s);
          (queued, d) = run_later created posts k (pk_loop s);
          s1 = s\<lparr>pk_ops := pk_ops s @ [operation_default], pk_loop := d\<rparr>
      in (k, if queued then s1 else pick_finish k (Inl E_FAIL) s1))"

definition pick_completed :: "'p option outcome \<Rightarrow> ('p, 'h) picks \<Rightarrow> nat \<times> ('p, 'h) picks" where
  "pick_completed result s =
     (let k = length (pk_ops s)
      in (k, pick_finish k result (s\<lparr>pk_ops := pk_ops s @ [operation_default]\<rparr>)))"

text \<open>The loop takes the message at position \<open>i\<close>; the job it reclaims runs until \<open>job_done\<close>.\<close>

definition pump :: "nat \<Rightarrow> ('p, 'h) picks \<Rightarrow> ('p, 'h) picks" where
  "pump i s =
     (let d = pk_loop s; w = df_posted d ! i;
          (work, d1) = deferred_wnd_proc w WM_RUN_DEFERRED
            (d\<lparr>df_posted := take i (df_posted d) @ drop (Suc i) (df_posted d)\<rparr>);
          s1 = s\<lparr>pk_loop := d1\<rparr>
      in case work of None \<Rightarrow> s1 | Some k \<Rightarrow> s1\<lparr>pk_running := k # pk_running s1\<rparr>)"

definition job_done :: "nat \<Rightarrow> 'p option outcome \<Rightarrow> ('p, 'h) picks \<Rightarrow> ('p, 'h) picks" where
  "job_done k result s = pick_finish k result (s\<lparr>pk_running := remove1 k (pk_running s)\<rparr>)"

end
