(* ===== verification/Pick_Props.thy ===== *)
theory Pick_Props
  imports Pick_Operation
begin

text \<open>
  Every run of the picks: any number of operations and registrations on any threads, jobs that
  end in any order (a modal dialog pumps the same loop), and pending invocations that happen at
  any time. What was registered and finished is recorded beside the state and read by no step.
\<close>

section \<open>Runs\<close>

record ('p, 'h) pick_run =
  pr_picks :: "('p, 'h) picks"
  pr_regs :: "nat \<Rightarrow> 'h option list"
  pr_seen :: "nat \<Rightarrow> nat"
  pr_done :: "(nat \<times> 'p option outcome) list"

definition pick_run_new :: "('p, 'h) pick_run" where
  "pick_run_new = \<lparr>pr_picks = picks_new, pr_regs = (\<lambda>k. []), pr_seen = (\<lambda>k. 0), pr_done = []\<rparr>"

definition note_done :: "nat \<Rightarrow> 'p option outcome \<Rightarrow> ('p, 'h) pick_run \<Rightarrow> ('p, 'h) pick_run" where
  "note_done k result r =
     r\<lparr>pr_seen := (pr_seen r)(k := length (pr_regs r k)), pr_done := pr_done r @ [(k, result)]\<rparr>"

inductive pick_reach :: "('p, 'h) pick_run \<Rightarrow> bool" where
  pr_new: "pick_reach pick_run_new"
| pr_start: "pick_reach r \<Longrightarrow> pick_start True True (pr_picks r) = (k, s) \<Longrightarrow> pick_reach (r\<lparr>pr_picks := s\<rparr>)"
| pr_start_fails: "pick_reach r \<Longrightarrow> \<not> (created \<and> posts) \<Longrightarrow> pick_start created posts (pr_picks r) = (k, s) \<Longrightarrow>
    pick_reach (note_done k (Inl E_FAIL) (r\<lparr>pr_picks := s\<rparr>))"
| pr_completed: "pick_reach r \<Longrightarrow> pick_completed result (pr_picks r) = (k, s) \<Longrightarrow>
    pick_reach (note_done k result (r\<lparr>pr_picks := s\<rparr>))"
| pr_register: "pick_reach r \<Longrightarrow> k < length (pk_ops (pr_picks r)) \<Longrightarrow>
    pick_reach (r\<lparr>pr_picks := set_completed k v (pr_picks r), pr_regs := (pr_regs r)(k := pr_regs r k @ [v])\<rparr>)"
| pr_pump: "pick_reach r \<Longrightarrow> i < length (df_posted (pk_loop (pr_picks r))) \<Longrightarrow>
    pick_reach (r\<lparr>pr_picks := pump i (pr_picks r)\<rparr>)"
| pr_job: "pick_reach r \<Longrightarrow> k \<in> set (pk_running (pr_picks r)) \<Longrightarrow>
    pick_reach (note_done k result (r\<lparr>pr_picks := job_done k result (pr_picks r)\<rparr>))"
| pr_invoke: "pick_reach r \<Longrightarrow> i < length (pk_to_invoke (pr_picks r)) \<Longrightarrow>
    pick_reach (r\<lparr>pr_picks := pick_invoke i (pr_picks r)\<rparr>)"

section \<open>What is owed\<close>

definition of_op :: "nat \<Rightarrow> (nat \<times> 'a) list \<Rightarrow> 'a list" where
  "of_op k xs = map snd (filter (\<lambda>x. fst x = k) xs)"

lemma of_op_simps [simp]:
  "of_op k [] = []"
  "of_op k (x # xs) = (if fst x = k then snd x # of_op k xs else of_op k xs)"
  "of_op k (xs @ ys) = of_op k xs @ of_op k ys"
  by (simp_all add: of_op_def)

text \<open>The handlers that must be called once each, when \<open>n\<close> registrations came before the finish: the
  last of these and all the later ones.\<close>

definition somes :: "'a option list \<Rightarrow> 'a list" where
  "somes xs = map the (filter (\<lambda>x. x \<noteq> None) xs)"

definition owed :: "'h option list \<Rightarrow> nat \<Rightarrow> 'h list" where
  "owed regs n = somes ((if n = 0 then [] else [regs ! (n - 1)]) @ drop n regs)"

definition pending_handlers :: "('p, 'h) picks \<Rightarrow> nat \<Rightarrow> 'h list" where
  "pending_handlers s k = of_op k (pk_to_invoke s)"

definition called_handlers :: "('p, 'h) picks \<Rightarrow> nat \<Rightarrow> ('h \<times> async_status) list" where
  "called_handlers s k = of_op k (pk_calls s)"

definition queued :: "'w deferred \<Rightarrow> 'w \<Rightarrow> bool" where
  "queued d k \<longleftrightarrow> (\<exists>w\<in>set (df_posted d). df_windows d w = Some (Some k))"

section \<open>The invariant\<close>

definition loop_ok :: "'w deferred \<Rightarrow> bool" where
  "loop_ok d \<longleftrightarrow> distinct (df_posted d) \<and> (\<forall>w\<in>set (df_posted d). w < df_next d)
     \<and> (\<forall>w. df_windows d w \<noteq> None \<longleftrightarrow> w \<in> set (df_posted d)) \<and> (\<forall>w. df_windows d w \<noteq> Some None)
     \<and> (\<forall>v w k. df_windows d v = Some (Some k) \<longrightarrow> df_windows d w = Some (Some k) \<longrightarrow> v = w)"

definition result_in :: "'p option outcome \<Rightarrow> ('p, 'h) operation \<Rightarrow> bool" where
  "result_in result o1 \<longleftrightarrow>
     (case result of
        Inr picked \<Rightarrow> op_status o1 = Completed \<and> op_picked o1 = picked
      | Inl e \<Rightarrow> op_status o1 = StatusError \<and> op_error o1 = e)"

definition op_ok :: "('p, 'h) pick_run \<Rightarrow> nat \<Rightarrow> bool" where
  "op_ok r k \<longleftrightarrow>
     (let s = pr_picks r; o1 = pk_ops s ! k; regs = pr_regs r k in
        op_handler o1 = (if regs = [] then None else last regs) \<and> pr_seen r k \<le> length regs
      \<and> (op_status o1 = Started \<longleftrightarrow> queued (pk_loop s) k \<or> k \<in> set (pk_running s))
      \<and> (if op_status o1 = Started then pending_handlers s k = [] \<and> called_handlers s k = [] \<and> of_op k (pr_done r) = []
         else mset (map fst (called_handlers s k)) + mset (pending_handlers s k) = mset (owed regs (pr_seen r k))
           \<and> (\<exists>result. of_op k (pr_done r) = [result] \<and> result_in result o1)
           \<and> (\<forall>c\<in>set (called_handlers s k). snd c = op_status o1)))"

definition unseen :: "('p, 'h) pick_run \<Rightarrow> nat \<Rightarrow> bool" where
  "unseen r k \<longleftrightarrow> pr_regs r k = [] \<and> pr_seen r k = 0 \<and> of_op k (pr_done r) = [] \<and> pending_handlers (pr_picks r) k = []
     \<and> called_handlers (pr_picks r) k = [] \<and> \<not> queued (pk_loop (pr_picks r)) k \<and> k \<notin> set (pk_running (pr_picks r))"

definition pick_inv :: "('p, 'h) pick_run \<Rightarrow> bool" where
  "pick_inv r \<longleftrightarrow> loop_ok (pk_loop (pr_picks r)) \<and> distinct (pk_running (pr_picks r))
     \<and> (\<forall>k\<in>set (pk_running (pr_picks r)). \<not> queued (pk_loop (pr_picks r)) k)
     \<and> (\<forall>k. if k < length (pk_ops (pr_picks r)) then op_ok r k else unseen r k)"

text \<open>What the conditions on operation \<open>k\<close> depend on.\<close>

definition same_op :: "nat \<Rightarrow> ('p, 'h) pick_run \<Rightarrow> ('p, 'h) pick_run \<Rightarrow> bool" where
  "same_op k r q \<longleftrightarrow>
     pk_ops (pr_picks q) ! k = pk_ops (pr_picks r) ! k \<and> pr_regs q k = pr_regs r k \<and> pr_seen q k = pr_seen r k
     \<and> (queued (pk_loop (pr_picks q)) k \<or> k \<in> set (pk_running (pr_picks q)))
         = (queued (pk_loop (pr_picks r)) k \<or> k \<in> set (pk_running (pr_picks r)))
     \<and> pending_handlers (pr_picks q) k = pending_handlers (pr_picks r) k
     \<and> called_handlers (pr_picks q) k = called_handlers (pr_picks r) k \<and> of_op k (pr_done q) = of_op k (pr_done r)"

lemma same_op_ok:
  assumes "same_op k r q" "op_ok r k"
  shows "op_ok q k"
proof -
  from assms(1) have eqs: "pk_ops (pr_picks q) ! k = pk_ops (pr_picks r) ! k" "pr_regs q k = pr_regs r k"
    "pr_seen q k = pr_seen r k" "(queued (pk_loop (pr_picks q)) k \<or> k \<in> set (pk_running (pr_picks q)))
       = (queued (pk_loop (pr_picks r)) k \<or> k \<in> set (pk_running (pr_picks r)))"
    "pending_handlers (pr_picks q) k = pending_handlers (pr_picks r) k"
    "called_handlers (pr_picks q) k = called_handlers (pr_picks r) k" "of_op k (pr_done q) = of_op k (pr_done r)"
    unfolding same_op_def by blast+
  show ?thesis using assms(2) unfolding op_ok_def Let_def eqs .
qed

lemma same_op_unseen:
  "pr_regs q k = pr_regs r k \<Longrightarrow> pr_seen q k = pr_seen r k \<Longrightarrow> queued (pk_loop (pr_picks q)) k = queued (pk_loop (pr_picks r)) k \<Longrightarrow>
   k \<in> set (pk_running (pr_picks q)) \<longleftrightarrow> k \<in> set (pk_running (pr_picks r)) \<Longrightarrow>
   pending_handlers (pr_picks q) k = pending_handlers (pr_picks r) k \<Longrightarrow>
   called_handlers (pr_picks q) k = called_handlers (pr_picks r) k \<Longrightarrow> of_op k (pr_done q) = of_op k (pr_done r) \<Longrightarrow>
   unseen r k \<Longrightarrow> unseen q k"
  by (simp add: unseen_def)

section \<open>Registrations\<close>

lemma somes_simps [simp]: "somes [] = []" "somes (x # xs) = (case x of None \<Rightarrow> somes xs | Some y \<Rightarrow> y # somes xs)"
  "somes (xs @ ys) = somes xs @ somes ys"
  by (auto simp: somes_def split: option.split)

lemma owed_register: "n \<le> length regs \<Longrightarrow> owed (regs @ [v]) n = owed regs n @ somes [v]"
  by (auto simp: owed_def nth_append)

lemma owed_finish: "owed regs (length regs) = (case (if regs = [] then None else last regs) of None \<Rightarrow> [] | Some h \<Rightarrow> [h])"
  by (simp add: owed_def last_conv_nth split: option.split)

section \<open>Finishing\<close>

lemma owe_simps [simp]:
  "pk_ops (owe k v s) = pk_ops s" "pk_loop (owe k v s) = pk_loop s"
  "pk_running (owe k v s) = pk_running s" "pk_calls (owe k v s) = pk_calls s"
  "pending_handlers (owe k v s) j = pending_handlers s j @ (if j = k then somes [v] else [])"
  "called_handlers (owe k v s) j = called_handlers s j"
  by (auto simp: owe_def pending_handlers_def called_handlers_def split: option.split)

lemma finish_locked_simps [simp]:
  "fst (finish_locked result o1) = op_handler o1"
  "op_handler (snd (finish_locked result o1)) = op_handler o1"
  "op_status (snd (finish_locked result o1)) \<noteq> Started"
  "result_in result (snd (finish_locked result o1))"
  by (auto simp: finish_locked_def result_in_def Let_def split: sum.split)

lemma pick_finish_simps [simp]:
  "pk_ops (pick_finish k result s) = (pk_ops s)[k := snd (finish_locked result (pk_ops s ! k))]"
  "pk_loop (pick_finish k result s) = pk_loop s" "pk_running (pick_finish k result s) = pk_running s"
  "called_handlers (pick_finish k result s) j = called_handlers s j"
  "pending_handlers (pick_finish k result s) j
     = pending_handlers s j @ (if j = k then somes [op_handler (pk_ops s ! k)] else [])"
  by (auto simp: pick_finish_def Let_def split_def called_handlers_def pending_handlers_def [of "pk_ops_update _ _"])
    (auto simp: pending_handlers_def)

text \<open>An operation whose job has just ended: it is started, and nothing refers to it any more.\<close>

definition adrift :: "('p, 'h) pick_run \<Rightarrow> nat \<Rightarrow> bool" where
  "adrift r k \<longleftrightarrow>
     (let s = pr_picks r in
        loop_ok (pk_loop s) \<and> distinct (pk_running s) \<and> (\<forall>j\<in>set (pk_running s). \<not> queued (pk_loop s) j)
      \<and> k < length (pk_ops s) \<and> \<not> queued (pk_loop s) k \<and> k \<notin> set (pk_running s)
      \<and> op_handler (pk_ops s ! k) = (if pr_regs r k = [] then None else last (pr_regs r k))
      \<and> pending_handlers s k = [] \<and> called_handlers s k = [] \<and> of_op k (pr_done r) = []
      \<and> (\<forall>j. j \<noteq> k \<longrightarrow> (if j < length (pk_ops s) then op_ok r j else unseen r j)))"

lemma finish_inv:
  assumes "adrift r k"
  shows "pick_inv (note_done k result (r\<lparr>pr_picks := pick_finish k result (pr_picks r)\<rparr>))"
proof -
  define r1 where "r1 = note_done k result (r\<lparr>pr_picks := pick_finish k result (pr_picks r)\<rparr>)"
  note a = assms [unfolded adrift_def Let_def]
  have k: "k < length (pk_ops (pr_picks r))" "\<not> queued (pk_loop (pr_picks r)) k" "k \<notin> set (pk_running (pr_picks r))"
    "op_handler (pk_ops (pr_picks r) ! k) = (if pr_regs r k = [] then None else last (pr_regs r k))"
    "pending_handlers (pr_picks r) k = []" "called_handlers (pr_picks r) k = []" "of_op k (pr_done r) = []"
    using a by blast+
  have "pk_ops (pr_picks r1) ! k = snd (finish_locked result (pk_ops (pr_picks r) ! k))" "pr_regs r1 k = pr_regs r k"
    "pr_seen r1 k = length (pr_regs r k)" "\<not> queued (pk_loop (pr_picks r1)) k" "k \<notin> set (pk_running (pr_picks r1))"
    "pending_handlers (pr_picks r1) k = somes [if pr_regs r k = [] then None else last (pr_regs r k)]"
    "called_handlers (pr_picks r1) k = []" "of_op k (pr_done r1) = [result]"
    using k by (simp_all add: r1_def note_done_def)
  then have "op_ok r1 k"
    using k(4) unfolding op_ok_def Let_def by (simp add: owed_finish split: option.split)
  moreover have "op_ok r1 j" if "j \<noteq> k" "op_ok r j" for j
    using that by (intro same_op_ok [OF _ that(2)]) (simp add: same_op_def r1_def note_done_def)
  moreover have "unseen r1 j" if "j \<noteq> k" "unseen r j" for j
    using that by (simp add: unseen_def r1_def note_done_def)
  moreover have "pk_running (pr_picks r1) = pk_running (pr_picks r)" "pk_loop (pr_picks r1) = pk_loop (pr_picks r)"
    "length (pk_ops (pr_picks r1)) = length (pk_ops (pr_picks r))"
    by (simp_all add: r1_def note_done_def)
  ultimately show ?thesis
    using a unfolding pick_inv_def r1_def [symmetric] by (metis (no_types, lifting))
qed

section \<open>The loop\<close>

lemma queued_append:
  assumes "loop_ok d"
  shows "queued (d\<lparr>df_next := Suc (df_next d), df_windows := (df_windows d)(df_next d \<mapsto> Some k),
     df_posted := df_posted d @ [df_next d]\<rparr>) j \<longleftrightarrow> j = k \<or> queued d j"
proof -
  have "\<forall>w\<in>set (df_posted d). w \<noteq> df_next d" using assms by (auto simp: loop_ok_def)
  then show ?thesis unfolding queued_def by auto
qed

lemma loop_append:
  assumes "loop_ok d" "\<not> queued d k"
  shows "loop_ok (d\<lparr>df_next := Suc (df_next d), df_windows := (df_windows d)(df_next d \<mapsto> Some k),
     df_posted := df_posted d @ [df_next d]\<rparr>)"
proof -
  have "df_windows d v \<noteq> Some (Some k)" for v
    using assms unfolding loop_ok_def queued_def by (metis option.distinct(1))
  then show ?thesis using assms(1) unfolding loop_ok_def by (auto simp: less_Suc_eq)
qed

lemma set_drop_nth:
  "distinct xs \<Longrightarrow> i < length xs \<Longrightarrow> set (take i xs @ drop (Suc i) xs) = set xs - {xs ! i}"
  by (metis distinct_remove1_removeAll id_take_nth_drop remove1_append remove1.simps(2) set_removeAll
      distinct_append not_distinct_conv_prefix)

text \<open>Taking a message off the queue takes the job with it.\<close>

lemma loop_take:
  assumes "loop_ok d" "i < length (df_posted d)"
  obtains k d1 where "deferred_wnd_proc (df_posted d ! i) WM_RUN_DEFERRED
      (d\<lparr>df_posted := take i (df_posted d) @ drop (Suc i) (df_posted d)\<rparr>) = (Some k, d1)"
    "loop_ok d1" "queued d k" "\<And>j. queued d1 j \<longleftrightarrow> queued d j \<and> j \<noteq> k"
proof -
  define w where "w = df_posted d ! i"
  define d1 where "d1 = d\<lparr>df_posted := take i (df_posted d) @ drop (Suc i) (df_posted d),
    df_windows := (df_windows d)(w := None)\<rparr>"
  have w: "w \<in> set (df_posted d)" using assms(2) by (simp add: w_def)
  then obtain k where k: "df_windows d w = Some (Some k)"
    using assms(1) unfolding loop_ok_def by (metis option.exhaust)
  have dist: "distinct (df_posted d)" using assms(1) by (simp add: loop_ok_def)
  have st: "set (df_posted d1) = set (df_posted d) - {w}"
    using set_drop_nth [OF dist assms(2)] by (simp add: d1_def w_def)
  have pc: "deferred_wnd_proc (df_posted d ! i) WM_RUN_DEFERRED
      (d\<lparr>df_posted := take i (df_posted d) @ drop (Suc i) (df_posted d)\<rparr>) = (Some k, d1)"
    by (simp add: deferred_wnd_proc_def Let_def k d1_def flip: w_def)
  have wn: "df_windows d1 = (df_windows d)(w := None)" "df_next d1 = df_next d" by (simp_all add: d1_def)
  have "distinct (df_posted d1)"
    using dist set_take_disj_set_drop_if_distinct [OF dist, of i "Suc i"] by (simp add: d1_def)
  then have ok: "loop_ok d1" using assms(1) unfolding loop_ok_def st wn by auto
  have qk: "queued d k" using w k unfolding queued_def by blast
  have "queued d1 j \<longleftrightarrow> queued d j \<and> j \<noteq> k" for j
    using assms(1) k w unfolding queued_def loop_ok_def st wn by auto
  with pc ok qk show ?thesis by (rule that)
qed

section \<open>Every step keeps the invariant\<close>

lemma pump_inv:
  assumes "pick_inv r" "i < length (df_posted (pk_loop (pr_picks r)))"
  shows "pick_inv (r\<lparr>pr_picks := pump i (pr_picks r)\<rparr>)"
proof -
  define s where "s = pr_picks r"
  note a = assms [unfolded pick_inv_def, folded s_def]
  obtain k d1 where d: "deferred_wnd_proc (df_posted (pk_loop s) ! i) WM_RUN_DEFERRED
      (pk_loop s\<lparr>df_posted := take i (df_posted (pk_loop s)) @ drop (Suc i) (df_posted (pk_loop s))\<rparr>) = (Some k, d1)"
    "loop_ok d1" "queued (pk_loop s) k" "\<And>j. queued d1 j \<longleftrightarrow> queued (pk_loop s) j \<and> j \<noteq> k"
    using loop_take [of "pk_loop s" i] a by blast
  have p: "pump i s = s\<lparr>pk_loop := d1, pk_running := k # pk_running s\<rparr>"
    by (simp add: pump_def Let_def d(1))
  define q where "q = r\<lparr>pr_picks := pump i (pr_picks r)\<rparr>"
  have q: "pr_picks q = s\<lparr>pk_loop := d1, pk_running := k # pk_running s\<rparr>"
    "pr_regs q = pr_regs r" "pr_seen q = pr_seen r" "pr_done q = pr_done r"
    by (simp_all add: q_def p flip: s_def)
  have kl: "k < length (pk_ops s)" using a d(3) unfolding unseen_def s_def by metis
  have "op_ok q j" if "op_ok r j" for j
    by (rule same_op_ok [OF _ that])
      (use d(3,4) in \<open>auto simp: same_op_def q pending_handlers_def called_handlers_def simp flip: s_def\<close>)
  moreover have "unseen q j" if "unseen r j" "j \<noteq> k" for j
    using that d(4) by (simp add: unseen_def q pending_handlers_def called_handlers_def flip: s_def)
  ultimately have "\<forall>j. if j < length (pk_ops (pr_picks q)) then op_ok q j else unseen q j"
    using a kl by (auto simp: q)
  moreover have "distinct (k # pk_running s)" "\<forall>j\<in>set (k # pk_running s). \<not> queued d1 j"
    using a d(3,4) by auto
  ultimately show ?thesis using d(2) unfolding pick_inv_def q_def [symmetric] by (simp add: q(1))
qed

lemma set_completed_simps:
  "pk_ops (set_completed k v s) = (pk_ops s)[k := (pk_ops s ! k)\<lparr>op_handler := v\<rparr>]"
  "pk_loop (set_completed k v s) = pk_loop s" "pk_running (set_completed k v s) = pk_running s"
  "called_handlers (set_completed k v s) j = called_handlers s j"
  "pending_handlers (set_completed k v s) j
     = pending_handlers s j @ (if j = k \<and> op_status (pk_ops s ! k) \<noteq> Started then somes [v] else [])"
  by (auto simp: set_completed_def set_completed_locked_def Let_def called_handlers_def
      pending_handlers_def [of "pk_ops_update _ _"]) (auto simp: pending_handlers_def)

lemma register_inv:
  assumes "pick_inv r" "k < length (pk_ops (pr_picks r))"
  shows "pick_inv (r\<lparr>pr_picks := set_completed k v (pr_picks r), pr_regs := (pr_regs r)(k := pr_regs r k @ [v])\<rparr>)"
proof -
  define q where "q = r\<lparr>pr_picks := set_completed k v (pr_picks r), pr_regs := (pr_regs r)(k := pr_regs r k @ [v])\<rparr>"
  have q: "pr_picks q = set_completed k v (pr_picks r)" "pr_regs q = (pr_regs r)(k := pr_regs r k @ [v])"
    "pr_seen q = pr_seen r" "pr_done q = pr_done r"
    by (simp_all add: q_def)
  have res: "result_in result (o1\<lparr>op_handler := v\<rparr>) = result_in result o1" for result o1
    by (simp add: result_in_def split: sum.split)
  have "op_ok r k" using assms unfolding pick_inv_def by metis
  then have "op_ok q k"
    using assms(2) unfolding op_ok_def Let_def
    by (auto simp: q set_completed_simps owed_register res split: if_splits)
  moreover have "op_ok q j" if "j \<noteq> k" "op_ok r j" for j
    by (rule same_op_ok [OF _ that(2)]) (use that(1) in \<open>simp add: same_op_def q set_completed_simps\<close>)
  moreover have "unseen q j" if "j \<noteq> k" "unseen r j" for j
    using that by (simp add: unseen_def q set_completed_simps)
  ultimately show ?thesis
    using assms unfolding pick_inv_def q_def [symmetric] by (simp add: q set_completed_simps) metis
qed

lemma of_op_split:
  assumes "i < length xs"
  shows "mset (of_op k xs) = mset (of_op k (take i xs @ drop (Suc i) xs))
     + (if fst (xs ! i) = k then {#snd (xs ! i)#} else {#})"
proof -
  have "of_op k xs = of_op k (take i xs @ xs ! i # drop (Suc i) xs)"
    using id_take_nth_drop [OF assms] by simp
  then show ?thesis by simp
qed

lemma invoke_inv:
  assumes "pick_inv r" "i < length (pk_to_invoke (pr_picks r))"
  shows "pick_inv (r\<lparr>pr_picks := pick_invoke i (pr_picks r)\<rparr>)"
proof -
  define s where "s = pr_picks r"
  obtain k h where kh: "pk_to_invoke s ! i = (k, h)" by fastforce
  define q where "q = r\<lparr>pr_picks := pick_invoke i (pr_picks r)\<rparr>"
  have q: "pk_ops (pr_picks q) = pk_ops s" "pk_loop (pr_picks q) = pk_loop s" "pk_running (pr_picks q) = pk_running s"
    "pr_regs q = pr_regs r" "pr_seen q = pr_seen r" "pr_done q = pr_done r"
    "called_handlers (pr_picks q) j = called_handlers s j @ (if j = k then [(h, op_status (pk_ops s ! k))] else [])"
    "mset (pending_handlers s j) = mset (pending_handlers (pr_picks q) j) + (if j = k then {#h#} else {#})" for j
    using of_op_split [OF assms(2), of j] kh
    by (auto simp: q_def pick_invoke_def called_handlers_def pending_handlers_def simp flip: s_def)
  have same: "pending_handlers (pr_picks q) j = pending_handlers s j" if "j \<noteq> k" for j
  proof -
    have "pk_to_invoke s = take i (pk_to_invoke s) @ (k, h) # drop (Suc i) (pk_to_invoke s)"
      using id_take_nth_drop [OF assms(2)] kh by (simp add: s_def)
    then have "of_op j (pk_to_invoke s) = of_op j (take i (pk_to_invoke s) @ drop (Suc i) (pk_to_invoke s))"
      using that by (metis fst_conv of_op_simps(2) of_op_simps(3))
    then show ?thesis by (simp add: pending_handlers_def q_def pick_invoke_def kh flip: s_def)
  qed
  have "pending_handlers s k \<noteq> []" using q(8) [of k] by auto
  then have kl: "k < length (pk_ops s)" "op_ok r k"
    using assms(1) unfolding pick_inv_def unseen_def s_def by metis+
  have "op_ok q k"
    using kl(2) \<open>pending_handlers s k \<noteq> []\<close> q(8) [of k] unfolding op_ok_def Let_def
    by (auto simp: q(1-7) simp flip: s_def)
  moreover have "op_ok q j" if "j \<noteq> k" "op_ok r j" for j
    by (rule same_op_ok [OF _ that(2)]) (use that(1) in \<open>simp add: same_op_def q(1-7) same flip: s_def\<close>)
  moreover have "unseen q j" if "j \<noteq> k" "unseen r j" for j
    using that by (simp add: unseen_def q(1-7) same flip: s_def)
  ultimately show ?thesis
    using assms(1) kl unfolding pick_inv_def q_def [symmetric] by (simp add: q(1-7) flip: s_def) metis
qed

text \<open>A new operation: everything said of the others still holds, and nothing refers to the new one.\<close>

lemma append_inv:
  assumes "pick_inv r" "pr_picks q = (pr_picks r)\<lparr>pk_ops := pk_ops (pr_picks r) @ [operation_default], pk_loop := d\<rparr>"
    and "pr_regs q = pr_regs r" "pr_seen q = pr_seen r" "pr_done q = pr_done r"
    and "j \<noteq> length (pk_ops (pr_picks r))" "queued d j = queued (pk_loop (pr_picks r)) j"
  shows "if j < length (pk_ops (pr_picks q)) then op_ok q j else unseen q j"
proof (cases "j < length (pk_ops (pr_picks r))")
  case True
  then have "op_ok r j" using assms(1) unfolding pick_inv_def by metis
  then have "op_ok q j"
    using True by (intro same_op_ok [OF _ \<open>op_ok r j\<close>])
      (simp add: same_op_def assms nth_append pending_handlers_def called_handlers_def)
  then show ?thesis using True by (simp add: assms(2))
next
  case False
  then have "unseen r j" using assms(1) unfolding pick_inv_def by metis
  then show ?thesis
    using False assms(6,7) by (simp add: unseen_def assms(2-5) pending_handlers_def called_handlers_def)
qed

lemma default_op: "op_handler operation_default = None" "op_status operation_default = Started"
  by (simp_all add: operation_default_def)

lemma start_inv:
  assumes "pick_inv r" "pick_start True True (pr_picks r) = (k, s)"
  shows "pick_inv (r\<lparr>pr_picks := s\<rparr>)"
proof -
  define d where "d = (let d = pk_loop (pr_picks r) in d\<lparr>df_next := Suc (df_next d),
    df_windows := (df_windows d)(df_next d \<mapsto> Some k), df_posted := df_posted d @ [df_next d]\<rparr>)"
  define q where "q = r\<lparr>pr_picks := s\<rparr>"
  have k: "k = length (pk_ops (pr_picks r))" using assms(2) by (auto simp: pick_start_def Let_def split: prod.splits)
  have q: "pr_picks q = (pr_picks r)\<lparr>pk_ops := pk_ops (pr_picks r) @ [operation_default], pk_loop := d\<rparr>"
    "pr_regs q = pr_regs r" "pr_seen q = pr_seen r" "pr_done q = pr_done r"
    using assms(2) by (auto simp: q_def pick_start_def run_later_def Let_def d_def)
  have u: "unseen r k" using assms(1) k unfolding pick_inv_def by (metis nat_neq_iff)
  have lo: "loop_ok (pk_loop (pr_picks r))" using assms(1) by (simp add: pick_inv_def)
  have qd: "queued d j \<longleftrightarrow> j = k \<or> queued (pk_loop (pr_picks r)) j" for j
    using queued_append [OF lo, of k j] by (simp add: d_def Let_def)
  have "op_ok q k"
    using u by (simp add: op_ok_def Let_def q qd unseen_def default_op pending_handlers_def called_handlers_def k)
  moreover have "loop_ok d"
    using loop_append [OF lo, of k] u by (simp add: d_def Let_def unseen_def)
  moreover have "if j < length (pk_ops (pr_picks q)) then op_ok q j else unseen q j" if "j \<noteq> k" for j
    using append_inv [OF assms(1) q, of j] that k qd by simp
  moreover have "k < length (pk_ops (pr_picks q))" using q(1) k by simp
  ultimately have all: "\<forall>j. if j < length (pk_ops (pr_picks q)) then op_ok q j else unseen q j" "loop_ok d" by metis+
  have "k \<notin> set (pk_running (pr_picks r))" using u by (simp add: unseen_def)
  then have "\<forall>j\<in>set (pk_running (pr_picks q)). \<not> queued d j" "distinct (pk_running (pr_picks q))"
    using assms(1) unfolding pick_inv_def by (auto simp: q(1) qd)
  with all show ?thesis unfolding pick_inv_def q_def [symmetric] by (simp add: q(1))
qed

lemma append_adrift:
  assumes "pick_inv r" "loop_ok d" "\<And>j. queued d j = queued (pk_loop (pr_picks r)) j"
  shows "adrift (r\<lparr>pr_picks := (pr_picks r)\<lparr>pk_ops := pk_ops (pr_picks r) @ [operation_default], pk_loop := d\<rparr>\<rparr>)
     (length (pk_ops (pr_picks r)))"
proof -
  define q where "q = r\<lparr>pr_picks := (pr_picks r)\<lparr>pk_ops := pk_ops (pr_picks r) @ [operation_default], pk_loop := d\<rparr>\<rparr>"
  define k where "k = length (pk_ops (pr_picks r))"
  have q: "pr_picks q = (pr_picks r)\<lparr>pk_ops := pk_ops (pr_picks r) @ [operation_default], pk_loop := d\<rparr>"
    "pr_regs q = pr_regs r" "pr_seen q = pr_seen r" "pr_done q = pr_done r" by (simp_all add: q_def)
  have u: "unseen r k" using assms(1) unfolding pick_inv_def k_def by (metis nat_neq_iff)
  have "if j < length (pk_ops (pr_picks q)) then op_ok q j else unseen q j" if "j \<noteq> k" for j
    using append_inv [OF assms(1) q, of j] that assms(3) by (simp add: k_def)
  moreover have "k < length (pk_ops (pr_picks q))" "\<not> queued (pk_loop (pr_picks q)) k" "k \<notin> set (pk_running (pr_picks q))"
    "op_handler (pk_ops (pr_picks q) ! k) = (if pr_regs q k = [] then None else last (pr_regs q k))"
    "pending_handlers (pr_picks q) k = []" "called_handlers (pr_picks q) k = []" "of_op k (pr_done q) = []"
    using u assms(3) unfolding unseen_def
    by (simp_all add: q default_op pending_handlers_def called_handlers_def) (simp_all add: k_def default_op)
  moreover have "loop_ok (pk_loop (pr_picks q))" "distinct (pk_running (pr_picks q))"
    "\<forall>j\<in>set (pk_running (pr_picks q)). \<not> queued (pk_loop (pr_picks q)) j"
    using assms unfolding pick_inv_def by (simp_all add: q)
  ultimately show ?thesis unfolding q_def [symmetric] k_def [symmetric] adrift_def Let_def by blast
qed

lemma start_fails_inv:
  assumes "pick_inv r" "\<not> (created \<and> posts)" "pick_start created posts (pr_picks r) = (k, s)"
  shows "pick_inv (note_done k (Inl E_FAIL) (r\<lparr>pr_picks := s\<rparr>))"
proof -
  obtain d where d: "run_later created posts (length (pk_ops (pr_picks r))) (pk_loop (pr_picks r)) = (False, d)"
    "loop_ok d" "\<And>j. queued d j = queued (pk_loop (pr_picks r)) j"
  proof -
    have lo: "loop_ok (pk_loop (pr_picks r))" using assms(1) by (simp add: pick_inv_def)
    define e where "e = (let d = pk_loop (pr_picks r) in d\<lparr>df_next := Suc (df_next d),
      df_windows := (df_windows d)(df_next d := None)\<rparr>)"
    have "df_windows (pk_loop (pr_picks r)) (df_next (pk_loop (pr_picks r))) = None"
      using lo unfolding loop_ok_def by auto
    then have e: "df_windows e = df_windows (pk_loop (pr_picks r))" "df_posted e = df_posted (pk_loop (pr_picks r))"
      "df_next e = Suc (df_next (pk_loop (pr_picks r)))"
      by (auto simp: e_def Let_def)
    have "loop_ok e" using lo unfolding loop_ok_def e by (auto simp: less_SucI)
    moreover have "queued e j = queued (pk_loop (pr_picks r)) j" for j by (simp add: queued_def e)
    moreover have "run_later True False w (pk_loop (pr_picks r)) = (False, e)" for w
      by (simp add: run_later_def e_def Let_def)
    moreover have "run_later False b w (pk_loop (pr_picks r)) = (False, pk_loop (pr_picks r))" for b w
      by (simp add: run_later_def)
    ultimately show ?thesis using that assms(2) lo by (metis (full_types))
  qed
  have k: "k = length (pk_ops (pr_picks r))"
    and s: "s = pick_finish k (Inl E_FAIL) ((pr_picks r)\<lparr>pk_ops := pk_ops (pr_picks r) @ [operation_default], pk_loop := d\<rparr>)"
    using assms(3) d(1) by (auto simp: pick_start_def Let_def)
  show ?thesis using finish_inv [OF append_adrift [OF assms(1) d(2,3)], of "Inl E_FAIL"] by (simp add: s k)
qed

lemma completed_inv:
  assumes "pick_inv r" "pick_completed result (pr_picks r) = (k, s)"
  shows "pick_inv (note_done k result (r\<lparr>pr_picks := s\<rparr>))"
proof -
  have lo: "loop_ok (pk_loop (pr_picks r))" using assms(1) by (simp add: pick_inv_def)
  have k: "k = length (pk_ops (pr_picks r))"
    and s: "s = pick_finish k result ((pr_picks r)\<lparr>pk_ops := pk_ops (pr_picks r) @ [operation_default],
      pk_loop := pk_loop (pr_picks r)\<rparr>)"
    using assms(2) by (auto simp: pick_completed_def Let_def)
  show ?thesis using finish_inv [OF append_adrift [OF assms(1) lo refl], of result] by (simp add: s k)
qed

lemma job_inv:
  assumes "pick_inv r" "k \<in> set (pk_running (pr_picks r))"
  shows "pick_inv (note_done k result (r\<lparr>pr_picks := job_done k result (pr_picks r)\<rparr>))"
proof -
  define q where "q = r\<lparr>pr_picks := (pr_picks r)\<lparr>pk_running := remove1 k (pk_running (pr_picks r))\<rparr>\<rparr>"
  note i = assms(1) [unfolded pick_inv_def]
  have q: "pr_picks q = (pr_picks r)\<lparr>pk_running := remove1 k (pk_running (pr_picks r))\<rparr>"
    "pr_regs q = pr_regs r" "pr_seen q = pr_seen r" "pr_done q = pr_done r" by (simp_all add: q_def)
  have kl: "k < length (pk_ops (pr_picks r))" "op_ok r k"
    using assms(2) i unfolding unseen_def by metis+
  have other: "if j < length (pk_ops (pr_picks q)) then op_ok q j else unseen q j" if "j \<noteq> k" for j
  proof (cases "j < length (pk_ops (pr_picks r))")
    case True
    then have "op_ok r j" using i by metis
    then have "op_ok q j"
      by (intro same_op_ok [OF _ \<open>op_ok r j\<close>])
        (use that in \<open>simp add: same_op_def q pending_handlers_def called_handlers_def\<close>)
    then show ?thesis using True by (simp add: q)
  next
    case False
    then have "unseen r j" using i by metis
    then show ?thesis using False that
      by (simp add: unseen_def q pending_handlers_def called_handlers_def)
  qed
  have st: "op_handler (pk_ops (pr_picks r) ! k) = (if pr_regs r k = [] then None else last (pr_regs r k))"
    "pending_handlers (pr_picks r) k = []" "called_handlers (pr_picks r) k = []" "of_op k (pr_done r) = []"
    using kl(2) assms(2) unfolding op_ok_def Let_def by (auto split: if_splits)
  have d: "distinct (pk_running (pr_picks r))" "\<not> queued (pk_loop (pr_picks r)) k" using i assms(2) by blast+
  have "loop_ok (pk_loop (pr_picks q))" "distinct (pk_running (pr_picks q))"
    "\<forall>j\<in>set (pk_running (pr_picks q)). \<not> queued (pk_loop (pr_picks q)) j"
    "k < length (pk_ops (pr_picks q))" "\<not> queued (pk_loop (pr_picks q)) k" "k \<notin> set (pk_running (pr_picks q))"
    "op_handler (pk_ops (pr_picks q) ! k) = (if pr_regs q k = [] then None else last (pr_regs q k))"
    "pending_handlers (pr_picks q) k = []" "called_handlers (pr_picks q) k = []" "of_op k (pr_done q) = []"
    using st d kl(1) i set_remove1_subset [of k "pk_running (pr_picks r)"]
    by (simp_all add: q pending_handlers_def called_handlers_def)
  with other have "adrift q k" unfolding adrift_def Let_def by blast
  from finish_inv [OF this, of result] show ?thesis by (simp add: q_def job_done_def)
qed

lemma pick_reach_inv: "pick_reach r \<Longrightarrow> pick_inv r"
proof (induction rule: pick_reach.induct)
  case pr_new
  show ?case by (simp add: pick_inv_def pick_run_new_def picks_new_def deferred_new_def loop_ok_def unseen_def
        pending_handlers_def called_handlers_def queued_def)
qed (simp_all add: start_inv start_fails_inv completed_inv register_inv pump_inv job_inv invoke_inv)

section \<open>What a title sees\<close>

text \<open>The answer of \<open>GetResults\<close> to a finished pick: a cancelled one is \<open>S_OK\<close> without a result.\<close>

definition reported :: "('p \<Rightarrow> 'v) \<Rightarrow> 'p option outcome \<Rightarrow> 'v outcome" where
  "reported create result =
     (case result of Inl e \<Rightarrow> Inl e | Inr None \<Rightarrow> Inl S_OK | Inr (Some path) \<Rightarrow> Inr (create path))"

definition final_status :: "'p option outcome \<Rightarrow> async_status" where
  "final_status result = (case result of Inl e \<Rightarrow> StatusError | Inr p \<Rightarrow> Completed)"

lemma result_in_seen:
  "result_in result o1 \<Longrightarrow> get_results create o1 = reported create result \<and> op_status o1 = final_status result"
  by (auto simp: result_in_def get_results_def reported_def final_status_def error_empty_def
      split: sum.splits option.splits)

lemma pick_op_ok: "pick_reach r \<Longrightarrow> k < length (pk_ops (pr_picks r)) \<Longrightarrow> op_ok r k"
  using pick_reach_inv unfolding pick_inv_def by metis

text \<open>C13: at every moment of every run a pick is either unfinished - then no handler of it was called
  and \<open>GetResults\<close> is an illegal call - or it finished exactly once; then \<open>GetResults\<close> reports
  that result, every handler called was told its status, and no handler was called more
  often than it is owed, however registrations and the finish interleave.\<close>

theorem pick_handlers_never_twice:
  assumes "pick_reach r" "k < length (pk_ops (pr_picks r))"
  shows "of_op k (pr_done r) = [] \<and> called_handlers (pr_picks r) k = []
       \<and> get_results create (pk_ops (pr_picks r) ! k) = Inl E_ILLEGAL_METHOD_CALL
     \<or> (\<exists>result. of_op k (pr_done r) = [result]
       \<and> get_results create (pk_ops (pr_picks r) ! k) = reported create result
       \<and> (\<forall>c\<in>set (called_handlers (pr_picks r) k). snd c = final_status result)
       \<and> mset (map fst (called_handlers (pr_picks r) k)) \<subseteq># mset (owed (pr_regs r k) (pr_seen r k)))"
proof (cases "op_status (pk_ops (pr_picks r) ! k) = Started")
  case True
  then show ?thesis using pick_op_ok [OF assms] by (simp add: op_ok_def Let_def get_results_def)
next
  case False
  then obtain result where d: "of_op k (pr_done r) = [result]" "result_in result (pk_ops (pr_picks r) ! k)"
    and m: "mset (map fst (called_handlers (pr_picks r) k)) + mset (pending_handlers (pr_picks r) k)
        = mset (owed (pr_regs r k) (pr_seen r k))"
    and st: "\<forall>c\<in>set (called_handlers (pr_picks r) k). snd c = op_status (pk_ops (pr_picks r) ! k)"
    using pick_op_ok [OF assms] unfolding op_ok_def Let_def by auto
  have "mset (map fst (called_handlers (pr_picks r) k)) \<subseteq># mset (owed (pr_regs r k) (pr_seen r k))"
    using m by (metis mset_subset_eq_add_left)
  then show ?thesis using d(1) st result_in_seen [OF d(2)] by metis
qed

definition at_rest :: "('p, 'h) picks \<Rightarrow> bool" where
  "at_rest s \<longleftrightarrow> df_posted (pk_loop s) = [] \<and> pk_running s = [] \<and> pk_to_invoke s = []"

text \<open>C14: no completion is lost: once the title's loop is empty, no dialog is open and no call is
  under way, every pick that was started has finished, and a title that registered one handler
  has had it called exactly once, whether it registered before the pick finished or after.\<close>

theorem pick_handler_called_once:
  assumes "pick_reach r" "k < length (pk_ops (pr_picks r))" "at_rest (pr_picks r)"
    and "pr_regs r k = [Some h]"
  shows "\<exists>result. of_op k (pr_done r) = [result] \<and> called_handlers (pr_picks r) k = [(h, final_status result)]
     \<and> get_results create (pk_ops (pr_picks r) ! k) = reported create result"
proof -
  have ok: "op_ok r k" using pick_op_ok [OF assms(1,2)] .
  have "op_status (pk_ops (pr_picks r) ! k) \<noteq> Started"
    using ok assms(3) by (simp add: op_ok_def Let_def at_rest_def queued_def)
  then obtain result where d: "of_op k (pr_done r) = [result]" "result_in result (pk_ops (pr_picks r) ! k)"
    and m: "mset (map fst (called_handlers (pr_picks r) k)) = mset (owed [Some h] (pr_seen r k))"
    and st: "\<forall>c\<in>set (called_handlers (pr_picks r) k). snd c = op_status (pk_ops (pr_picks r) ! k)"
    and sn: "pr_seen r k \<le> 1"
    using ok assms(3,4) unfolding op_ok_def Let_def by (auto simp: at_rest_def pending_handlers_def)
  have "owed [Some h] n = [h]" if "n \<le> 1" for n
    using that by (cases n) (auto simp: owed_def)
  then have "mset (map fst (called_handlers (pr_picks r) k)) = {#h#}" using m sn by simp
  then have "map fst (called_handlers (pr_picks r) k) = [h]" unfolding mset_single_iff .
  then obtain st0 where "called_handlers (pr_picks r) k = [(h, st0)]" by (auto simp: map_eq_Cons_conv)
  then show ?thesis using d(1) st result_in_seen [OF d(2)] by auto
qed

text \<open>A run: the pick starts, its message is taken, the title registers a handler while the dialog is
  open, the user picks, and the handler is called.\<close>

definition demo_pick :: "(nat, nat) pick_run" where
  "demo_pick =
     (let r1 = pick_run_new\<lparr>pr_picks := snd (pick_start True True picks_new)\<rparr>;
          r2 = r1\<lparr>pr_picks := pump 0 (pr_picks r1)\<rparr>;
          r3 = r2\<lparr>pr_picks := set_completed 0 (Some 7) (pr_picks r2), pr_regs := (pr_regs r2)(0 := [Some 7])\<rparr>;
          r4 = note_done 0 (Inr (Some 5)) (r3\<lparr>pr_picks := job_done 0 (Inr (Some 5)) (pr_picks r3)\<rparr>)
      in r4\<lparr>pr_picks := pick_invoke 0 (pr_picks r4)\<rparr>)"

lemmas pick_defs = pick_run_new_def picks_new_def deferred_new_def pick_start_def run_later_def pump_def
  deferred_wnd_proc_def set_completed_def set_completed_locked_def job_done_def pick_finish_def
  finish_locked_def pick_invoke_def owe_def note_done_def operation_default_def Let_def

lemma demo_pick_reach: "pick_reach demo_pick"
proof -
  define r1 :: "(nat, nat) pick_run" where "r1 = pick_run_new\<lparr>pr_picks := snd (pick_start True True picks_new)\<rparr>"
  define r2 where "r2 = r1\<lparr>pr_picks := pump 0 (pr_picks r1)\<rparr>"
  define r3 where "r3 = r2\<lparr>pr_picks := set_completed 0 (Some 7) (pr_picks r2), pr_regs := (pr_regs r2)(0 := [Some 7])\<rparr>"
  define r4 where "r4 = note_done 0 (Inr (Some 5)) (r3\<lparr>pr_picks := job_done 0 (Inr (Some 5)) (pr_picks r3)\<rparr>)"
  have "pick_reach r1"
    using pr_start [OF pr_new prod.collapse [symmetric]] by (simp add: r1_def pick_run_new_def)
  then have "pick_reach r2" unfolding r2_def by (rule pr_pump) (simp add: r1_def pick_defs)
  moreover have "pr_regs r2 0 = []" by (simp add: r2_def r1_def pick_run_new_def)
  ultimately have "pick_reach r3"
    using pr_register [of r2 0 "Some 7"] by (simp add: r3_def) (simp add: r2_def r1_def pick_defs)
  then have "pick_reach r4" unfolding r4_def by (rule pr_job) (simp add: r3_def r2_def r1_def pick_defs)
  then have "pick_reach (r4\<lparr>pr_picks := pick_invoke 0 (pr_picks r4)\<rparr>)"
    by (rule pr_invoke) (simp add: r4_def r3_def r2_def r1_def pick_defs)
  then show ?thesis unfolding demo_pick_def Let_def r1_def r2_def r3_def r4_def .
qed

lemma demo_pick_facts: "0 < length (pk_ops (pr_picks demo_pick))" "at_rest (pr_picks demo_pick)"
  "pr_regs demo_pick 0 = [Some 7]" "of_op 0 (pr_done demo_pick) = [Inr (Some 5)]"
  by (simp_all add: demo_pick_def pick_defs at_rest_def)

lemma pick_handlers_never_twice_witness:
  "mset (map fst (called_handlers (pr_picks demo_pick) 0)) \<subseteq># mset (owed (pr_regs demo_pick 0) (pr_seen demo_pick 0))"
  using pick_handlers_never_twice [OF demo_pick_reach demo_pick_facts(1), of "\<lambda>p. p"] by auto

lemma pick_handler_called_once_witness:
  "called_handlers (pr_picks demo_pick) 0 = [(7, Completed)]
     \<and> get_results (\<lambda>p. p) (pk_ops (pr_picks demo_pick) ! 0) = Inr 5"
  using pick_handler_called_once [OF demo_pick_reach demo_pick_facts(1-3), of "\<lambda>p. p"] demo_pick_facts(4)
  by (auto simp: final_status_def reported_def)

end
