(* ===== verification/Platform.thy ===== *)
theory Platform
  imports Codec Handle_Table
begin

text \<open>
  The entry points that hand a text to the title in its own buffer: device and console ids
  (\<open>src/src/com/xsystem.rs\<close>), the mount path and the locale (\<open>xpackage.rs\<close>), the path of the
  persistent storage (\<open>xpersistent_local_storage.rs\<close>) and the analytics record
  (\<open>xsystemanalytics.rs\<close>). What is written is a list of bytes, from the start of the buffer; a
  null out-pointer is a flag. The interface \<open>text_out\<close> is their common contract.
\<close>

section \<open>XSystem\<close>

definition CONSOLE_ID :: ustring where "CONSOLE_ID = utf8 ''00000000.00000000.00000000.00000000.00''"
definition X_SYSTEM_CONSOLE_ID_BYTES :: int where "X_SYSTEM_CONSOLE_ID_BYTES = 39"
definition SANDBOX_ID :: ustring where "SANDBOX_ID = utf8 ''RETAIL''"
definition X_SYSTEM_SANDBOX_ID_MAX_BYTES :: int where "X_SYSTEM_SANDBOX_ID_MAX_BYTES = 16"

definition XSystemGetConsoleId :: "int \<Rightarrow> bool \<Rightarrow> bool \<Rightarrow> hresult \<times> nat option \<times> u8 list" where
  "XSystemGetConsoleId console_id_size id_null used_null =
     (if used_null then (E_POINTER, None, [])
      else let used = Some (length CONSOLE_ID + 1)
           in if id_null then (E_POINTER, used, [])
              else if console_id_size < X_SYSTEM_CONSOLE_ID_BYTES then (E_NOT_SUFFICIENT_BUFFER, used, [])
              else (S_OK, used, CONSOLE_ID @ [0]))"

definition XSystemGetXboxLiveSandboxId :: "int \<Rightarrow> bool \<Rightarrow> bool \<Rightarrow> hresult \<times> nat option \<times> u8 list" where
  "XSystemGetXboxLiveSandboxId sandbox_id_size id_null used_null =
     (if id_null then (E_POINTER, None, [])
      else if sandbox_id_size < X_SYSTEM_SANDBOX_ID_MAX_BYTES then (E_NOT_SUFFICIENT_BUFFER, None, [])
      else (S_OK, if used_null then None else Some (length SANDBOX_ID + 1), SANDBOX_ID @ [0]))"

text \<open>The text made from the two hashes.\<close>

definition device_id_text :: "u64 \<Rightarrow> u64 \<Rightarrow> ustring" where
  "device_id_text high low =
     (let h = unat high; l = unat low
      in pad_hex 8 (h div 2 ^ 32) @ [0x2d] @ pad_hex 4 (h div 2 ^ 16 mod 2 ^ 16) @ [0x2d]
         @ pad_hex 4 (h mod 2 ^ 16) @ [0x2d] @ pad_hex 4 (l div 2 ^ 48) @ [0x2d] @ pad_hex 12 (l mod 2 ^ 48))"

text \<open>\<open>cache\<close> is the \<open>OnceLock\<close>; \<open>high\<close> and \<open>low\<close> are what the hasher would give this time.\<close>

definition XSystemGetAppSpecificDeviceId ::
  "int \<Rightarrow> bool \<Rightarrow> bool \<Rightarrow> u64 \<times> u64 \<Rightarrow> ustring option \<Rightarrow> hresult \<times> nat option \<times> u8 list \<times> ustring option" where
  "XSystemGetAppSpecificDeviceId device_id_size id_null used_null hashes cache =
     (let did = (case cache of Some v \<Rightarrow> v | None \<Rightarrow> case_prod device_id_text hashes);
          used = (if used_null then None else Some (length did + 1))
      in if id_null \<or> device_id_size \<le> 0 then (S_OK, used, [], Some did)
         else (S_OK, used, take (min (length did + 1) (nat device_id_size)) (did @ [0]), Some did))"

section \<open>Copying a text\<close>

text \<open>The loop of \<open>XPackageGetMountPath\<close> and of the storage path: as much as fits before the
  terminator.\<close>

definition copy_truncated :: "nat \<Rightarrow> ustring \<Rightarrow> u8 list" where
  "copy_truncated size_of s =
     (let len = min (length s) (size_of - 1)
      in take len s @ (if size_of \<noteq> 0 then [0] else []))"

definition XPackageGetMountPathSize :: "u64 \<Rightarrow> bool \<Rightarrow> ustring htable \<Rightarrow> hresult \<times> nat option" where
  "XPackageGetMountPathSize mount out_null mounts =
     (case ht_get mounts mount of
        None \<Rightarrow> (E_INVALIDARG, None)
      | Some path \<Rightarrow> if out_null then (E_POINTER, None) else (S_OK, Some (length path + 1)))"

definition XPackageGetMountPath :: "u64 \<Rightarrow> nat \<Rightarrow> bool \<Rightarrow> ustring htable \<Rightarrow> hresult \<times> u8 list" where
  "XPackageGetMountPath mount path_size path_null mounts =
     (case ht_get mounts mount of
        None \<Rightarrow> (E_INVALIDARG, [])
      | Some path \<Rightarrow> if path_null then (E_POINTER, []) else (S_OK, copy_truncated path_size path))"

definition XPackageCloseMountHandle :: "u64 \<Rightarrow> ustring htable \<Rightarrow> ustring htable" where
  "XPackageCloseMountHandle mount mounts = ht_close mount mounts"

definition user_locale :: "(string \<Rightarrow> ustring option) \<Rightarrow> ustring" where
  "user_locale vars =
     (let raw = (case vars ''LC_ALL'' of
            Some v \<Rightarrow> v
          | None \<Rightarrow> (case vars ''LC_MESSAGES'' of
              Some v \<Rightarrow> v
            | None \<Rightarrow> (case vars ''LANG'' of Some v \<Rightarrow> v | None \<Rightarrow> [])));
          base = takeWhile (\<lambda>c. c \<noteq> 0x2e \<and> c \<noteq> 0x40) raw;
          tag = map (\<lambda>c. if c = 0x5f then 0x2d else c) base
      in if tag = [] \<or> tag = utf8 ''C'' \<or> tag = utf8 ''POSIX'' then utf8 ''en-US'' else tag)"

definition XPackageGetUserLocale ::
  "(string \<Rightarrow> ustring option) \<Rightarrow> nat \<Rightarrow> bool \<Rightarrow> hresult \<times> u8 list" where
  "XPackageGetUserLocale vars locale_size locale_null =
     (if locale_null then (E_POINTER, [])
      else let tag = user_locale vars
           in if length tag + 1 > locale_size then (E_NOT_SUFFICIENT_BUFFER, [])
              else (S_OK, tag @ [0]))"

section \<open>The path of the persistent storage\<close>

definition storage_get_path_size :: "ustring \<Rightarrow> nat" where
  "storage_get_path_size tmp_path = length tmp_path + 1"

definition storage_get_path :: "ustring \<Rightarrow> nat \<Rightarrow> u8 list \<times> nat" where
  "storage_get_path tmp_path path_size =
     (copy_truncated path_size tmp_path, min (length tmp_path) (path_size - 1) + 1)"

section \<open>The analytics record\<close>

record XVersion =
  v_major :: u16
  v_minor :: u16
  v_build :: u16
  v_revision :: u16

record XSystemAnalyticsInfo =
  os_version :: XVersion
  hosting_os_version :: XVersion
  family :: "u8 list"
  form :: "u8 list"

definition write_fixed_cstr :: "u8 list \<Rightarrow> u8 list \<Rightarrow> u8 list" where
  "write_fixed_cstr dst s =
     (let len = min (length s) 63
      in (take len s @ drop len dst)[len := 0])"

definition XSystemGetAnalyticsInfo :: "XSystemAnalyticsInfo option \<Rightarrow> XSystemAnalyticsInfo option" where
  "XSystemGetAnalyticsInfo result =
     (case result of
        None \<Rightarrow> None
      | Some r \<Rightarrow>
          let version = \<lparr>v_major = 10, v_minor = 0, v_build = 19045, v_revision = 0\<rparr>
          in Some (r\<lparr>os_version := version, hosting_os_version := version,
               family := write_fixed_cstr (family r) (utf8 ''Windows''),
               form := write_fixed_cstr (form r) (utf8 ''Desktop'')\<rparr>))"

section \<open>The contract\<close>

text \<open>\<open>c_str\<close>: how a title reads what it was given.\<close>

definition c_str :: "u8 list \<Rightarrow> ustring" where
  "c_str bs = takeWhile (\<lambda>c. c \<noteq> 0) bs"

lemma c_str_terminated: "0 \<notin> set t \<Longrightarrow> c_str (t @ 0 # rest) = t"
proof -
  assume "0 \<notin> set t"
  then have "\<forall>x\<in>set t. x \<noteq> 0" by auto
  then show ?thesis by (simp add: c_str_def takeWhile_append2)
qed

text \<open>A text that is asked for in two calls, one for its size and one for its bytes.\<close>

locale text_out =
  fixes size_call :: "'s \<Rightarrow> hresult \<times> nat option"
    and fetch_call :: "'s \<Rightarrow> nat \<Rightarrow> hresult \<times> u8 list"
    and content :: "'s \<Rightarrow> ustring option"
  assumes size_ok: "content s = Some t \<Longrightarrow> size_call s = (S_OK, Some (length t + 1))"
    and fetch_ok: "content s = Some t \<Longrightarrow> length t < n \<Longrightarrow> fetch_call s n = (S_OK, t @ [0])"
    and fetch_fits: "length (snd (fetch_call s n)) \<le> n"
    and missing: "content s = None \<Longrightarrow> fst (size_call s) = E_INVALIDARG \<and> fetch_call s n = (E_INVALIDARG, [])"
begin

text \<open>The two calls give the whole text, never write past the buffer, and fail together.\<close>

lemma two_calls:
  assumes "size_call s = (S_OK, Some n)"
  shows "\<exists>t. content s = Some t \<and> fetch_call s n = (S_OK, t @ [0]) \<and> n = length t + 1
     \<and> (0 \<notin> set t \<longrightarrow> c_str (snd (fetch_call s n)) = t)"
proof (cases "content s")
  case None
  then show ?thesis using missing [of s] assms by simp
next
  case (Some t)
  then have n: "n = length t + 1" using size_ok [OF Some] assms by simp
  then have "fetch_call s n = (S_OK, t @ [0])" using fetch_ok [OF Some] by simp
  then show ?thesis using Some n by (simp add: c_str_terminated)
qed

lemma fail_together: "fst (size_call s) \<noteq> S_OK \<longleftrightarrow> content s = None"
  using missing [of s] size_ok [of s] by (cases "content s") simp_all

end

text \<open>A provider that cuts the text to the buffer and still terminates it.\<close>

locale truncating_text_out = text_out +
  assumes fetch_cut: "content s = Some t \<Longrightarrow> 0 < n \<Longrightarrow> fetch_call s n = (S_OK, take (n - 1) t @ [0])"
begin

lemma any_buffer:
  assumes "content s = Some t" "0 < n" "0 \<notin> set t"
  shows "c_str (snd (fetch_call s n)) = take (n - 1) t"
  using fetch_cut [OF assms(1,2)] assms(3)
  by (auto simp: intro!: c_str_terminated dest: in_set_takeD)

end

lemma copy_truncated_cut: "0 < n \<Longrightarrow> copy_truncated n t = take (n - 1) t @ [0]"
  by (simp add: copy_truncated_def Let_def min_def)

lemma copy_truncated_fits: "length (copy_truncated n t) \<le> n"
  by (cases n) (simp_all add: copy_truncated_def Let_def)

interpretation mount_path: truncating_text_out
  "\<lambda>(mounts, h). XPackageGetMountPathSize h False mounts"
  "\<lambda>(mounts, h) n. XPackageGetMountPath h n False mounts"
  "\<lambda>(mounts, h). ht_get mounts h"
  by unfold_locales
    (auto simp: XPackageGetMountPathSize_def XPackageGetMountPath_def copy_truncated_cut copy_truncated_fits
      split: option.splits)

interpretation storage_path: truncating_text_out
  "\<lambda>tmp. (S_OK, Some (storage_get_path_size tmp))" "\<lambda>tmp n. (S_OK, fst (storage_get_path tmp n))" Some
  by unfold_locales
    (auto simp: storage_get_path_size_def storage_get_path_def copy_truncated_cut copy_truncated_fits)

end
