(* ===== verification/Package_Mounts.thy ===== *)
theory Package_Mounts
  imports Platform Files Ipc_Props Unicode
begin

text \<open>
  Persistent local storage (\<open>src/src/com/xpersistent_local_storage.rs\<close>): the space the title is
  told it has, and the mounts of its own storage and of its related products'. A mount asks
  the service which product a package family is, makes the directory, and issues a handle of
  the mount table (\<open>src/src/com/mod.rs\<close>) that the package object (\<open>xpackage.rs\<close>) resolves to a
  path. A path is the text the code keeps; \<open>path_of\<close> is the place in the file system it names.
\<close>

section \<open>Paths as texts\<close>

text \<open>\<open>PathBuf::push\<close> for a path that starts with a drive: an absolute or drive path replaces it, a
  rooted one replaces all but the drive, and a separator is added where none is.\<close>

definition push_path :: "ustring \<Rightarrow> ustring \<Rightarrow> ustring" where
  "push_path p c =
     (if has_drive c then c
      else if c \<noteq> [] \<and> is_separator (hd c) then take 2 p @ c
      else if p \<noteq> [] \<and> \<not> is_separator (last p) \<and> \<not> (length p = 2 \<and> has_drive p) then p @ [0x5c] @ c
      else p @ c)"

section \<open>Space\<close>

record space_info =
  availableFreeBytes :: u64
  totalFreeBytes :: u64
  usedBytes :: u64
  totalBytes :: u64

definition saturating_sub :: "u64 \<Rightarrow> u64 \<Rightarrow> u64" where
  "saturating_sub a b = (if unat a < unat b then 0 else a - b)"

definition storage_get_space_info :: "('e, 'c) ipc_env \<Rightarrow> space_info" where
  "storage_get_space_info en =
     (let (total_bytes, growable_to_bytes) =
            (case persistent_local_storage_space en of
               None \<Rightarrow> (1024 * 1024 * 1024, 2 * 1024 * 1024 * 1024)
             | Some p \<Rightarrow> p)
      in \<lparr>availableFreeBytes = saturating_sub growable_to_bytes (total_bytes div 2),
          totalFreeBytes = growable_to_bytes, usedBytes = total_bytes div 2, totalBytes = total_bytes\<rparr>)"

section \<open>Mounts\<close>

record mounts =
  ms_tmp :: ustring
  ms_table :: "ustring htable"
  ms_fs :: fsys
  ms_net :: net

definition is_self :: "('e, 'c) ipc_env \<Rightarrow> ustring \<Rightarrow> bool" where
  "is_self en package_identifier \<longleftrightarrow> var en ''XODUS_PACKAGE_FAMILY_NAME'' = Some package_identifier"

text \<open>The path a package may mount, or the refusal.\<close>

definition mountable :: "('e, 'c) ipc_env \<Rightarrow> ustring \<Rightarrow> mounts \<Rightarrow> ustring outcome \<times> mounts" where
  "mountable en package_identifier s =
     (if is_self en package_identifier then (Inr (ms_tmp s), s)
      else let (resolved, n) = resolve_product_id en package_identifier (ms_net s);
               s1 = s\<lparr>ms_net := n\<rparr>
           in case resolved of
                Inr (Some store_id) \<Rightarrow>
                  if is_related_product en store_id
                  then (Inr (push_path (push_path (ms_tmp s) (utf8 ''related'')) store_id), s1)
                  else (Inl E_INVALIDARG, s1)
              | _ \<Rightarrow> (Inl E_INVALIDARG, s1))"

definition mount_for_package ::
  "('e, 'c) ipc_env \<Rightarrow> u8 list option \<Rightarrow> bool \<Rightarrow> mounts \<Rightarrow> hresult \<times> u64 option \<times> mounts" where
  "mount_for_package en package_identifier handle_null s =
     (case package_identifier of
        None \<Rightarrow> (E_POINTER, None, s)
      | Some pid \<Rightarrow>
          if handle_null then (E_POINTER, None, s)
          else if \<not> well_formed_utf8 pid then (E_INVALIDARG, None, s)
          else case mountable en pid s of
            (Inl e, s1) \<Rightarrow> (e, None, s1)
          | (Inr path, s1) \<Rightarrow>
              (case create_dir_all (path_of path) (ms_fs s1) of
                 (False, fs) \<Rightarrow> (E_FAIL, None, s1\<lparr>ms_fs := fs\<rparr>)
               | (True, fs) \<Rightarrow>
                   let (h, t) = ht_create path (ms_table s1)
                   in (S_OK, Some h, s1\<lparr>ms_fs := fs, ms_table := t\<rparr>)))"

section \<open>What a mount grants\<close>

text \<open>A text that names an absolute place: it starts with a drive and a separator.\<close>

definition drive_path :: "ustring \<Rightarrow> bool" where
  "drive_path p \<longleftrightarrow> has_drive p \<and> 2 < length p \<and> is_separator (p ! 2)"

lemma has_drive_append: "has_drive p \<Longrightarrow> has_drive (p @ q)"
  by (auto simp: has_drive_def split: list.splits)

lemma drive_path_append: "drive_path p \<Longrightarrow> drive_path (p @ q)"
  by (simp add: drive_path_def has_drive_append nth_append)

lemma enter_empty [simp]: "enter p [] = p" by (simp add: enter_def)

text \<open>Pushing a plain name onto a text and onto the place it names agree.\<close>

lemma push_path_plain:
  assumes "drive_path p" "plain_name c"
  shows "push_path p c = p @ (if is_separator (last p) then [] else [0x5c]) @ c"
proof -
  have "c \<noteq> []" "\<not> has_drive c" "\<not> is_separator (hd c)" "p \<noteq> []" "length p \<noteq> 2"
    using assms by (cases c; auto simp: plain_name_def drive_path_def)+
  then show ?thesis by (simp add: push_path_def)
qed

lemma push_path_drive: "drive_path p \<Longrightarrow> plain_name c \<Longrightarrow> drive_path (push_path p c)"
  by (simp add: push_path_plain drive_path_append)

lemma path_of_push:
  assumes "drive_path p" "plain_name c"
  shows "path_of (push_path p c) = path_of p @ [c]"
proof -
  have c: "split_by is_separator c = [c]" "c \<noteq> []" "\<not> has_drive c" "\<not> is_separator (hd c)"
    "enter q c = q @ [c]" for q
    using assms(2) by (cases c; simp add: plain_name_def split_by_none enter_def)+
  have p: "p \<noteq> []" "has_drive p" "length p \<noteq> 2"
    using assms(1) by (auto simp: drive_path_def)
  have pj: "path_of p = foldl enter [] (split_by is_separator p)"
    using p by (simp add: path_of_def join_def)
  define q where "q = push_path p c"
  have "has_drive q" "q \<noteq> []"
    using push_path_drive [OF assms] by (auto simp: q_def drive_path_def)
  then have qj: "path_of q = foldl enter [] (split_by is_separator q)" by (simp add: path_of_def join_def)
  show ?thesis
  proof (cases "is_separator (last p)")
    case True
    then have q: "q = p @ c" by (simp add: q_def push_path_plain [OF assms])
    have "last (split_by is_separator p) = []"
    proof -
      have "split_by is_separator p = split_by is_separator (butlast p @ [last p])" using p(1) by simp
      then show ?thesis using True by (simp add: split_by_append del: append_butlast_last_id)
    qed
    then have "foldl enter [] (split_by is_separator p) = foldl enter [] (butlast (split_by is_separator p))"
      by (metis append_butlast_last_id enter_empty foldl_Cons foldl_Nil foldl_append split_by_ne)
    then show ?thesis
      unfolding q_def [symmetric] qj [unfolded q] pj q split_by_append c(1)
      using \<open>last (split_by is_separator p) = []\<close> c(5) by simp
  next
    case False
    then have q: "q = p @ 0x5c # c" by (simp add: q_def push_path_plain [OF assms])
    have sep: "split_by is_separator (0x5c # c) = [[], c]" using c(1) by (simp add: is_separator_def)
    have "foldl enter [] (split_by is_separator p)
        = enter (foldl enter [] (butlast (split_by is_separator p))) (last (split_by is_separator p))"
      by (metis append_butlast_last_id foldl_Cons foldl_Nil foldl_append split_by_ne)
    then show ?thesis
      unfolding q_def [symmetric] qj [unfolded q] pj q split_by_append sep by (simp add: c(5))
  qed
qed


definition demo_package_ipc :: "(nat, nat) ipc_env" where
  "demo_package_ipc = demo_ipc\<lparr>var := (\<lambda>v. if v = ''XODUS_PACKAGE_FAMILY_NAME'' then Some [0x61, 0x5f, 0x62] else None)\<rparr>"

definition demo_mounts :: mounts where
  "demo_mounts = \<lparr>ms_tmp = [0x43, 0x3a, 0x5c, 0x74], ms_table = ht_new,
     ms_fs = \<lparr>fs_nodes = [], fs_denied = (\<lambda>p. False), fs_now = 0\<rparr>, ms_net = demo_net\<rparr>"

lemma demo_mount:
  "\<exists>s'. mount_for_package demo_package_ipc (Some [0x61, 0x5f, 0x62]) False demo_mounts = (S_OK, Some 1, s')"
proof -
  have w: "well_formed_utf8 [0x61, 0x5f, 0x62]"
    by (simp add: well_formed_utf8_def encode_utf8_def utf8_bytes_def scalar_def)
  have m: "mountable demo_package_ipc [0x61, 0x5f, 0x62] demo_mounts = (Inr [0x43, 0x3a, 0x5c, 0x74], demo_mounts)"
    by (simp add: mountable_def is_self_def demo_package_ipc_def demo_mounts_def)
  have "path_of [0x43, 0x3a, 0x5c, 0x74] = [[0x43, 0x3a], [0x74]]" by code_simp
  then have "fst (create_dir_all (path_of [0x43, 0x3a, 0x5c, 0x74]) (ms_fs demo_mounts))"
    by (simp add: create_dir_all_def demo_mounts_def node_at_def put_node_def)
  then obtain fs where "create_dir_all (path_of [0x43, 0x3a, 0x5c, 0x74]) (ms_fs demo_mounts) = (True, fs)"
    by (metis prod.collapse)
  then show ?thesis
    by (simp add: mount_for_package_def w m Let_def ht_create_def) (simp add: demo_mounts_def ht_new_def)
qed




section \<open>The space reported\<close>

lemma mebibytes: "n < 2 ^ 44 \<Longrightarrow> unat (of_nat n * 1024 * 1024 :: u64) = n * 1024 * 1024"
proof -
  assume "n < 2 ^ 44"
  then have "n * 1024 * 1024 < 2 ^ 64" by simp
  then have "unat (of_nat (n * 1024 * 1024) :: u64) = n * 1024 * 1024" by (simp only: unat_of_nat take_bit_nat_eq_self)
      (simp add: take_bit_nat_eq_self)
  then show ?thesis by simp
qed

text \<open>The four numbers are consistent: what is used is part of the total, and used and available
  add up to the space the storage may grow to, which is at least the total; for declared sizes
  below 2^44 MiB the total is exactly the declared one.\<close>

theorem space_info_consistent:
  assumes "var en ''XODUS_PLS_SHAREABLE'' = Some x" "var en ''XODUS_PLS_GROWABLE_TO_MB'' = Some g"
    and "Option.bind (var en ''XODUS_PLS_SIZE_MB'') (parse_unsigned (2 ^ 64 - 1)) = Some mb" "mb < 2 ^ 44"
    and "case parse_unsigned (2 ^ 64 - 1) g of None \<Rightarrow> True | Some k \<Rightarrow> k < 2 ^ 44"
  shows "let i = storage_get_space_info en in
     unat (totalBytes i) = mb * 1024 * 1024 \<and> totalBytes i \<le> totalFreeBytes i \<and> usedBytes i \<le> totalBytes i
     \<and> unat (usedBytes i) + unat (availableFreeBytes i) = unat (totalFreeBytes i)"
proof -
  define gr where "gr = max (case parse_unsigned (2 ^ 64 - 1) g of None \<Rightarrow> mb | Some k \<Rightarrow> k) mb"
  define t :: u64 where "t = of_nat mb * 1024 * 1024"
  define u :: u64 where "u = of_nat gr * 1024 * 1024"
  have p: "persistent_local_storage_space en = Some (t, u)"
    using assms(1-3) unfolding persistent_local_storage_space_def t_def u_def gr_def by (simp only: option.case prod.case Let_def)
  have gr: "mb \<le> gr" "gr < 2 ^ 44" using assms(4,5) unfolding gr_def by (auto split: option.splits)
  have t: "unat t = mb * 1024 * 1024" "unat u = gr * 1024 * 1024"
    unfolding t_def u_def using mebibytes assms(4) gr(2) by blast+
  have h: "unat (t div 2) = unat t div 2" by (simp add: unat_div)
  have le: "unat (t div 2) \<le> unat t" "unat t \<le> unat u" using t gr(1) h by simp_all
  then have "saturating_sub u (t div 2) = u - t div 2" "unat (u - t div 2) = unat u - unat (t div 2)"
    by (simp_all add: saturating_sub_def unat_sub word_le_nat_alt)
  then show ?thesis
    unfolding storage_get_space_info_def p Let_def option.case prod.case
    using t(1) le by (simp add: word_le_nat_alt)
qed

definition demo_space_ipc :: "(nat, nat) ipc_env" where
  "demo_space_ipc = demo_ipc\<lparr>var := [''XODUS_PLS_SHAREABLE'' \<mapsto> [0x31], ''XODUS_PLS_SIZE_MB'' \<mapsto> [0x38],
     ''XODUS_PLS_GROWABLE_TO_MB'' \<mapsto> [0x39]]\<rparr>"

lemma space_info_consistent_witness:
  "unat (totalBytes (storage_get_space_info demo_space_ipc)) = 8 * 1024 * 1024"
proof -
  have d: "parse_unsigned m [0x38] = (if 8 \<le> m then Some 8 else None)"
    "parse_unsigned m [0x39] = (if 9 \<le> m then Some 9 else None)" for m
    by (simp_all add: parse_unsigned_def)
  have "(8 :: nat) \<le> 2 ^ 64 - 1" "(9 :: nat) \<le> 2 ^ 64 - 1" by simp_all
  then have p: "parse_unsigned (2 ^ 64 - 1) [0x38] = Some 8" "parse_unsigned (2 ^ 64 - 1) [0x39] = Some 9"
    unfolding d by (simp_all only: if_True)
  have v: "var demo_space_ipc ''XODUS_PLS_SHAREABLE'' = Some [0x31]"
    "var demo_space_ipc ''XODUS_PLS_GROWABLE_TO_MB'' = Some [0x39]"
    "var demo_space_ipc ''XODUS_PLS_SIZE_MB'' = Some [0x38]"
    by (simp_all add: demo_space_ipc_def)
  have b: "Option.bind (var demo_space_ipc ''XODUS_PLS_SIZE_MB'') (parse_unsigned (2 ^ 64 - 1)) = Some 8"
    unfolding v using p(1) by (simp only: bind.simps)
  have "case parse_unsigned (2 ^ 64 - 1) [0x39] of None \<Rightarrow> True | Some k \<Rightarrow> k < 2 ^ 44"
    unfolding p by simp
  from space_info_consistent [OF v(1,2) b _ this] show ?thesis by (simp add: Let_def)
qed

end
