(* ===== verification/Title_Config.thy ===== *)
theory Title_Config
  imports Files Unicode
begin

text \<open>
  What the runtime reads out of the title's own \<open>MicrosoftGame.config\<close>: the title id
  (\<open>src/src/com/xgame.rs\<close>) and the app id (\<open>src/src/ipc.rs\<close>), found by walking up from the
  executable. A directory is given by its components from the innermost outwards. The two
  \<open>OnceLock\<close>s that keep the first answer are the argument \<open>cache\<close>.
\<close>

section \<open>Finding an element\<close>

text \<open>\<open>str::find\<close>.\<close>

fun find_sub :: "ustring \<Rightarrow> ustring \<Rightarrow> nat option" where
  "find_sub pat [] = (if pat = [] then Some 0 else None)"
| "find_sub pat (c # cs) =
     (if take (length pat) (c # cs) = pat then Some 0 else map_option Suc (find_sub pat cs))"

definition element_text :: "ustring \<Rightarrow> ustring \<Rightarrow> ustring \<Rightarrow> ustring option" where
  "element_text opening closing contents =
     (case find_sub opening contents of
        None \<Rightarrow> None
      | Some start \<Rightarrow>
          (case position (\<lambda>c. c = 0x3e) (drop start contents) of
             None \<Rightarrow> None
           | Some gt \<Rightarrow>
               let open_end = gt + start + 1
               in case find_sub closing (drop open_end contents) of
                    None \<Rightarrow> None
                  | Some len \<Rightarrow> Some (str_trim (take len (drop open_end contents)))))"

definition parse_title_id_from_config :: "ustring \<Rightarrow> u32 option" where
  "parse_title_id_from_config contents =
     (case element_text (utf8 ''<TitleId'') (utf8 ''</TitleId>'') contents of
        None \<Rightarrow> None
      | Some t \<Rightarrow> if length t \<noteq> 8 then None else map_option of_nat (from_str_radix16 (2 ^ 32 - 1) t))"

definition parse_msa_app_id_from_config :: "ustring \<Rightarrow> ustring option" where
  "parse_msa_app_id_from_config contents =
     (case element_text (utf8 ''<MSAAppId'') (utf8 ''</MSAAppId>'') contents of
        None \<Rightarrow> None
      | Some t \<Rightarrow> if t = [] then None else Some t)"

section \<open>Walking up\<close>

text \<open>\<open>read_to_string\<close> refuses a file that is not UTF-8.\<close>

definition read_to_string :: "path \<Rightarrow> fsys \<Rightarrow> ustring option" where
  "read_to_string p fs =
     (case read_file p fs of
        None \<Rightarrow> None
      | Some bs \<Rightarrow> if well_formed_utf8 bs then Some bs else None)"

definition config_in :: "(ustring \<Rightarrow> 'a option) \<Rightarrow> fsys \<Rightarrow> path \<Rightarrow> 'a option" where
  "config_in parse fs dir =
     (case Option.bind (read_to_string (dir @ [utf8 ''MicrosoftGame.Config'']) fs) parse of
        Some v \<Rightarrow> Some v
      | None \<Rightarrow> Option.bind (read_to_string (dir @ [utf8 ''MicrosoftGame.config'']) fs) parse)"

text \<open>The argument is the directory with its innermost component first; \<open>pop\<close> fails at the root.\<close>

fun search_up :: "(ustring \<Rightarrow> 'a option) \<Rightarrow> fsys \<Rightarrow> ustring list \<Rightarrow> 'a option" where
  "search_up parse fs rdir =
     (case config_in parse fs (rev rdir) of
        Some v \<Rightarrow> Some v
      | None \<Rightarrow> (case rdir of c # d # outer \<Rightarrow> search_up parse fs (d # outer) | _ \<Rightarrow> None))"

declare search_up.simps [simp del]

definition once :: "'a option \<Rightarrow> 'a \<Rightarrow> 'a" where
  "once cache v = (case cache of Some w \<Rightarrow> w | None \<Rightarrow> v)"

text \<open>\<open>exe\<close> is the path of the executable, \<open>None\<close> when it is not known.\<close>

definition read_game_title_id :: "u32 option option \<Rightarrow> path option \<Rightarrow> fsys \<Rightarrow> u32 option" where
  "read_game_title_id cache exe fs =
     once cache (case exe of
         None \<Rightarrow> None
       | Some p \<Rightarrow> if length p < 2 then None else search_up parse_title_id_from_config fs (tl (rev p)))"

definition read_game_msa_app_id :: "ustring option option \<Rightarrow> path option \<Rightarrow> fsys \<Rightarrow> ustring option" where
  "read_game_msa_app_id cache exe fs =
     once cache (case exe of
         None \<Rightarrow> None
       | Some p \<Rightarrow> if length p < 2 then None else search_up parse_msa_app_id_from_config fs (tl (rev p)))"

definition XBOX_LIVE_CLIENT_ID :: ustring where "XBOX_LIVE_CLIENT_ID = utf8 ''000000004424da1f''"

definition title_client_id_of :: "ustring option \<Rightarrow> ustring" where
  "title_client_id_of app_id = (case app_id of Some v \<Rightarrow> v | None \<Rightarrow> XBOX_LIVE_CLIENT_ID)"

text \<open>\<open>u32::to_string\<close>.\<close>

fun decimal :: "nat \<Rightarrow> ustring" where
  "decimal n = (if n < 10 then [of_nat (48 + n)] else decimal (n div 10) @ [of_nat (48 + n mod 10)])"

declare decimal.simps [simp del]

definition title_id_of :: "u32 option \<Rightarrow> ustring" where
  "title_id_of tid = (case tid of Some v \<Rightarrow> decimal (unat v) | None \<Rightarrow> [])"

definition XGameGetXboxTitleId :: "bool \<Rightarrow> u32 option \<Rightarrow> hresult \<times> u32 option" where
  "XGameGetXboxTitleId value_null tid =
     (if value_null then (E_POINTER, None)
      else case tid of Some v \<Rightarrow> (S_OK, Some v) | None \<Rightarrow> (E_NOTIMPL, Some 0))"

section \<open>The nearest file wins\<close>

definition ancestors :: "ustring list \<Rightarrow> path list" where
  "ancestors rdir = map (\<lambda>k. rev (drop k rdir)) [0..<max 1 (length rdir)]"

lemma ancestors_Cons: "ancestors (c # d # outer) = rev (c # d # outer) # ancestors (d # outer)"
proof -
  have "[0..<max 1 (length (c # d # outer))] = 0 # map Suc [0..<max 1 (length (d # outer))]"
    by (simp add: map_Suc_upt upt_conv_Cons del: upt_Suc)
  then show ?thesis by (simp only: ancestors_def) (simp add: comp_def del: upt_Suc)
qed

lemma search_up_first:
  "search_up parse fs rdir
     = (case dropWhile (\<lambda>d. config_in parse fs d = None) (ancestors rdir) of
          [] \<Rightarrow> None
        | d # ds \<Rightarrow> config_in parse fs d)"
proof (induction parse fs rdir rule: search_up.induct)
  case (1 parse fs rdir)
  show ?case
  proof (cases "config_in parse fs (rev rdir)")
    case (Some v)
    have "\<exists>ds. ancestors rdir = rev rdir # ds"
      by (cases rdir) (simp_all add: ancestors_def upt_conv_Cons del: upt_Suc)
    then show ?thesis using Some by (subst search_up.simps) auto
  next
    case None
    show ?thesis
    proof (cases rdir)
      case Nil
      then show ?thesis using None by (subst search_up.simps) (simp add: ancestors_def)
    next
      case (Cons c r)
      show ?thesis
      proof (cases r)
        case Nil
        then show ?thesis using None Cons by (subst search_up.simps) (simp add: ancestors_def)
      next
        fix d outer assume r: "r = d # outer"
        show ?thesis using None Cons r 1 [OF None, of c "d # outer" d outer]
          by (subst search_up.simps) (simp add: ancestors_Cons)
      qed
    qed
  qed
qed

section \<open>Round trips\<close>

lemma find_sub_skip:
  "pat \<noteq> [] \<Longrightarrow> hd pat \<notin> set t \<Longrightarrow> find_sub pat (t @ pat @ post) = Some (length t)"
proof (induction t)
  case Nil
  then show ?case by (cases pat) simp_all
next
  case (Cons c t)
  then have "take (length pat) (c # t @ pat @ post) \<noteq> pat" by (cases pat) auto
  then show ?case using Cons by simp
qed

lemma position_first: "\<forall>x\<in>set xs. \<not> p x \<Longrightarrow> p y \<Longrightarrow> position p (xs @ y # ys) = Some (length xs)"
  by (induction xs) auto

definition blank :: "ustring \<Rightarrow> bool" where
  "blank ws \<longleftrightarrow> (\<forall>c\<in>set ws. unat c < 0x80 \<and> white_space (unat c))"

lemma dropWhile_blank: "\<forall>x\<in>set xs. P x \<Longrightarrow> dropWhile P (xs @ ys) = dropWhile P ys"
  by (induction xs) auto

lemma str_trim_blank:
  assumes "blank ws1" "blank ws2" "\<forall>c\<in>set s. unat c < 0x80 \<and> \<not> white_space (unat c)"
  shows "str_trim (ws1 @ s @ ws2) = s"
proof -
  have "chars (ws1 @ s @ ws2) = map unat ws1 @ map unat s @ map unat ws2"
    using assms by (subst chars_ascii) (auto simp: blank_def)
  moreover have "dropWhile white_space (map unat ws1 @ map unat s @ map unat ws2)
      = dropWhile white_space (map unat s @ map unat ws2)"
    using assms(1) by (intro dropWhile_blank) (auto simp: blank_def)
  moreover have "rev (dropWhile white_space (rev (dropWhile white_space (map unat s @ map unat ws2)))) = map unat s"
  proof (cases s)
    case Nil
    then have e: "dropWhile white_space (map unat s @ map unat ws2) = []"
      using assms(2) by (simp add: blank_def dropWhile_eq_Nil_conv)
    show ?thesis unfolding e by (simp add: Nil)
  next
    case (Cons c cs)
    then have "dropWhile white_space (map unat s @ map unat ws2) = map unat s @ map unat ws2"
      using assms(3) by simp
    moreover have "dropWhile white_space (rev (map unat s @ map unat ws2)) = dropWhile white_space (rev (map unat s))"
      using assms(2) dropWhile_blank [of "rev (map unat ws2)" white_space "rev (map unat s)"] by (auto simp: blank_def)
    moreover have "dropWhile white_space (rev (map unat s)) = rev (map unat s)"
      using assms(3) by (intro dropWhile_none) auto
    ultimately show ?thesis by simp
  qed
  ultimately have "str_trim (ws1 @ s @ ws2) = encode_utf8 (map unat s)" by (simp add: str_trim_def)
  then show ?thesis using encode_ascii [of s] assms(3) by simp
qed

text \<open>An element is read whatever its attributes and the blanks around its text.\<close>

lemma element_text_found:
  assumes "find_sub opening (pre @ opening @ attrs @ 0x3e # ws1 @ s @ ws2 @ closing @ post) = Some (length pre)"
    and "0x3e \<notin> set (opening @ attrs)" "closing \<noteq> []" "hd closing \<notin> set (ws1 @ s @ ws2)"
    and "blank ws1" "blank ws2" "\<forall>c\<in>set s. unat c < 0x80 \<and> \<not> white_space (unat c)"
  shows "element_text opening closing (pre @ opening @ attrs @ 0x3e # ws1 @ s @ ws2 @ closing @ post) = Some s"
proof -
  have "position (\<lambda>c. c = 0x3e) ((opening @ attrs) @ 0x3e # ws1 @ s @ ws2 @ closing @ post) = Some (length (opening @ attrs))"
    using assms(2) by (intro position_first) auto
  moreover have "find_sub closing ((ws1 @ s @ ws2) @ closing @ post) = Some (length (ws1 @ s @ ws2))"
    using assms(3,4) by (rule find_sub_skip)
  ultimately show ?thesis
    using assms(1) str_trim_blank [OF assms(5-7)] by (simp add: element_text_def Let_def)
qed

lemma dec_digits_snoc:
  "dec_digits a (xs @ [c]) = (case dec_digits a xs of None \<Rightarrow> None
     | Some n \<Rightarrow> if 48 \<le> unat c \<and> unat c \<le> 57 then Some (n * 10 + (unat c - 48)) else None)"
  by (induction xs arbitrary: a) auto

lemma decimal_digit: "d < 10 \<Longrightarrow> unat (of_nat (48 + d) :: u8) = 48 + d"
  by (simp add: unat_of_nat_byte del: of_nat_add)

lemma dec_digits_decimal: "dec_digits 0 (decimal n) = Some n"
  by (induction n rule: decimal.induct)
    (subst decimal.simps, auto simp: dec_digits_snoc decimal_digit simp del: of_nat_add)

lemma decimal_chars: "decimal n \<noteq> [] \<and> (\<forall>c\<in>set (decimal n). c \<noteq> 0x2b)"
proof (induction n rule: decimal.induct)
  case (1 n)
  have "of_nat (48 + d) \<noteq> (0x2b :: u8)" if "d < 10" for d
  proof
    assume "of_nat (48 + d) = (0x2b :: u8)"
    then have "48 + d = unat (0x2b :: u8)" using decimal_digit [OF that] by metis
    then show False by simp
  qed
  then have d: "n < 10 \<Longrightarrow> of_nat (48 + n) \<noteq> (0x2b :: u8)" "of_nat (48 + n mod 10) \<noteq> (0x2b :: u8)" by simp_all
  show ?case
  proof (cases "n < 10")
    case True
    then show ?thesis unfolding decimal.simps [of n] using d(1) by (simp del: of_nat_add)
  next
    case False
    then show ?thesis unfolding decimal.simps [of n] using d(2) 1 by (auto simp del: of_nat_add)
  qed
qed

lemma parse_unsigned_decimal: "parse_unsigned m (decimal n) = (if n \<le> m then Some n else None)"
  using decimal_chars [of n] dec_digits_decimal [of n]
  by (cases "decimal n") (auto simp: parse_unsigned_def simp del: dec_digits.simps)

lemma hex_no_lt: "0x3c \<notin> set (pad_hex w n)"
proof
  assume "0x3c \<in> set (pad_hex w n)"
  then have "hex_digits 0 (pad_hex w n) = None"
  proof -
    have "hex_digits a xs = None" if "0x3c \<in> set xs" for a xs
      using that by (induction xs arbitrary: a) (auto simp: hex_digit_def split: option.split)
    then show ?thesis using \<open>0x3c \<in> set (pad_hex w n)\<close> by blast
  qed
  then show False by (simp add: pad_hex_def Let_def hex_digits_zeros hex_digits_lower_hex)
qed

text \<open>C40: the title id written as eight hex digits in the nearest configuration file that has one is
  the id the title is told, and its decimal form, which the service is sent, parses back to it;
  attributes, blanks and the rest of the file do not matter, and files further out are not
  asked.\<close>

theorem title_id_round_trip:
  assumes "ancestors (tl (rev exe)) = nearer @ dir # farther" "2 \<le> length exe"
    and "\<forall>d\<in>set nearer. config_in parse_title_id_from_config fs d = None"
    and "read_to_string (dir @ [utf8 ''MicrosoftGame.Config'']) fs = Some contents"
    and "contents = pre @ utf8 ''<TitleId'' @ attrs @ 0x3e # ws1 @ pad_hex 8 n @ ws2 @ utf8 ''</TitleId>'' @ post"
    and "find_sub (utf8 ''<TitleId'') contents = Some (length pre)" "0x3e \<notin> set attrs"
    and "blank ws1" "blank ws2" "n < 2 ^ 32"
  shows "XGameGetXboxTitleId False (read_game_title_id None (Some exe) fs) = (S_OK, Some (of_nat n))
     \<and> parse_unsigned (2 ^ 32 - 1) (title_id_of (read_game_title_id None (Some exe) fs)) = Some n"
proof -
  have lt: "0x3c \<notin> set ws" if "blank ws" for ws
    using that by (auto simp: blank_def white_space_def)
  have tags: "utf8 ''</TitleId>'' = 0x3c # 0x2f # utf8 ''TitleId>''" "0x3e \<notin> set (utf8 ''<TitleId'')"
    by code_simp+
  have "element_text (utf8 ''<TitleId'') (utf8 ''</TitleId>'') contents = Some (pad_hex 8 n)"
    unfolding assms(5)
  proof (rule element_text_found)
    show "\<forall>c\<in>set (pad_hex 8 n). unat c < 0x80 \<and> \<not> white_space (unat c)"
      using pad_hex_chars [of 8 n] by blast
    show "hd (utf8 ''</TitleId>'') \<notin> set (ws1 @ pad_hex 8 n @ ws2)"
      using lt [OF assms(8)] lt [OF assms(9)] hex_no_lt [of 8 n] by (simp add: tags(1))
  qed (use assms(5-9) tags in simp_all)
  moreover have "length (pad_hex 8 n) = 8" using assms(10) by simp
  moreover have "from_str_radix16 (2 ^ 32 - 1) (pad_hex 8 n) = Some n"
    unfolding from_str_radix16_pad_hex using assms(10) by simp
  ultimately have "parse_title_id_from_config contents = Some (of_nat n)"
    by (simp add: parse_title_id_from_config_def)
  then have "config_in parse_title_id_from_config fs dir = Some (of_nat n)"
    by (simp add: config_in_def assms(4))
  then have "search_up parse_title_id_from_config fs (tl (rev exe)) = Some (of_nat n)"
    using assms(1,3) by (simp add: search_up_first dropWhile_append)
  then have r: "read_game_title_id None (Some exe) fs = Some (of_nat n)"
    using assms(2) by (simp add: read_game_title_id_def once_def)
  have "parse_unsigned (2 ^ 32 - 1) (decimal n) = Some n"
    unfolding parse_unsigned_decimal using assms(10) by simp
  then show ?thesis using assms(10)
    by (simp add: r XGameGetXboxTitleId_def title_id_of_def unat_of_nat take_bit_nat_eq_self)
qed

definition demo_config :: ustring where
  "demo_config = [0x20] @ utf8 ''<TitleId'' @ [] @ 0x3e # [] @ pad_hex 8 0x1234 @ [] @ utf8 ''</TitleId>'' @ []"

definition demo_config_fs :: fsys where
  "demo_config_fs = \<lparr>fs_nodes = [([[0x43, 0x3a], utf8 ''MicrosoftGame.Config''], File demo_config 0)],
     fs_denied = (\<lambda>p. False), fs_now = 0\<rparr>"

lemma title_id_round_trip_witness:
  "XGameGetXboxTitleId False (read_game_title_id None (Some [[0x43, 0x3a], [0x61], [0x62]]) demo_config_fs)
     = (S_OK, Some 0x1234)"
proof -
  have an: "ancestors (tl (rev [[0x43, 0x3a], [0x61], [0x62 :: u8]])) = [[[0x43, 0x3a], [0x61]]] @ [[0x43, 0x3a]] # []"
    by (simp add: ancestors_def upt_rec)
  have names: "utf8 ''MicrosoftGame.Config'' \<noteq> utf8 ''MicrosoftGame.config''" "length (utf8 ''MicrosoftGame.Config'') = 20"
    by code_simp+
  have c: "demo_config = [0x20] @ utf8 ''<TitleId'' @ [] @ 0x3e # [] @ pad_hex 8 0x1234 @ [] @ utf8 ''</TitleId>'' @ []"
    by (simp add: demo_config_def)
  have bytes: "demo_config = [0x20, 0x3c, 0x54, 0x69, 0x74, 0x6c, 0x65, 0x49, 0x64, 0x3e,
      0x30, 0x30, 0x30, 0x30, 0x31, 0x32, 0x33, 0x34, 0x3c, 0x2f, 0x54, 0x69, 0x74, 0x6c, 0x65, 0x49, 0x64, 0x3e]"
  proof -
    have "lower_hex 0x1234 = [0x31, 0x32, 0x33, 0x34]" by (simp add: lower_hex.simps hex_char_def)
    then have "pad_hex 8 0x1234 = replicate 4 0x30 @ [0x31, 0x32, 0x33, 0x34]" by (simp add: pad_hex_def)
    moreover have "replicate 4 0x30 = [0x30, 0x30, 0x30, 0x30 :: u8]" by (simp add: numeral_eq_Suc)
    ultimately have "pad_hex 8 0x1234 = [0x30, 0x30, 0x30, 0x30, 0x31, 0x32, 0x33, 0x34]" by simp
    moreover have "utf8 ''<TitleId'' = [0x3c, 0x54, 0x69, 0x74, 0x6c, 0x65, 0x49, 0x64]"
      "utf8 ''</TitleId>'' = [0x3c, 0x2f, 0x54, 0x69, 0x74, 0x6c, 0x65, 0x49, 0x64, 0x3e]" by code_simp+
    ultimately show ?thesis by (simp add: demo_config_def)
  qed
  have "find_sub (utf8 ''<TitleId'') demo_config = Some (length [0x20 :: u8])"
  proof -
    have "utf8 ''<TitleId'' = [0x3c, 0x54, 0x69, 0x74, 0x6c, 0x65, 0x49, 0x64]" by code_simp
    then show ?thesis by (simp add: bytes)
  qed
  moreover have "chars demo_config = map unat demo_config" "encode_utf8 (map unat demo_config) = demo_config"
    by (rule chars_ascii encode_ascii, simp add: bytes)+
  then have "read_to_string ([[0x43, 0x3a]] @ [utf8 ''MicrosoftGame.Config'']) demo_config_fs = Some demo_config"
    by (simp add: read_to_string_def well_formed_utf8_def read_file_def node_at_def demo_config_fs_def)
      (simp add: bytes scalar_def)
  moreover have "\<forall>d\<in>set [[[0x43, 0x3a], [0x61]]]. config_in parse_title_id_from_config demo_config_fs d = None"
    by (simp add: config_in_def read_to_string_def well_formed_utf8_def read_file_def node_at_def demo_config_fs_def)
  moreover have "(0x3e :: u8) \<notin> set []" "blank []" "(0x1234 :: nat) < 2 ^ 32" by (simp_all add: blank_def)
  ultimately have "XGameGetXboxTitleId False (read_game_title_id None (Some [[0x43, 0x3a], [0x61], [0x62]]) demo_config_fs)
     = (S_OK, Some (of_nat 0x1234))"
    using title_id_round_trip [OF an _ _ _ c, of demo_config_fs] by simp
  then show ?thesis by simp
qed

end
