(* ===== verification/Com_Classes.thy ===== *)
theory Com_Classes
  imports Prelude
begin

text \<open>
  The COM surface of the runtime as the sources declare it: the interfaces (each trait with
  its IID and the interface it extends), the objects (each \<open>implement\<close> attribute with the
  interfaces it lists) and the class ids under which a title asks for them.
\<close>

type_synonym guid = "128 word"

datatype com_interface = IUnknown | Interface (iid_of: guid) (base_of: com_interface)

primrec extends :: "com_interface \<Rightarrow> com_interface list" where
  "extends IUnknown = []"
| "extends (Interface i base) = Interface i base # extends base"

datatype com_object =
    XFeatureClass
  | XStoreObjectClass
  | XNetworkingObjectClass
  | XPersistentLocalStorageClass
  | XPackageObjectClass
  | XAsyncObjectClass
  | XUserObjectClass
  | XUserDeviceObjectClass
  | XGameSaveObjectClass
  | XSystemClass
  | XGameClass
  | XGameInviteClass
  | XGameProtocolClass
  | XErrorClass
  | XSystemAnalyticsClass
  | XAccessibilityClass
  | XAppCaptureClass
  | XAppCaptureMetadataClass
  | XDisplayClass
  | XLauncherClass
  | XGameActivationClass
  | XGameEventClass
  | XGameStreamingClass
  | XGameUiClass

section \<open>Class ids\<close>

definition CLSID_XSTORE :: guid where "CLSID_XSTORE = 0x0dd112ac7c24448cb92b3960fb5bd30c"
definition CLSID_XNETWORKING :: guid where "CLSID_XNETWORKING = 0x37e569072f1041e8b72f36edb185331a"
definition CLSID_XPERSISTENT_LOCAL_STORAGE :: guid where
  "CLSID_XPERSISTENT_LOCAL_STORAGE = 0xf4faf4d42d044fceb3e0474a713a3e84"
definition CLSID_XPACKAGE :: guid where "CLSID_XPACKAGE = 0xaf406016e8504aa8a88d2f3dcb9dac7e"
definition CLSID_XASYNC :: guid where "CLSID_XASYNC = 0x073b7dcb1fcf403094bee3c9eb623428"
definition CLSID_XUSER :: guid where "CLSID_XUSER = 0x01acd17791f94763a38eccbb55ce32e0"
definition CLSID_XUSER_DEVICE :: guid where
  "CLSID_XUSER_DEVICE = 0x7d82499710dc45ab86b72737767c0bf1"
definition CLSID_XGAMESAVE :: guid where "CLSID_XGAMESAVE = 0x704c3f58e6294cc2b19730511b996fe2"
definition CLSID_XSYSTEM :: guid where "CLSID_XSYSTEM = 0xe349bd1afc204e40b99c4178cc6b409f"
definition CLSID_XGAME :: guid where "CLSID_XGAME = 0x973a344e24bf4d0f845756c534892b29"
definition CLSID_XGAME_INVITE :: guid where
  "CLSID_XGAME_INVITE = 0x0651aae240124077bf848b9097090e2c"
definition CLSID_XGAME_PROTOCOL :: guid where
  "CLSID_XGAME_PROTOCOL = 0x95fd18d274dd4d7caa1b0b51827665d6"
definition CLSID_XERROR :: guid where "CLSID_XERROR = 0x8ca467f722e840968456bb8aa13f79d8"
definition CLSID_XSYSTEM_ANALYTICS :: guid where
  "CLSID_XSYSTEM_ANALYTICS = 0xb884675db7384a9c815d9a9a1e0c6c9b"
definition CLSID_XACCESSIBILITY :: guid where
  "CLSID_XACCESSIBILITY = 0x3e241977623741e98559102c2d9983f1"
definition CLSID_XAPPCAPTURE :: guid where "CLSID_XAPPCAPTURE = 0xa4f1aee24bf14485b008a7c26d52ac27"
definition CLSID_XAPPCAPTURE_METADATA :: guid where
  "CLSID_XAPPCAPTURE_METADATA = 0x186d5592a72d45fb956011aed0e6647a"
definition CLSID_XDISPLAY :: guid where "CLSID_XDISPLAY = 0x03f0fe74fdd94e5cb630f9339c47acc5"
definition CLSID_XLAUNCHER :: guid where "CLSID_XLAUNCHER = 0x1b339674328d4283a2003171f18d3639"
definition CLSID_XGAME_ACTIVATION :: guid where
  "CLSID_XGAME_ACTIVATION = 0x7f0fe8b8e07549ab9aa7a1e065489a9e"
definition CLSID_XGAME_EVENT :: guid where "CLSID_XGAME_EVENT = 0xbbfbdcc7bfe7409ba5caedf054960b4d"
definition CLSID_XGAME_STREAMING :: guid where
  "CLSID_XGAME_STREAMING = 0x0a2192aab2d54d5883be383b6d80799e"
definition CLSID_XGAME_UI :: guid where "CLSID_XGAME_UI = 0xdfcd46494ff84043ba0735d607df98b0"

section \<open>Interfaces\<close>

definition IXFeature :: com_interface where
  "IXFeature = Interface 0x8836fe87edb94fe38dad05f0d2cd5b40 IUnknown"
definition IXStore :: com_interface where
  "IXStore = Interface 0x2d42fea5e71d4b7697cdc50afbb3ae5d IUnknown"
definition IXStoreAlias1 :: com_interface where
  "IXStoreAlias1 = Interface 0x5c48dedf0b674492a4b56829b8e796e1 IXStore"
definition IXStoreAlias2 :: com_interface where
  "IXStoreAlias2 = Interface 0xb09d803c24144a0582c666dfdc9e9a44 IXStore"
definition IXStoreAlias3 :: com_interface where
  "IXStoreAlias3 = Interface 0x0dd112ac7c24448cb92b3960fb5bd30c IXStore"
definition IXNetworking :: com_interface where
  "IXNetworking = Interface 0xbf2346b239af4658b5ea44713c7e83b3 IUnknown"
definition IXNetworking2 :: com_interface where
  "IXNetworking2 = Interface 0x37e569072f1041e8b72f36edb185331a IXNetworking"
definition IXPersistentLocalStorage :: com_interface where
  "IXPersistentLocalStorage = Interface 0x41a4e10c5a7e41d98c3737bde62a07d6 IUnknown"
definition IXPackageImpl :: com_interface where
  "IXPackageImpl = Interface 0x3720de07e8e444a3ad32b359e8adbe55 IUnknown"
definition IXPackageImpl2 :: com_interface where
  "IXPackageImpl2 = Interface 0xf92d87122b274d8abf0111a6f8e3eb42 IXPackageImpl"
definition IXPackageImpl3 :: com_interface where
  "IXPackageImpl3 = Interface 0xe2a4734b2f4a456daa8fd065e04fb209 IXPackageImpl2"
definition IXAsync :: com_interface where
  "IXAsync = Interface 0x073b7dcb1fcf403094bee3c9eb623428 IUnknown"
definition IXUserImpl :: com_interface where
  "IXUserImpl = Interface 0x01acd17791f94763a38eccbb55ce32e0 IUnknown"
definition IXUserImpl2 :: com_interface where
  "IXUserImpl2 = Interface 0xeb9bf94818dc4d82bbcc40e0a809c4c0 IXUserImpl"
definition IXUserImpl3 :: com_interface where
  "IXUserImpl3 = Interface 0x1bf2f8c5d5074e52bb05f726d0e71161 IXUserImpl2"
definition IXUserImpl4 :: com_interface where
  "IXUserImpl4 = Interface 0x079415e36727437f8e9d8f8f9b2439f7 IXUserImpl3"
definition IXUserImpl5 :: com_interface where
  "IXUserImpl5 = Interface 0x26f3c674a2fe44fab6c4a323bc94ff53 IXUserImpl4"
definition IXUserImpl6 :: com_interface where
  "IXUserImpl6 = Interface 0x5131d68543944ee68c18bfb5d4aef1ff IXUserImpl5"
definition IXUserGamertagImpl :: com_interface where
  "IXUserGamertagImpl = Interface 0xcef4fac076764a94a1194c43f9eb5b74 IUnknown"
definition IXUserDeviceImpl :: com_interface where
  "IXUserDeviceImpl = Interface 0x7d82499710dc45ab86b72737767c0bf1 IUnknown"
definition IXUserDeviceImpl2 :: com_interface where
  "IXUserDeviceImpl2 = Interface 0x0cc6a956e7e14fdf93419d5da649ebc8 IXUserDeviceImpl"
definition IXGameSaveImpl :: com_interface where
  "IXGameSaveImpl = Interface 0x704c3f58e6294cc2b19730511b996fe2 IUnknown"
definition IXGameSaveImpl2 :: com_interface where
  "IXGameSaveImpl2 = Interface 0x704c3f58e6294cc2b19730511b996ee2 IXGameSaveImpl"
definition IXGameSaveImpl3 :: com_interface where
  "IXGameSaveImpl3 = Interface 0x1bfff3aff14a40a38e359ada906593f9 IXGameSaveImpl2"
definition IXSystem :: com_interface where
  "IXSystem = Interface 0xe349bd1afc204e40b99c4178cc6b409f IUnknown"
definition IXSystem2 :: com_interface where
  "IXSystem2 = Interface 0x6fd71f09751349f089bcbfaf5df6f852 IXSystem"
definition IXSystem3 :: com_interface where
  "IXSystem3 = Interface 0x67ce4bfcb1d14ac7bc3acb9219a97a85 IXSystem2"
definition IXSystem4 :: com_interface where
  "IXSystem4 = Interface 0xdadc289534b04ef5a83e45114d629b80 IXSystem3"
definition IXSystem5 :: com_interface where
  "IXSystem5 = Interface 0x1861cf2ee18b4834a9f5b4a4e6efb4cf IXSystem4"
definition IXGameImpl :: com_interface where
  "IXGameImpl = Interface 0x973a344e24bf4d0f845756c534892b29 IUnknown"
definition IXGameImpl2 :: com_interface where
  "IXGameImpl2 = Interface 0x508498590ad84f8180e45bc78626f852 IXGameImpl"
definition IXGameImpl3 :: com_interface where
  "IXGameImpl3 = Interface 0x2549f14264194a0697b5931aab7c2f34 IXGameImpl2"
definition IXGameInviteImpl :: com_interface where
  "IXGameInviteImpl = Interface 0x0651aae240124077bf848b9097090e2c IUnknown"
definition IXGameInviteImpl2 :: com_interface where
  "IXGameInviteImpl2 = Interface 0x014d1cc3bcfe41ffb2f0e1ef07155828 IXGameInviteImpl"
definition IXGameProtocolImpl :: com_interface where
  "IXGameProtocolImpl = Interface 0x026b010c06c34cddbbcb43f229db1cff IUnknown"
definition IXErrorImpl :: com_interface where
  "IXErrorImpl = Interface 0x8ca467f722e840968456bb8aa13f79d8 IUnknown"
definition IXSystemAnalyticsImpl :: com_interface where
  "IXSystemAnalyticsImpl = Interface 0xb884675db7384a9c815d9a9a1e0c6c9b IUnknown"
definition IXAccessibilityImpl :: com_interface where
  "IXAccessibilityImpl = Interface 0x3e241977623741e98559102c2d9983f1 IUnknown"
definition IXAccessibilityImpl2 :: com_interface where
  "IXAccessibilityImpl2 = Interface 0xd722b3738c4d46929e51d6ad9b37aa7d IXAccessibilityImpl"
definition IXAppCaptureImpl :: com_interface where
  "IXAppCaptureImpl = Interface 0xa4f1aee24bf14485b008a7c26d52ac27 IUnknown"
definition IXAppCaptureImpl2 :: com_interface where
  "IXAppCaptureImpl2 = Interface 0x3a949778772e4799bdea0a6639e96baa IXAppCaptureImpl"
definition IXAppCaptureImpl3 :: com_interface where
  "IXAppCaptureImpl3 = Interface 0x2bbca60a619c4fe1812efb5c1dbdcf51 IXAppCaptureImpl2"
definition IXAppCaptureImpl4 :: com_interface where
  "IXAppCaptureImpl4 = Interface 0x22e672d7b4e3406cbd508f0d25236f9e IXAppCaptureImpl3"
definition IXAppCaptureMetadataImpl :: com_interface where
  "IXAppCaptureMetadataImpl = Interface 0x186d5592a72d45fb956011aed0e6647a IUnknown"
definition IXDisplayImpl :: com_interface where
  "IXDisplayImpl = Interface 0x35f07670706e4bfb9476090798c5ebf3 IUnknown"
definition IXLauncherImpl :: com_interface where
  "IXLauncherImpl = Interface 0x1b339674328d4283a2003171f18d3639 IUnknown"
definition IXGameActivationImpl :: com_interface where
  "IXGameActivationImpl = Interface 0x2e4f76fe0fc7461eab4da4499434c3cf IUnknown"
definition IXGameEventImpl :: com_interface where
  "IXGameEventImpl = Interface 0xbbfbdcc7bfe7409ba5caedf054960b4d IUnknown"
definition IXGameStreamingImpl :: com_interface where
  "IXGameStreamingImpl = Interface 0x8aff07f5a1bf4db880a531cca0de51b7 IUnknown"
definition IXGameStreamingImpl2 :: com_interface where
  "IXGameStreamingImpl2 = Interface 0x5f5e5169746c4001ad1cda728d01c9eb IXGameStreamingImpl"
definition IXGameStreamingImpl3 :: com_interface where
  "IXGameStreamingImpl3 = Interface 0x57786622660546d0b9170f22bbcd9c52 IXGameStreamingImpl2"
definition IXGameUiImpl :: com_interface where
  "IXGameUiImpl = Interface 0x6eeaa73e966943ada2c7d0da4e1f50a1 IUnknown"
definition IXGameUiImpl2 :: com_interface where
  "IXGameUiImpl2 = Interface 0x36a031229ea34a3aa8a4899cfd85d7db IXGameUiImpl"
definition IXGameUiImpl3 :: com_interface where
  "IXGameUiImpl3 = Interface 0xade7eba1209342cea544a523a66790e0 IXGameUiImpl2"
definition IXGameUiImpl4 :: com_interface where
  "IXGameUiImpl4 = Interface 0xeaf669df5542459099a38dc061f837cc IXGameUiImpl3"

section \<open>Objects\<close>

text \<open>The interfaces each object implements.\<close>

definition XFeature :: "com_interface list" where
  "XFeature = [IXFeature]"
definition XStoreObject :: "com_interface list" where
  "XStoreObject = [IXStore, IXStoreAlias1, IXStoreAlias2]"
definition XNetworkingObject :: "com_interface list" where
  "XNetworkingObject = [IXNetworking, IXNetworking2]"
definition XPersistentLocalStorage :: "com_interface list" where
  "XPersistentLocalStorage = [IXPersistentLocalStorage]"
definition XPackageObject :: "com_interface list" where
  "XPackageObject = [IXPackageImpl, IXPackageImpl2, IXPackageImpl3]"
definition XAsyncObject :: "com_interface list" where
  "XAsyncObject = [IXAsync]"
definition XUserObject :: "com_interface list" where
  "XUserObject = [IXUserImpl, IXUserImpl2, IXUserImpl3, IXUserImpl4, IXUserImpl5, IXUserImpl6, IXUserGamertagImpl]"
definition XUserDeviceObject :: "com_interface list" where
  "XUserDeviceObject = [IXUserDeviceImpl, IXUserDeviceImpl2]"
definition XGameSaveObject :: "com_interface list" where
  "XGameSaveObject = [IXGameSaveImpl, IXGameSaveImpl2, IXGameSaveImpl3]"
definition XSystem :: "com_interface list" where
  "XSystem = [IXSystem, IXSystem2, IXSystem3, IXSystem4, IXSystem5]"
definition XGame :: "com_interface list" where
  "XGame = [IXGameImpl, IXGameImpl2, IXGameImpl3]"
definition XGameInvite :: "com_interface list" where
  "XGameInvite = [IXGameInviteImpl, IXGameInviteImpl2]"
definition XGameProtocol :: "com_interface list" where
  "XGameProtocol = [IXGameProtocolImpl]"
definition XError :: "com_interface list" where
  "XError = [IXErrorImpl]"
definition XSystemAnalytics :: "com_interface list" where
  "XSystemAnalytics = [IXSystemAnalyticsImpl]"
definition XAccessibility :: "com_interface list" where
  "XAccessibility = [IXAccessibilityImpl, IXAccessibilityImpl2]"
definition XAppCapture :: "com_interface list" where
  "XAppCapture = [IXAppCaptureImpl, IXAppCaptureImpl2, IXAppCaptureImpl3, IXAppCaptureImpl4]"
definition XAppCaptureMetadata :: "com_interface list" where
  "XAppCaptureMetadata = [IXAppCaptureMetadataImpl]"
definition XDisplay :: "com_interface list" where
  "XDisplay = [IXDisplayImpl]"
definition XLauncher :: "com_interface list" where
  "XLauncher = [IXLauncherImpl]"
definition XGameActivation :: "com_interface list" where
  "XGameActivation = [IXGameActivationImpl]"
definition XGameEvent :: "com_interface list" where
  "XGameEvent = [IXGameEventImpl]"
definition XGameStreaming :: "com_interface list" where
  "XGameStreaming = [IXGameStreamingImpl, IXGameStreamingImpl2, IXGameStreamingImpl3]"
definition XGameUi :: "com_interface list" where
  "XGameUi = [IXGameUiImpl, IXGameUiImpl2, IXGameUiImpl3, IXGameUiImpl4]"

fun implements :: "com_object \<Rightarrow> com_interface list" where
  "implements XFeatureClass = XFeature"
| "implements XStoreObjectClass = XStoreObject"
| "implements XNetworkingObjectClass = XNetworkingObject"
| "implements XPersistentLocalStorageClass = XPersistentLocalStorage"
| "implements XPackageObjectClass = XPackageObject"
| "implements XAsyncObjectClass = XAsyncObject"
| "implements XUserObjectClass = XUserObject"
| "implements XUserDeviceObjectClass = XUserDeviceObject"
| "implements XGameSaveObjectClass = XGameSaveObject"
| "implements XSystemClass = XSystem"
| "implements XGameClass = XGame"
| "implements XGameInviteClass = XGameInvite"
| "implements XGameProtocolClass = XGameProtocol"
| "implements XErrorClass = XError"
| "implements XSystemAnalyticsClass = XSystemAnalytics"
| "implements XAccessibilityClass = XAccessibility"
| "implements XAppCaptureClass = XAppCapture"
| "implements XAppCaptureMetadataClass = XAppCaptureMetadata"
| "implements XDisplayClass = XDisplay"
| "implements XLauncherClass = XLauncher"
| "implements XGameActivationClass = XGameActivation"
| "implements XGameEventClass = XGameEvent"
| "implements XGameStreamingClass = XGameStreaming"
| "implements XGameUiClass = XGameUi"

lemmas class_ids = IXFeature_def CLSID_XSTORE_def CLSID_XNETWORKING_def
  CLSID_XPERSISTENT_LOCAL_STORAGE_def CLSID_XPACKAGE_def CLSID_XASYNC_def CLSID_XUSER_def
  CLSID_XUSER_DEVICE_def CLSID_XGAMESAVE_def CLSID_XSYSTEM_def CLSID_XGAME_def
  CLSID_XGAME_INVITE_def CLSID_XGAME_PROTOCOL_def CLSID_XERROR_def CLSID_XSYSTEM_ANALYTICS_def
  CLSID_XACCESSIBILITY_def CLSID_XAPPCAPTURE_def CLSID_XAPPCAPTURE_METADATA_def CLSID_XDISPLAY_def
  CLSID_XLAUNCHER_def CLSID_XGAME_ACTIVATION_def CLSID_XGAME_EVENT_def CLSID_XGAME_STREAMING_def
  CLSID_XGAME_UI_def

lemmas interfaces = IXFeature_def IXStore_def IXStoreAlias1_def IXStoreAlias2_def
  IXStoreAlias3_def IXNetworking_def IXNetworking2_def IXPersistentLocalStorage_def
  IXPackageImpl_def IXPackageImpl2_def IXPackageImpl3_def IXAsync_def IXUserImpl_def
  IXUserImpl2_def IXUserImpl3_def IXUserImpl4_def IXUserImpl5_def IXUserImpl6_def
  IXUserGamertagImpl_def IXUserDeviceImpl_def IXUserDeviceImpl2_def IXGameSaveImpl_def
  IXGameSaveImpl2_def IXGameSaveImpl3_def IXSystem_def IXSystem2_def IXSystem3_def IXSystem4_def
  IXSystem5_def IXGameImpl_def IXGameImpl2_def IXGameImpl3_def IXGameInviteImpl_def
  IXGameInviteImpl2_def IXGameProtocolImpl_def IXErrorImpl_def IXSystemAnalyticsImpl_def
  IXAccessibilityImpl_def IXAccessibilityImpl2_def IXAppCaptureImpl_def IXAppCaptureImpl2_def
  IXAppCaptureImpl3_def IXAppCaptureImpl4_def IXAppCaptureMetadataImpl_def IXDisplayImpl_def
  IXLauncherImpl_def IXGameActivationImpl_def IXGameEventImpl_def IXGameStreamingImpl_def
  IXGameStreamingImpl2_def IXGameStreamingImpl3_def IXGameUiImpl_def IXGameUiImpl2_def
  IXGameUiImpl3_def IXGameUiImpl4_def

lemmas objects = XFeature_def XStoreObject_def XNetworkingObject_def XPersistentLocalStorage_def
  XPackageObject_def XAsyncObject_def XUserObject_def XUserDeviceObject_def XGameSaveObject_def
  XSystem_def XGame_def XGameInvite_def XGameProtocol_def XError_def XSystemAnalytics_def
  XAccessibility_def XAppCapture_def XAppCaptureMetadata_def XDisplay_def XLauncher_def
  XGameActivation_def XGameEvent_def XGameStreaming_def XGameUi_def

end
