(* ===== verification/Com_Dispatch.thy ===== *)
theory Com_Dispatch
  imports Com_Classes
begin

text \<open>
  \<open>QueryApiImpl\<close> (\<open>src/src/com/mod.rs\<close>): the class id picks a singleton, which is made on first
  use and then kept for ever, and the interface is asked of it. An object is named by its
  address; the state keeps the singletons made so far and every reference count.

  \<open>QueryInterface\<close> itself is generated by the \<open>implement\<close> attribute of \<open>windows-core\<close>, so it is
  the argument \<open>answers\<close>: the listed interfaces are answered, and a fixed set \<open>common\<close> of
  interfaces every object has (\<open>IUnknown\<close> and the like).
\<close>

section \<open>Singletons\<close>

record com_state =
  co_instances :: "com_object \<rightharpoonup> nat"
  co_next :: nat
  co_refs :: "nat \<Rightarrow> nat"

text \<open>The interface the function of each singleton returns.\<close>

fun singleton_interface :: "com_object \<Rightarrow> com_interface" where
  "singleton_interface XFeatureClass = IXFeature"
| "singleton_interface XStoreObjectClass = IXStore"
| "singleton_interface XNetworkingObjectClass = IXNetworking"
| "singleton_interface XPersistentLocalStorageClass = IXPersistentLocalStorage"
| "singleton_interface XPackageObjectClass = IXPackageImpl3"
| "singleton_interface XAsyncObjectClass = IXAsync"
| "singleton_interface XUserObjectClass = IXUserImpl6"
| "singleton_interface XUserDeviceObjectClass = IXUserDeviceImpl2"
| "singleton_interface XGameSaveObjectClass = IXGameSaveImpl3"
| "singleton_interface XSystemClass = IXSystem"
| "singleton_interface XGameClass = IXGameImpl3"
| "singleton_interface XGameInviteClass = IXGameInviteImpl2"
| "singleton_interface XGameProtocolClass = IXGameProtocolImpl"
| "singleton_interface XErrorClass = IXErrorImpl"
| "singleton_interface XSystemAnalyticsClass = IXSystemAnalyticsImpl"
| "singleton_interface XAccessibilityClass = IXAccessibilityImpl2"
| "singleton_interface XAppCaptureClass = IXAppCaptureImpl4"
| "singleton_interface XAppCaptureMetadataClass = IXAppCaptureMetadataImpl"
| "singleton_interface XDisplayClass = IXDisplayImpl"
| "singleton_interface XLauncherClass = IXLauncherImpl"
| "singleton_interface XGameActivationClass = IXGameActivationImpl"
| "singleton_interface XGameEventClass = IXGameEventImpl"
| "singleton_interface XGameStreamingClass = IXGameStreamingImpl3"
| "singleton_interface XGameUiClass = IXGameUiImpl4"

definition singleton :: "com_object \<Rightarrow> com_state \<Rightarrow> nat \<times> com_state" where
  "singleton c s =
     (case co_instances s c of
        Some p \<Rightarrow> (p, s)
      | None \<Rightarrow> let p = co_next s
                in (p, s\<lparr>co_instances := (co_instances s)(c \<mapsto> p), co_next := p + 1,
                         co_refs := (co_refs s)(p := 1)\<rparr>))"

definition add_ref :: "nat \<Rightarrow> com_state \<Rightarrow> com_state" where
  "add_ref p s = s\<lparr>co_refs := (co_refs s)(p := co_refs s p + 1)\<rparr>"

definition release :: "nat \<Rightarrow> com_state \<Rightarrow> com_state" where
  "release p s = s\<lparr>co_refs := (co_refs s)(p := co_refs s p - 1)\<rparr>"

section \<open>Dispatch\<close>

text \<open>
  What is written to \<open>out\<close>: \<open>None\<close> when it is left alone, \<open>Some None\<close> for a null pointer,
  \<open>Some (Some (p, i))\<close> for the interface \<open>i\<close> of the object at \<open>p\<close>.
\<close>

type_synonym com_out = "(nat \<times> guid) option option"

type_synonym query_interface = "com_interface list \<Rightarrow> guid \<Rightarrow> bool"

definition query ::
  "query_interface \<Rightarrow> com_object \<Rightarrow> nat \<Rightarrow> guid option \<Rightarrow> bool \<Rightarrow> com_state \<Rightarrow> hresult \<times> com_out \<times> com_state"
where
  "query answers c p interface_id out_null s =
     (case interface_id of
        None \<Rightarrow> (E_POINTER, None, s)
      | Some i \<Rightarrow>
          if out_null then (E_POINTER, None, s)
          else let s1 = add_ref p s
               in if answers (implements c) i
                  then (S_OK, Some (Some (p, i)), release p (add_ref p s1))
                  else (E_NOINTERFACE, Some None, release p s1))"

text \<open>The arms of the \<open>match\<close>, in their order.\<close>

definition class_of :: "guid \<Rightarrow> com_object option" where
  "class_of cid =
     (if cid = iid_of IXFeature then Some XFeatureClass
      else if cid = CLSID_XSTORE then Some XStoreObjectClass
      else if cid = CLSID_XNETWORKING then Some XNetworkingObjectClass
      else if cid = CLSID_XPERSISTENT_LOCAL_STORAGE then Some XPersistentLocalStorageClass
      else if cid = CLSID_XPACKAGE then Some XPackageObjectClass
      else if cid = CLSID_XASYNC then Some XAsyncObjectClass
      else if cid = CLSID_XUSER then Some XUserObjectClass
      else if cid = CLSID_XUSER_DEVICE then Some XUserDeviceObjectClass
      else if cid = CLSID_XGAMESAVE then Some XGameSaveObjectClass
      else if cid = CLSID_XSYSTEM then Some XSystemClass
      else if cid = CLSID_XGAME then Some XGameClass
      else if cid = CLSID_XGAME_INVITE then Some XGameInviteClass
      else if cid = CLSID_XGAME_PROTOCOL then Some XGameProtocolClass
      else if cid = CLSID_XERROR then Some XErrorClass
      else if cid = CLSID_XSYSTEM_ANALYTICS then Some XSystemAnalyticsClass
      else if cid = CLSID_XACCESSIBILITY then Some XAccessibilityClass
      else if cid = CLSID_XAPPCAPTURE then Some XAppCaptureClass
      else if cid = CLSID_XAPPCAPTURE_METADATA then Some XAppCaptureMetadataClass
      else if cid = CLSID_XDISPLAY then Some XDisplayClass
      else if cid = CLSID_XLAUNCHER then Some XLauncherClass
      else if cid = CLSID_XGAME_ACTIVATION then Some XGameActivationClass
      else if cid = CLSID_XGAME_EVENT then Some XGameEventClass
      else if cid = CLSID_XGAME_STREAMING then Some XGameStreamingClass
      else if cid = CLSID_XGAME_UI then Some XGameUiClass
      else None)"

definition query_api_impl ::
  "query_interface \<Rightarrow> guid option \<Rightarrow> guid option \<Rightarrow> bool \<Rightarrow> com_state \<Rightarrow> hresult \<times> com_out \<times> com_state"
where
  "query_api_impl answers runtime_class_id interface_id out_null s =
     (case runtime_class_id of
        None \<Rightarrow> (E_POINTER, None, s)
      | Some cid \<Rightarrow>
          if interface_id = None \<or> out_null then (E_POINTER, None, s)
          else case class_of cid of
            Some c \<Rightarrow> (let (p, s1) = singleton c s in query answers c p interface_id out_null s1)
          | None \<Rightarrow> (E_NOTIMPL, Some None, s))"

text \<open>The documented \<open>QueryInterface\<close>.\<close>

definition documented_qi :: "query_interface \<Rightarrow> guid set \<Rightarrow> bool" where
  "documented_qi answers common \<longleftrightarrow>
     (\<forall>impls i. answers impls i \<longleftrightarrow> i \<in> iid_of ` set impls \<or> i \<in> common)"

section \<open>The classes\<close>

definition class_table :: "(guid \<times> com_object) list" where
  "class_table =
    [(iid_of IXFeature, XFeatureClass),
     (CLSID_XSTORE, XStoreObjectClass),
     (CLSID_XNETWORKING, XNetworkingObjectClass),
     (CLSID_XPERSISTENT_LOCAL_STORAGE, XPersistentLocalStorageClass),
     (CLSID_XPACKAGE, XPackageObjectClass),
     (CLSID_XASYNC, XAsyncObjectClass),
     (CLSID_XUSER, XUserObjectClass),
     (CLSID_XUSER_DEVICE, XUserDeviceObjectClass),
     (CLSID_XGAMESAVE, XGameSaveObjectClass),
     (CLSID_XSYSTEM, XSystemClass),
     (CLSID_XGAME, XGameClass),
     (CLSID_XGAME_INVITE, XGameInviteClass),
     (CLSID_XGAME_PROTOCOL, XGameProtocolClass),
     (CLSID_XERROR, XErrorClass),
     (CLSID_XSYSTEM_ANALYTICS, XSystemAnalyticsClass),
     (CLSID_XACCESSIBILITY, XAccessibilityClass),
     (CLSID_XAPPCAPTURE, XAppCaptureClass),
     (CLSID_XAPPCAPTURE_METADATA, XAppCaptureMetadataClass),
     (CLSID_XDISPLAY, XDisplayClass),
     (CLSID_XLAUNCHER, XLauncherClass),
     (CLSID_XGAME_ACTIVATION, XGameActivationClass),
     (CLSID_XGAME_EVENT, XGameEventClass),
     (CLSID_XGAME_STREAMING, XGameStreamingClass),
     (CLSID_XGAME_UI, XGameUiClass)]"

lemma class_of_table: "class_of cid = map_of class_table cid"
  by (simp add: class_of_def class_table_def)

end
