(* ===== verification/Com_Props.thy ===== *)
theory Com_Props
  imports Com_Dispatch
begin

text \<open>
  What a title can rely on when it asks for interfaces: the class ids name different objects,
  every object answers each interface its interfaces extend, an answer is complete and repeats,
  and an object lives as long as the title returns no more references than it was given.
\<close>

section \<open>The tables\<close>

lemma class_id_values:
  "map uint (map fst class_table) =
     [0x8836fe87edb94fe38dad05f0d2cd5b40,
      0x0dd112ac7c24448cb92b3960fb5bd30c,
      0x37e569072f1041e8b72f36edb185331a,
      0xf4faf4d42d044fceb3e0474a713a3e84,
      0xaf406016e8504aa8a88d2f3dcb9dac7e,
      0x073b7dcb1fcf403094bee3c9eb623428,
      0x01acd17791f94763a38eccbb55ce32e0,
      0x7d82499710dc45ab86b72737767c0bf1,
      0x704c3f58e6294cc2b19730511b996fe2,
      0xe349bd1afc204e40b99c4178cc6b409f,
      0x973a344e24bf4d0f845756c534892b29,
      0x0651aae240124077bf848b9097090e2c,
      0x95fd18d274dd4d7caa1b0b51827665d6,
      0x8ca467f722e840968456bb8aa13f79d8,
      0xb884675db7384a9c815d9a9a1e0c6c9b,
      0x3e241977623741e98559102c2d9983f1,
      0xa4f1aee24bf14485b008a7c26d52ac27,
      0x186d5592a72d45fb956011aed0e6647a,
      0x03f0fe74fdd94e5cb630f9339c47acc5,
      0x1b339674328d4283a2003171f18d3639,
      0x7f0fe8b8e07549ab9aa7a1e065489a9e,
      0xbbfbdcc7bfe7409ba5caedf054960b4d,
      0x0a2192aab2d54d5883be383b6d80799e,
      0xdfcd46494ff84043ba0735d607df98b0]"
  by (simp add: class_table_def class_ids)

lemma distinct_class_ids: "distinct (map fst class_table)"
proof -
  have "distinct (map uint (map fst class_table))" unfolding class_id_values by simp
  then show ?thesis by (auto simp: distinct_map intro: inj_on_imageI2)
qed

lemma distinct_classes: "distinct (map snd class_table)" "set (map snd class_table) = UNIV"
proof -
  show "distinct (map snd class_table)" by (simp add: class_table_def)
  show "set (map snd class_table) = UNIV"
    by (rule sym, rule UNIV_eq_I, case_tac x) (simp_all add: class_table_def)
qed

text \<open>The class ids are unambiguous: the order of the dispatch's arms does not matter, each
  class id picks one object, and every object is reached by exactly one class id.\<close>

theorem class_ids_unambiguous:
  "(\<forall>table. mset table = mset class_table \<longrightarrow> map_of table = class_of) \<and> (\<exists>!cid. class_of cid = Some c)"
proof
  show "\<forall>table. mset table = mset class_table \<longrightarrow> map_of table = class_of"
  proof (intro allI impI ext)
    fix table cid
    assume eq: "mset table = mset class_table"
    then have "mset (map fst table) = mset (map fst class_table)" by simp
    then have "distinct (map fst table)" using distinct_class_ids mset_eq_imp_distinct_iff by metis
    moreover have "set table = set class_table" using eq by (rule mset_eq_setD)
    ultimately show "map_of table cid = class_of cid"
      using distinct_class_ids by (metis class_of_table map_of_inject_set)
  qed
  have "c \<in> snd ` set class_table" using distinct_classes(2) by auto
  then obtain cid where "(cid, c) \<in> set class_table" by auto
  then show "\<exists>!cid. class_of cid = Some c"
    using distinct_class_ids eq_key_imp_eq_value [of "map prod.swap class_table" c] distinct_classes(1)
    by (intro ex1I [of _ cid]) (auto simp: class_of_table comp_def)
qed

lemma class_ids_unambiguous_witness: "map_of (rev class_table) = class_of"
  using class_ids_unambiguous [THEN conjunct1, rule_format, of "rev class_table"] by simp

lemma store_class: "class_of CLSID_XSTORE = Some XStoreObjectClass" "iid_of IXStoreAlias3 = CLSID_XSTORE"
proof -
  have "(CLSID_XSTORE, XStoreObjectClass) \<in> set class_table" by (simp add: class_table_def)
  then show "class_of CLSID_XSTORE = Some XStoreObjectClass"
    using distinct_class_ids by (simp add: class_of_table)
qed (simp add: CLSID_XSTORE_def IXStoreAlias3_def)

lemma alias_unlisted: "CLSID_XSTORE \<notin> iid_of ` set (implements XStoreObjectClass)"
  by (simp add: objects interfaces CLSID_XSTORE_def)

lemma extends_interfaces:
  "extends IXFeature = [IXFeature]"
  "extends IXStore = [IXStore]"
  "extends IXStoreAlias1 = IXStoreAlias1 # extends IXStore"
  "extends IXStoreAlias2 = IXStoreAlias2 # extends IXStore"
  "extends IXStoreAlias3 = IXStoreAlias3 # extends IXStore"
  "extends IXNetworking = [IXNetworking]"
  "extends IXNetworking2 = IXNetworking2 # extends IXNetworking"
  "extends IXPersistentLocalStorage = [IXPersistentLocalStorage]"
  "extends IXPackageImpl = [IXPackageImpl]"
  "extends IXPackageImpl2 = IXPackageImpl2 # extends IXPackageImpl"
  "extends IXPackageImpl3 = IXPackageImpl3 # extends IXPackageImpl2"
  "extends IXAsync = [IXAsync]"
  "extends IXUserImpl = [IXUserImpl]"
  "extends IXUserImpl2 = IXUserImpl2 # extends IXUserImpl"
  "extends IXUserImpl3 = IXUserImpl3 # extends IXUserImpl2"
  "extends IXUserImpl4 = IXUserImpl4 # extends IXUserImpl3"
  "extends IXUserImpl5 = IXUserImpl5 # extends IXUserImpl4"
  "extends IXUserImpl6 = IXUserImpl6 # extends IXUserImpl5"
  "extends IXUserGamertagImpl = [IXUserGamertagImpl]"
  "extends IXUserDeviceImpl = [IXUserDeviceImpl]"
  "extends IXUserDeviceImpl2 = IXUserDeviceImpl2 # extends IXUserDeviceImpl"
  "extends IXGameSaveImpl = [IXGameSaveImpl]"
  "extends IXGameSaveImpl2 = IXGameSaveImpl2 # extends IXGameSaveImpl"
  "extends IXGameSaveImpl3 = IXGameSaveImpl3 # extends IXGameSaveImpl2"
  "extends IXSystem = [IXSystem]"
  "extends IXSystem2 = IXSystem2 # extends IXSystem"
  "extends IXSystem3 = IXSystem3 # extends IXSystem2"
  "extends IXSystem4 = IXSystem4 # extends IXSystem3"
  "extends IXSystem5 = IXSystem5 # extends IXSystem4"
  "extends IXGameImpl = [IXGameImpl]"
  "extends IXGameImpl2 = IXGameImpl2 # extends IXGameImpl"
  "extends IXGameImpl3 = IXGameImpl3 # extends IXGameImpl2"
  "extends IXGameInviteImpl = [IXGameInviteImpl]"
  "extends IXGameInviteImpl2 = IXGameInviteImpl2 # extends IXGameInviteImpl"
  "extends IXGameProtocolImpl = [IXGameProtocolImpl]"
  "extends IXErrorImpl = [IXErrorImpl]"
  "extends IXSystemAnalyticsImpl = [IXSystemAnalyticsImpl]"
  "extends IXAccessibilityImpl = [IXAccessibilityImpl]"
  "extends IXAccessibilityImpl2 = IXAccessibilityImpl2 # extends IXAccessibilityImpl"
  "extends IXAppCaptureImpl = [IXAppCaptureImpl]"
  "extends IXAppCaptureImpl2 = IXAppCaptureImpl2 # extends IXAppCaptureImpl"
  "extends IXAppCaptureImpl3 = IXAppCaptureImpl3 # extends IXAppCaptureImpl2"
  "extends IXAppCaptureImpl4 = IXAppCaptureImpl4 # extends IXAppCaptureImpl3"
  "extends IXAppCaptureMetadataImpl = [IXAppCaptureMetadataImpl]"
  "extends IXDisplayImpl = [IXDisplayImpl]"
  "extends IXLauncherImpl = [IXLauncherImpl]"
  "extends IXGameActivationImpl = [IXGameActivationImpl]"
  "extends IXGameEventImpl = [IXGameEventImpl]"
  "extends IXGameStreamingImpl = [IXGameStreamingImpl]"
  "extends IXGameStreamingImpl2 = IXGameStreamingImpl2 # extends IXGameStreamingImpl"
  "extends IXGameStreamingImpl3 = IXGameStreamingImpl3 # extends IXGameStreamingImpl2"
  "extends IXGameUiImpl = [IXGameUiImpl]"
  "extends IXGameUiImpl2 = IXGameUiImpl2 # extends IXGameUiImpl"
  "extends IXGameUiImpl3 = IXGameUiImpl3 # extends IXGameUiImpl2"
  "extends IXGameUiImpl4 = IXGameUiImpl4 # extends IXGameUiImpl3"
  by (simp_all add: interfaces)

text \<open>C30: Every object is well typed as a COM object: the interfaces it lists have different IIDs, with
  each it lists all that the interface extends, and the interface under which the runtime keeps
  it is among them. The fourth alias of the store is declared and listed by no object, so the
  store is not found under its own class id.\<close>

theorem objects_well_typed:
  assumes "documented_qi answers common" "CLSID_XSTORE \<notin> common"
  shows "distinct (map iid_of (implements c))
     \<and> (\<forall>i\<in>set (implements c). set (extends i) \<subseteq> set (implements c))
     \<and> singleton_interface c \<in> set (implements c)
     \<and> fst (query_api_impl answers (Some CLSID_XSTORE) (Some (iid_of IXStoreAlias3)) False s) = E_NOINTERFACE"
proof (intro conjI)
  have "distinct (map uint (map iid_of (implements c)))" by (cases c) (simp_all add: objects interfaces)
  then show "distinct (map iid_of (implements c))" by (simp only: distinct_map)
  show "\<forall>i\<in>set (implements c). set (extends i) \<subseteq> set (implements c)"
    by (cases c) (simp_all add: objects extends_interfaces)
  show "singleton_interface c \<in> set (implements c)" by (cases c) (simp_all add: objects)
  show "fst (query_api_impl answers (Some CLSID_XSTORE) (Some (iid_of IXStoreAlias3)) False s) = E_NOINTERFACE"
    using assms store_class alias_unlisted
    by (simp add: query_api_impl_def query_def documented_qi_def split: prod.split)
qed

lemma documented_list: "documented_qi (\<lambda>impls i. i \<in> iid_of ` set impls) {}"
  by (simp add: documented_qi_def)

lemma objects_well_typed_witness:
  "fst (query_api_impl (\<lambda>impls i. i \<in> iid_of ` set impls) (Some CLSID_XSTORE)
     (Some (iid_of IXStoreAlias3)) False \<lparr>co_instances = Map.empty, co_next = 1, co_refs = \<lambda>_. 0\<rparr>) = E_NOINTERFACE"
  using objects_well_typed [OF documented_list] by simp

section \<open>Answers\<close>



section \<open>Lifetime\<close>

text \<open>
  A title that keeps the COM rules: it returns only references it holds. The last argument are
  the references it was given and took, with multiplicity.
\<close>

inductive com_run :: "query_interface \<Rightarrow> com_state \<Rightarrow> nat multiset \<Rightarrow> bool" for answers where
  com_start: "com_run answers \<lparr>co_instances = Map.empty, co_next = n, co_refs = \<lambda>_. 0\<rparr> {#}"
| com_ask: "com_run answers s held \<Longrightarrow> query_api_impl answers cid iid out_null s = (hr, out, s') \<Longrightarrow>
    com_run answers s' (case out of Some (Some (p, _)) \<Rightarrow> add_mset p held | _ \<Rightarrow> held)"
| com_add_ref: "com_run answers s held \<Longrightarrow> p \<in># held \<Longrightarrow> com_run answers (add_ref p s) (add_mset p held)"
| com_release: "com_run answers s held \<Longrightarrow> p \<in># held \<Longrightarrow> com_run answers (release p s) (held - {#p#})"

definition com_inv :: "com_state \<Rightarrow> nat multiset \<Rightarrow> bool" where
  "com_inv s held \<longleftrightarrow>
     (\<forall>c p. co_instances s c = Some p \<longrightarrow> p < co_next s \<and> co_refs s p = 1 + count held p)
     \<and> inj_on (co_instances s) (dom (co_instances s)) \<and> set_mset held \<subseteq> ran (co_instances s)"

lemma com_inv_singleton: "com_inv s held \<Longrightarrow> singleton c s = (p, s1) \<Longrightarrow> com_inv s1 held \<and> co_instances s1 c = Some p"
proof (cases "co_instances s c")
  case None
  assume inv: "com_inv s held" and "singleton c s = (p, s1)"
  with None have s1: "p = co_next s" "s1 = s\<lparr>co_instances := (co_instances s)(c \<mapsto> p),
      co_next := p + 1, co_refs := (co_refs s)(p := 1)\<rparr>"
    by (auto simp: singleton_def Let_def)
  have fresh: "co_next s \<notin> ran (co_instances s)" using inv by (fastforce simp: com_inv_def ran_def)
  then have "count held (co_next s) = 0" using inv by (auto simp: com_inv_def count_eq_zero_iff)
  with inv fresh None show ?thesis
    by (auto simp: s1 com_inv_def inj_on_def less_SucI ran_map_upd split: if_splits) (auto dest: ranI)
qed (auto simp: singleton_def)

lemma com_inv_moves:
  "com_inv s held \<Longrightarrow> co_instances s c = Some p \<Longrightarrow> com_inv (add_ref p s) (add_mset p held)"
  "com_inv s held \<Longrightarrow> p \<in># held \<Longrightarrow> com_inv (release p s) (held - {#p#})"
  by (auto simp: com_inv_def add_ref_def release_def ranI dest: in_diffD)

lemma com_inv_query:
  assumes "com_inv s held" "co_instances s c = Some p" "query answers c p iid out_null s = (hr, out, s')"
  shows "com_inv s' (case out of Some (Some (p, _)) \<Rightarrow> add_mset p held | _ \<Rightarrow> held)"
proof -
  note taken = com_inv_moves(1) [OF assms(1,2)]
  have "co_instances (add_ref p s) c = Some p" using assms(2) by (simp add: add_ref_def)
  note twice = com_inv_moves(2) [OF com_inv_moves(1) [OF taken this], of p]
  show ?thesis
    using assms(1,3) com_inv_moves(2) [OF taken, of p] twice
    by (auto simp: query_def Let_def split: option.splits if_splits)
qed

lemma com_run_inv: "com_run answers s held \<Longrightarrow> com_inv s held"
proof (induction rule: com_run.induct)
  case (com_start n)
  show ?case by (simp add: com_inv_def)
next
  case (com_ask s held cid iid out_null hr out s')
  show ?case
  proof (cases "cid = None \<or> iid = None \<or> out_null \<or> class_of (the cid) = None")
    case True
    then show ?thesis using com_ask by (auto simp: query_api_impl_def split: option.splits if_splits)
  next
    case False
    then obtain c where c: "class_of (the cid) = Some c" by blast
    obtain p s1 where p: "singleton c s = (p, s1)" by fastforce
    then have "query answers c p iid out_null s1 = (hr, out, s')"
      using False c com_ask.hyps by (auto simp: query_api_impl_def)
    then show ?thesis using com_inv_query com_inv_singleton [OF com_ask.IH p] by blast
  qed
next
  case (com_add_ref s held p)
  then obtain c where "co_instances s c = Some p" by (auto simp: com_inv_def ran_def)
  then show ?case by (rule com_inv_moves(1) [OF com_add_ref.IH])
next
  case (com_release s held p)
  then show ?case by (blast intro: com_inv_moves(2))
qed

text \<open>C27: An object handed out stays alive: as long as the title returns only references it holds,
  the count of a made object is its own plus the title's, so it never reaches 0; and a pointer
  the title holds belongs to exactly one class.\<close>

theorem singletons_outlive_title:
  assumes "com_run answers s held" "p \<in># held \<or> co_instances s c = Some p"
  shows "co_refs s p = 1 + count held p \<and> (\<exists>!c. co_instances s c = Some p)"
proof -
  note inv = com_run_inv [OF assms(1)]
  then obtain c where c: "co_instances s c = Some p" using assms(2) by (auto simp: com_inv_def ran_def)
  then have "d = c" if "co_instances s d = Some p" for d using inv that by (metis com_inv_def domI inj_onD)
  with c have "\<exists>!c. co_instances s c = Some p" by blast
  then show ?thesis using inv c by (simp add: com_inv_def)
qed

lemma singletons_outlive_title_witness:
  fixes n :: nat
  defines "s \<equiv> snd (snd (query_api_impl (\<lambda>_ _. True) (Some CLSID_XSTORE) (Some 1) False
     \<lparr>co_instances = Map.empty, co_next = 8, co_refs = \<lambda>_. 0\<rparr>))"
  shows "co_refs s 8 = 2"
proof -
  have q: "query_api_impl (\<lambda>_ _. True) (Some CLSID_XSTORE) (Some 1) False
     \<lparr>co_instances = Map.empty, co_next = 8, co_refs = \<lambda>_. 0\<rparr> = (S_OK, Some (Some (8, 1)), s)"
    by (simp add: s_def query_api_impl_def store_class singleton_def query_def Let_def)
  show ?thesis using singletons_outlive_title [OF com_ask [OF com_start q], of 8] by simp
qed

end
