(* ===== verification/Lifecycle.thy ===== *)
theory Lifecycle
  imports Task_Queue XUser_Runs Com_Props
begin

text \<open>
  Bringing the runtime up and down (\<open>src/src/lib.rs\<close>): the count of initialisations, the process
  queue the first one installs and the last one drops, the remote-connect handlers it registers
  with the user object, and the exports around them. The addresses of the two handler functions
  are the arguments \<open>show\<close> and \<open>hide\<close>.
\<close>

section \<open>Initialize and uninitialize\<close>

record ('c, 'm) runtime =
  rt_count :: u64
  rt_sys :: "('c, 'm) sys"
  rt_com :: com_state
  rt_users :: xusers

definition install_process_queue :: "('c, 'm) sys \<Rightarrow> ('c, 'm) sys" where
  "install_process_queue s =
     (if has_process_queue s then s
      else let (q, s1) = queue_new ThreadPool ThreadPool s in set_process_queue (Some q) s1)"

text \<open>\<open>None\<close> when the call never returns, because the handler registry is locked for ever.\<close>

definition initialize ::
  "query_interface \<Rightarrow> u64 \<Rightarrow> u64 \<Rightarrow> ('c, 'm) runtime \<Rightarrow> (hresult \<times> ('c, 'm) runtime) option"
where
  "initialize answers show_fn hide_fn s =
     (let count = rt_count s + 1; s1 = s\<lparr>rt_count := count\<rparr>
      in if count > 1 then Some (S_OK, s1)
         else let s2 = s1\<lparr>rt_sys := install_process_queue (rt_sys s1)\<rparr>;
                  (hr, out, com) = query_api_impl answers (Some CLSID_XUSER) (Some (iid_of IXUserImpl5))
                                     False (rt_com s2);
                  s3 = s2\<lparr>rt_com := com\<rparr>
              in if hr = S_OK \<and> out \<noteq> Some None
                 then map_option (\<lambda>(_, users). (S_OK, s3\<lparr>rt_users := users\<rparr>))
                        (XUserPlatformRemoteConnectSetEventHandlers (Some (Some show_fn, Some hide_fn, 0)) (rt_users s3))
                 else Some (S_OK, s3))"

definition uninitialize :: "('c, 'm) runtime \<Rightarrow> hresult \<times> ('c, 'm) runtime" where
  "uninitialize s =
     (if rt_count s = 0 then (E_NOTIMPL, s)
      else let s1 = s\<lparr>rt_count := rt_count s - 1\<rparr>
           in (S_OK, if rt_count s1 = 0 then s1\<lparr>rt_sys := set_process_queue None (rt_sys s1)\<rparr> else s1))"

section \<open>Other exports\<close>

definition CLASS_E_CLASSNOTAVAILABLE :: hresult where
  "CLASS_E_CLASSNOTAVAILABLE = 0x80040111"

definition DllGetClassObject :: "bool \<Rightarrow> hresult \<times> com_out" where
  "DllGetClassObject out_null = (if out_null then (E_POINTER, None) else (CLASS_E_CLASSNOTAVAILABLE, Some None))"

section \<open>Runs\<close>

text \<open>What a title does with the lifetime of the runtime; it can install a queue of its own.\<close>

datatype life_op = Initialize | Uninitialize | SetProcessQueue nat

definition life_step ::
  "query_interface \<Rightarrow> u64 \<Rightarrow> u64 \<Rightarrow> life_op \<Rightarrow> ('c, 'm) runtime \<Rightarrow> (hresult \<times> ('c, 'm) runtime) option"
where
  "life_step answers show_fn hide_fn op s =
     (case op of
        Initialize \<Rightarrow> initialize answers show_fn hide_fn s
      | Uninitialize \<Rightarrow> Some (uninitialize s)
      | SetProcessQueue q \<Rightarrow> Some (S_OK, s\<lparr>rt_sys := set_process_queue (Some q) (rt_sys s)\<rparr>))"

primrec life_run ::
  "query_interface \<Rightarrow> u64 \<Rightarrow> u64 \<Rightarrow> life_op list \<Rightarrow> ('c, 'm) runtime \<Rightarrow> (hresult list \<times> ('c, 'm) runtime) option"
where
  "life_run answers show_fn hide_fn [] s = Some ([], s)"
| "life_run answers show_fn hide_fn (op # ops) s =
     (case life_step answers show_fn hide_fn op s of
        None \<Rightarrow> None
      | Some (hr, s1) \<Rightarrow> map_option (\<lambda>(hrs, s2). (hr # hrs, s2)) (life_run answers show_fn hide_fn ops s1))"

text \<open>The abstract count: how many initialisations are open.\<close>

fun depth :: "nat \<Rightarrow> life_op \<Rightarrow> nat" where
  "depth d Initialize = d + 1"
| "depth d Uninitialize = d - 1"
| "depth d (SetProcessQueue q) = d"

primrec life_answers :: "nat \<Rightarrow> life_op list \<Rightarrow> hresult list" where
  "life_answers d [] = []"
| "life_answers d (op # ops) =
     (if op = Uninitialize \<and> d = 0 then E_NOTIMPL else S_OK) # life_answers (depth d op) ops"

definition up :: "u64 \<Rightarrow> u64 \<Rightarrow> ('c, 'm) runtime \<Rightarrow> bool" where
  "up show_fn hide_fn s \<longleftrightarrow>
     has_process_queue (rt_sys s) \<and> xu_remote (rt_users s) = Some (Some show_fn, Some hide_fn, 0)"

section \<open>The count and what it guards\<close>

lemma user_object_answers:
  assumes "documented_qi answers common"
    and "query_api_impl answers (Some CLSID_XUSER) (Some (iid_of IXUserImpl5)) False s = (hr, out, s')"
  shows "hr = S_OK \<and> out \<noteq> Some None"
proof -
  have "(CLSID_XUSER, XUserObjectClass) \<in> set class_table" by (simp add: class_table_def)
  then have "class_of CLSID_XUSER = Some XUserObjectClass" using distinct_class_ids by (simp add: class_of_table)
  moreover have "iid_of IXUserImpl5 \<in> iid_of ` set (implements XUserObjectClass)" by (simp add: objects)
  ultimately show ?thesis
    using assms by (auto simp: query_api_impl_def query_def documented_qi_def Let_def split: prod.splits)
qed

lemma has_process_queue_set [simp]: "has_process_queue (set_process_queue q s) \<longleftrightarrow> q \<noteq> None"
  by (simp add: has_process_queue_def set_process_queue_def Let_def)

lemma has_process_queue_install [simp]: "has_process_queue (install_process_queue s)"
  by (simp add: install_process_queue_def split: prod.split)

lemma initialize_returns:
  assumes "documented_qi answers common" "\<not> xu_remote_lock (rt_users s)"
  shows "\<exists>s1. initialize answers show_fn hide_fn s = Some (S_OK, s1) \<and> rt_count s1 = rt_count s + 1
     \<and> \<not> xu_remote_lock (rt_users s1)
     \<and> (if rt_count s + 1 > 1 then rt_sys s1 = rt_sys s \<and> rt_users s1 = rt_users s
        else rt_sys s1 = install_process_queue (rt_sys s) \<and> up show_fn hide_fn s1)"
proof (cases "rt_count s + 1 > 1")
  case False
  obtain hr out com where q: "query_api_impl answers (Some CLSID_XUSER) (Some (iid_of IXUserImpl5)) False (rt_com s)
      = (hr, out, com)" by (metis prod_cases3)
  show ?thesis
    using user_object_answers [OF assms(1) q] assms(2) False q
    by (simp add: initialize_def Let_def XUserPlatformRemoteConnectSetEventHandlers_def up_def)
qed (use assms(2) in \<open>simp add: initialize_def Let_def\<close>)

lemma life_step_counts:
  assumes "documented_qi answers common" "\<not> xu_remote_lock (rt_users s)" "has_room (rt_count s) (Suc 0)"
    and "rt_count s \<noteq> 0 \<longrightarrow> up show_fn hide_fn s"
  shows "\<exists>s1. life_step answers show_fn hide_fn op s =
       Some (if op = Uninitialize \<and> unat (rt_count s) = 0 then E_NOTIMPL else S_OK, s1)
     \<and> unat (rt_count s1) = depth (unat (rt_count s)) op \<and> \<not> xu_remote_lock (rt_users s1)
     \<and> (rt_count s1 \<noteq> 0 \<longrightarrow> up show_fn hide_fn s1)"
proof (cases op)
  case Initialize
  have room: "unat (rt_count s + 1) = unat (rt_count s) + 1" using assms(3) by (rule unat_Suc_room)
  then have "rt_count s + 1 > 1 \<longleftrightarrow> rt_count s \<noteq> 0" by (simp add: word_less_nat_alt unat_gt_0)
  then show ?thesis
    using initialize_returns [OF assms(1,2), of show_fn hide_fn] assms(4) room Initialize
    by (auto simp: life_step_def up_def split: if_splits)
next
  case Uninitialize
  then show ?thesis
    using assms by (auto simp: life_step_def uninitialize_def Let_def up_def set_process_queue_def
        unat_eq_zero unat_minus_one)
next
  case (SetProcessQueue q)
  then show ?thesis using assms by (auto simp: life_step_def up_def)
qed

lemma life_run_counts:
  assumes "documented_qi answers common" "\<not> xu_remote_lock (rt_users s)" "has_room (rt_count s) (length ops)"
    and "rt_count s \<noteq> 0 \<longrightarrow> up show_fn hide_fn s"
  shows "\<exists>s1. life_run answers show_fn hide_fn ops s = Some (life_answers (unat (rt_count s)) ops, s1)
     \<and> unat (rt_count s1) = fold (\<lambda>op d. depth d op) ops (unat (rt_count s))
     \<and> (rt_count s1 \<noteq> 0 \<longrightarrow> up show_fn hide_fn s1)"
  using assms(2-)
proof (induction ops arbitrary: s)
  case Nil
  then show ?case by simp
next
  case (Cons op ops)
  have "has_room (rt_count s) (Suc 0)" using Cons.prems(2) by (simp add: has_room_def)
  from life_step_counts [OF assms(1) Cons.prems(1) this Cons.prems(3), of op]
  obtain s1 where s1: "life_step answers show_fn hide_fn op s =
       Some (if op = Uninitialize \<and> unat (rt_count s) = 0 then E_NOTIMPL else S_OK, s1)"
    "unat (rt_count s1) = depth (unat (rt_count s)) op" "\<not> xu_remote_lock (rt_users s1)"
    "rt_count s1 \<noteq> 0 \<longrightarrow> up show_fn hide_fn s1" by blast
  have "depth (unat (rt_count s)) op \<le> unat (rt_count s) + 1" by (cases op) auto
  then have "has_room (rt_count s1) (length ops)"
    using Cons.prems(2) s1(2) by (simp add: has_room_def)
  from Cons.IH [OF s1(3) this s1(4)] show ?case using s1(1,2) by auto
qed


text \<open>The last uninitialisation leaves no process queue, and no cached handle for one, even when the
  queue is the title's own and not the one the runtime installed; the next initialisation installs
  a new queue on two new ports.\<close>

theorem last_uninitialize_drops_queue:
  assumes "documented_qi answers common" "\<not> xu_remote_lock (rt_users s)" "rt_count s = 1"
    and "uninitialize s = (hr, s1)" "initialize answers show_fn hide_fn s1 = Some (hr2, s2)"
  shows "hr = S_OK \<and> \<not> has_process_queue (rt_sys s1) \<and> process_queue_handle (rt_sys s1) = None
     \<and> process_queue (rt_sys s2) = Some (next_queue (rt_sys s))
     \<and> next_port (rt_sys s2) = next_port (rt_sys s) + 2 \<and> process_queue_handle (rt_sys s2) = None"
proof -
  have down: "hr = S_OK" "rt_count s1 = 0" "rt_sys s1 = set_process_queue None (rt_sys s)" "rt_users s1 = rt_users s"
    using assms(3,4) by (auto simp: uninitialize_def)
  then have "rt_sys s2 = install_process_queue (rt_sys s1)"
    using initialize_returns [OF assms(1), of s1 show_fn hide_fn] assms(2,5) by auto
  then show ?thesis
    by (simp add: down install_process_queue_def set_process_queue_def queue_new_def queue_composite_def
        port_create_def context_new_def set_port_def set_queue_def has_process_queue_def Let_def)
qed

definition demo_runtime :: "u64 \<Rightarrow> (nat, nat) runtime" where
  "demo_runtime n = \<lparr>rt_count = n,
     rt_sys = \<lparr>clock = 0, parallelism = None, ports = \<lambda>_. port_new Manual, next_port = 0, next_context_id = 1,
       queues = \<lambda>_. \<lparr>q_work = \<lparr>pc_port = 0, pc_owner = 0, pc_terminated = True\<rparr>,
         q_completion = \<lparr>pc_port = 0, pc_owner = 0, pc_terminated = True\<rparr>,
         q_monitors = [], q_next_token = 1, q_canonical = None\<rparr>, next_queue = 8, queue_handles = ht_new, port_handles = ht_new,
       process_queue = Some 7, process_queue_handle = None, sleeping = [], in_dispatch_of = \<lambda>_. False\<rparr>,
     rt_com = \<lparr>co_instances = Map.empty, co_next = 1, co_refs = \<lambda>_. 0\<rparr>,
     rt_users = users_start demo_net\<rparr>"

lemma demo_runtime_simps [simp]:
  "rt_count (demo_runtime n) = n" "\<not> xu_remote_lock (rt_users (demo_runtime n))"
  "next_queue (rt_sys (demo_runtime n)) = 8"
  by (simp_all add: demo_runtime_def users_start_def)


lemma last_uninitialize_drops_queue_witness:
  "process_queue (rt_sys (demo_runtime 1)) = Some 7
   \<and> (\<exists>(s1 :: (nat, nat) runtime) s2. initialize (\<lambda>impls i. i \<in> iid_of ` set impls) 1 2 s1 = Some (S_OK, s2)
        \<and> process_queue (rt_sys s2) = Some 8)"
proof
  show "process_queue (rt_sys (demo_runtime 1)) = Some 7" by (simp add: demo_runtime_def)
  obtain hr s1 where u: "uninitialize (demo_runtime 1) = (hr, s1)" by fastforce
  then have "\<not> xu_remote_lock (rt_users s1)" by (auto simp: uninitialize_def Let_def)
  then obtain s2 where i: "initialize (\<lambda>impls i. i \<in> iid_of ` set impls) 1 2 s1 = Some (S_OK, s2)"
    using initialize_returns [OF documented_list] by blast
  show "\<exists>(s1 :: (nat, nat) runtime) s2. initialize (\<lambda>impls i. i \<in> iid_of ` set impls) 1 2 s1 = Some (S_OK, s2)
      \<and> process_queue (rt_sys s2) = Some 8"
    using last_uninitialize_drops_queue [OF documented_list _ _ u i] i by auto
qed

end
