(* ===== verification/Picked_File.thy ===== *)
theory Picked_File
  imports Files Unicode Pick_Operation
begin

text \<open>
  The \<open>StorageFile\<close> a finished pick hands back (\<open>src/src/com/pickers/storage_file.rs\<close>), the
  \<open>PickFileResult\<close> of the App SDK's picker (\<open>appsdk/pick_result.rs\<close>) and the static factory that
  makes a file of a path (\<open>storage_statics.rs\<close>). A file is the text of its path; an \<open>HSTRING\<close> is
  the list of its units. The methods that only refuse are one definition.
\<close>

section \<open>Paths as texts\<close>

text \<open>
  \<open>Path::components\<close> on Windows. Not read as prefixes are the UNC, verbatim and device forms,
  which start with two separators.
\<close>

datatype component = Prefix u8 | RootDir | CurDir | ParentDir | Normal ustring

definition upper_letter :: "u8 \<Rightarrow> u8" where
  "upper_letter d = (if 0x61 \<le> unat d \<and> unat d \<le> 0x7a then d - 0x20 else d)"

definition body_components :: "ustring list \<Rightarrow> component list" where
  "body_components parts =
     map (\<lambda>c. if c = dot_dot then ParentDir else Normal c) (filter (\<lambda>c. c \<noteq> [] \<and> c \<noteq> dot) parts)"

definition components :: "ustring \<Rightarrow> component list" where
  "components p =
     (let rest = (if has_drive p then drop 2 p else p);
          root = (rest \<noteq> [] \<and> is_separator (hd rest));
          parts = split_by is_separator rest
      in (if has_drive p then [Prefix (upper_letter (hd p))] else [])
         @ (if root then [RootDir] else if hd parts = dot then [CurDir] else [])
         @ body_components parts)"

definition file_name :: "ustring \<Rightarrow> ustring option" where
  "file_name p =
     (if components p = [] then None
      else case last (components p) of Normal n \<Rightarrow> Some n | _ \<Rightarrow> None)"

text \<open>\<open>rsplit_file_at_dot\<close> of \<open>std::path\<close>.\<close>

definition rsplit_at_dot :: "ustring \<Rightarrow> ustring option \<times> ustring option" where
  "rsplit_at_dot f =
     (if f = dot_dot then (Some f, None)
      else if 0x2e \<notin> set f then (None, Some f)
      else let after = rev (takeWhile (\<lambda>c. c \<noteq> 0x2e) (rev f));
               before = rev (tl (dropWhile (\<lambda>c. c \<noteq> 0x2e) (rev f)))
           in if before = [] then (Some f, None) else (Some before, Some after))"

definition file_stem :: "ustring \<Rightarrow> ustring option" where
  "file_stem p =
     (case file_name p of
        None \<Rightarrow> None
      | Some f \<Rightarrow> (case rsplit_at_dot f of (Some before, _) \<Rightarrow> Some before | (None, after) \<Rightarrow> after))"

definition extension :: "ustring \<Rightarrow> ustring option" where
  "extension p =
     (case file_name p of
        None \<Rightarrow> None
      | Some f \<Rightarrow> (case rsplit_at_dot f of (Some _, after) \<Rightarrow> after | (None, _) \<Rightarrow> None))"

section \<open>The file\<close>

type_synonym hstring = "u16 list"

definition hstring_of :: "ustring \<Rightarrow> hstring" where "hstring_of t = str_utf16 t"

text \<open>\<open>HSTRING::to_string_lossy\<close>.\<close>

definition text_of :: "hstring \<Rightarrow> ustring" where "text_of h = encode_utf8 (from_utf16_lossy h)"

definition unwrap_or_empty :: "ustring option \<Rightarrow> ustring" where
  "unwrap_or_empty t = (case t of None \<Rightarrow> [] | Some v \<Rightarrow> v)"

record picked_file = pf_path :: ustring

definition item_name :: "picked_file \<Rightarrow> hstring" where
  "item_name f = hstring_of (unwrap_or_empty (file_name (pf_path f)))"

definition item_path_text :: "picked_file \<Rightarrow> hstring" where
  "item_path_text f = hstring_of (pf_path f)"

datatype file_attributes = AttributesDirectory | AttributesNormal

definition item_attributes :: "fsys \<Rightarrow> picked_file \<Rightarrow> file_attributes" where
  "item_attributes fs f = (if is_dir fs (path_of (pf_path f)) then AttributesDirectory else AttributesNormal)"

definition TICKS_TO_UNIX_EPOCH :: int where "TICKS_TO_UNIX_EPOCH = 11644473600 * 10000000"

text \<open>\<open>created\<close> is the creation time in nanoseconds since 1970, when the system knows it; the
  cast keeps its low 64 bits, and the division cuts towards zero.\<close>

definition item_date_created :: "int option \<Rightarrow> int" where
  "item_date_created created =
     (case created of
        None \<Rightarrow> 0
      | Some nanos \<Rightarrow>
          if nanos < 0 then 0
          else let n = signed_take_bit 63 nanos in sgn n * (abs n div 100) + TICKS_TO_UNIX_EPOCH)"

definition item_file_type :: "picked_file \<Rightarrow> hstring" where
  "item_file_type f =
     hstring_of (case extension (pf_path f) of None \<Rightarrow> [] | Some e \<Rightarrow> 0x2e # e)"

definition item_display_name :: "picked_file \<Rightarrow> hstring" where
  "item_display_name f = hstring_of (unwrap_or_empty (file_stem (pf_path f)))"

definition item_folder_relative_id :: "picked_file \<Rightarrow> hstring" where
  "item_folder_relative_id f = hstring_of (pf_path f)"

text \<open>
  \<open>to_lowercase\<close>, for a comparison with ASCII texts: besides the capital letters only the Kelvin
  sign turns into an ASCII letter.
\<close>

definition lower_char :: "nat \<Rightarrow> nat" where
  "lower_char c = (if 65 \<le> c \<and> c \<le> 90 then c + 32 else if c = 0x212A then 107 else c)"

definition is_one_of :: "nat list \<Rightarrow> string list \<Rightarrow> bool" where
  "is_one_of e names \<longleftrightarrow> e \<in> set (map (\<lambda>n. chars (utf8 n)) names)"

definition content_type :: "ustring \<Rightarrow> string" where
  "content_type p =
     (let e = map lower_char (chars (unwrap_or_empty (extension p)))
      in if is_one_of e [''txt'', ''log''] then ''text/plain''
         else if is_one_of e [''json''] then ''application/json''
         else if is_one_of e [''png''] then ''image/png''
         else if is_one_of e [''jpg'', ''jpeg''] then ''image/jpeg''
         else if is_one_of e [''zip'', ''mcworld'', ''mcpack'', ''mctemplate''] then ''application/zip''
         else ''application/octet-stream'')"

definition item_content_type :: "picked_file \<Rightarrow> hstring" where
  "item_content_type f = hstring_of (utf8 (content_type (pf_path f)))"

text \<open>The argument is the other item's \<open>Path\<close>, \<open>None\<close> when there is no item or it fails.\<close>

definition item_is_equal :: "hstring option \<Rightarrow> picked_file \<Rightarrow> bool" where
  "item_is_equal other f =
     (case other of None \<Rightarrow> False | Some h \<Rightarrow> components (text_of h) = components (pf_path f))"

definition item_display_type :: hstring where "item_display_type = hstring_of (utf8 ''File'')"

definition item_is_available :: "picked_file \<Rightarrow> bool" where "item_is_available f = True"

text \<open>\<open>StorageItemTypes\<close> with \<open>File\<close> as 1.\<close>

definition item_is_of_type :: "nat \<Rightarrow> bool" where "item_is_of_type kind \<longleftrightarrow> kind = 1"

definition refuse :: "'a outcome" where "refuse = Inl E_NOTIMPL"

text \<open>The methods that lead to streams, copies, properties and thumbnails, interface by interface.\<close>

datatype item_method =
  GetBasicPropertiesAsync | RenameAsyncOverloadDefaultOptions | RenameAsync | DeleteAsyncOverloadDefaultOptions | DeleteAsync

datatype file_method =
  OpenAsync | OpenTransactedWriteAsync | CopyOverloadDefaultNameAndOptions | CopyOverloadDefaultOptions
  | CopyOverload | CopyAndReplaceAsync | MoveOverloadDefaultNameAndOptions | MoveOverloadDefaultOptions
  | MoveOverload | MoveAndReplaceAsync | OpenSequentialReadAsync | OpenReadAsync

datatype property_method =
  Properties | GetThumbnailAsyncOverloadDefaultSizeDefaultOptions | GetThumbnailAsyncOverloadDefaultOptions
  | GetThumbnailAsync | GetScaledImageAsThumbnailAsyncOverloadDefaultSizeDefaultOptions
  | GetScaledImageAsThumbnailAsyncOverloadDefaultOptions | GetScaledImageAsThumbnailAsync | Provider

fun item_method_result :: "item_method \<Rightarrow> unit outcome" where "item_method_result _ = refuse"

fun file_method_result :: "file_method \<Rightarrow> unit outcome" where "file_method_result _ = refuse"

fun property_method_result :: "property_method \<Rightarrow> unit outcome" where "property_method_result _ = refuse"

definition picked_path_text :: "ustring \<Rightarrow> hstring" where
  "picked_path_text path = hstring_of path"

section \<open>Files from paths\<close>

definition HRESULT_FILE_NOT_FOUND :: hresult where "HRESULT_FILE_NOT_FOUND = 0x80070002"

definition is_file :: "fsys \<Rightarrow> path \<Rightarrow> bool" where
  "is_file fs p \<longleftrightarrow> (case node_at fs p of Some (File _ _) \<Rightarrow> True | _ \<Rightarrow> False)"

definition GetFileFromPathAsync :: "fsys \<Rightarrow> hstring \<Rightarrow> (ustring, 'h) picks \<Rightarrow> nat \<times> (ustring, 'h) picks" where
  "GetFileFromPathAsync fs path s =
     (let p = text_of path
      in pick_completed (if is_file fs (path_of p) then Inr (Some p) else Inl HRESULT_FILE_NOT_FOUND) s)"

section \<open>Pieces of a path\<close>

lemma split_by_cases:
  obtains "\<forall>c\<in>set p. \<not> P c" "split_by P p = [p]"
  | a d b where "p = a @ d # b" "P d" "split_by P p = a # split_by P b"
proof (cases "\<exists>c\<in>set p. P c")
  case True
  then obtain a d b where p: "p = a @ d # b" "P d" "\<forall>c\<in>set a. \<not> P c" using split_list_first_prop by metis
  then have "split_by P p = a # split_by P b" by (simp add: split_by_append split_by_none list_all_iff)
  with p that(2) show thesis by blast
qed (use that(1) in \<open>simp add: split_by_none list_all_iff\<close>)

lemma well_formed_parts:
  "well_formed_utf8 p \<Longrightarrow> (\<And>d. P d \<Longrightarrow> unat d < 0x80) \<Longrightarrow> w \<in> set (split_by P p) \<Longrightarrow> well_formed_utf8 w"
proof (induction "length p" arbitrary: p rule: less_induct)
  case less
  show ?case
  proof (cases rule: split_by_cases [of p P])
    case 1
    then show ?thesis using less.prems by simp
  next
    case (2 a d b)
    then have "well_formed_utf8 a" "well_formed_utf8 b"
      using less.prems(1) well_formed_split [of a d b] less.prems(2) by simp_all
    then show ?thesis using less.hyps [of b] less.prems(2,3) 2 by auto
  qed
qed

lemma well_formed_drive: "well_formed_utf8 p \<Longrightarrow> has_drive p \<Longrightarrow> well_formed_utf8 (drop 2 p)"
proof -
  assume p: "well_formed_utf8 p" "has_drive p"
  then obtain d rest where r: "p = [d] @ 0x3a # rest"
    by (auto simp: has_drive_def split: list.splits)
  show ?thesis using well_formed_split(2) [OF p(1) [unfolded r]] r by simp
qed

lemma well_formed_name: "well_formed_utf8 p \<Longrightarrow> file_name p = Some n \<Longrightarrow> well_formed_utf8 n \<and> n \<noteq> [] \<and> n \<noteq> dot_dot"
proof -
  assume p: "well_formed_utf8 p" "file_name p = Some n"
  define rest where "rest = (if has_drive p then drop 2 p else p)"
  have "well_formed_utf8 rest" using p(1) well_formed_drive by (simp add: rest_def)
  moreover have sep: "is_separator d \<Longrightarrow> unat d < 0x80" for d by (auto simp: is_separator_def)
  moreover have "Normal n \<in> set (components p)"
  proof -
    have "components p \<noteq> []" "last (components p) = Normal n"
      using p(2) by (auto simp: file_name_def split: if_splits component.splits)
    then show ?thesis using last_in_set by metis
  qed
  then have "Normal n \<in> set (body_components (split_by is_separator rest))"
    by (auto simp: components_def rest_def Let_def split: if_splits)
  then have "n \<in> set (split_by is_separator rest)" "n \<noteq> []" "n \<noteq> dot_dot"
    by (auto simp: body_components_def split: if_splits)
  ultimately show ?thesis using well_formed_parts by blast
qed

lemma rsplit_pieces:
  assumes "f \<noteq> dot_dot"
  obtains "rsplit_at_dot f = (Some f, None)" | "rsplit_at_dot f = (None, Some f)"
  | before after where "rsplit_at_dot f = (Some before, Some after)" "f = before @ 0x2e # after"
proof (cases "0x2e \<in> set f")
  case True
  define d where "d = dropWhile (\<lambda>c. c \<noteq> 0x2e) (rev f)"
  have "d \<noteq> []" using True by (auto simp: d_def dropWhile_eq_Nil_conv)
  then obtain x rest where d: "d = x # rest" by (cases d) auto
  then have "x = 0x2e" using hd_dropWhile [of "\<lambda>c. c \<noteq> 0x2e" "rev f"] by (simp add: d_def)
  then have "rev f = takeWhile (\<lambda>c. c \<noteq> 0x2e) (rev f) @ 0x2e # rest"
    using takeWhile_dropWhile_id [of "\<lambda>c. c \<noteq> 0x2e" "rev f"] d unfolding d_def by argo
  then have "rev (rev f) = rev (takeWhile (\<lambda>c. c \<noteq> 0x2e) (rev f) @ 0x2e # rest)" by (rule arg_cong)
  then have f: "f = rev rest @ 0x2e # rev (takeWhile (\<lambda>c. c \<noteq> 0x2e) (rev f))" by simp
  have r: "rsplit_at_dot f = (if rev rest = [] then (Some f, None)
      else (Some (rev rest), Some (rev (takeWhile (\<lambda>c. c \<noteq> 0x2e) (rev f)))))"
    using assms True d by (simp add: rsplit_at_dot_def d_def)
  show thesis
  proof (cases "rev rest = []")
    case True
    then show thesis using r that(1) by simp
  next
    case False
    show thesis by (rule that(3) [OF trans [OF r if_not_P [OF False]] f])
  qed
qed (use assms that(2) in \<open>simp add: rsplit_at_dot_def\<close>)

text \<open>A picked file's name is its display name followed by its file type, whatever the path; its
  path reads back as it was picked, names the same item, and is found again by
  \<open>GetFileFromPathAsync\<close>, which finishes at once with that path exactly when a file is there.\<close>

theorem picked_file_round_trip:
  assumes "well_formed_utf8 (pf_path f)" "GetFileFromPathAsync fs (item_path_text f) s = (k, s')"
  shows "item_name f = item_display_name f @ item_file_type f
     \<and> text_of (item_path_text f) = pf_path f \<and> item_is_equal (Some (item_path_text f)) f
     \<and> get_results picked_file.make (pk_ops s' ! k) =
         (if is_file fs (path_of (pf_path f)) then Inr f else Inl HRESULT_FILE_NOT_FOUND)"
proof (intro conjI)
  have reads: "text_of (item_path_text f) = pf_path f"
    using assms(1) by (simp add: text_of_def item_path_text_def hstring_of_def text_round_trip)
  then show "text_of (item_path_text f) = pf_path f" "item_is_equal (Some (item_path_text f)) f"
    by (simp_all add: item_is_equal_def)
  show "item_name f = item_display_name f @ item_file_type f"
  proof (cases "file_name (pf_path f)")
    case None
    then show ?thesis
      by (simp add: item_name_def item_display_name_def item_file_type_def file_stem_def extension_def
          unwrap_or_empty_def hstring_of_def str_utf16_def encode_utf16_def)
  next
    case (Some n)
    have n: "well_formed_utf8 n" "n \<noteq> dot_dot" using well_formed_name [OF assms(1) Some] by simp_all
    show ?thesis
      by (cases rule: rsplit_pieces [OF n(2)])
        (use well_formed_split(3) n(1) in \<open>auto simp: item_name_def item_display_name_def item_file_type_def
          file_stem_def extension_def unwrap_or_empty_def hstring_of_def Some str_utf16_def encode_utf16_def\<close>)
  qed
  show "get_results picked_file.make (pk_ops s' ! k) =
      (if is_file fs (path_of (pf_path f)) then Inr f else Inl HRESULT_FILE_NOT_FOUND)"
    using assms(2) by (auto simp: GetFileFromPathAsync_def reads pick_completed_def pick_finish_def finish_locked_def
        get_results_def operation_default_def owe_def picked_file.make_def Let_def)
qed

definition demo_picked :: picked_file where
  "demo_picked = \<lparr>pf_path = utf8 ''C:/w/a.b.mcworld''\<rparr>"

definition demo_picked_fs :: fsys where
  "demo_picked_fs = \<lparr>fs_nodes = [(map utf8 [''C:'', ''w'', ''a.b.mcworld''], File [] 0)],
     fs_denied = (\<lambda>p. False), fs_now = 0\<rparr>"

lemma demo_picked_path: "is_file demo_picked_fs (path_of (pf_path demo_picked))"
  by code_simp

lemma demo_picked_text: "well_formed_utf8 (pf_path demo_picked)"
  by (simp add: demo_picked_def well_formed_utf8_def utf8_def encode_utf8_def utf8_bytes_def scalar_def)

lemma picked_file_round_trip_witness:
  "get_results picked_file.make (pk_ops (snd (GetFileFromPathAsync demo_picked_fs (item_path_text demo_picked)
      (picks_new :: (ustring, nat) picks))) ! 0) = Inr demo_picked
   \<and> item_name demo_picked = item_display_name demo_picked @ item_file_type demo_picked"
proof -
  obtain s' where q: "GetFileFromPathAsync demo_picked_fs (item_path_text demo_picked) (picks_new :: (ustring, nat) picks)
      = (0, s')" by (auto simp: GetFileFromPathAsync_def pick_completed_def picks_new_def Let_def)
  show ?thesis using picked_file_round_trip [OF demo_picked_text q] demo_picked_path by (simp add: q)
qed

end
