(* ===== verification/Pickers.thy ===== *)
theory Pickers
  imports Picked_File
begin

text \<open>
  The pickers (\<open>src/src/com/pickers\<close>): the classic save picker (\<open>save_picker.rs\<close>), the App SDK's
  open picker (\<open>appsdk/open_picker.rs\<close>), the shell dialogs behind them (\<open>dialog.rs\<close>) and the
  activation that finds their factories (\<open>mod.rs\<close>, \<open>appsdk/mod.rs\<close>).

  The shell's dialogs are the argument \<open>shell\<close>: what each call answers. The collections a title
  writes its file types into belong to \<open>windows-collections\<close>; they are what iterating them gives.
\<close>

section \<open>Dialogs\<close>

definition HRESULT_ERROR_CANCELLED :: hresult where "HRESULT_ERROR_CANCELLED = 0x800704C7"

definition failed :: "hresult \<Rightarrow> bool" where "failed hr \<longleftrightarrow> 0x80000000 \<le> hr"

record save_request =
  sr_suggested_name :: ustring
  sr_default_extension :: ustring
  sr_commit_button_text :: ustring
  sr_file_types :: "(ustring \<times> ustring list) list"
  sr_owner :: u64

record open_request =
  or_commit_button_text :: ustring
  or_file_types :: "ustring list"
  or_owner :: u64

text \<open>What the dialog was told.\<close>

record dialog =
  dg_types :: "(hstring \<times> hstring) list"
  dg_name :: "hstring option"
  dg_extension :: "hstring option"
  dg_label :: "hstring option"
  dg_owner :: "u64 option"

record shell =
  sh_initialize :: hresult
  sh_create :: "unit outcome"
  sh_set_types :: "(hstring \<times> hstring) list \<Rightarrow> hresult"
  sh_show :: "dialog \<Rightarrow> hresult"
  sh_result :: "unit outcome"
  sh_path :: "hstring outcome"

fun join_with :: "u8 \<Rightarrow> ustring list \<Rightarrow> ustring" where
  "join_with sep [] = []"
| "join_with sep [t] = t"
| "join_with sep (t # ts) = t @ sep # join_with sep ts"

definition filter_pattern :: "ustring list \<Rightarrow> ustring" where
  "filter_pattern extensions = join_with 0x3b (map (\<lambda>e. 0x2a # e) extensions)"

definition not_empty :: "ustring \<Rightarrow> ustring option" where
  "not_empty t = (if t = [] then None else Some t)"

text \<open>\<open>String::from_utf16\<close>.\<close>

definition from_utf16 :: "hstring \<Rightarrow> ustring option" where
  "from_utf16 units =
     (let cs = from_utf16_lossy units in if encode_utf16 cs = units then Some (encode_utf8 cs) else None)"

text \<open>With the number of strings of the shell that are not freed.\<close>

definition item_path :: "shell \<Rightarrow> ustring outcome \<times> nat" where
  "item_path sh =
     (case sh_path sh of
        Inl e \<Rightarrow> (Inl e, 0)
      | Inr h \<Rightarrow> (case from_utf16 h of None \<Rightarrow> (Inl E_FAIL, 1) | Some p \<Rightarrow> (Inr p, 0)))"

text \<open>From \<open>Show\<close> on, both dialogs do the same; the dialog is part of the answer.\<close>

definition show_and_read :: "shell \<Rightarrow> dialog \<Rightarrow> ustring option outcome \<times> dialog option \<times> nat" where
  "show_and_read sh d =
     (let shown = sh_show sh d
      in if shown = HRESULT_ERROR_CANCELLED then (Inr None, Some d, 0)
         else if failed shown then (Inl shown, Some d, 0)
         else case sh_result sh of
           Inl e \<Rightarrow> (Inl e, Some d, 0)
         | Inr _ \<Rightarrow> (let (picked, leaked) = item_path sh in (map_sum id Some picked, Some d, leaked)))"

definition owner_window :: "u64 \<Rightarrow> u64 option" where
  "owner_window owner = (if owner \<noteq> 0 then Some owner else None)"

definition save_filters :: "save_request \<Rightarrow> (hstring \<times> hstring) list" where
  "save_filters r =
     map (\<lambda>(name, extensions). (hstring_of name, hstring_of (filter_pattern extensions))) (sr_file_types r)"

definition save_dialog :: "save_request \<Rightarrow> dialog" where
  "save_dialog r =
     \<lparr>dg_types = save_filters r,
      dg_name = map_option hstring_of (not_empty (sr_suggested_name r)),
      dg_extension = map_option (hstring_of \<circ> dropWhile (\<lambda>c. c = 0x2e)) (not_empty (sr_default_extension r)),
      dg_label = map_option hstring_of (not_empty (sr_commit_button_text r)),
      dg_owner = owner_window (sr_owner r)\<rparr>"

definition run_save_dialog :: "shell \<Rightarrow> save_request \<Rightarrow> ustring option outcome \<times> dialog option \<times> nat" where
  "run_save_dialog sh r =
     (case sh_create sh of
        Inl e \<Rightarrow> (Inl e, None, 0)
      | Inr _ \<Rightarrow>
          if save_filters r \<noteq> [] \<and> failed (sh_set_types sh (save_filters r))
          then (Inl (sh_set_types sh (save_filters r)), None, 0)
          else show_and_read sh (save_dialog r))"

definition run_open_dialog :: "shell \<Rightarrow> open_request \<Rightarrow> ustring option outcome \<times> dialog option \<times> nat" where
  "run_open_dialog sh r =
     (case sh_create sh of
        Inl e \<Rightarrow> (Inl e, None, 0)
      | Inr _ \<Rightarrow>
          let specs = (if or_file_types r \<noteq> []
                       then [(hstring_of (utf8 ''Supported files''), hstring_of (filter_pattern (or_file_types r)))]
                       else []) @ [(hstring_of (utf8 ''All files''), hstring_of (utf8 ''*.*''))]
          in if failed (sh_set_types sh specs) then (Inl (sh_set_types sh specs), None, 0)
             else show_and_read sh
               \<lparr>dg_types = specs, dg_name = None, dg_extension = None,
                dg_label = map_option hstring_of (not_empty (or_commit_button_text r)),
                dg_owner = owner_window (or_owner r)\<rparr>)"

text \<open>With how deep the thread is in apartments before and after.\<close>

definition in_apartment :: "shell \<Rightarrow> 'r \<Rightarrow> int \<Rightarrow> 'r \<times> int" where
  "in_apartment sh result depth_in =
     (let entered = (if failed (sh_initialize sh) then depth_in else depth_in + 1)
      in (result, if failed (sh_initialize sh) then entered else entered - 1))"

definition show_save_dialog ::
  "shell \<Rightarrow> save_request \<Rightarrow> int \<Rightarrow> (ustring option outcome \<times> dialog option \<times> nat) \<times> int" where
  "show_save_dialog sh r depth_in = in_apartment sh (run_save_dialog sh r) depth_in"

definition show_open_dialog ::
  "shell \<Rightarrow> open_request \<Rightarrow> int \<Rightarrow> (ustring option outcome \<times> dialog option \<times> nat) \<times> int" where
  "show_open_dialog sh r depth_in = in_apartment sh (run_open_dialog sh r) depth_in"

section \<open>The save picker\<close>

datatype location = DocumentsLibrary | OtherLocation nat

text \<open>\<open>vc_at\<close> and the fields of an entry are \<open>None\<close> where the call fails; an entry comes with
  whether moving on from it succeeds.\<close>

record hvector =
  vc_size :: "nat option"
  vc_at :: "nat \<Rightarrow> hstring option"

type_synonym map_entry = "(hstring option \<times> hvector option) option"

record save_picker =
  sp_settings_identifier :: hstring
  sp_start_location :: location
  sp_commit_button_text :: hstring
  sp_default_extension :: hstring
  sp_suggested_name :: hstring
  sp_owner :: u64
  sp_choices :: "(map_entry \<times> bool) list option"

definition save_picker_create :: save_picker where
  "save_picker_create = \<lparr>sp_settings_identifier = [], sp_start_location = DocumentsLibrary,
     sp_commit_button_text = [], sp_default_extension = [], sp_suggested_name = [], sp_owner = 0,
     sp_choices = Some []\<rparr>"

definition vector_texts :: "hvector \<Rightarrow> ustring list" where
  "vector_texts v =
     map text_of (List.map_filter (vc_at v) [0..<(case vc_size v of None \<Rightarrow> 0 | Some n \<Rightarrow> n)])"

fun read_entries :: "(map_entry \<times> bool) list \<Rightarrow> (ustring \<times> ustring list) list" where
  "read_entries [] = []"
| "read_entries ((entry, moved) # rest) =
     (case entry of
        Some (Some name, Some extensions) \<Rightarrow> [(text_of name, vector_texts extensions)]
      | _ \<Rightarrow> [])
     @ (if moved then read_entries rest else [])"

definition read_save_types :: "save_picker \<Rightarrow> (ustring \<times> ustring list) list" where
  "read_save_types p = (case sp_choices p of None \<Rightarrow> [] | Some entries \<Rightarrow> read_entries entries)"

definition to_request :: "save_picker \<Rightarrow> save_request" where
  "to_request p =
     \<lparr>sr_suggested_name = text_of (sp_suggested_name p),
      sr_default_extension = text_of (sp_default_extension p),
      sr_commit_button_text = text_of (sp_commit_button_text p),
      sr_file_types = read_save_types p, sr_owner = sp_owner p\<rparr>"

text \<open>The setters, one constructor each; \<open>Insert\<close> is any change the title makes to the map.\<close>

datatype picker_op =
    SetSettingsIdentifier hstring
  | SetCommitButtonText hstring
  | SetDefaultFileExtension hstring
  | SetSuggestedFileName hstring
  | SetSuggestedStartLocation location
  | SetSuggestedSaveFile
  | InitializeWindow u64
  | WriteChoices "(map_entry \<times> bool) list option"

fun picker_set :: "picker_op \<Rightarrow> save_picker \<Rightarrow> save_picker" where
  "picker_set (SetSettingsIdentifier v) p = p\<lparr>sp_settings_identifier := v\<rparr>"
| "picker_set (SetCommitButtonText v) p = p\<lparr>sp_commit_button_text := v\<rparr>"
| "picker_set (SetDefaultFileExtension v) p = p\<lparr>sp_default_extension := v\<rparr>"
| "picker_set (SetSuggestedFileName v) p = p\<lparr>sp_suggested_name := v\<rparr>"
| "picker_set (SetSuggestedStartLocation v) p = p\<lparr>sp_start_location := v\<rparr>"
| "picker_set SetSuggestedSaveFile p = p"
| "picker_set (InitializeWindow hwnd) p = p\<lparr>sp_owner := hwnd\<rparr>"
| "picker_set (WriteChoices c) p = p\<lparr>sp_choices := c\<rparr>"

text \<open>The getters.\<close>

definition SettingsIdentifier :: "save_picker \<Rightarrow> hstring outcome" where
  "SettingsIdentifier p = Inr (sp_settings_identifier p)"

definition CommitButtonText :: "save_picker \<Rightarrow> hstring outcome" where
  "CommitButtonText p = Inr (sp_commit_button_text p)"

definition DefaultFileExtension :: "save_picker \<Rightarrow> hstring outcome" where
  "DefaultFileExtension p = Inr (sp_default_extension p)"

definition SuggestedFileName :: "save_picker \<Rightarrow> hstring outcome" where
  "SuggestedFileName p = Inr (sp_suggested_name p)"

definition SuggestedStartLocation :: "save_picker \<Rightarrow> location outcome" where
  "SuggestedStartLocation p = Inr (sp_start_location p)"

definition SuggestedSaveFile :: "unit outcome" where "SuggestedSaveFile = Inl E_FAIL"

text \<open>The request is taken when the pick starts; its dialog runs when the deferred job does.\<close>

definition PickSaveFileAsync ::
  "bool \<Rightarrow> bool \<Rightarrow> save_picker \<Rightarrow> (ustring, 'h) picks \<Rightarrow> nat \<times> save_request \<times> (ustring, 'h) picks" where
  "PickSaveFileAsync created posts p s =
     (let r = to_request p; (k, s1) = pick_start created posts s in (k, r, s1))"

definition save_job ::
  "shell \<Rightarrow> save_request \<Rightarrow> nat \<Rightarrow> int \<Rightarrow> (ustring, 'h) picks \<Rightarrow> (ustring, 'h) picks \<times> dialog option \<times> nat \<times> int" where
  "save_job sh r k depth_in s =
     (let ((result, d, leaked), depth_out) = show_save_dialog sh r depth_in
      in (job_done k result s, d, leaked, depth_out))"

section \<open>The open picker\<close>

record open_picker =
  op_owner :: u64
  op_view_mode :: nat
  op_start_location :: location
  op_commit_button_text :: hstring
  op_filter :: hvector

definition open_picker_create :: "u64 \<Rightarrow> open_picker" where
  "open_picker_create window = \<lparr>op_owner = window, op_view_mode = 0, op_start_location = DocumentsLibrary,
     op_commit_button_text = [], op_filter = \<lparr>vc_size = Some 0, vc_at = Map.empty\<rparr>\<rparr>"

datatype open_op =
    SetViewMode nat
  | SetOpenStartLocation location
  | SetOpenCommitButtonText hstring
  | WriteFilter hvector

fun open_set :: "open_op \<Rightarrow> open_picker \<Rightarrow> open_picker" where
  "open_set (SetViewMode v) p = p\<lparr>op_view_mode := v\<rparr>"
| "open_set (SetOpenStartLocation v) p = p\<lparr>op_start_location := v\<rparr>"
| "open_set (SetOpenCommitButtonText v) p = p\<lparr>op_commit_button_text := v\<rparr>"
| "open_set (WriteFilter v) p = p\<lparr>op_filter := v\<rparr>"

definition open_request_of :: "open_picker \<Rightarrow> open_request" where
  "open_request_of p = \<lparr>or_commit_button_text = text_of (op_commit_button_text p),
     or_file_types = vector_texts (op_filter p), or_owner = op_owner p\<rparr>"

definition PickSingleFileAsync ::
  "bool \<Rightarrow> bool \<Rightarrow> open_picker \<Rightarrow> (ustring, 'h) picks \<Rightarrow> nat \<times> open_request \<times> (ustring, 'h) picks" where
  "PickSingleFileAsync created posts p s =
     (let r = open_request_of p; (k, s1) = pick_start created posts s in (k, r, s1))"

definition PickMultipleFilesAsync :: "unit outcome" where "PickMultipleFilesAsync = Inl E_NOTIMPL"

section \<open>Activation\<close>

datatype factory = OpenPickerFactory | StorageFileStatics | SavePickerFactory

definition FILE_OPEN_PICKER :: ustring where
  "FILE_OPEN_PICKER = utf8 ''Microsoft.Windows.Storage.Pickers.FileOpenPicker''"

definition STORAGE_FILE :: ustring where "STORAGE_FILE = utf8 ''Windows.Storage.StorageFile''"

definition FILE_SAVE_PICKER :: ustring where
  "FILE_SAVE_PICKER = utf8 ''Windows.Storage.Pickers.FileSavePicker''"

definition CLASS_NOT_AVAILABLE :: hresult where "CLASS_NOT_AVAILABLE = 0x80040111"

definition get_activation_factory :: "hstring \<Rightarrow> bool \<Rightarrow> hresult \<times> factory option option" where
  "get_activation_factory class_id out_null =
     (if out_null then (E_POINTER, None)
      else let name = text_of class_id
           in if name = FILE_OPEN_PICKER then (S_OK, Some (Some OpenPickerFactory))
              else if name = STORAGE_FILE then (S_OK, Some (Some StorageFileStatics))
              else if name \<noteq> FILE_SAVE_PICKER then (CLASS_NOT_AVAILABLE, Some None)
              else (S_OK, Some (Some SavePickerFactory)))"

text \<open>Activating the open picker's factory makes a picker without an owner window.\<close>

definition activate_open_picker :: open_picker where "activate_open_picker = open_picker_create 0"

definition create_open_picker :: "u64 \<Rightarrow> open_picker" where "create_open_picker window = open_picker_create window"

end
