(* ===== verification/Pickers_Props.thy ===== *)
theory Pickers_Props
  imports Pickers
begin

text \<open>
  What a title sees of a pick: the dialog shows the settings it made last, its filters can be
  read back from the patterns, and the finished operation answers with what the dialog gave.
\<close>

section \<open>Texts\<close>

lemma scalar_lossy: "list_all scalar (from_utf16_lossy us)"
proof (induction us rule: from_utf16_lossy.induct)
  case (2 u us)
  have "unat v < 0x10000" for v :: u16 by (rule order_less_le_trans [OF unsigned_less]) simp
  then have "unat v < 0x110000" for v :: u16 by (rule order_less_trans) simp
  with 2 show ?case
    by (auto simp: scalar_def low_surrogate_def high_surrogate_def split: list.split)
qed simp

definition well_formed_utf16 :: "hstring \<Rightarrow> bool" where
  "well_formed_utf16 h \<longleftrightarrow> encode_utf16 (from_utf16_lossy h) = h"

lemma hstring_round_trip: "well_formed_utf16 h \<Longrightarrow> hstring_of (text_of h) = h"
  using scalar_lossy [of h]
  by (simp add: hstring_of_def text_of_def str_utf16_def chars_encode_utf8 well_formed_utf16_def)

lemma from_utf16_hstring: "well_formed_utf8 t \<Longrightarrow> from_utf16 (hstring_of t) = Some t"
  by (simp add: from_utf16_def hstring_of_def str_utf16_def well_formed_utf8_def from_encode_utf16)

lemma well_formed_hstring: "well_formed_utf8 t \<Longrightarrow> well_formed_utf16 (hstring_of t)"
  by (simp add: well_formed_utf16_def hstring_of_def str_utf16_def well_formed_utf8_def from_encode_utf16)

lemma well_formed_text: "well_formed_utf8 (text_of h)"
  using scalar_lossy [of h] by (auto simp: well_formed_iff text_of_def)

lemma well_formed_append: "well_formed_utf8 a \<Longrightarrow> well_formed_utf8 b \<Longrightarrow> well_formed_utf8 (a @ b)"
  by (auto simp: well_formed_iff encode_utf8_def) (metis concat_append list_all_append map_append)

lemma well_formed_ascii: "unat d < 0x80 \<Longrightarrow> well_formed_utf8 b \<Longrightarrow> well_formed_utf8 (d # b)"
proof -
  assume d: "unat d < 0x80" and "well_formed_utf8 b"
  moreover have "well_formed_utf8 [d]"
    unfolding well_formed_iff
    by (rule exI [of _ "[unat d]"]) (use d in \<open>simp add: encode_utf8_def utf8_bytes_def scalar_def\<close>)
  ultimately show ?thesis using well_formed_append [of "[d]" b] by simp
qed

lemma text_hstring: "well_formed_utf8 t \<Longrightarrow> text_of (hstring_of t) = t"
  by (simp add: text_of_def hstring_of_def text_round_trip)

section \<open>Patterns\<close>

lemma well_formed_join: "unat sep < 0x80 \<Longrightarrow> \<forall>t\<in>set ts. well_formed_utf8 t \<Longrightarrow> well_formed_utf8 (join_with sep ts)"
proof (induction sep ts rule: join_with.induct)
  case (1 sep)
  show ?case by (simp add: well_formed_utf8_def encode_utf8_def)
qed (auto intro: well_formed_append well_formed_ascii)

lemma well_formed_pattern: "\<forall>e\<in>set es. well_formed_utf8 e \<Longrightarrow> well_formed_utf8 (filter_pattern es)"
  unfolding filter_pattern_def by (rule well_formed_join) (auto intro: well_formed_ascii)

lemma split_join:
  "ts \<noteq> [] \<Longrightarrow> \<forall>t\<in>set ts. sep \<notin> set t \<Longrightarrow> split_by (\<lambda>c. c = sep) (join_with sep ts) = ts"
proof (induction sep ts rule: join_with.induct)
  case (3 sep t u ts)
  have "split_by (\<lambda>c. c = sep) t = [t]" using 3 by (intro split_by_none) (auto simp: list_all_iff)
  then show ?case using 3 by (simp add: split_by_append)
qed (auto intro!: split_by_none simp: list_all_iff)

definition pattern_extensions :: "ustring \<Rightarrow> ustring list" where
  "pattern_extensions pattern = map tl (split_by (\<lambda>c. c = 0x3b) pattern)"

lemma pattern_extensions_filter:
  assumes "extensions \<noteq> []" "\<forall>e\<in>set extensions. 0x3b \<notin> set e"
  shows "pattern_extensions (filter_pattern extensions) = extensions"
proof -
  have "split_by (\<lambda>c. c = 0x3b) (filter_pattern extensions) = map (\<lambda>e. 0x2a # e) extensions"
    unfolding filter_pattern_def using assms by (intro split_join) auto
  then show ?thesis by (simp add: pattern_extensions_def comp_def)
qed

section \<open>Settings\<close>

text \<open>The last value a sequence of calls sets, or the one the picker starts with.\<close>

fun last_set :: "(picker_op \<Rightarrow> 'a option) \<Rightarrow> 'a \<Rightarrow> picker_op list \<Rightarrow> 'a" where
  "last_set sets v [] = v"
| "last_set sets v (op # ops) = last_set sets (case sets op of None \<Rightarrow> v | Some w \<Rightarrow> w) ops"

fun sets_label :: "picker_op \<Rightarrow> hstring option" where
  "sets_label (SetCommitButtonText v) = Some v" | "sets_label _ = None"

fun sets_name :: "picker_op \<Rightarrow> hstring option" where
  "sets_name (SetSuggestedFileName v) = Some v" | "sets_name _ = None"

fun sets_owner :: "picker_op \<Rightarrow> u64 option" where
  "sets_owner (InitializeWindow w) = Some w" | "sets_owner _ = None"

fun sets_choices :: "picker_op \<Rightarrow> (map_entry \<times> bool) list option option" where
  "sets_choices (WriteChoices c) = Some c" | "sets_choices _ = None"

lemma fold_picker_set:
  "sp_commit_button_text (fold picker_set ops p) = last_set sets_label (sp_commit_button_text p) ops"
  "sp_suggested_name (fold picker_set ops p) = last_set sets_name (sp_suggested_name p) ops"
  "sp_owner (fold picker_set ops p) = last_set sets_owner (sp_owner p) ops"
  "sp_choices (fold picker_set ops p) = last_set sets_choices (sp_choices p) ops"
proof (induction ops arbitrary: p)
  case (Cons op ops)
  {
    case 1
    show ?case using Cons(1) by (cases op) simp_all
  next
    case 2
    show ?case using Cons(2) by (cases op) simp_all
  next
    case 3
    show ?case using Cons(3) by (cases op) simp_all
  next
    case 4
    show ?case using Cons(4) by (cases op) simp_all
  }
qed simp_all

text \<open>The entries of a map that can all be read.\<close>

definition readable :: "(hstring \<times> hstring list) list \<Rightarrow> (map_entry \<times> bool) list" where
  "readable choices =
     map (\<lambda>(name, extensions). (Some (Some name, Some \<lparr>vc_size = Some (length extensions),
        vc_at = \<lambda>i. if i < length extensions then Some (extensions ! i) else None\<rparr>), True)) choices"

lemma vector_texts_list:
  "vector_texts \<lparr>vc_size = Some (length xs), vc_at = \<lambda>i. if i < length xs then Some (xs ! i) else None\<rparr> = map text_of xs"
proof -
  have "List.map_filter (\<lambda>i. if i < length xs then Some (xs ! i) else None) [0..<length xs] = map (\<lambda>i. xs ! i) [0..<length xs]"
    by (simp add: List.map_filter_def comp_def filter_id_conv cong: map_cong filter_cong)
  then show ?thesis by (simp add: vector_texts_def map_nth)
qed

lemma read_readable: "read_entries (readable choices) = map (\<lambda>(name, es). (text_of name, map text_of es)) choices"
  by (induction choices) (auto simp: readable_def vector_texts_list)

section \<open>What the dialog shows\<close>

lemma show_and_read_dialog: "show_and_read sh d = (result, shown, leaked) \<Longrightarrow> shown = Some d"
  by (auto simp: show_and_read_def Let_def split: if_splits sum.splits prod.splits)

lemma last_set_from: "last_set sets v ops = v \<or> (\<exists>op\<in>set ops. sets op = Some (last_set sets v ops))"
proof (induction ops arbitrary: v)
  case (Cons op ops)
  from Cons.IH [of "case sets op of None \<Rightarrow> v | Some w \<Rightarrow> w"] show ?case by (auto split: option.splits)
qed simp

lemma sets_from:
  "sets_label op = Some v \<longleftrightarrow> op = SetCommitButtonText v" "sets_name op = Some v \<longleftrightarrow> op = SetSuggestedFileName v"
  by (cases op; auto)+

lemma well_formed_utf16_Nil: "well_formed_utf16 []"
  by (simp add: well_formed_utf16_def encode_utf16_def)

lemma not_empty_text:
  "well_formed_utf16 v \<Longrightarrow> map_option hstring_of (not_empty (text_of v)) = (case v of [] \<Rightarrow> None | v \<Rightarrow> Some v)"
proof -
  assume v: "well_formed_utf16 v"
  have "text_of [] = []" "hstring_of [] = []"
    by (simp_all add: text_of_def encode_utf8_def hstring_of_def str_utf16_def encode_utf16_def)
  then have "text_of v = [] \<longleftrightarrow> v = []" using hstring_round_trip [OF v] by metis
  then show ?thesis using hstring_round_trip [OF v] by (simp add: not_empty_def split: list.split)
qed



section \<open>How a pick ends\<close>



definition demo_shell :: shell where
  "demo_shell = \<lparr>sh_initialize = S_OK, sh_create = Inr (), sh_set_types = (\<lambda>_. S_OK), sh_show = (\<lambda>_. S_OK),
     sh_result = Inr (), sh_path = Inr (hstring_of [0x43, 0x3a, 0x62])\<rparr>"

definition demo_settings :: "picker_op list" where
  "demo_settings = [SetSuggestedFileName (hstring_of [0x61]),
     WriteChoices (Some (readable [(hstring_of [0x54], [hstring_of [0x2e, 0x74]])])),
     SetSuggestedFileName (hstring_of [0x62])]"

lemma well_formed_demo: "\<forall>c\<in>set t. unat c < 0x80 \<Longrightarrow> well_formed_utf8 t"
  by (induction t) (auto intro: well_formed_ascii simp: well_formed_utf8_def [of "[]"] encode_utf8_def)

lemma demo_ok: "\<not> failed S_OK" "S_OK \<noteq> HRESULT_ERROR_CANCELLED"
  by (simp_all add: failed_def HRESULT_ERROR_CANCELLED_def S_OK_def)



end
