(* ===== verification/Async_Calls.thy ===== *)
theory Async_Calls
  imports XAsync_Props Pending_Results
begin

text \<open>
  The pairs of entry points the runtime builds on \<open>run_sync\<close> (\<open>src/src/com/xasync/mod.rs\<close>): an
  \<open>*Async\<close> half that hands a closure to the engine, and a \<open>*Result\<close> half over \<open>get_result\<close>.
  The closures are data of a component's own type, registered under the number the engine's
  \<open>env_future\<close> is called with, so that the whole way from the first call over the worker to
  the result is one computation.

  The interface \<open>engine_job\<close> is what a closure must keep to (it does not touch the engine's own
  state, and fails with a real error); its lemmas are what every pair then promises.
\<close>

section \<open>Closures\<close>

record 'c jobs = asys +
  job :: "u64 \<Rightarrow> 'c"
  next_job :: u64

type_synonym ('c, 'z) job_body =
  "'c \<Rightarrow> ('c, 'z) jobs_scheme \<Rightarrow> u8 list outcome \<times> ('c, 'z) jobs_scheme"

definition with_jobs ::
  "('c, 'z) job_body \<Rightarrow> ('c, 'z) jobs_scheme env \<Rightarrow> ('c, 'z) jobs_scheme env" where
  "with_jobs body env = env\<lparr>env_future := (\<lambda>f s. body (job s f) s)\<rparr>"

text \<open>\<open>run_sync(block, closure)\<close>, with \<open>size_of::<T>()\<close>.\<close>

definition run_job ::
  "('c, 'z) jobs_scheme env \<Rightarrow> u64 \<Rightarrow> 'c \<Rightarrow> u64 \<Rightarrow> ('c, 'z) jobs_scheme \<Rightarrow>
     hresult \<times> ('c, 'z) jobs_scheme" where
  "run_job env b c size_of s =
     (let f = next_job s
      in run_sync env b f size_of (s\<lparr>job := (job s)(f := c), next_job := f + 1\<rparr>))"

text \<open>The common shape of the result halves: \<open>get_result::<T>\<close> into \<open>out\<close>, answered as a status.\<close>

definition result_into ::
  "'z aenv \<Rightarrow> u64 \<Rightarrow> u64 \<Rightarrow> u64 \<Rightarrow> 'z asys_scheme \<Rightarrow> hresult \<times> 'z asys_scheme" where
  "result_into env b size_of out s =
     (case get_result env b 0 size_of out s of (Inr _, s1) \<Rightarrow> (S_OK, s1) | (Inl hr, s1) \<Rightarrow> (hr, s1))"

text \<open>The context of the call a block holds.\<close>

definition context_of :: "u64 \<Rightarrow> 'z asys_scheme \<Rightarrow> u64" where
  "context_of b s = (case state_of b s of None \<Rightarrow> 0 | Some p \<Rightarrow> as_context (asyncs s p))"

text \<open>A variable of the entry point itself stands at address 0, which is no caller's buffer.\<close>

definition own_frame :: u64 where "own_frame = 0"

definition i64_le :: "int \<Rightarrow> u8 list" where
  "i64_le i = u64_le (word_of_int i)"

lemma length_i64_le [simp]: "length (i64_le i) = 8"
  by (simp add: i64_le_def)

lemma sint_i64_le: "- (2 ^ 63) \<le> i \<Longrightarrow> i < 2 ^ 63 \<Longrightarrow> sint (le_u64 (i64_le i)) = i"
  by (simp add: i64_le_def int_word_sint)

section \<open>What the engine does with a closure\<close>

text \<open>A block that can be given a call which waits for a worker: free, on a live queue the engine
  will use as it is, with the worker queue in place.\<close>

definition ready_block :: "u64 \<Rightarrow> nat \<Rightarrow> nat \<Rightarrow> 'z asys_scheme \<Rightarrow> bool" where
  "ready_block b q rq s \<longleftrightarrow> b \<noteq> 0 \<and> state_of b s = None
     \<and> b_queue (blocks s b) \<noteq> 0 \<and> ht_get (queue_handles s) (b_queue (blocks s b)) = Some q
     \<and> p_mode (ports s (queue_port q Work s)) \<noteq> Manual
     \<and> (b_callback (blocks s b) = None \<or> quiet_side q Completion s)
     \<and> run_sync_queue s = Some rq \<and> quiet_side rq Work s
     \<and> (of_nat (next_async s) :: u64) \<noteq> 0"

lemma begin_pending:
  assumes "ready_block b q rq s" "sh_future (helpers s h) = f" "h \<noteq> 0"
    and "XAsyncBegin env b h 0 (Some RunSyncHelper) s = (hr, s1)"
  obtains p t where "hr = S_OK" "helper_call b p h s1" "quiet_completion p s1"
    "helpers s1 = helpers s" "asys.more s1 = asys.more s" "buffers s1 = buffers s"
    "t \<in> set (p_tasks (ports s1 (queue_port rq Work s1)))" "tk_call t = RunSyncWorker h b"
proof -
  define p where "p = (of_nat (next_async s) :: u64)"
  obtain s2 where s2: "new_call b h 0 RunSyncHelper q s = (p, s2)"
    by (auto simp: new_call_def Let_def p_def)
  define s3 where "s3 = s2\<lparr>calls := calls s2 @ [(p, OpBegin)]\<rparr>"
  have a: "asyncs s3 p = \<lparr>as_provider = RunSyncHelper, as_context = h, as_identity = 0, as_queue = q,
      as_block = b, as_status = E_PENDING, as_result_size = 0, as_canceled = False,
      as_cleaned_up = False\<rparr>"
    and same: "ports s3 = ports s" "queues s3 = queues s" "run_sync_queue s3 = run_sync_queue s"
      "helpers s3 = helpers s" "asys.more s3 = asys.more s" "buffers s3 = buffers s"
      "b_callback (blocks s3 b) = b_callback (blocks s b)"
    and st: "state_of b s3 = Some p"
    using s2 assms(1)
    by (auto simp: s3_def new_call_def Let_def p_def set_async_def set_block_def ready_block_def
        state_of_def write_internal_def read_internal_def)
  have qs: "quiet_side rq Work s3"
    using assms(1) by (simp add: ready_block_def quiet_side_def queue_port_def same)
  then obtain P where sub: "queue_submit (run1 env) (env_monitor env) rq Work (RunSyncWorker h b) 0 s3
      = (True, set_port (queue_port rq Work s3) P s3)"
    and P: "p_tasks P = insert_task (submitted_task rq Work (RunSyncWorker h b) s3)
      (p_tasks (ports s3 (queue_port rq Work s3)))"
      "p_mode P = p_mode (ports s3 (queue_port rq Work s3))" "\<not> p_terminated P"
    by (rule quiet_submit)
  have "XAsyncBegin env b h 0 (Some RunSyncHelper) s = start_call env p s2"
    using assms(1) s2
    by (simp add: XAsyncBegin_def ready_block_def queue_for_def choose_queue_def)
  also have "\<dots> = (S_OK, set_port (queue_port rq Work s3) P s3)"
  proof -
    have "as_provider (asyncs s2 p) = RunSyncHelper" "as_context (asyncs s2 p) = h"
      "as_block (asyncs s2 p) = b"
      using a by (simp_all add: s3_def)
    then have "invoke_begin env p s2 = run_sync_begin env h b s3"
      by (simp add: invoke_begin_def s3_def)
    also have "\<dots> = (S_OK, set_port (queue_port rq Work s3) P s3)"
      using assms(1,3) sub by (simp add: run_sync_begin_def get_run_sync_queue_def same ready_block_def)
    finally show ?thesis by (simp add: start_call_def)
  qed
  finally have s1: "hr = S_OK" "s1 = set_port (queue_port rq Work s3) P s3"
    using assms(4) by simp_all
  have "helper_call b p h s1"
    using a st assms(3) by (simp add: helper_call_def s1)
  moreover have "quiet_completion p s1"
    using assms(1) a P(2,3)
    by (auto simp: quiet_completion_def s1 same ready_block_def quiet_side_def queue_port_def set_port_def)
  moreover define t where "t = submitted_task rq Work (RunSyncWorker h b) s3"
  have "t \<in> set (p_tasks (ports s1 (queue_port rq Work s1)))"
    using P(1) by (simp add: s1 queue_port_def set_port_def set_insert_task t_def)
  moreover have "tk_call t = RunSyncWorker h b" by (simp add: t_def submitted_task_def)
  moreover have "helpers s1 = helpers s" "asys.more s1 = asys.more s" "buffers s1 = buffers s"
    by (simp_all add: s1 same)
  ultimately show thesis using s1(1) by (intro that [of p t])
qed


text \<open>Once the worker has run, \<open>get_result\<close> hands over what the closure answered and releases the
  call: exactly the value's bytes, or the error.\<close>

lemma result_after_worker:
  assumes "helper_call b p h s1" "quiet_completion p s1" "helpers s1 h = helpers s h"
    and "env_future env (sh_future (helpers s h)) s = (answer, s1)"
    and "\<And>hr. answer = Inl hr \<Longrightarrow> hr \<noteq> E_PENDING \<and> hr \<noteq> S_OK"
    and "tk_call t = RunSyncWorker h b" "unat (sh_size (helpers s h)) \<le> unat n"
  obtains s3 where
    "get_result env b 0 n out (run1 env t False s) = (map_sum id (\<lambda>v. ()) answer, s3)"
    "buffers s3 = (case answer of Inr v \<Rightarrow> (buffers s1)(out := v) | Inl e \<Rightarrow> buffers s1)"
    "state_of b s3 = None" "\<not> sh_live (helpers s3 h)" "asys.more s3 = asys.more s1"
    "context_of b (run1 env t False s) = h"
    "get_result_size b (run1 env t False s) = map_sum id (\<lambda>v. sh_size (helpers s h)) answer"
proof -
  define s2 where "s2 = run1 env t False s"
  obtain x r where x_def: "x = (case answer of
      Inr v \<Rightarrow> (helpers s1 h)\<lparr>sh_result := S_OK, sh_payload := Some v\<rparr>
    | Inl e \<Rightarrow> (helpers s1 h)\<lparr>sh_result := e\<rparr>)"
    and r_def: "r = (case answer of Inr v \<Rightarrow> S_OK | Inl e \<Rightarrow> e)"
    and r: "r \<noteq> E_PENDING"
    and f2: "state_of b s2 = Some p" "as_status (asyncs s2 p) = r"
    "as_result_size (asyncs s2 p) = sh_size (helpers s h)"
    "as_provider (asyncs s2 p) = RunSyncHelper" "as_context (asyncs s2 p) = h" "h \<noteq> 0"
    "as_block (asyncs s2 p) = b" "\<not> as_cleaned_up (asyncs s2 p)" "helpers s2 h = x"
    "buffers s2 = buffers s1" "asys.more s2 = asys.more s1"
    by (rule worker_completes [OF assms(1-6) s2_def])
  have ctx: "context_of b s2 = h" using f2(1,5) by (simp add: context_of_def)
  have sz: "get_result_size b s2 = map_sum id (\<lambda>v. sh_size (helpers s h)) answer"
    using f2(1-3) r assms(5)
    by (auto simp: get_result_size_def XAsyncGetResultSize_def r_def split: sum.split)
  show thesis
  proof (cases answer)
    case (Inl e)
    then have "get_result env b 0 n out s2 = (Inl e, cleanup env p s2)"
      using assms(5) f2 r by (simp add: get_result_def XAsyncGetResult_def r_def)
    then show thesis using Inl cleanup_helper [OF f2(4-8), of env] f2(10,11) ctx sz
      by (intro that [of "cleanup env p s2"]) (simp_all add: s2_def)
  next
    case (Inr v)
    define s2' where "s2' = s2\<lparr>calls := calls s2 @ [(p, OpGetResult)], buffers := (buffers s2)(out := v)\<rparr>"
    have "invoke env p OpGetResult out n s2 = (S_OK, s2')"
      using f2 Inr by (simp add: invoke_def Let_def run_sync_helper_call_def x_def s2'_def)
    then have "get_result env b 0 n out s2 = (Inr (), cleanup env p s2')"
      using assms(7) f2 r Inr by (simp add: get_result_def XAsyncGetResult_def r_def not_less)
    moreover have "asyncs s2' = asyncs s2" "buffers s2' = (buffers s1)(out := v)"
      "asys.more s2' = asys.more s1" using f2 by (simp_all add: s2'_def)
    ultimately show thesis using Inr cleanup_helper [of s2' p h b env] f2(4-8) ctx sz
      by (intro that [of "cleanup env p s2'"]) (simp_all add: s2_def)
  qed
qed

section \<open>The interface of a closure\<close>

text \<open>A call that waits for its closure \<open>c\<close>, whose value has \<open>n\<close> bytes.\<close>

definition pending_job :: "u64 \<Rightarrow> u64 \<Rightarrow> 'c \<Rightarrow> u64 \<Rightarrow> ('c, 'z) jobs_scheme \<Rightarrow> bool" where
  "pending_job b h c n s \<longleftrightarrow>
     (case state_of b s of
        None \<Rightarrow> False
      | Some p \<Rightarrow> helper_call b p h s \<and> quiet_completion p s
          \<and> job s (sh_future (helpers s h)) = c \<and> sh_size (helpers s h) = n)"

lemma jobs_component:
  assumes "asys.more s = asys.more s'"
  shows "job s = job s'" "next_job s = next_job s'" "jobs.more s = jobs.more s'"
  using assms by (cases s; cases s'; simp)+

text \<open>The first half leaves the call pending with its closure, and a worker task for it.\<close>

lemma run_job_pending:
  assumes "ready_block b q rq s" "next_helper s \<noteq> 0" "run_job env b c n s = (hr, s1)"
  obtains t where "hr = S_OK" "pending_job b (next_helper s) c n s1" "jobs.more s1 = jobs.more s"
    "buffers s1 = buffers s"
    "t \<in> set (p_tasks (ports s1 (queue_port rq Work s1)))"
    "tk_call t = RunSyncWorker (next_helper s) b"
proof -
  define f where "f = next_job s"
  define h where "h = next_helper s"
  define s0 where "s0 = s\<lparr>job := (job s)(f := c), next_job := f + 1\<rparr>"
  define s0' where "s0' = (set_helper h \<lparr>sh_result = E_ABORT, sh_canceled = False, sh_payload = None,
      sh_future = f, sh_size = n, sh_live = True\<rparr> s0)\<lparr>next_helper := h + 1\<rparr>"
  have b: "b \<noteq> 0" "h \<noteq> 0" using assms(1,2) by (simp_all add: ready_block_def h_def)
  have same: "asyncs s0' = asyncs s" "blocks s0' = blocks s" "buffers s0' = buffers s"
    "ports s0' = ports s" "queues s0' = queues s" "queue_handles s0' = queue_handles s"
    "run_sync_queue s0' = run_sync_queue s" "next_async s0' = next_async s"
    "sh_future (helpers s0' h) = f" "sh_size (helpers s0' h) = n" "next_helper s0' = h + 1"
    "job s0' f = c" "jobs.more s0' = jobs.more s"
    by (simp_all add: s0'_def set_helper_def s0_def)
  obtain hr1 s1' where begun: "XAsyncBegin env b h 0 (Some RunSyncHelper) s0' = (hr1, s1')"
    by (cases "XAsyncBegin env b h 0 (Some RunSyncHelper) s0'")
  have "ready_block b q rq s0'"
    using assms(1) state_of_cong [of s0' b s]
    by (simp add: ready_block_def quiet_side_def queue_port_def same)
  then obtain p t where *: "hr1 = S_OK" "helper_call b p h s1'" "quiet_completion p s1'"
    "helpers s1' = helpers s0'" "asys.more s1' = asys.more s0'" "buffers s1' = buffers s0'"
    "t \<in> set (p_tasks (ports s1' (queue_port rq Work s1')))" "tk_call t = RunSyncWorker h b"
    by (rule begin_pending [OF _ refl b(2) begun])
  have "run_job env b c n s = (hr1, s1')"
    using b begun *(1) by (simp add: run_job_def run_sync_def Let_def s0'_def s0_def h_def f_def)
  then have s1: "hr = S_OK" "s1 = s1'" using assms(3) *(1) by simp_all
  have "state_of b s1' = Some p" using *(2) by (simp add: helper_call_def)
  then have "pending_job b h c n s1'"
    using * jobs_component [OF *(5)] same by (simp add: pending_job_def)
  then show thesis
    using that [of t] s1 * jobs_component [OF *(5)] same by (simp add: h_def)
qed

locale engine_job =
  fixes body :: "('c, 'z) job_body" and c :: 'c
  assumes keeps_engine: "body c s = (r, s') \<Longrightarrow> asyncs s' = asyncs s \<and> blocks s' = blocks s
      \<and> helpers s' = helpers s \<and> buffers s' = buffers s \<and> ports s' = ports s \<and> queues s' = queues s"
    and real_errors: "body c s = (Inl hr, s') \<Longrightarrow> hr \<noteq> E_PENDING \<and> hr \<noteq> S_OK"
begin

text \<open>When the worker runs the closure, the result half answers what the closure answers then,
  in the state the closure leaves, and the call is over.\<close>

lemma delivers:
  assumes "pending_job b h c n s" "tk_call t = RunSyncWorker h b" "body c s = (answer, s1)"
  obtains s3 where
    "get_result (with_jobs body env) b 0 n out (run1 (with_jobs body env) t False s)
       = (map_sum id (\<lambda>v. ()) answer, s3)"
    "buffers s3 = (case answer of Inr v \<Rightarrow> (buffers s)(out := v) | Inl e \<Rightarrow> buffers s)"
    "state_of b s3 = None" "\<not> sh_live (helpers s3 h)" "jobs.more s3 = jobs.more s1"
    "context_of b (run1 (with_jobs body env) t False s) = h"
    "get_result_size b (run1 (with_jobs body env) t False s) = map_sum id (\<lambda>v. n) answer"
proof -
  obtain p where p: "helper_call b p h s" "quiet_completion p s"
    "job s (sh_future (helpers s h)) = c" "sh_size (helpers s h) = n"
    using assms(1) by (auto simp: pending_job_def split: option.splits)
  note k = keeps_engine [OF assms(3)]
  have "helper_call b p h s1" "quiet_completion p s1" "helpers s1 h = helpers s h"
    using p(1,2) k state_of_cong [of s1 b s]
    by (simp_all add: helper_call_def quiet_completion_def quiet_side_def queue_port_def)
  moreover have "env_future (with_jobs body env) (sh_future (helpers s h)) s = (answer, s1)"
    using p(3) assms(3) by (simp add: with_jobs_def)
  moreover have "hr \<noteq> E_PENDING \<and> hr \<noteq> S_OK" if "answer = Inl hr" for hr
    using real_errors assms(3) that by simp
  moreover have "unat (sh_size (helpers s h)) \<le> unat n" by (simp add: p(4))
  ultimately obtain s3 where "get_result (with_jobs body env) b 0 n out
       (run1 (with_jobs body env) t False s) = (map_sum id (\<lambda>v. ()) answer, s3)"
    "buffers s3 = (case answer of Inr v \<Rightarrow> (buffers s1)(out := v) | Inl e \<Rightarrow> buffers s1)"
    "state_of b s3 = None" "\<not> sh_live (helpers s3 h)" and m: "asys.more s3 = asys.more s1"
    and "context_of b (run1 (with_jobs body env) t False s) = h"
    and "get_result_size b (run1 (with_jobs body env) t False s) = map_sum id (\<lambda>v. sh_size (helpers s h)) answer"
    by (rule result_after_worker [OF _ _ _ _ _ assms(2)])
  moreover have "buffers s1 = buffers s" using k by simp
  ultimately show thesis using that [of s3] jobs_component(3) [OF m] p(4) by (cases answer) simp_all
qed

lemma delivers_status:
  assumes "pending_job b h c n s" "tk_call t = RunSyncWorker h b" "body c s = (answer, s1)"
  obtains s3 where
    "result_into (with_jobs body env) b n out (run1 (with_jobs body env) t False s)
       = (case answer of Inr v \<Rightarrow> S_OK | Inl e \<Rightarrow> e, s3)"
    "buffers s3 = (case answer of Inr v \<Rightarrow> (buffers s)(out := v) | Inl e \<Rightarrow> buffers s)"
    "state_of b s3 = None" "\<not> sh_live (helpers s3 h)" "jobs.more s3 = jobs.more s1"
proof -
  obtain s3 where s3: "get_result (with_jobs body env) b 0 n out (run1 (with_jobs body env) t False s)
       = (map_sum id (\<lambda>v. ()) answer, s3)"
    "buffers s3 = (case answer of Inr v \<Rightarrow> (buffers s)(out := v) | Inl e \<Rightarrow> buffers s)"
    "state_of b s3 = None" "\<not> sh_live (helpers s3 h)" "jobs.more s3 = jobs.more s1"
    "context_of b (run1 (with_jobs body env) t False s) = h"
    "get_result_size b (run1 (with_jobs body env) t False s) = map_sum id (\<lambda>v. n) answer"
    by (rule delivers [OF assms])
  then have "result_into (with_jobs body env) b n out (run1 (with_jobs body env) t False s)
       = (case answer of Inr v \<Rightarrow> S_OK | Inl e \<Rightarrow> e, s3)"
    by (cases answer) (simp_all add: result_into_def)
  then show thesis using s3(2-5) by (rule that)
qed

text \<open>From the first half to the result, with anything in between that leaves the call pending.\<close>

lemma first_half_to_result:
  assumes "ready_block b q rq s" "next_helper s \<noteq> 0"
    and "run_job (with_jobs body env) b c n s = (hr0, s1)"
    and "pending_job b (next_helper s) c n s1 \<Longrightarrow> pending_job b (next_helper s) c n s2"
    and "body c s2 = (answer, s2')"
  obtains t s3 where "hr0 = S_OK" "jobs.more s1 = jobs.more s"
    "t \<in> set (p_tasks (ports s1 (queue_port rq Work s1)))" "tk_call t = RunSyncWorker (next_helper s) b"
    "result_into (with_jobs body env) b n out (run1 (with_jobs body env) t False s2)
       = (case answer of Inr v \<Rightarrow> S_OK | Inl e \<Rightarrow> e, s3)"
    "buffers s3 = (case answer of Inr v \<Rightarrow> (buffers s2)(out := v) | Inl e \<Rightarrow> buffers s2)"
    "state_of b s3 = None" "jobs.more s3 = jobs.more s2'"
proof -
  obtain t where t: "hr0 = S_OK" "pending_job b (next_helper s) c n s1" "jobs.more s1 = jobs.more s"
    "buffers s1 = buffers s" "t \<in> set (p_tasks (ports s1 (queue_port rq Work s1)))"
    "tk_call t = RunSyncWorker (next_helper s) b"
    by (rule run_job_pending [OF assms(1-3)])
  show thesis
    by (rule delivers_status [OF assms(4) [OF t(2)] t(6) assms(5), of env out])
      (rule that [OF t(1,3,5,6)])
qed

end

section \<open>A runtime to evaluate on\<close>

text \<open>Block 16 on queue 0; the ports of that queue and of the worker queue are pools.\<close>

definition demo_ready :: asys where
  "demo_ready = (boot None)\<lparr>ports := (\<lambda>pid. port_new ThreadPool),
     queues := (\<lambda>q. \<lparr>q_work = \<lparr>pc_port = 2 * q, pc_owner = 1, pc_terminated = False\<rparr>,
        q_completion = \<lparr>pc_port = 2 * q + 1, pc_owner = 2, pc_terminated = False\<rparr>,
        q_monitors = [], q_next_token = 1, q_canonical = None\<rparr>),
     queue_handles := snd (ht_create 0 ht_new), run_sync_queue := Some 1,
     blocks := (\<lambda>b. demo_block\<lparr>b_queue := 1\<rparr>)\<rparr>"

definition demo_jobs :: "'c \<Rightarrow> 'c jobs" where
  "demo_jobs c = asys.extend demo_ready (jobs.fields (\<lambda>f. c) 0)"

definition demo_idle_env :: "'s env" where
  "demo_idle_env = \<lparr>env_provider = (\<lambda>f op b c buf n s. (S_OK, s)), env_work = (\<lambda>f b s. (S_OK, s)),
     env_completion = (\<lambda>f b s. s), env_task = (\<lambda>f c canceled s. s), env_monitor = (\<lambda>m h port s. s),
     env_terminated = (\<lambda>f c s. s), env_future = (\<lambda>f s. (Inr [], s))\<rparr>"

lemma demo_jobs_simps [simp]:
  "next_helper (demo_jobs c) = 1" "ready_block 16 0 (Suc 0) (demo_jobs c)"
  by (simp_all add: demo_jobs_def jobs.defs asys.defs demo_ready_def boot_def
      ready_block_def state_of_def read_internal_def demo_block_def SIGNATURE_def ht_create_def
      ht_get_def ht_new_def Let_def quiet_side_def queue_port_def port_new_def)

end
