(* ===== verification/Save_Async.thy ===== *)
theory Save_Async
  imports Async_Calls Game_Save
begin

text \<open>
  The asynchronous entry points of \<open>src/src/com/xgamesave/object.rs\<close> and their result halves,
  run on the engine: handles and user ids are looked up in the first half, the work is done by
  the closure on a worker, and the result half copies the closure's value out and releases the
  call.

  Values are the bytes of their Rust types, little endian: a handle or quota of 8 bytes, a
  \<open>PathPayload\<close> of 272 (its length, 260 bytes, 4 of padding), and for \<open>XGameSaveReadBlobData\<close> a
  pair of a handle and a vector, 32 bytes whose last 24 are the vector's capacity, pointer and
  length. The vector's strings are on the heap and belong to the call's context: after the
  context is freed, reading or dropping them is undefined, which is the answer \<open>None\<close>. The
  text of a path (\<open>to_string_lossy\<close>) is the argument \<open>path_text\<close>; Files keeps components only.
\<close>

section \<open>State\<close>

datatype save_closure =
    JobInitialize "u64 option" "ustring option"
  | JobQuota "path option"
  | JobDelete "path option" "ustring option"
  | JobReadBlobs u64 "ustring option list"
  | JobSubmitted hresult
  | JobFolder "u64 option" "ustring option"

record save_sys = "save_closure jobs" +
  saves_of :: saves
  vectors :: "u64 \<Rightarrow> ustring option list"
  next_vector :: u64

type_synonym 'z senv = "'z save_sys_scheme env"

definition set_saves :: "saves \<Rightarrow> 'z save_sys_scheme \<Rightarrow> 'z save_sys_scheme" where
  "set_saves v s = s\<lparr>saves_of := v\<rparr>"

section \<open>The closures\<close>

definition path_payload_bytes :: "path_payload \<Rightarrow> u8 list" where
  "path_payload_bytes p = u64_le (of_nat (pp_len p)) @ pp_bytes p @ replicate 4 0"

definition vector_bytes :: "u64 \<Rightarrow> u64 \<Rightarrow> u8 list" where
  "vector_bytes ptr len = u64_le len @ u64_le ptr @ u64_le len"

definition status_outcome :: "hresult \<Rightarrow> u8 list outcome" where
  "status_outcome hr = (if hr = S_OK then Inr [] else Inl hr)"

definition get_folder ::
  "(path \<Rightarrow> ustring) \<Rightarrow> u64 option \<Rightarrow> ustring option \<Rightarrow> 'z saves_scheme \<Rightarrow>
     path_payload outcome \<times> 'z saves_scheme" where
  "get_folder path_text user_id cfg v =
     (case cfg of
        None \<Rightarrow> (Inl E_INVALIDARG, v)
      | Some c \<Rightarrow>
          (case user_id of
             None \<Rightarrow> (Inl E_INVALIDARG, v)
           | Some u \<Rightarrow>
               let root = provider_root (gs_base v) u c
               in (case create_dir_all root (gs_fs v) of
                     (False, fs) \<Rightarrow> (Inl E_FAIL, v\<lparr>gs_fs := fs\<rparr>)
                   | (True, fs) \<Rightarrow> (path_payload_new (path_text root), v\<lparr>gs_fs := fs\<rparr>))))"

fun run_save_job ::
  "(path \<Rightarrow> ustring) \<Rightarrow> save_closure \<Rightarrow> 'z save_sys_scheme \<Rightarrow> u8 list outcome \<times> 'z save_sys_scheme" where
  "run_save_job path_text (JobInitialize user_id cfg) s =
     (let (r, v) = initialize_provider user_id cfg (saves_of s)
      in (map_sum id u64_le r, set_saves v s))"
| "run_save_job path_text (JobQuota root) s =
     (case root of
        None \<Rightarrow> (Inl E_INVALIDARG, s)
      | Some r \<Rightarrow> (Inr (i64_le (remaining_quota r (gs_fs (saves_of s)))), s))"
| "run_save_job path_text (JobDelete root name) s =
     (case root of
        None \<Rightarrow> (Inl E_INVALIDARG, s)
      | Some r \<Rightarrow>
          let (hr, fs) = delete_container r name (gs_fs (saves_of s))
          in (status_outcome hr, set_saves ((saves_of s)\<lparr>gs_fs := fs\<rparr>) s))"
| "run_save_job path_text (JobReadBlobs container names) s =
     (if None \<in> set names then (Inl E_INVALIDARG, s)
      else let a = next_vector s
           in (Inr (u64_le container @ vector_bytes a (of_nat (length names))),
               s\<lparr>vectors := (vectors s)(a := names), next_vector := a + 1\<rparr>))"
| "run_save_job path_text (JobSubmitted hr) s = (status_outcome hr, s)"
| "run_save_job path_text (JobFolder user_id cfg) s =
     (let (r, v) = get_folder path_text user_id cfg (saves_of s)
      in (map_sum id path_payload_bytes r, set_saves v s))"

definition save_env :: "(path \<Rightarrow> ustring) \<Rightarrow> 'z senv \<Rightarrow> 'z senv" where
  "save_env path_text env = with_jobs (run_save_job path_text) env"

section \<open>The first halves\<close>

definition user_id_of :: "u64 \<Rightarrow> 'z save_sys_scheme \<Rightarrow> u64 option" where
  "user_id_of user s = gs_users (saves_of s) user"

definition XGameSaveInitializeProviderAsync ::
  "'z senv \<Rightarrow> u64 \<Rightarrow> ustring option \<Rightarrow> u64 \<Rightarrow> 'z save_sys_scheme \<Rightarrow> hresult \<times> 'z save_sys_scheme" where
  "XGameSaveInitializeProviderAsync env user cfg b s =
     run_job env b (JobInitialize (user_id_of user s) cfg) 8 s"

definition XGameSaveGetRemainingQuotaAsync ::
  "'z senv \<Rightarrow> u64 \<Rightarrow> u64 \<Rightarrow> 'z save_sys_scheme \<Rightarrow> hresult \<times> 'z save_sys_scheme" where
  "XGameSaveGetRemainingQuotaAsync env provider b s =
     run_job env b (JobQuota (ht_get (gs_providers (saves_of s)) provider)) 8 s"

definition XGameSaveDeleteContainerAsync ::
  "'z senv \<Rightarrow> u64 \<Rightarrow> ustring option \<Rightarrow> u64 \<Rightarrow> 'z save_sys_scheme \<Rightarrow> hresult \<times> 'z save_sys_scheme" where
  "XGameSaveDeleteContainerAsync env provider name b s =
     run_job env b (JobDelete (ht_get (gs_providers (saves_of s)) provider) name) 0 s"

text \<open>The names are read here, one pointer per requested blob: a null array with a count is read
  through all the same, which is undefined.\<close>

definition XGameSaveReadBlobDataAsync ::
  "'z senv \<Rightarrow> u64 \<Rightarrow> ustring option list option \<Rightarrow> nat \<Rightarrow> u64 \<Rightarrow> 'z save_sys_scheme \<Rightarrow>
     (hresult \<times> 'z save_sys_scheme) option" where
  "XGameSaveReadBlobDataAsync env container names n b s =
     (case names of
        None \<Rightarrow> if n = 0 then Some (run_job env b (JobReadBlobs container []) 32 s) else None
      | Some ns \<Rightarrow> Some (run_job env b (JobReadBlobs container (take n ns)) 32 s))"

text \<open>The update is applied in the first half already; only its status travels.\<close>

definition XGameSaveSubmitUpdateAsync ::
  "'z senv \<Rightarrow> u64 \<Rightarrow> u64 \<Rightarrow> 'z save_sys_scheme \<Rightarrow> hresult \<times> 'z save_sys_scheme" where
  "XGameSaveSubmitUpdateAsync env update b s =
     (let (hr, v) = XGameSaveSubmitUpdate update (saves_of s)
      in run_job env b (JobSubmitted hr) 0 (set_saves v s))"

definition XGameSaveFilesGetFolderWithUiAsync ::
  "'z senv \<Rightarrow> u64 \<Rightarrow> ustring option \<Rightarrow> u64 \<Rightarrow> 'z save_sys_scheme \<Rightarrow> hresult \<times> 'z save_sys_scheme" where
  "XGameSaveFilesGetFolderWithUiAsync env user cfg b s =
     run_job env b (JobFolder (user_id_of user s) cfg) 272 s"

section \<open>The result halves\<close>

definition XGameSaveInitializeProviderResult ::
  "'z senv \<Rightarrow> u64 \<Rightarrow> u64 \<Rightarrow> 'z save_sys_scheme \<Rightarrow> hresult \<times> 'z save_sys_scheme" where
  "XGameSaveInitializeProviderResult env b provider s =
     (if provider = 0 then (E_POINTER, s) else result_into env b 8 provider s)"

definition XGameSaveGetRemainingQuotaResult ::
  "'z senv \<Rightarrow> u64 \<Rightarrow> u64 \<Rightarrow> 'z save_sys_scheme \<Rightarrow> hresult \<times> 'z save_sys_scheme" where
  "XGameSaveGetRemainingQuotaResult env b quota s =
     (if quota = 0 then (E_POINTER, s) else result_into env b 8 quota s)"

definition XGameSaveDeleteContainerResult ::
  "'z senv \<Rightarrow> u64 \<Rightarrow> 'z save_sys_scheme \<Rightarrow> hresult \<times> 'z save_sys_scheme" where
  "XGameSaveDeleteContainerResult env b s = result_into env b 0 own_frame s"

definition XGameSaveSubmitUpdateResult ::
  "'z senv \<Rightarrow> u64 \<Rightarrow> 'z save_sys_scheme \<Rightarrow> hresult \<times> 'z save_sys_scheme" where
  "XGameSaveSubmitUpdateResult env b s = result_into env b 0 own_frame s"

definition XGameSaveFilesGetFolderWithUiResult ::
  "'z senv \<Rightarrow> u64 \<Rightarrow> nat \<Rightarrow> u64 \<Rightarrow> 'z save_sys_scheme \<Rightarrow> hresult \<times> 'z save_sys_scheme" where
  "XGameSaveFilesGetFolderWithUiResult env b folder_size folder s =
     (if folder = 0 then (E_POINTER, s)
      else case get_result env b 0 272 own_frame s of
        (Inl hr, s1) \<Rightarrow> (hr, s1)
      | (Inr _, s1) \<Rightarrow>
          let payload = buffers s1 own_frame; len = unat (le_u64 (take 8 payload))
          in if folder_size < len + 1 then (E_NOT_SUFFICIENT_BUFFER, s1)
             else (S_OK, s1\<lparr>buffers := (buffers s1)(folder := take len (drop 8 payload) @ [0])\<rparr>))"

text \<open>\<open>XGameSaveReadBlobDataResult\<close>: the status, the count written last (once per blob) and the
  blobs. The vector is read through the copied bytes; it lives as long as the call's context.\<close>

definition copy_blobs ::
  "u64 \<Rightarrow> ustring option list \<Rightarrow> nat \<Rightarrow> bool \<Rightarrow> 'z saves_scheme \<Rightarrow>
     hresult \<times> u32 option \<times> (XGameSaveBlobInfo \<times> u8 list) list" where
  "copy_blobs container names blobs_size data_null v =
     (case ht_get (gs_containers v) container of
        None \<Rightarrow> (E_INVALIDARG, None, [])
      | Some root \<Rightarrow>
          if blobs_size < length names \<or> data_null then (E_NOT_SUFFICIENT_BUFFER, None, [])
          else let (hr, out) = read_blobs root (gs_fs v) names
               in (hr, if out = [] then None else Some (of_nat (length out)), out))"

definition XGameSaveReadBlobDataResult ::
  "'z senv \<Rightarrow> u64 \<Rightarrow> nat \<Rightarrow> bool \<Rightarrow> bool \<Rightarrow> 'z save_sys_scheme \<Rightarrow>
     ((hresult \<times> u32 option \<times> (XGameSaveBlobInfo \<times> u8 list) list) \<times> 'z save_sys_scheme) option"
where
  "XGameSaveReadBlobDataResult env b blobs_size data_null count_null s =
     (if count_null then Some ((E_POINTER, None, []), s)
      else case get_result env b 0 32 own_frame s of
        (Inl hr, s1) \<Rightarrow> Some ((hr, None, []), s1)
      | (Inr _, s1) \<Rightarrow>
          let payload = buffers s1 own_frame;
              container = le_u64 (take 8 payload);
              names = vectors s1 (le_u64 (take 8 (drop 16 payload)))
          in if names \<noteq> [] \<and> \<not> sh_live (helpers s1 (context_of b s)) then None
             else Some (copy_blobs container names blobs_size data_null (saves_of s1), s1))"

end
