(* ===== verification/Save_Async_Props.thy ===== *)
theory Save_Async_Props
  imports Save_Async Game_Save_Props
begin

text \<open>
  What the asynchronous game-save calls promise. Every closure keeps to the interface
  \<open>engine_job\<close>, so a pair of halves with its worker pass in between does what the synchronous
  entry point does; two pairs break the protocol: the folder call gives its result away before
  it looks at the buffer, and the blobs' call hands out a vector that is freed before it is
  read.
\<close>

section \<open>The closures keep to the interface\<close>

lemma set_saves_simps [simp]:
  "saves_of (set_saves v s) = v" "asyncs (set_saves v s) = asyncs s" "blocks (set_saves v s) = blocks s"
  "helpers (set_saves v s) = helpers s" "buffers (set_saves v s) = buffers s"
  "ports (set_saves v s) = ports s" "queues (set_saves v s) = queues s"
  "queue_handles (set_saves v s) = queue_handles s" "run_sync_queue (set_saves v s) = run_sync_queue s"
  "next_async (set_saves v s) = next_async s" "next_helper (set_saves v s) = next_helper s"
  "state_of b (set_saves v s) = state_of b s"
  by (simp_all add: set_saves_def state_of_def)

lemma saves_component:
  assumes "jobs.more s = jobs.more s'"
  shows "saves_of s = saves_of s'" "vectors s = vectors s'" "next_vector s = next_vector s'"
  using assms by (cases s; cases s'; simp)+

lemma ready_set_saves [simp]: "ready_block b q rq (set_saves v s) = ready_block b q rq s"
  by (simp add: ready_block_def quiet_side_def queue_port_def)

lemmas save_errors = hresult_defs

interpretation initialize: engine_job "run_save_job path_text" "JobInitialize user_id cfg"
  for path_text user_id cfg
  by unfold_locales
    (auto simp: initialize_provider_def Let_def save_errors split: option.splits prod.splits bool.splits)

interpretation quota: engine_job "run_save_job path_text" "JobQuota root" for path_text root
  by unfold_locales (auto simp: save_errors split: option.splits)

interpretation delete: engine_job "run_save_job path_text" "JobDelete root name" for path_text root name
  by unfold_locales
    (auto simp: delete_container_def status_outcome_def save_errors
      split: option.splits prod.splits removal.splits if_splits)

interpretation read_blobs: engine_job "run_save_job path_text" "JobReadBlobs container names"
  for path_text container names
  by unfold_locales (auto simp: Let_def save_errors split: if_splits)

interpretation folder: engine_job "run_save_job path_text" "JobFolder user_id cfg"
  for path_text user_id cfg
  by unfold_locales
    (auto simp: get_folder_def path_payload_new_def Let_def save_errors
      split: option.splits prod.splits bool.splits if_splits)

lemma submit_status: "XGameSaveSubmitUpdate h v = (hr, v') \<Longrightarrow> hr \<in> {S_OK, E_FAIL, E_INVALIDARG}"
  by (auto simp: XGameSaveSubmitUpdate_def commit_def Let_def split: option.splits prod.splits bool.splits)

interpretation submitted: engine_job "run_save_job path_text"
  "JobSubmitted (if hr \<in> {E_FAIL, E_INVALIDARG} then hr else S_OK)" for path_text hr
  by unfold_locales (auto simp: status_outcome_def save_errors split: if_splits)

section \<open>Asynchronous calls are the synchronous ones\<close>

text \<open>C19: the asynchronous initialisation is the synchronous one. On a free block the first half
  succeeds and queues a worker pass; whatever happens before the worker gets to it, the result
  half then answers what \<open>XGameSaveInitializeProvider\<close> answers in the worker's state, with the
  same new handle and the same directories made, and the block is free again.\<close>

theorem initialize_async_as_sync:
  assumes "ready_block b q rq s" "next_helper s \<noteq> 0" "out \<noteq> 0"
    and "XGameSaveInitializeProviderAsync (save_env path_text env) user cfg b s = (hr0, s1)"
    and "pending_job b (next_helper s) (JobInitialize (user_id_of user s) cfg) 8 s1 \<Longrightarrow>
         pending_job b (next_helper s) (JobInitialize (user_id_of user s) cfg) 8 s2"
    and "user_id_of user s2 = user_id_of user s"
    and "XGameSaveInitializeProvider user cfg False (saves_of s2) = (hr, handle, v)"
  shows "hr0 = S_OK \<and> (\<exists>t \<in> set (p_tasks (ports s1 (queue_port rq Work s1))).
     tk_call t = RunSyncWorker (next_helper s) b
     \<and> (let (hr', s3) = XGameSaveInitializeProviderResult (save_env path_text env) b out
                          (run1 (save_env path_text env) t False s2)
        in hr' = hr \<and> saves_of s3 = v \<and> state_of b s3 = None
         \<and> (handle \<noteq> None \<longrightarrow> handle = Some (le_u64 (buffers s3 out)))))"
proof -
  define c where "c = JobInitialize (user_id_of user s) cfg"
  obtain r v' where i: "initialize_provider (user_id_of user s) cfg (saves_of s2) = (r, v')"
    by (rule prod.exhaust)
  have body: "run_save_job path_text c s2 = (map_sum id u64_le r, set_saves v' s2)"
    using i by (simp add: c_def)
  have sync: "hr = (case r of Inr k \<Rightarrow> S_OK | Inl e \<Rightarrow> e)" "handle = (case r of Inr k \<Rightarrow> Some k | Inl e \<Rightarrow> None)"
    "v = v'"
    using assms(6,7) i
    by (auto simp: XGameSaveInitializeProvider_def user_id_of_def split: sum.splits)
  obtain t s3 where t: "hr0 = S_OK" "t \<in> set (p_tasks (ports s1 (queue_port rq Work s1)))"
    "tk_call t = RunSyncWorker (next_helper s) b"
    and r: "result_into (save_env path_text env) b 8 out (run1 (save_env path_text env) t False s2)
       = (case map_sum id u64_le r of Inr v \<Rightarrow> S_OK | Inl e \<Rightarrow> e, s3)"
    and s3: "buffers s3 = (case map_sum id u64_le r of Inr v \<Rightarrow> (buffers s2)(out := v) | Inl e \<Rightarrow> buffers s2)"
    "state_of b s3 = None" "jobs.more s3 = jobs.more (set_saves v' s2)"
    using assms(4,5) body initialize.first_half_to_result [OF assms(1,2), of path_text env
        "user_id_of user s" cfg 8 hr0 s1 s2 _ _ out]
    unfolding XGameSaveInitializeProviderAsync_def save_env_def c_def by metis
  have "saves_of s3 = v'" using saves_component(1) [OF s3(3)] by simp
  then show ?thesis
    using t r s3 sync assms(3)
    by (auto simp: XGameSaveInitializeProviderResult_def split: sum.splits intro!: bexI [where x = t])
qed

definition demo_save_sys :: "saves \<Rightarrow> save_sys" where
  "demo_save_sys v = jobs.extend (demo_jobs (JobSubmitted S_OK)) (save_sys.fields v (\<lambda>a. []) 1)"

lemma demo_save_sys_simps [simp]:
  "saves_of (demo_save_sys v) = v" "next_helper (demo_save_sys v) = 1"
  "job (demo_save_sys v) = (\<lambda>f. JobSubmitted S_OK)"
  "ready_block 16 0 (Suc 0) (demo_save_sys v)"
  by (simp_all add: demo_save_sys_def demo_jobs_def jobs.defs asys.defs save_sys.defs demo_ready_def boot_def
      ready_block_def state_of_def read_internal_def demo_block_def SIGNATURE_def ht_create_def
      ht_get_def ht_new_def Let_def quiet_side_def queue_port_def port_new_def)

definition demo_empty :: saves where
  "demo_empty = (demo_saves (demo_update []))
     \<lparr>gs_fs := demo_fs\<lparr>fs_nodes := [], fs_denied := (\<lambda>p. False)\<rparr>, gs_users := (\<lambda>_. Some 7)\<rparr>"

lemma demo_empty_initialize:
  "\<exists>v. XGameSaveInitializeProvider 5 (Some [0x63]) False demo_empty = (S_OK, Some 1, v)"
  by (simp add: XGameSaveInitializeProvider_def initialize_provider_def demo_empty_def demo_saves_def
      demo_fs_def provider_root_def containers_dir_def join_def split_by_none enter_def has_drive_def
      decimal.simps create_dir_all_def node_at_def put_node_def ht_create_def ht_new_def utf8_def
      is_separator_def dot_def dot_dot_def Let_def)

lemma initialize_async_as_sync_witness:
  "\<exists>s1 t s3. XGameSaveInitializeProviderAsync (save_env concat demo_idle_env) 5 (Some [0x63]) 16
       (demo_save_sys demo_empty) = (S_OK, s1)
     \<and> XGameSaveInitializeProviderResult (save_env concat demo_idle_env) 16 4096
         (run1 (save_env concat demo_idle_env) t False s1) = (S_OK, s3)
     \<and> state_of 16 s3 = None \<and> le_u64 (buffers s3 4096) = 1"
proof -
  obtain v where v: "XGameSaveInitializeProvider 5 (Some [0x63]) False demo_empty = (S_OK, Some 1, v)"
    using demo_empty_initialize by blast
  obtain hr0 s1 where a: "XGameSaveInitializeProviderAsync (save_env concat demo_idle_env) 5 (Some [0x63]) 16
      (demo_save_sys demo_empty) = (hr0, s1)" by (rule prod.exhaust)
  have saved: "saves_of s1 = demo_empty"
    using a unfolding XGameSaveInitializeProviderAsync_def
    by (rule run_job_pending [of 16 0 1, rotated 2])
      (use saves_component(1) [of s1 "demo_save_sys demo_empty"] in simp_all)
  then have u: "user_id_of 5 s1 = user_id_of 5 (demo_save_sys demo_empty)" by (simp add: user_id_of_def)
  have v1: "XGameSaveInitializeProvider 5 (Some [0x63]) False (saves_of s1) = (S_OK, Some 1, v)"
    using v saved by simp
  have "hr0 = S_OK \<and> (\<exists>t \<in> set (p_tasks (ports s1 (queue_port 1 Work s1))).
     tk_call t = RunSyncWorker (next_helper (demo_save_sys demo_empty)) 16
     \<and> (let (hr', s3) = XGameSaveInitializeProviderResult (save_env concat demo_idle_env) 16 4096
                          (run1 (save_env concat demo_idle_env) t False s1)
        in hr' = S_OK \<and> saves_of s3 = v \<and> state_of 16 s3 = None
         \<and> (Some 1 \<noteq> (None :: u64 option) \<longrightarrow> Some 1 = Some (le_u64 (buffers s3 4096)))))"
    by (rule initialize_async_as_sync [OF _ _ _ a _ u v1, of 0]) simp_all
  then show ?thesis using a by (fastforce split: prod.splits)
qed

text \<open>The quota and the deletion look their provider up in the first half; the work is done on the
  files as the worker finds them.\<close>

lemma remaining_quota_range: "- (2 ^ 63) \<le> remaining_quota r fs" "remaining_quota r fs < 2 ^ 63"
  by (auto simp: remaining_quota_def saturating_sub_i64_def)

lemma quota_result:
  assumes "pending_job b h (JobQuota root) 8 s" "tk_call t = RunSyncWorker h b" "quota \<noteq> 0"
    and "XGameSaveGetRemainingQuotaResult (save_env path_text env) b quota
           (run1 (save_env path_text env) t False s) = (hr, s3)"
  shows "case root of
      None \<Rightarrow> hr = E_INVALIDARG
    | Some r \<Rightarrow> hr = S_OK \<and> sint (le_u64 (buffers s3 quota)) = remaining_quota r (gs_fs (saves_of s))"
    and "saves_of s3 = saves_of s" "state_of b s3 = None"
proof -
  obtain answer s1 where body: "run_save_job path_text (JobQuota root) s = (answer, s1)"
    by (rule prod.exhaust)
  obtain s' where s': "XGameSaveGetRemainingQuotaResult (save_env path_text env) b quota
       (run1 (save_env path_text env) t False s) = (case answer of Inr v \<Rightarrow> S_OK | Inl e \<Rightarrow> e, s')"
    "buffers s' = (case answer of Inr v \<Rightarrow> (buffers s)(quota := v) | Inl e \<Rightarrow> buffers s)"
    "state_of b s' = None" "jobs.more s' = jobs.more s1"
    by (rule quota.delivers_status [OF assms(1,2) body, of env quota])
      (use assms(3) in \<open>auto simp: XGameSaveGetRemainingQuotaResult_def save_env_def\<close>)
  then have "s3 = s'" "hr = (case answer of Inr v \<Rightarrow> S_OK | Inl e \<Rightarrow> e)" using assms(4) by simp_all
  then show "case root of
      None \<Rightarrow> hr = E_INVALIDARG
    | Some r \<Rightarrow> hr = S_OK \<and> sint (le_u64 (buffers s3 quota)) = remaining_quota r (gs_fs (saves_of s))"
    "saves_of s3 = saves_of s" "state_of b s3 = None"
    using body s' saves_component(1) [OF s'(4)] sint_i64_le remaining_quota_range
    by (auto split: option.splits)
qed

lemma delete_result:
  assumes "pending_job b h (JobDelete (Some r) name) 0 s" "tk_call t = RunSyncWorker h b"
    and "delete_container r name (gs_fs (saves_of s)) = (status, fs)"
    and "XGameSaveDeleteContainerResult (save_env path_text env) b
           (run1 (save_env path_text env) t False s) = (hr, s3)"
  shows "hr = status" "saves_of s3 = (saves_of s)\<lparr>gs_fs := fs\<rparr>" "state_of b s3 = None"
proof -
  have body: "run_save_job path_text (JobDelete (Some r) name) s
      = (status_outcome status, set_saves ((saves_of s)\<lparr>gs_fs := fs\<rparr>) s)"
    using assms(3) by simp
  show "hr = status" "saves_of s3 = (saves_of s)\<lparr>gs_fs := fs\<rparr>" "state_of b s3 = None"
    by (rule delete.delivers_status [OF assms(1,2) body, of env own_frame];
        use assms(4) saves_component(1) [of s3] in
          \<open>force simp: XGameSaveDeleteContainerResult_def save_env_def status_outcome_def
            split: if_splits\<close>)+
qed

text \<open>An asynchronous submission applies the update in its first half. Whatever the update
  comes to, the first half succeeds with the files already changed as by
  \<open>XGameSaveSubmitUpdate\<close>; the worker's pass changes nothing more, and the result half answers
  the status of the update and frees the block.\<close>

theorem submit_applies_at_once:
  assumes "ready_block b q rq s" "next_helper s \<noteq> 0"
    and "XGameSaveSubmitUpdate update (saves_of s) = (hr, v)"
    and "XGameSaveSubmitUpdateAsync (save_env path_text env) update b s = (hr0, s1)"
    and "pending_job b (next_helper s) (JobSubmitted hr) 0 s1 \<Longrightarrow>
         pending_job b (next_helper s) (JobSubmitted hr) 0 s2"
  shows "hr0 = S_OK \<and> saves_of s1 = v
     \<and> (\<exists>t \<in> set (p_tasks (ports s1 (queue_port rq Work s1))).
          tk_call t = RunSyncWorker (next_helper s) b
          \<and> (let (hr', s3) = XGameSaveSubmitUpdateResult (save_env path_text env) b
                              (run1 (save_env path_text env) t False s2)
             in hr' = hr \<and> saves_of s3 = saves_of s2 \<and> state_of b s3 = None))"
proof -
  define c where "c = (if hr \<in> {E_FAIL, E_INVALIDARG} then hr else S_OK)"
  have c: "c = hr" using submit_status [OF assms(3)] by (auto simp: c_def)
  have ready: "ready_block b q rq (set_saves v s)" "next_helper (set_saves v s) \<noteq> 0"
    using assms(1,2) by simp_all
  have run: "run_job (with_jobs (run_save_job path_text) env) b (JobSubmitted c) 0 (set_saves v s) = (hr0, s1)"
    using assms(3,4) by (simp add: XGameSaveSubmitUpdateAsync_def save_env_def c)
  have "run_save_job path_text (JobSubmitted c) s2 = (status_outcome c, s2)" by simp
  then obtain t s3 where t: "hr0 = S_OK" "jobs.more s1 = jobs.more (set_saves v s)"
    "t \<in> set (p_tasks (ports s1 (queue_port rq Work s1)))" "tk_call t = RunSyncWorker (next_helper s) b"
    "result_into (with_jobs (run_save_job path_text) env) b 0 own_frame
       (run1 (with_jobs (run_save_job path_text) env) t False s2)
       = (case status_outcome c of Inr v \<Rightarrow> S_OK | Inl e \<Rightarrow> e, s3)"
    "state_of b s3 = None" "jobs.more s3 = jobs.more s2"
    using submitted.first_half_to_result [OF ready run [unfolded c_def], of s2 "status_outcome c" s2 own_frame]
      assms(5) unfolding c_def [symmetric] c by simp blast
  have "saves_of s1 = v" using saves_component(1) [OF t(2)] by simp
  then show ?thesis
    using t saves_component(1) [OF t(7)]
    by (auto simp: XGameSaveSubmitUpdateResult_def save_env_def status_outcome_def c intro!: bexI [where x = t])
qed

lemma submit_applies_at_once_witness:
  "\<exists>s1. XGameSaveSubmitUpdateAsync (save_env concat demo_idle_env) 9 16 (demo_save_sys demo_empty) = (S_OK, s1)
     \<and> (\<exists>t s3. XGameSaveSubmitUpdateResult (save_env concat demo_idle_env) 16
          (run1 (save_env concat demo_idle_env) t False s1) = (E_INVALIDARG, s3) \<and> state_of 16 s3 = None)"
proof -
  have u: "XGameSaveSubmitUpdate 9 (saves_of (demo_save_sys demo_empty)) = (E_INVALIDARG, demo_empty)"
    by (simp add: XGameSaveSubmitUpdate_def demo_empty_def demo_saves_def ht_create_def ht_new_def
        ht_get_def Let_def)
  obtain hr0 s1 where a: "XGameSaveSubmitUpdateAsync (save_env concat demo_idle_env) 9 16
      (demo_save_sys demo_empty) = (hr0, s1)" by (rule prod.exhaust)
  from submit_applies_at_once [OF _ _ u a, of 0 1 s1] a show ?thesis by (fastforce split: prod.splits)
qed

section \<open>The folder\<close>

text \<open>C24: the folder call answers once. When the worker has found the folder, a result call with
  room for its text and the terminator gets exactly that; with less room it is refused as the
  API documents, but the call is used up, so the retry with a larger buffer gets
  \<open>E_ILLEGAL_METHOD_CALL\<close> and the folder is never told.\<close>

theorem folder_answers_once:
  assumes "pending_job b h (JobFolder (Some u) (Some cfg)) 272 s" "tk_call t = RunSyncWorker h b"
    and "create_dir_all (provider_root (gs_base (saves_of s)) u cfg) (gs_fs (saves_of s)) = (True, fs)"
    and "text_of_root = path_text (provider_root (gs_base (saves_of s)) u cfg)" "length text_of_root < 260"
    and "folder \<noteq> 0"
    and "XGameSaveFilesGetFolderWithUiResult (save_env path_text env) b folder_size folder
           (run1 (save_env path_text env) t False s) = (hr, s3)"
  shows "if length text_of_root < folder_size
     then hr = S_OK \<and> buffers s3 folder = text_of_root @ [0]
     else hr = E_NOT_SUFFICIENT_BUFFER
       \<and> XGameSaveFilesGetFolderWithUiResult (save_env path_text env) b n folder s3
           = (E_ILLEGAL_METHOD_CALL, s3)"
proof -
  define p where "p = \<lparr>pp_len = length text_of_root,
    pp_bytes = text_of_root @ replicate (PATH_PAYLOAD_CAPACITY - length text_of_root) 0\<rparr>"
  have new: "path_payload_new text_of_root = Inr p"
    using assms(5) by (simp add: path_payload_new_def PATH_PAYLOAD_CAPACITY_def p_def)
  have len: "unat (le_u64 (take 8 (path_payload_bytes p))) = length text_of_root"
    "take (length text_of_root) (drop 8 (path_payload_bytes p)) = text_of_root"
    using assms(5) by (simp_all add: path_payload_bytes_def p_def unat_of_nat)
  have body: "run_save_job path_text (JobFolder (Some u) (Some cfg)) s
      = (Inr (path_payload_bytes p), set_saves ((saves_of s)\<lparr>gs_fs := fs\<rparr>) s)"
    using assms(3,4) new by (simp add: get_folder_def)
  obtain s2 where s2: "get_result (save_env path_text env) b 0 272 own_frame (run1 (save_env path_text env) t False s)
       = (Inr (), s2)" "buffers s2 own_frame = path_payload_bytes p" "state_of b s2 = None"
    by (rule folder.delivers [OF assms(1,2) body, of env own_frame]) (auto simp: save_env_def)
  have gone: "get_result (save_env path_text env) b 0 272 own_frame s2 = (Inl E_ILLEGAL_METHOD_CALL, s2)"
    using s2(3) by (simp add: get_result_def XAsyncGetResult_def hresult_defs)
  show ?thesis
    using assms(6,7) s2 len gone
    by (auto simp: XGameSaveFilesGetFolderWithUiResult_def Let_def)
qed

text \<open>A folder of two letters: the drive-less root is the user id 7 followed by the configuration.\<close>

definition demo_folder_call :: save_sys where
  "demo_folder_call = snd (XGameSaveFilesGetFolderWithUiAsync (save_env concat demo_idle_env) 5
     (Some [0x63]) 16 (demo_save_sys demo_empty))"

lemma demo_folder_pending:
  "pending_job 16 1 (JobFolder (Some 7) (Some [0x63])) 272 demo_folder_call"
  "saves_of demo_folder_call = demo_empty"
proof -
  obtain hr s1 where a: "run_job (save_env concat demo_idle_env) 16 (JobFolder (Some 7) (Some [0x63])) 272
      (demo_save_sys demo_empty) = (hr, s1)" by (rule prod.exhaust)
  have "user_id_of 5 (demo_save_sys demo_empty) = Some 7" by (simp add: user_id_of_def demo_empty_def)
  then have s1: "demo_folder_call = s1"
    using a by (simp add: demo_folder_call_def XGameSaveFilesGetFolderWithUiAsync_def)
  show "pending_job 16 1 (JobFolder (Some 7) (Some [0x63])) 272 demo_folder_call"
    "saves_of demo_folder_call = demo_empty"
    unfolding s1
    by (rule run_job_pending [OF _ _ a, of 0 1];
        use saves_component(1) [of s1 "demo_save_sys demo_empty"] in simp)+
qed

lemma folder_answers_once_witness:
  "\<exists>s3. XGameSaveFilesGetFolderWithUiResult (save_env concat demo_idle_env) 16 2 4096
       (run1 (save_env concat demo_idle_env) \<lparr>tk_call = RunSyncWorker 1 16, tk_owner = 1, tk_due = None\<rparr>
         False demo_folder_call) = (E_NOT_SUFFICIENT_BUFFER, s3)
     \<and> XGameSaveFilesGetFolderWithUiResult (save_env concat demo_idle_env) 16 100 4096 s3
         = (E_ILLEGAL_METHOD_CALL, s3)"
proof -
  have root: "provider_root (gs_base demo_empty) 7 [0x63] = [[0x37], [0x63]]"
    by (simp add: demo_empty_def demo_saves_def provider_root_def join_def split_by_none enter_def
        has_drive_def decimal.simps is_separator_def dot_def dot_dot_def)
  have made: "\<exists>fs. create_dir_all [[0x37], [0x63]] (gs_fs demo_empty) = (True, fs)"
    by (simp add: demo_empty_def demo_saves_def demo_fs_def create_dir_all_def node_at_def put_node_def)
  then obtain fs where fs: "create_dir_all (provider_root (gs_base (saves_of demo_folder_call)) 7 [0x63])
      (gs_fs (saves_of demo_folder_call)) = (True, fs)"
    by (auto simp: demo_folder_pending root)
  obtain hr s3 where r: "XGameSaveFilesGetFolderWithUiResult (save_env concat demo_idle_env) 16 2 4096
       (run1 (save_env concat demo_idle_env) \<lparr>tk_call = RunSyncWorker 1 16, tk_owner = 1, tk_due = None\<rparr>
         False demo_folder_call) = (hr, s3)" by (rule prod.exhaust)
  have t: "[0x37, 0x63] = concat (provider_root (gs_base (saves_of demo_folder_call)) 7 [0x63])"
    by (simp add: demo_folder_pending root)
  from folder_answers_once [OF demo_folder_pending(1) _ fs t _ _ r, of 100] r show ?thesis
    by (simp add: fun_upd_def)
qed

section \<open>Reading blobs\<close>

text \<open>C21: an asynchronous read of blobs never answers. For one or more named blobs the first
  half succeeds, and once the worker has run, the result half copies the vector of names out
  of the call and releases it, which frees the names; whatever it does next with them is
  undefined.\<close>

theorem read_blob_result_undefined:
  assumes "ready_block b q rq s" "next_helper s \<noteq> 0" "0 < n" "n \<le> length names"
    and "XGameSaveReadBlobDataAsync (save_env path_text env) container (Some (map Some names)) n b s
           = Some (hr0, s1)"
    and "pending_job b (next_helper s) (JobReadBlobs container (map Some (take n names))) 32 s1 \<Longrightarrow>
         pending_job b (next_helper s) (JobReadBlobs container (map Some (take n names))) 32 s2"
  shows "hr0 = S_OK \<and> (\<exists>t \<in> set (p_tasks (ports s1 (queue_port rq Work s1))).
     tk_call t = RunSyncWorker (next_helper s) b
     \<and> XGameSaveReadBlobDataResult (save_env path_text env) b blobs_size data_null False
         (run1 (save_env path_text env) t False s2) = None)"
proof -
  define ns where "ns = map Some (take n names)"
  define a where "a = next_vector s2"
  have run: "run_job (save_env path_text env) b (JobReadBlobs container ns) 32 s = (hr0, s1)"
    using assms(5) by (simp add: XGameSaveReadBlobDataAsync_def ns_def take_map)
  obtain t where t: "hr0 = S_OK" "pending_job b (next_helper s) (JobReadBlobs container ns) 32 s1"
    "t \<in> set (p_tasks (ports s1 (queue_port rq Work s1)))" "tk_call t = RunSyncWorker (next_helper s) b"
    by (rule run_job_pending [OF assms(1,2) run])
  have ns: "None \<notin> set ns" "ns \<noteq> []" using assms(3,4) by (auto simp: ns_def)
  define s2' where "s2' = s2\<lparr>vectors := (vectors s2)(a := ns), next_vector := a + 1\<rparr>"
  have body: "run_save_job path_text (JobReadBlobs container ns) s2
      = (Inr (u64_le container @ vector_bytes a (of_nat (length ns))), s2')"
    using ns(1) by (simp add: a_def s2'_def Let_def)
  obtain s3 where s3: "get_result (save_env path_text env) b 0 32 own_frame (run1 (save_env path_text env) t False s2)
       = (Inr (), s3)" "buffers s3 own_frame = u64_le container @ vector_bytes a (of_nat (length ns))"
    "\<not> sh_live (helpers s3 (next_helper s))" "jobs.more s3 = jobs.more s2'"
    "context_of b (run1 (save_env path_text env) t False s2) = next_helper s"
    by (rule read_blobs.delivers [OF _ t(4) body, of 32 env own_frame])
      (use assms(6) t(2) in \<open>auto simp: save_env_def ns_def\<close>)
  have "vectors s3 a = ns" using saves_component(2) [OF s3(4)] by (simp add: s2'_def)
  then have "XGameSaveReadBlobDataResult (save_env path_text env) b blobs_size data_null False
      (run1 (save_env path_text env) t False s2) = None"
    using s3 ns(2) by (simp add: XGameSaveReadBlobDataResult_def vector_bytes_def Let_def)
  then show ?thesis using t by blast
qed

lemma read_blob_result_undefined_witness:
  "\<exists>s1 t. XGameSaveReadBlobDataAsync (save_env concat demo_idle_env) 1 (Some [Some [0x61]]) 1 16
       (demo_save_sys demo_empty) = Some (S_OK, s1)
     \<and> XGameSaveReadBlobDataResult (save_env concat demo_idle_env) 16 1 False False
         (run1 (save_env concat demo_idle_env) t False s1) = None"
proof -
  obtain hr0 s1 where a: "XGameSaveReadBlobDataAsync (save_env concat demo_idle_env) 1
      (Some (map Some [[0x61]])) 1 16 (demo_save_sys demo_empty) = Some (hr0, s1)"
    by (cases "run_job (save_env concat demo_idle_env) 16 (JobReadBlobs 1 [Some [0x61]]) 32
          (demo_save_sys demo_empty)") (simp add: XGameSaveReadBlobDataAsync_def)
  from read_blob_result_undefined [OF _ _ _ _ a, of 0 1 s1 1 False] show ?thesis using a by auto
qed

end
