(* ===== verification/Networking.thy ===== *)
theory Networking
  imports Async_Calls
begin

text \<open>
  XNetworking (\<open>src/src/com/xnetworking.rs\<close>): the connectivity hint, its registration, and the
  security information of a URL in both spellings, whose closure answers the same fixed record
  for every URL. The result half writes to the title's buffer: a first out-pointer takes the
  number of bytes used, a second one the address of the record. Records are their C bytes,
  little endian, with zeroes for padding.

  The interface \<open>fixed_answer\<close> is what a closure promises that does nothing but answer; the
  prompt for more storage (\<open>src/src/com/xpersistent_local_storage.rs\<close>) is one as well.
\<close>

section \<open>Closures that only answer\<close>

locale fixed_answer =
  fixes body :: "('c, 'z) job_body" and c :: 'c and answer :: "u8 list"
  assumes answers: "body c s = (Inr answer, s)"
begin

text \<open>Such a closure keeps to the interface of every closure.\<close>

sublocale engine_job body c
  by unfold_locales (simp_all add: answers)

lemma gives_value:
  assumes "pending_job b h c n s" "tk_call t = RunSyncWorker h b"
  obtains s3 where
    "get_result (with_jobs body env) b 0 n out (run1 (with_jobs body env) t False s) = (Inr (), s3)"
    "buffers s3 = (buffers s)(out := answer)" "state_of b s3 = None" "jobs.more s3 = jobs.more s"
  by (rule delivers [OF assms answers, of env out]) (use that in simp)

end

section \<open>Connectivity\<close>

record XNetworkingConnectivityHint =
  connectivity_level :: u32
  connectivity_cost :: u32
  iana_interface_type :: u32
  network_initialized :: bool
  approaching_data_limit :: bool
  over_data_limit :: bool
  roaming :: bool

definition connectivity_hint :: XNetworkingConnectivityHint where
  "connectivity_hint = \<lparr>connectivity_level = 3, connectivity_cost = 1, iana_interface_type = 6,
     network_initialized = True, approaching_data_limit = False, over_data_limit = False,
     roaming = False\<rparr>"

definition XNetworkingGetConnectivityHint :: "bool \<Rightarrow> hresult \<times> XNetworkingConnectivityHint option" where
  "XNetworkingGetConnectivityHint out_null =
     (if out_null then (E_POINTER, None) else (S_OK, Some connectivity_hint))"

text \<open>The callback is called once, at once; the token is not written.\<close>

definition XNetworkingRegisterConnectivityHintChanged ::
  "u64 \<Rightarrow> (u64 \<Rightarrow> XNetworkingConnectivityHint \<Rightarrow> 's \<Rightarrow> 's) option \<Rightarrow> 's \<Rightarrow> hresult \<times> u64 option \<times> 's"
where
  "XNetworkingRegisterConnectivityHintChanged context callback s =
     (S_OK, None, case callback of None \<Rightarrow> s | Some f \<Rightarrow> f context connectivity_hint s)"

definition XNetworkingVerifyServerCertificate :: hresult where
  "XNetworkingVerifyServerCertificate = S_OK"

section \<open>Security information\<close>

definition security_flags :: u32 where
  "security_flags = or (or (or 0x80 0x200) 0x800) 0x2000"

definition security_size :: u64 where "security_size = 24"

definition security_bytes :: "u32 \<Rightarrow> u64 \<Rightarrow> u64 \<Rightarrow> u8 list" where
  "security_bytes flags thumbprint_count thumbprints =
     u32_le flags @ replicate 4 0 @ u64_le thumbprint_count @ u64_le thumbprints"

datatype net_job = JobSecurityForUrl | JobSecurityForUrlUtf16

fun run_net_job :: "net_job \<Rightarrow> (net_job, 'z) jobs_scheme \<Rightarrow> u8 list outcome \<times> (net_job, 'z) jobs_scheme"
where
  "run_net_job JobSecurityForUrl s = (Inr (security_bytes security_flags 0 0), s)"
| "run_net_job JobSecurityForUrlUtf16 s = (Inr (security_bytes security_flags 0 0), s)"

type_synonym 'z nenv = "(net_job, 'z) jobs_scheme env"

definition net_env :: "'z nenv \<Rightarrow> 'z nenv" where
  "net_env env = with_jobs run_net_job env"

definition XNetworkingQuerySecurityInformationForUrlAsync ::
  "'z nenv \<Rightarrow> u64 \<Rightarrow> (net_job, 'z) jobs_scheme \<Rightarrow> hresult \<times> (net_job, 'z) jobs_scheme" where
  "XNetworkingQuerySecurityInformationForUrlAsync env b s = run_job env b JobSecurityForUrl security_size s"

definition XNetworkingQuerySecurityInformationForUrlUtf16Async ::
  "'z nenv \<Rightarrow> u64 \<Rightarrow> (net_job, 'z) jobs_scheme \<Rightarrow> hresult \<times> (net_job, 'z) jobs_scheme" where
  "XNetworkingQuerySecurityInformationForUrlUtf16Async env b s =
     run_job env b JobSecurityForUrlUtf16 security_size s"

definition XNetworkingQuerySecurityInformationForUrlAsyncResultSize ::
  "u64 \<Rightarrow> 'z asys_scheme \<Rightarrow> hresult \<times> u64 option" where
  "XNetworkingQuerySecurityInformationForUrlAsyncResultSize b s =
     (case get_result_size b s of Inr n \<Rightarrow> (S_OK, Some n) | Inl hr \<Rightarrow> (hr, None))"

definition XNetworkingQuerySecurityInformationForUrlUtf16AsyncResultSize ::
  "u64 \<Rightarrow> 'z asys_scheme \<Rightarrow> hresult \<times> u64 option" where
  "XNetworkingQuerySecurityInformationForUrlUtf16AsyncResultSize b s =
     (case get_result_size b s of Inr n \<Rightarrow> (S_OK, Some n) | Inl hr \<Rightarrow> (hr, None))"

text \<open>The status, the bytes-used value written last (if any), the address of the record.\<close>

definition XNetworkingQuerySecurityInformationForUrlAsyncResult ::
  "'z aenv \<Rightarrow> u64 \<Rightarrow> u64 \<Rightarrow> bool \<Rightarrow> u64 \<Rightarrow> 'z asys_scheme \<Rightarrow>
     (hresult \<times> u64 option \<times> u64 option) \<times> 'z asys_scheme" where
  "XNetworkingQuerySecurityInformationForUrlAsyncResult env b byte_count used_null buffer s =
     (if byte_count < security_size then ((E_FAIL, None, None), s)
      else case get_result env b 0 security_size buffer s of
        (Inr _, s1) \<Rightarrow>
          ((S_OK, if used_null then None else Some security_size, Some buffer), s1)
      | (Inl hr, s1) \<Rightarrow> ((hr, if used_null then None else Some 0, None), s1))"

definition XNetworkingQuerySecurityInformationForUrlUtf16AsyncResult ::
  "'z aenv \<Rightarrow> u64 \<Rightarrow> u64 \<Rightarrow> bool \<Rightarrow> u64 \<Rightarrow> 'z asys_scheme \<Rightarrow>
     (hresult \<times> u64 option \<times> u64 option) \<times> 'z asys_scheme" where
  "XNetworkingQuerySecurityInformationForUrlUtf16AsyncResult env b byte_count used_null buffer s =
     (if byte_count < security_size then ((E_FAIL, None, None), s)
      else case get_result env b 0 security_size buffer s of
        (Inr _, s1) \<Rightarrow>
          ((S_OK, if used_null then None else Some security_size, Some buffer), s1)
      | (Inl hr, s1) \<Rightarrow> ((hr, if used_null then None else Some 0, None), s1))"

interpretation security: fixed_answer run_net_job JobSecurityForUrl "security_bytes security_flags 0 0"
  by unfold_locales simp

interpretation security16: fixed_answer run_net_job JobSecurityForUrlUtf16 "security_bytes security_flags 0 0"
  by unfold_locales simp

section \<open>Storage prompts\<close>

definition run_prompt_job :: "unit \<Rightarrow> (unit, 'z) jobs_scheme \<Rightarrow> u8 list outcome \<times> (unit, 'z) jobs_scheme" where
  "run_prompt_job c s = (Inr [], s)"

definition x_persistent_local_storage_prompt_user_for_space_async ::
  "(unit, 'z) jobs_scheme env \<Rightarrow> u64 \<Rightarrow> u64 \<Rightarrow> (unit, 'z) jobs_scheme \<Rightarrow> (unit, 'z) jobs_scheme" where
  "x_persistent_local_storage_prompt_user_for_space_async env requested_bytes b s =
     snd (run_job env b () 0 s)"

definition x_persistent_local_storage_prompt_user_for_space_result ::
  "'z aenv \<Rightarrow> u64 \<Rightarrow> 'z asys_scheme \<Rightarrow> 'z asys_scheme" where
  "x_persistent_local_storage_prompt_user_for_space_result env b s = snd (get_result env b 0 0 own_frame s)"

interpretation prompt: fixed_answer run_prompt_job "()" "[]"
  by unfold_locales (simp add: run_prompt_job_def)

text \<open>A prompt ends like a granted one: the call is over, whatever amount was asked for.\<close>

lemma prompt_completes:
  assumes "pending_job b h () 0 s" "tk_call t = RunSyncWorker h b"
  shows "state_of b (x_persistent_local_storage_prompt_user_for_space_result (with_jobs run_prompt_job env) b
    (run1 (with_jobs run_prompt_job env) t False s)) = None"
  by (rule prompt.gives_value [OF assms, of env own_frame])
    (simp add: x_persistent_local_storage_prompt_user_for_space_result_def)

section \<open>Two calls for the security information\<close>

lemma security_words:
  "le_u32 (take 4 (security_bytes f c p)) = f" "le_u64 (take 8 (drop 8 (security_bytes f c p))) = c"
  "le_u64 (take 8 (drop 16 (security_bytes f c p))) = p" "length (security_bytes f c p) = 24"
  by (simp_all add: security_bytes_def)

text \<open>The security information takes two calls and survives a wrong one. On a free block the
  query succeeds and queues a worker pass; after it the size call answers 24, a result call
  with less room is refused and uses nothing up, and one with enough room fills the buffer
  with the four protocol flags and no thumbprints, says so through both out-pointers and frees
  the block.\<close>

theorem security_information_two_calls:
  assumes "ready_block b q rq s" "next_helper s \<noteq> 0"
    and "XNetworkingQuerySecurityInformationForUrlAsync (net_env env) b s = (hr0, s1)"
    and "pending_job b (next_helper s) JobSecurityForUrl security_size s1 \<Longrightarrow>
         pending_job b (next_helper s) JobSecurityForUrl security_size s2"
    and "small < 24" "24 \<le> n"
  shows "hr0 = S_OK \<and> (\<exists>t \<in> set (p_tasks (ports s1 (queue_port rq Work s1))).
     tk_call t = RunSyncWorker (next_helper s) b
     \<and> (let s3 = run1 (net_env env) t False s2;
            (r, s4) = XNetworkingQuerySecurityInformationForUrlAsyncResult (net_env env) b n False buffer s3
        in XNetworkingQuerySecurityInformationForUrlAsyncResultSize b s3 = (S_OK, Some 24)
         \<and> XNetworkingQuerySecurityInformationForUrlAsyncResult (net_env env) b small False buffer s3
             = ((E_FAIL, None, None), s3)
         \<and> r = (S_OK, Some 24, Some buffer) \<and> state_of b s4 = None
         \<and> le_u32 (take 4 (buffers s4 buffer)) = 0x2a80
         \<and> le_u64 (take 8 (drop 8 (buffers s4 buffer))) = 0))"
proof -
  obtain t where t: "hr0 = S_OK" "pending_job b (next_helper s) JobSecurityForUrl security_size s1"
    "t \<in> set (p_tasks (ports s1 (queue_port rq Work s1)))" "tk_call t = RunSyncWorker (next_helper s) b"
    by (rule run_job_pending
        [OF assms(1,2) assms(3) [unfolded XNetworkingQuerySecurityInformationForUrlAsync_def]])
  obtain s4 where s4: "get_result (net_env env) b 0 security_size buffer (run1 (net_env env) t False s2) = (Inr (), s4)"
    "buffers s4 = (buffers s2)(buffer := security_bytes security_flags 0 0)" "state_of b s4 = None"
    "get_result_size b (run1 (net_env env) t False s2) = Inr security_size"
    by (rule security.delivers [OF assms(4) [OF t(2)] t(4), of "Inr (security_bytes security_flags 0 0)" s2 env buffer])
      (simp_all add: net_env_def)
  have "security_flags = 0x2a80" by (simp add: security_flags_def)
  then show ?thesis using t s4 assms(5,6)
    by (intro conjI bexI [where x = t])
      (simp_all add: XNetworkingQuerySecurityInformationForUrlAsyncResult_def
        XNetworkingQuerySecurityInformationForUrlAsyncResultSize_def security_words security_size_def)
qed

lemma security_information_two_calls_witness:
  "\<exists>s1. XNetworkingQuerySecurityInformationForUrlAsync (net_env demo_idle_env) 16 (demo_jobs JobSecurityForUrl)
       = (S_OK, s1)
     \<and> (\<exists>t. XNetworkingQuerySecurityInformationForUrlAsyncResultSize 16
              (run1 (net_env demo_idle_env) t False s1) = (S_OK, Some 24))"
proof -
  obtain hr0 s1 where a: "XNetworkingQuerySecurityInformationForUrlAsync (net_env demo_idle_env) 16
      (demo_jobs JobSecurityForUrl) = (hr0, s1)" by (rule prod.exhaust)
  from security_information_two_calls [OF _ _ a, of 0 1 s1 8 24 4096] a show ?thesis
    by (fastforce simp: Let_def split: prod.splits)
qed

text \<open>The two spellings of the URL are one call.\<close>

lemma utf16_results_agree:
  "XNetworkingQuerySecurityInformationForUrlUtf16AsyncResult
     = XNetworkingQuerySecurityInformationForUrlAsyncResult"
  "XNetworkingQuerySecurityInformationForUrlUtf16AsyncResultSize
     = XNetworkingQuerySecurityInformationForUrlAsyncResultSize"
  by (simp_all add: fun_eq_iff XNetworkingQuerySecurityInformationForUrlUtf16AsyncResult_def
      XNetworkingQuerySecurityInformationForUrlAsyncResult_def
      XNetworkingQuerySecurityInformationForUrlUtf16AsyncResultSize_def
      XNetworkingQuerySecurityInformationForUrlAsyncResultSize_def)

end
