(* ===== verification/Store_Async.thy ===== *)
theory Store_Async
  imports Async_Calls XStore_Props
begin

text \<open>
  The store's calls on the engine (\<open>src/src/com/xstore.rs\<close>): the game license and the three
  product queries, from the first half over the worker to the result half, which copies the
  closure's value into a variable of its own and from there to the title's pointer. XStore has
  the bodies; here they run as closures, with the values as the bytes of their C types: a
  license of 104 bytes (\<open>repr(C)\<close>, padding as zeroes) and handles of 8.

  The closures of the license and of the queries always answer, so these calls cannot fail
  once they are begun; what the service did wrong shows in the values only.
\<close>

section \<open>The license as bytes\<close>

definition bool_byte :: "bool \<Rightarrow> u8" where
  "bool_byte b = (if b then 1 else 0)"

definition license_bytes :: "XStoreGameLicense \<Rightarrow> u8 list" where
  "license_bytes l =
     gl_sku l @ map bool_byte [gl_active l, gl_trial_owned l, gl_disc l, gl_trial l] @ replicate 2 0
     @ u32_le (gl_trial_seconds l) @ gl_trial_id l @ replicate 4 0 @ i64_le (gl_expiration l)"

definition license_of_bytes :: "u8 list \<Rightarrow> XStoreGameLicense" where
  "license_of_bytes bs =
     \<lparr>gl_sku = take 18 bs, gl_active = bs ! 18 \<noteq> 0, gl_trial_owned = bs ! 19 \<noteq> 0, gl_disc = bs ! 20 \<noteq> 0,
      gl_trial = bs ! 21 \<noteq> 0, gl_trial_seconds = le_u32 (take 4 (drop 24 bs)),
      gl_trial_id = take 64 (drop 28 bs), gl_expiration = sint (le_u64 (take 8 (drop 96 bs)))\<rparr>"

definition license_fits :: "XStoreGameLicense \<Rightarrow> bool" where
  "license_fits l \<longleftrightarrow> length (gl_sku l) = STORE_SKU_ID_SIZE
     \<and> length (gl_trial_id l) = TRIAL_UNIQUE_ID_MAX_SIZE
     \<and> - (2 ^ 63) \<le> gl_expiration l \<and> gl_expiration l < 2 ^ 63"

lemma bool_byte_zero [simp]: "bool_byte b \<noteq> 0 \<longleftrightarrow> b"
  by (simp add: bool_byte_def)

lemma license_bytes_round_trip:
  assumes "license_fits l"
  shows "license_of_bytes (license_bytes l) = l" "length (license_bytes l) = 104"
  using assms sint_i64_le [of "gl_expiration l"]
  by (simp_all add: license_of_bytes_def license_bytes_def license_fits_def STORE_SKU_ID_SIZE_def
      TRIAL_UNIQUE_ID_MAX_SIZE_def nth_append)

section \<open>State and closures\<close>

record 'f store_sys = "store_work jobs" +
  store_of :: "'f xstore"

type_synonym ('f, 'z) stenv = "('f, 'z) store_sys_scheme env"

definition value_bytes :: "store_value \<Rightarrow> u8 list" where
  "value_bytes v = (case v of
     ValueLicense l \<Rightarrow> license_bytes l | ValueHandle h \<Rightarrow> u64_le h | ValueNone \<Rightarrow> [])"

definition run_store_job ::
  "'f store_env \<Rightarrow> store_work \<Rightarrow> ('f, 'z) store_sys_scheme \<Rightarrow>
     u8 list outcome \<times> ('f, 'z) store_sys_scheme" where
  "run_store_job senv w s =
     (let (r, v) = run_store_work senv w (store_of s)
      in (map_sum id value_bytes r, s\<lparr>store_of := v\<rparr>))"

definition store_on_engine :: "'f store_env \<Rightarrow> ('f, 'z) stenv \<Rightarrow> ('f, 'z) stenv" where
  "store_on_engine senv env = with_jobs (run_store_job senv) env"

section \<open>The first halves\<close>

definition begin_store_call ::
  "('f, 'z) stenv \<Rightarrow> u64 \<Rightarrow> u64 \<Rightarrow> store_work \<Rightarrow> u64 \<Rightarrow> ('f, 'z) store_sys_scheme \<Rightarrow>
     hresult \<times> ('f, 'z) store_sys_scheme" where
  "begin_store_call env context b w size_of s =
     (if context = 0 then (E_POINTER, s) else run_job env b w size_of s)"

definition game_license_async ::
  "('f, 'z) stenv \<Rightarrow> u64 \<Rightarrow> u64 \<Rightarrow> ('f, 'z) store_sys_scheme \<Rightarrow> hresult \<times> ('f, 'z) store_sys_scheme" where
  "game_license_async env context b s = begin_store_call env context b WorkGameLicense 104 s"

definition entitled_products_async ::
  "('f, 'z) stenv \<Rightarrow> u64 \<Rightarrow> u64 \<Rightarrow> ('f, 'z) store_sys_scheme \<Rightarrow> hresult \<times> ('f, 'z) store_sys_scheme" where
  "entitled_products_async env context b s = begin_store_call env context b WorkEntitled 8 s"

definition products_async ::
  "('f, 'z) stenv \<Rightarrow> u64 \<Rightarrow> ustring option list option \<Rightarrow> u64 \<Rightarrow> ('f, 'z) store_sys_scheme \<Rightarrow>
     hresult \<times> ('f, 'z) store_sys_scheme" where
  "products_async env context store_ids b s =
     begin_store_call env context b (WorkProducts (read_string_array store_ids)) 8 s"

definition associated_products_async ::
  "('f, 'z) stenv \<Rightarrow> u64 \<Rightarrow> u32 \<Rightarrow> u64 \<Rightarrow> ('f, 'z) store_sys_scheme \<Rightarrow>
     hresult \<times> ('f, 'z) store_sys_scheme" where
  "associated_products_async env context max_items b s =
     begin_store_call env context b (WorkAssociated max_items) 8 s"

text \<open>XStore takes what \<open>XAsyncBegin\<close> answered as an argument; this is where it comes from.\<close>

lemma begun_agrees:
  assumes "begin_store_call env context b w n s = (hr, s1)" "b \<noteq> 0"
  shows "fst (start_store context b hr w v) = hr"
  using assms by (auto simp: begin_store_call_def start_store_def run_sync_start_def split: prod.splits bool.splits)

section \<open>The result halves\<close>

definition result_through_frame ::
  "'z aenv \<Rightarrow> u64 \<Rightarrow> u64 \<Rightarrow> u64 \<Rightarrow> 'z asys_scheme \<Rightarrow> hresult \<times> 'z asys_scheme" where
  "result_through_frame env b size_of out s =
     (case get_result env b 0 size_of own_frame s of
        (Inr _, s1) \<Rightarrow> (S_OK, s1\<lparr>buffers := (buffers s1)(out := buffers s1 own_frame)\<rparr>)
      | (Inl hr, s1) \<Rightarrow> (hr, s1))"

definition XStoreQueryGameLicenseResult ::
  "'z aenv \<Rightarrow> u64 \<Rightarrow> u64 \<Rightarrow> 'z asys_scheme \<Rightarrow> hresult \<times> 'z asys_scheme" where
  "XStoreQueryGameLicenseResult env b license s =
     (if b = 0 \<or> license = 0 then (E_POINTER, s) else result_through_frame env b 104 license s)"

definition XStoreQueryEntitledProductsResult ::
  "'z aenv \<Rightarrow> u64 \<Rightarrow> u64 \<Rightarrow> 'z asys_scheme \<Rightarrow> hresult \<times> 'z asys_scheme" where
  "XStoreQueryEntitledProductsResult env b product_query_handle s =
     (if b = 0 \<or> product_query_handle = 0 then (E_POINTER, s)
      else result_through_frame env b 8 product_query_handle s)"

definition XStoreQueryProductsResult ::
  "'z aenv \<Rightarrow> u64 \<Rightarrow> u64 \<Rightarrow> 'z asys_scheme \<Rightarrow> hresult \<times> 'z asys_scheme" where
  "XStoreQueryProductsResult env b product_query_handle s =
     (if b = 0 \<or> product_query_handle = 0 then (E_POINTER, s)
      else result_through_frame env b 8 product_query_handle s)"

definition XStoreQueryAssociatedProductsResult ::
  "'z aenv \<Rightarrow> u64 \<Rightarrow> u64 \<Rightarrow> 'z asys_scheme \<Rightarrow> hresult \<times> 'z asys_scheme" where
  "XStoreQueryAssociatedProductsResult env b product_query_handle s =
     (if b = 0 \<or> product_query_handle = 0 then (E_POINTER, s)
      else result_through_frame env b 8 product_query_handle s)"

section \<open>What the calls deliver\<close>

lemma store_component:
  assumes "jobs.more s = jobs.more s'"
  shows "store_of s = store_of s'"
  using assms by (cases s; cases s'; simp)

text \<open>The closures that always answer, and the bytes they answer with.\<close>

fun answering :: "store_work \<Rightarrow> bool" where
  "answering WorkGameLicense = True"
| "answering WorkEntitled = True"
| "answering (WorkProducts ids) = True"
| "answering (WorkAssociated k) = True"
| "answering _ = False"

lemma answering_answers:
  "answering w \<Longrightarrow> \<exists>v u. run_store_work senv w t = (Inr v, u)"
  by (cases w) (simp_all add: run_store_work_def map_prod_def split_beta)

lemma answering_engine_job:
  fixes senv :: "'f store_env"
  assumes "answering w"
  shows "engine_job (run_store_job senv :: (store_work, ('f, 'z) store_sys_ext) job_body) w"
proof -
  have "\<exists>v u. run_store_job senv w s = (Inr v, s\<lparr>store_of := u\<rparr>)" for s :: "('f, 'z) store_sys_scheme"
    using answering_answers [OF assms, of senv "store_of s"]
    by (auto simp: run_store_job_def)
  note * = this
  show ?thesis
  proof
    fix s s' :: "('f, 'z) store_sys_scheme" and r hr
    obtain v u where vu: "run_store_job senv w s = (Inr v, s\<lparr>store_of := u\<rparr>)" using * by blast
    show "run_store_job senv w s = (r, s') \<Longrightarrow> asyncs s' = asyncs s \<and> blocks s' = blocks s
        \<and> helpers s' = helpers s \<and> buffers s' = buffers s \<and> ports s' = ports s \<and> queues s' = queues s"
      using vu by auto
    show "run_store_job senv w s = (Inl hr, s') \<Longrightarrow> hr \<noteq> E_PENDING \<and> hr \<noteq> S_OK"
      using vu by auto
  qed
qed

interpretation license_job: engine_job "run_store_job senv" WorkGameLicense for senv
  by (rule answering_engine_job) simp

interpretation entitled_job: engine_job "run_store_job senv" WorkEntitled for senv
  by (rule answering_engine_job) simp

interpretation products_job: engine_job "run_store_job senv" "WorkProducts ids" for senv ids
  by (rule answering_engine_job) simp

interpretation associated_job: engine_job "run_store_job senv" "WorkAssociated k" for senv k
  by (rule answering_engine_job) simp

lemma query_license_fits:
  assumes "query_game_license senv v = (l, v')" "- (2 ^ 63) \<le> gl_expiration l" "gl_expiration l < 2 ^ 63"
  shows "license_fits l"
  using assms
  by (auto simp: query_game_license_def license_fits_def license_default_def build_full_game_license_def
      STORE_SKU_ID_SIZE_def TRIAL_UNIQUE_ID_MAX_SIZE_def split: prod.splits sum.splits)

text \<open>The license reaches the title. Once the worker has asked, the result half cannot fail:
  it fills the title's structure with exactly the license the query came to (the service's
  answer, or the full one when there was none), leaves the store as the query did and frees
  the block.\<close>

theorem license_reaches_title:
  assumes "pending_job b h WorkGameLicense 104 s" "tk_call t = RunSyncWorker h b" "license \<noteq> 0"
    and "query_game_license senv (store_of s) = (l, v)"
    and "- (2 ^ 63) \<le> gl_expiration l" "gl_expiration l < 2 ^ 63"
    and "XStoreQueryGameLicenseResult (store_on_engine senv env) b license
           (run1 (store_on_engine senv env) t False s) = (hr, s3)"
  shows "hr = S_OK \<and> license_of_bytes (buffers s3 license) = l \<and> store_of s3 = v \<and> state_of b s3 = None"
proof -
  have body: "run_store_job senv WorkGameLicense s = (Inr (license_bytes l), s\<lparr>store_of := v\<rparr>)"
    using assms(4) by (simp add: run_store_job_def run_store_work_def value_bytes_def)
  have b: "b \<noteq> 0" using assms(1) by (auto simp: pending_job_def state_of_def)
  obtain s2 where s2: "get_result (store_on_engine senv env) b 0 104 own_frame
      (run1 (store_on_engine senv env) t False s) = (Inr (), s2)"
    "buffers s2 = (buffers s)(own_frame := license_bytes l)" "state_of b s2 = None"
    "jobs.more s2 = jobs.more (s\<lparr>store_of := v\<rparr>)"
    by (rule license_job.delivers [OF assms(1,2) body, of env own_frame]) (simp add: store_on_engine_def)
  define s4 where "s4 = s2\<lparr>buffers := (buffers s2)(license := license_bytes l)\<rparr>"
  have "hr = S_OK" "s3 = s4"
    using assms(3,7) b s2(1,2)
    by (simp_all add: XStoreQueryGameLicenseResult_def result_through_frame_def s4_def)
  then show ?thesis
    using s2(3) store_component [OF s2(4)]
      license_bytes_round_trip(1) [OF query_license_fits [OF assms(4-6)]]
    by (simp add: s4_def)
qed

definition demo_store_sys :: "int store_sys" where
  "demo_store_sys = jobs.extend (demo_jobs WorkEntitled) (store_sys.fields demo_store)"

lemma demo_store_sys_simps [simp]:
  "store_of demo_store_sys = demo_store" "next_helper demo_store_sys = 1"
  "ready_block 16 0 (Suc 0) demo_store_sys"
  by (simp_all add: demo_store_sys_def demo_jobs_def jobs.defs asys.defs store_sys.defs demo_ready_def
      boot_def ready_block_def state_of_def read_internal_def demo_block_def SIGNATURE_def ht_create_def
      ht_get_def ht_new_def Let_def quiet_side_def queue_port_def port_new_def)

lemma license_reaches_title_witness:
  "\<exists>s1 s3. game_license_async (store_on_engine demo_store_env demo_idle_env) 1 16 demo_store_sys = (S_OK, s1)
     \<and> XStoreQueryGameLicenseResult (store_on_engine demo_store_env demo_idle_env) 16 4096
         (run1 (store_on_engine demo_store_env demo_idle_env)
            \<lparr>tk_call = RunSyncWorker 1 16, tk_owner = 1, tk_due = None\<rparr> False s1) = (S_OK, s3)
     \<and> state_of 16 s3 = None"
proof -
  define E where "E = store_on_engine demo_store_env (demo_idle_env :: int store_sys env)"
  obtain hr0 s1 where a: "run_job E 16 WorkGameLicense 104 demo_store_sys = (hr0, s1)" by (rule prod.exhaust)
  have g: "game_license_async E 1 16 demo_store_sys = (hr0, s1)"
    using a by (simp add: game_license_async_def begin_store_call_def)
  have p: "hr0 = S_OK" "pending_job 16 1 WorkGameLicense 104 s1" "store_of s1 = demo_store"
    by (rule run_job_pending [OF _ _ a, of 0 1]; use store_component [of s1 demo_store_sys] in simp)+
  obtain l v where q: "query_game_license demo_store_env (store_of s1) = (l, v)" by (rule prod.exhaust)
  have "gl_expiration l = 0"
    using q unfolding p(3)
    by (auto simp: query_game_license_def net_call_def get_game_license_def exchange_def
        exchange_with_timeout_def request_with_timeout_def unix_request_def demo_store_env_def
        demo_store_ipc_def demo_store_def build_full_game_license_def license_default_def
        split: prod.splits sum.splits option.splits if_splits)
  then have e: "- (2 ^ 63) \<le> gl_expiration l" "gl_expiration l < 2 ^ 63" by simp_all
  define u :: "call task" where "u = \<lparr>tk_call = RunSyncWorker 1 16, tk_owner = 1, tk_due = None\<rparr>"
  have u: "tk_call u = RunSyncWorker 1 16" by (simp add: u_def)
  obtain hr s3 where r: "XStoreQueryGameLicenseResult E 16 4096 (run1 E u False s1) = (hr, s3)"
    by (rule prod.exhaust)
  from license_reaches_title [OF p(2) u _ q e r [unfolded E_def]] g p(1) r show ?thesis
    unfolding E_def u_def by simp
qed

text \<open>C22: a catalog query reaches the title. On a free block and with a valid context the query
  begins; once a worker has asked the service, the result half hands the title a handle that
  was not in use, and enumerating it shows the title exactly the products of the service's
  answer, in its order, or none when the request failed.\<close>

theorem catalog_reaches_title:
  assumes "ready_block b q rq s" "next_helper s \<noteq> 0" "context \<noteq> 0" "out \<noteq> 0"
    and "products_async (store_on_engine senv env) context store_ids b s = (hr0, s1)"
    and "w = WorkProducts (read_string_array store_ids)"
    and "pending_job b (next_helper s) w 8 s1 \<Longrightarrow> pending_job b (next_helper s) w 8 s2"
    and "get_products (se_ipc senv) (read_string_array store_ids) (xs_net (store_of s2)) = (r, n)"
    and "ht_inv (xs_queries (store_of s2))" "ht_room (xs_queries (store_of s2)) (Suc 0)"
  shows "hr0 = S_OK \<and> (\<exists>t \<in> set (p_tasks (ports s1 (queue_port rq Work s1))).
     tk_call t = RunSyncWorker (next_helper s) b
     \<and> (let (hr, s3) = XStoreQueryProductsResult (store_on_engine senv env) b out
                          (run1 (store_on_engine senv env) t False s2);
            h = le_u64 (buffers s3 out)
        in hr = S_OK \<and> h \<noteq> 0 \<and> ht_get (xs_queries (store_of s2)) h = None \<and> state_of b s3 = None
         \<and> XStoreEnumerateProductsQuery h (Some cb) (store_of s3)
           = (S_OK, enumerate_entries cb (map (catalog_product (se_f32 senv)) (or_empty r)) (store_of s3))))"
proof -
  define ps where "ps = map (catalog_product (se_f32 senv)) (or_empty r)"
  define v where "v = (store_of s2)\<lparr>xs_net := n\<rparr>"
  obtain h u where c: "create_query ps v = (h, u)" by (rule prod.exhaust)
  have body: "run_store_job senv w s2 = (Inr (u64_le h), s2\<lparr>store_of := u\<rparr>)"
    using assms(6,8) c
    by (simp add: run_store_job_def run_store_work_def query_products_def net_call_def
        build_product_query_def value_bytes_def ps_def v_def)
  have qs: "xs_queries v = xs_queries (store_of s2)" by (simp add: v_def)
  note f = create_query_facts [of v, unfolded qs, OF assms(9,10) c]
  have run: "run_job (store_on_engine senv env) b w 8 s = (hr0, s1)"
    using assms(3,5,6) by (simp add: products_async_def begin_store_call_def)
  obtain t where t: "hr0 = S_OK" "pending_job b (next_helper s) w 8 s1"
    "t \<in> set (p_tasks (ports s1 (queue_port rq Work s1)))" "tk_call t = RunSyncWorker (next_helper s) b"
    by (rule run_job_pending [OF assms(1,2) run])
  obtain s3 where s3: "get_result (store_on_engine senv env) b 0 8 own_frame
      (run1 (store_on_engine senv env) t False s2) = (Inr (), s3)"
    "buffers s3 = (buffers s2)(own_frame := u64_le h)" "state_of b s3 = None"
    "jobs.more s3 = jobs.more (s2\<lparr>store_of := u\<rparr>)"
    by (rule products_job.delivers [OF assms(7) [OF t(2), unfolded assms(6)] t(4) body [unfolded assms(6)],
          of env own_frame]) (simp add: store_on_engine_def)
  have b: "b \<noteq> 0" using assms(1) by (simp add: ready_block_def)
  have "XStoreQueryProductsResult (store_on_engine senv env) b out (run1 (store_on_engine senv env) t False s2)
      = (S_OK, s3\<lparr>buffers := (buffers s3)(out := u64_le h)\<rparr>)"
    using b assms(4) s3(1,2) by (simp add: XStoreQueryProductsResult_def result_through_frame_def)
  then show ?thesis
    using t(1,3,4) s3(3) store_component [OF s3(4)] f(1,2,3)
    by (intro conjI bexI [where x = t]) (simp_all add: Let_def XStoreEnumerateProductsQuery_def ps_def)
qed

lemma catalog_reaches_title_witness:
  "\<exists>s1 t. products_async (store_on_engine demo_store_env demo_idle_env) 1 (Some [Some [0x39]]) 16 demo_store_sys
         = (S_OK, s1)
     \<and> fst (XStoreQueryProductsResult (store_on_engine demo_store_env demo_idle_env) 16 4096
         (run1 (store_on_engine demo_store_env demo_idle_env) t False s1)) = S_OK"
proof -
  obtain hr0 s1 where a: "products_async (store_on_engine demo_store_env demo_idle_env) 1
      (Some [Some [0x39]]) 16 demo_store_sys = (hr0, s1)" by (rule prod.exhaust)
  then have j: "run_job (store_on_engine demo_store_env demo_idle_env) 16
      (WorkProducts (read_string_array (Some [Some [0x39]]))) 8 demo_store_sys = (hr0, s1)"
    by (simp add: products_async_def begin_store_call_def)
  have w: "store_of s1 = demo_store"
    by (rule run_job_pending [OF _ _ j, of 0 1]; use store_component [of s1 demo_store_sys] in simp)
  have q: "ht_inv (xs_queries (store_of s1))" "ht_room (xs_queries (store_of s1)) (Suc 0)"
    by (simp_all add: w demo_store_def ht_inv_def ht_new_def ht_room_def has_room_def ht_issued_def)
  from catalog_reaches_title [OF _ _ _ _ a refl _ demo_products q, of 0 1 4096 "\<lambda>e t. (1, t)"] a
  show ?thesis by (auto simp: Let_def split_beta)
qed

end
