(* ===== verification/User_Async.thy ===== *)
theory User_Async
  imports Async_Calls XUser_Api
begin

text \<open>
  The result halves of the sign-in calls (\<open>src/src/com/xuser/impl.rs\<close>) over the engine. The
  closures' bodies are in XUser; they run game code that may block, so a worker's pass is taken
  here as what the closure answered when it returned: a handle, or nothing for a sign-out and
  for a privilege. The interface \<open>handle_result\<close> is shared by the two calls that add a user.
\<close>

definition XUserAddResult ::
  "'z aenv \<Rightarrow> u64 \<Rightarrow> u64 \<Rightarrow> 'z asys_scheme \<Rightarrow> hresult \<times> 'z asys_scheme" where
  "XUserAddResult env b out s =
     (if out = 0 then (E_POINTER, s) else result_into env b 8 out s)"

definition XUserAddByIdWithUiResult ::
  "'z aenv \<Rightarrow> u64 \<Rightarrow> u64 \<Rightarrow> 'z asys_scheme \<Rightarrow> hresult \<times> 'z asys_scheme" where
  "XUserAddByIdWithUiResult env b out s =
     (if out = 0 then (E_POINTER, s) else result_into env b 8 out s)"

definition XUserResolvePrivilegeWithUiResult ::
  "'z aenv \<Rightarrow> u64 \<Rightarrow> 'z asys_scheme \<Rightarrow> hresult \<times> 'z asys_scheme" where
  "XUserResolvePrivilegeWithUiResult env b s = result_into env b 0 own_frame s"

definition XUserSignOutResult ::
  "'z aenv \<Rightarrow> u64 \<Rightarrow> 'z asys_scheme \<Rightarrow> hresult \<times> 'z asys_scheme" where
  "XUserSignOutResult env b s = result_into env b 0 own_frame s"

section \<open>Calls that answer with a handle\<close>

locale handle_result =
  fixes result :: "'z aenv \<Rightarrow> u64 \<Rightarrow> u64 \<Rightarrow> 'z asys_scheme \<Rightarrow> hresult \<times> 'z asys_scheme"
  assumes null_out: "result env b 0 s = (E_POINTER, s)"
    and reads_result: "out \<noteq> 0 \<Longrightarrow> result env b out s = result_into env b 8 out s"
begin

text \<open>The title gets the very handle the closure made, or the closure's error, and the block back.\<close>

lemma hands_over:
  assumes "helper_call b p h s1" "quiet_completion p s1" "helpers s1 h = helpers s h"
    and "env_future env (sh_future (helpers s h)) s = (handle_payload r, s1)"
    and "\<And>hr. r = Inl hr \<Longrightarrow> hr \<noteq> E_PENDING \<and> hr \<noteq> S_OK"
    and "tk_call t = RunSyncWorker h b" "sh_size (helpers s h) = 8" "out \<noteq> 0"
  obtains s3 where "result env b out (run1 env t False s) = (case r of Inr k \<Rightarrow> S_OK | Inl e \<Rightarrow> e, s3)"
    "case r of Inr k \<Rightarrow> le_u64 (buffers s3 out) = k | Inl e \<Rightarrow> buffers s3 = buffers s1"
    "state_of b s3 = None" "asys.more s3 = asys.more s1"
proof -
  have e: "hr \<noteq> E_PENDING \<and> hr \<noteq> S_OK" if "handle_payload r = Inl hr" for hr
    using assms(5) that by (cases r) (auto simp: handle_payload_def)
  have n: "unat (sh_size (helpers s h)) \<le> unat (8 :: u64)" by (simp add: assms(7))
  obtain s3 where s3: "get_result env b 0 8 out (run1 env t False s) = (map_sum id (\<lambda>v. ()) (handle_payload r), s3)"
    "buffers s3 = (case handle_payload r of Inr v \<Rightarrow> (buffers s1)(out := v) | Inl e \<Rightarrow> buffers s1)"
    "state_of b s3 = None" "asys.more s3 = asys.more s1"
    by (rule result_after_worker [OF assms(1-4) e assms(6) n])
  then show thesis
    using assms(8) by (intro that [of s3]; cases r)
      (simp_all add: reads_result result_into_def handle_payload_def)
qed

end

interpretation add_result: handle_result XUserAddResult
  by unfold_locales (simp_all add: XUserAddResult_def)

interpretation add_by_id_result: handle_result XUserAddByIdWithUiResult
  by unfold_locales (simp_all add: XUserAddByIdWithUiResult_def)

text \<open>A finished call whose result is empty is consumed by a status query, so the result half of a
  sign-out that polled its status is refused.\<close>

lemma sign_out_result_after_status:
  assumes "state_of b s = Some p" "as_block (asyncs s p) = b" "\<not> as_cleaned_up (asyncs s p)"
    and "as_status (asyncs s p) = S_OK" "as_result_size (asyncs s p) = 0"
    and "XAsyncGetStatus env tid b wait sched s = (r, s1)"
  shows "XUserSignOutResult env b s1 = (E_ILLEGAL_METHOD_CALL, s1)"
proof -
  have "s1 = cleanup env p s" using assms by (auto simp: XAsyncGetStatus_def Let_def hresult_defs)
  then have "state_of b s1 = None" using cleanup_frees [OF assms(3), of env] assms(2) by simp
  then show ?thesis
    by (simp add: XUserSignOutResult_def result_into_def get_result_def XAsyncGetResult_def hresult_defs)
qed

end
