(* ===== verification/Waiters.thy ===== *)
theory Waiters
  imports XAsync_Props
begin

text \<open>
  \<open>XTaskQueueRegisterWaiter\<close> and \<open>XTaskQueueUnregisterWaiter\<close> (the module \<open>waiter\<close> of
  \<open>src/src/com/xasync/impl.rs\<close>): a thread per registration waits for the title's handle or for a
  cancel event of its own, and submits the title's callback each time the handle is signalled;
  unregistering signals the event and joins the thread.

  The event objects of Windows are the argument \<open>os\<close> over an abstract kernel state;
  \<open>os_documented\<close> is what the Windows documentation says of them: a wait for any of several
  objects ends with the least index that is signalled, and a manual-reset event stays signalled
  through a wait. A thread's progress is one pass of its loop at a time, \<open>waiter_pass\<close>, so that
  everything else can happen in between; a join runs a schedule of such steps.
\<close>

section \<open>The kernel's events\<close>

record 'k os =
  os_create :: "'k \<Rightarrow> u64 \<times> 'k"
  os_set :: "u64 \<Rightarrow> 'k \<Rightarrow> 'k"
  os_wait :: "u64 list \<Rightarrow> 'k \<Rightarrow> (u32 \<times> 'k) option"
  os_close :: "u64 \<Rightarrow> 'k \<Rightarrow> 'k"
  os_signalled :: "u64 \<Rightarrow> 'k \<Rightarrow> bool"
  os_manual :: "u64 \<Rightarrow> 'k \<Rightarrow> bool"

definition os_documented :: "'k os \<Rightarrow> bool" where
  "os_documented os \<longleftrightarrow> (\<forall>a b h k.
     (os_wait os [a, b] k = None \<longleftrightarrow> \<not> os_signalled os a k \<and> \<not> os_signalled os b k)
     \<and> (\<forall>i k'. os_wait os [a, b] k = Some (i, k') \<longrightarrow> (i = 0 \<longleftrightarrow> os_signalled os a k)
          \<and> os_manual os h k' = os_manual os h k
          \<and> (os_manual os h k \<longrightarrow> os_signalled os h k' = os_signalled os h k))
     \<and> os_signalled os a (os_set os a k)
     \<and> (a \<noteq> b \<longrightarrow> os_signalled os b (os_set os a k) = os_signalled os b k)
     \<and> os_manual os b (os_set os a k) = os_manual os b k)"

lemma os_documented_facts:
  assumes "os_documented os"
  shows os_wait_blocks: "os_wait os [a, b] k = None \<longleftrightarrow> \<not> os_signalled os a k \<and> \<not> os_signalled os b k"
    and os_wait_index: "os_wait os [a, b] k = Some (i, k') \<Longrightarrow> i = 0 \<longleftrightarrow> os_signalled os a k"
    and os_wait_manual: "os_wait os [a, b] k = Some (i, k') \<Longrightarrow> os_manual os h k' = os_manual os h k"
    and os_wait_keeps: "os_wait os [a, b] k = Some (i, k') \<Longrightarrow> os_manual os h k \<Longrightarrow>
          os_signalled os h k' = os_signalled os h k"
    and os_set_signals: "os_signalled os a (os_set os a k)"
    and os_set_other: "a \<noteq> b \<Longrightarrow> os_signalled os b (os_set os a k) = os_signalled os b k"
    and os_set_manual: "os_manual os b (os_set os a k) = os_manual os b k"
  using assms unfolding os_documented_def by blast+

section \<open>State\<close>

record waiter =
  w_queue :: nat
  w_kind :: port_kind
  w_call :: call
  w_wait :: u64
  w_cancel :: u64
  w_done :: bool

record 'k waiter_sys = asys +
  kernel :: 'k
  waiters :: "u64 \<Rightarrow> waiter option"
  next_waiter :: u64

type_synonym ('k, 'z) wenv = "('k, 'z) waiter_sys_scheme env"

section \<open>Registering\<close>

definition register_waiter ::
  "'k os \<Rightarrow> nat \<Rightarrow> port_kind \<Rightarrow> u64 \<Rightarrow> u64 \<Rightarrow> u64 \<Rightarrow> ('k, 'z) waiter_sys_scheme \<Rightarrow>
     u64 \<times> ('k, 'z) waiter_sys_scheme" where
  "register_waiter os q kind wait_handle context callback s =
     (let (cancel, k) = os_create os (kernel s);
          token = next_waiter s
      in (token, s\<lparr>kernel := k, next_waiter := token + 1,
            waiters := (waiters s)(token \<mapsto> \<lparr>w_queue = q, w_kind = kind,
              w_call = GameTask callback context, w_wait = wait_handle, w_cancel = cancel,
              w_done = False\<rparr>)\<rparr>))"

definition XTaskQueueRegisterWaiter ::
  "'k os \<Rightarrow> u64 \<Rightarrow> u64 \<Rightarrow> u64 \<Rightarrow> u64 \<Rightarrow> u64 option \<Rightarrow> bool \<Rightarrow> ('k, 'z) waiter_sys_scheme \<Rightarrow>
     hresult \<times> u64 option \<times> ('k, 'z) waiter_sys_scheme" where
  "XTaskQueueRegisterWaiter os queue port wait_handle context callback out_null s =
     (if out_null then (E_POINTER, None, s)
      else case callback of
        None \<Rightarrow> (E_POINTER, None, s)
      | Some f \<Rightarrow>
          (case (ht_get (queue_handles s) queue, port_kind_from_raw port) of
             (Some q, Some kind) \<Rightarrow>
               let (token, s1) = register_waiter os q kind wait_handle context f s
               in (S_OK, Some token, s1)
           | _ \<Rightarrow> (E_INVALIDARG, None, s)))"

section \<open>The waiting thread\<close>

definition end_waiter :: "u64 \<Rightarrow> ('k, 'z) waiter_sys_scheme \<Rightarrow> ('k, 'z) waiter_sys_scheme" where
  "end_waiter token s =
     s\<lparr>waiters := (waiters s)(token := map_option (\<lambda>w. w\<lparr>w_done := True\<rparr>) (waiters s token))\<rparr>"

definition waiter_pass ::
  "'k os \<Rightarrow> ('k, 'z) wenv \<Rightarrow> u64 \<Rightarrow> ('k, 'z) waiter_sys_scheme \<Rightarrow> ('k, 'z) waiter_sys_scheme" where
  "waiter_pass os env token s =
     (case waiters s token of
        None \<Rightarrow> s
      | Some w \<Rightarrow>
          if w_done w then s
          else case os_wait os [w_wait w, w_cancel w] (kernel s) of
            None \<Rightarrow> s
          | Some (signalled, k) \<Rightarrow>
              if signalled \<noteq> 0 then end_waiter token (s\<lparr>kernel := k\<rparr>)
              else case queue_submit (run1 env) (env_monitor env) (w_queue w) (w_kind w) (w_call w) 0
                          (s\<lparr>kernel := k\<rparr>) of
                     (True, s1) \<Rightarrow> s1
                   | (False, s1) \<Rightarrow> end_waiter token s1)"

definition waiter_ended :: "u64 \<Rightarrow> ('k, 'z) waiter_sys_scheme \<Rightarrow> bool" where
  "waiter_ended token s = (case waiters s token of None \<Rightarrow> True | Some w \<Rightarrow> w_done w)"

section \<open>Unregistering\<close>

fun join_waiter ::
  "u64 \<Rightarrow> (('k, 'z) waiter_sys_scheme \<Rightarrow> ('k, 'z) waiter_sys_scheme) list \<Rightarrow>
     ('k, 'z) waiter_sys_scheme \<Rightarrow> bool \<times> ('k, 'z) waiter_sys_scheme" where
  "join_waiter token [] s = (waiter_ended token s, s)"
| "join_waiter token (step # steps) s =
     (if waiter_ended token s then (True, s) else join_waiter token steps (step s))"

text \<open>Whether the call returned, and the state; \<open>None\<close> for a token that is not registered, which
  the function's contract excludes.\<close>

definition XTaskQueueUnregisterWaiter ::
  "'k os \<Rightarrow> u64 \<Rightarrow> (('k, 'z) waiter_sys_scheme \<Rightarrow> ('k, 'z) waiter_sys_scheme) list \<Rightarrow>
     ('k, 'z) waiter_sys_scheme \<Rightarrow> (bool \<times> ('k, 'z) waiter_sys_scheme) option" where
  "XTaskQueueUnregisterWaiter os token sched s =
     (if token = 0 then Some (True, s)
      else case waiters s token of
        None \<Rightarrow> None
      | Some w \<Rightarrow>
          (case join_waiter token sched (s\<lparr>kernel := os_set os (w_cancel w) (kernel s)\<rparr>) of
             (False, s1) \<Rightarrow> Some (False, s1)
           | (True, s1) \<Rightarrow>
               Some (True, s1\<lparr>kernel := os_close os (w_cancel w) (kernel s1),
                          waiters := (waiters s1)(token := None)\<rparr>)))"

section \<open>One pass\<close>

lemma set_port_waiters [simp]:
  "kernel (set_port pid P s) = kernel s" "waiters (set_port pid P s) = waiters s"
  by (simp_all add: set_port_def)

lemma quiet_side_kernel [simp]: "quiet_side q kind (s\<lparr>kernel := k\<rparr>) = quiet_side q kind s"
  by (simp add: quiet_side_def queue_port_def)

lemma waiter_pass_blocked:
  assumes "os_documented os" "waiters s token = Some w"
    and "\<not> os_signalled os (w_wait w) (kernel s)" "\<not> os_signalled os (w_cancel w) (kernel s)"
  shows "waiter_pass os env token s = s"
  using assms os_wait_blocks [OF assms(1), of "w_wait w" "w_cancel w" "kernel s"]
  by (simp add: waiter_pass_def)

lemma waiter_pass_cancelled:
  assumes "os_documented os" "waiters s token = Some w" "\<not> w_done w"
    and "\<not> os_signalled os (w_wait w) (kernel s)" "os_signalled os (w_cancel w) (kernel s)"
  obtains k where "waiter_pass os env token s = end_waiter token (s\<lparr>kernel := k\<rparr>)"
proof (cases "os_wait os [w_wait w, w_cancel w] (kernel s)")
  case None
  then show thesis using os_wait_blocks [OF assms(1)] assms(5) by simp
next
  case (Some r)
  then obtain i k where r: "os_wait os [w_wait w, w_cancel w] (kernel s) = Some (i, k)" by (cases r) simp
  then have "i \<noteq> 0" using os_wait_index [OF assms(1) r] assms(4) by simp
  then show thesis using that r assms(2,3) by (simp add: waiter_pass_def)
qed

text \<open>A signalled manual-reset handle: the pass submits the callback and leaves everything as it was.\<close>

definition stuck_waiter :: "'k os \<Rightarrow> u64 \<Rightarrow> waiter \<Rightarrow> ('k, 'z) waiter_sys_scheme \<Rightarrow> bool" where
  "stuck_waiter os token w s \<longleftrightarrow> waiters s token = Some w \<and> \<not> w_done w
     \<and> os_manual os (w_wait w) (kernel s) \<and> os_signalled os (w_wait w) (kernel s)
     \<and> quiet_side (w_queue w) (w_kind w) s"

lemma waiter_pass_stuck:
  assumes "os_documented os" "stuck_waiter os token w s" "pid = queue_port (w_queue w) (w_kind w) s"
    and "s' = waiter_pass os env token s"
  shows "stuck_waiter os token w s'" "pid = queue_port (w_queue w) (w_kind w) s'"
    "length (p_tasks (ports s' pid)) = Suc (length (p_tasks (ports s pid)))"
proof -
  have st: "waiters s token = Some w" "\<not> w_done w" "os_manual os (w_wait w) (kernel s)"
    "os_signalled os (w_wait w) (kernel s)" "quiet_side (w_queue w) (w_kind w) s"
    using assms(2) by (simp_all add: stuck_waiter_def)
  obtain i k where r: "os_wait os [w_wait w, w_cancel w] (kernel s) = Some (i, k)"
    using os_wait_blocks [OF assms(1), of "w_wait w" "w_cancel w" "kernel s"] st(4) by fastforce
  have i: "i = 0" using os_wait_index [OF assms(1) r] st(4) by simp
  have k: "os_manual os (w_wait w) k" "os_signalled os (w_wait w) k"
    using os_wait_manual [OF assms(1) r] os_wait_keeps [OF assms(1) r st(3)] st(3,4) by simp_all
  define s0 where "s0 = s\<lparr>kernel := k\<rparr>"
  have pid0: "queue_port (w_queue w) (w_kind w) s0 = pid" by (simp add: s0_def queue_port_def assms(3))
  have "quiet_side (w_queue w) (w_kind w) s0" using st(5) by (simp add: s0_def)
  then obtain P where sub: "queue_submit (run1 env) (env_monitor env) (w_queue w) (w_kind w) (w_call w) 0 s0
      = (True, set_port (queue_port (w_queue w) (w_kind w) s0) P s0)"
    and P: "p_tasks P = insert_task (submitted_task (w_queue w) (w_kind w) (w_call w) s0)
        (p_tasks (ports s0 (queue_port (w_queue w) (w_kind w) s0)))"
      "p_mode P = p_mode (ports s0 (queue_port (w_queue w) (w_kind w) s0))" "\<not> p_terminated P"
    by (rule quiet_submit)
  have s': "s' = set_port pid P s0"
    using sub r i st(1,2) by (simp add: assms(4) waiter_pass_def pid0 flip: s0_def)
  show "stuck_waiter os token w s'"
    using st k P(2,3) unfolding stuck_waiter_def s'
    by (auto simp: s0_def quiet_side_def queue_port_def set_port_def)
  show "pid = queue_port (w_queue w) (w_kind w) s'"
    using pid0 by (simp add: s' queue_port_def set_port_def)
  show "length (p_tasks (ports s' pid)) = Suc (length (p_tasks (ports s pid)))"
    using P(1) by (simp add: s' pid0) (simp add: set_port_def s0_def length_insert_task)
qed

section \<open>What unregistering promises\<close>

text \<open>C23: unregistering a waiter whose handle is not signalled ends it. The next pass of its
  thread sees the cancel event and leaves the loop without submitting anything, the call
  returns, the token is gone, and no later pass does anything.\<close>

theorem unregister_ends_waiter:
  assumes "os_documented os" "token \<noteq> 0" "waiters s token = Some w" "\<not> w_done w"
    and "w_wait w \<noteq> w_cancel w" "\<not> os_signalled os (w_wait w) (kernel s)"
  shows "\<exists>s'. XTaskQueueUnregisterWaiter os token (waiter_pass os env token # steps) s = Some (True, s')
     \<and> ports s' = ports s \<and> waiters s' = (waiters s)(token := None)
     \<and> waiter_pass os env token s' = s'"
proof -
  define s1 where "s1 = s\<lparr>kernel := os_set os (w_cancel w) (kernel s)\<rparr>"
  have "waiters s1 token = Some w" "\<not> os_signalled os (w_wait w) (kernel s1)"
    "os_signalled os (w_cancel w) (kernel s1)"
    using assms os_set_signals [OF assms(1)] os_set_other [OF assms(1)] by (auto simp: s1_def)
  then obtain k where p: "waiter_pass os env token s1 = end_waiter token (s1\<lparr>kernel := k\<rparr>)"
    by (rule waiter_pass_cancelled [OF assms(1) _ assms(4)])
  have live: "\<not> waiter_ended token s1" using assms(3,4) by (simp add: waiter_ended_def s1_def)
  have "waiter_ended token (end_waiter token (s1\<lparr>kernel := k\<rparr>))"
    using assms(3) by (simp add: waiter_ended_def end_waiter_def s1_def)
  then have "join_waiter token (waiter_pass os env token # steps) s1
      = (True, end_waiter token (s1\<lparr>kernel := k\<rparr>))"
    using live p by (cases steps) simp_all
  then show ?thesis
    using assms(2,3)
    by (simp add: XTaskQueueUnregisterWaiter_def flip: s1_def)
      (simp add: end_waiter_def s1_def waiter_pass_def)
qed

text \<open>C20: unregistering a waiter whose handle is a signalled manual-reset event never returns.
  The wait reports the handle before the cancel event however often the thread looks, so it
  never leaves its loop: after any number of passes the call is still waiting, and each pass
  has queued one more callback.\<close>

theorem unregister_hangs_on_signalled_handle:
  assumes "os_documented os" "token \<noteq> 0" "stuck_waiter os token w s" "w_wait w \<noteq> w_cancel w"
    and "pid = queue_port (w_queue w) (w_kind w) s"
  shows "\<exists>s'. XTaskQueueUnregisterWaiter os token (replicate n (waiter_pass os env token)) s = Some (False, s')
     \<and> length (p_tasks (ports s' pid)) = length (p_tasks (ports s pid)) + n"
proof -
  have join: "\<exists>s'. join_waiter token (replicate n (waiter_pass os env token)) s1 = (False, s')
     \<and> length (p_tasks (ports s' pid)) = length (p_tasks (ports s1 pid)) + n"
    if "stuck_waiter os token w s1" "pid = queue_port (w_queue w) (w_kind w) s1" for s1
    using that
  proof (induction n arbitrary: s1)
    case 0
    then show ?case by (simp add: waiter_ended_def stuck_waiter_def)
  next
    case (Suc n)
    note next_pass = waiter_pass_stuck [OF assms(1) Suc.prems refl, of env]
    have "\<not> waiter_ended token s1" using Suc.prems(1) by (simp add: waiter_ended_def stuck_waiter_def)
    with Suc.IH [OF next_pass(1,2)] next_pass(3) show ?case by auto
  qed
  define s1 where "s1 = s\<lparr>kernel := os_set os (w_cancel w) (kernel s)\<rparr>"
  have "stuck_waiter os token w s1"
    using assms(3,4) os_set_other [OF assms(1)] os_set_manual [OF assms(1)]
    by (auto simp: stuck_waiter_def s1_def)
  moreover have "pid = queue_port (w_queue w) (w_kind w) s1" by (simp add: s1_def queue_port_def assms(5))
  ultimately obtain s' where "join_waiter token (replicate n (waiter_pass os env token)) s1 = (False, s')"
    "length (p_tasks (ports s' pid)) = length (p_tasks (ports s1 pid)) + n"
    using join by blast
  moreover have "waiters s token = Some w" using assms(3) by (simp add: stuck_waiter_def)
  ultimately show ?thesis
    using assms(2) by (simp add: XTaskQueueUnregisterWaiter_def flip: s1_def) (simp add: s1_def)
qed

section \<open>A kernel to evaluate on\<close>

text \<open>Which handles are signalled, and which are manual-reset.\<close>

type_synonym demo_kernel = "(u64 \<Rightarrow> bool) \<times> (u64 \<Rightarrow> bool)"

definition demo_consume :: "u64 \<Rightarrow> demo_kernel \<Rightarrow> demo_kernel" where
  "demo_consume h k = (if snd k h then fst k else (fst k)(h := False), snd k)"

definition demo_os :: "demo_kernel os" where
  "demo_os = \<lparr>os_create = (\<lambda>k. (99, ((fst k)(99 := False), (snd k)(99 := True)))),
     os_set = (\<lambda>h k. ((fst k)(h := True), snd k)),
     os_wait = (\<lambda>hs k. case hs of
         [a, b] \<Rightarrow> if fst k a then Some (0, demo_consume a k)
                   else if fst k b then Some (1, demo_consume b k) else None
       | _ \<Rightarrow> None),
     os_close = (\<lambda>h k. k), os_signalled = (\<lambda>h k. fst k h), os_manual = (\<lambda>h k. snd k h)\<rparr>"

lemma demo_os_documented: "os_documented demo_os"
  by (auto simp: os_documented_def demo_os_def demo_consume_def split: if_splits)

definition demo_waiter :: waiter where
  "demo_waiter = \<lparr>w_queue = 0, w_kind = Work, w_call = GameTask 7 8, w_wait = 50, w_cancel = 99,
     w_done = False\<rparr>"

definition demo_idle_waiter_env :: "demo_kernel waiter_sys env" where
  "demo_idle_waiter_env = \<lparr>env_provider = (\<lambda>f op b c buf n s. (S_OK, s)), env_work = (\<lambda>f b s. (S_OK, s)),
     env_completion = (\<lambda>f b s. s), env_task = (\<lambda>f c canceled s. s), env_monitor = (\<lambda>m h port s. s),
     env_terminated = (\<lambda>f c s. s), env_future = (\<lambda>f s. (Inr [], s))\<rparr>"

definition demo_waiting :: "bool \<Rightarrow> demo_kernel waiter_sys" where
  "demo_waiting signalled = asys.extend (set_port 0 (port_new Manual) demo_helper)
     (waiter_sys.fields ((\<lambda>h. h = 50 \<and> signalled), (\<lambda>h. True)) [1 \<mapsto> demo_waiter] 2)"

lemma demo_waiting_simps [simp]:
  "kernel (demo_waiting b) = ((\<lambda>h. h = 50 \<and> b), (\<lambda>h. True))"
  "waiters (demo_waiting b) = [1 \<mapsto> demo_waiter]"
  "quiet_side 0 Work (demo_waiting b)" "queue_port 0 Work (demo_waiting b) = 0"
  "p_tasks (ports (demo_waiting b) 0) = []"
  by (simp_all add: demo_waiting_def asys.defs waiter_sys.defs quiet_side_def queue_port_def
      set_port_def demo_helper_def set_block_def set_helper_def set_async_def set_queue_def boot_def
      port_new_def)

lemma unregister_ends_waiter_witness:
  "\<exists>s'. XTaskQueueUnregisterWaiter demo_os 1 [waiter_pass demo_os demo_idle_waiter_env 1] (demo_waiting False)
       = Some (True, s') \<and> ports s' = ports (demo_waiting False)"
  using unregister_ends_waiter [OF demo_os_documented, of 1 "demo_waiting False" demo_waiter
      demo_idle_waiter_env "[]"]
  by (fastforce simp: demo_waiter_def demo_os_def)

lemma unregister_hangs_on_signalled_handle_witness:
  "\<exists>s'. XTaskQueueUnregisterWaiter demo_os 1 (replicate 3 (waiter_pass demo_os demo_idle_waiter_env 1))
       (demo_waiting True) = Some (False, s') \<and> length (p_tasks (ports s' 0)) = 3"
proof -
  have "stuck_waiter demo_os 1 demo_waiter (demo_waiting True)"
    by (simp add: stuck_waiter_def demo_waiter_def demo_os_def)
  from unregister_hangs_on_signalled_handle [OF demo_os_documented _ this _ refl, of 3 demo_idle_waiter_env]
  show ?thesis by (simp add: demo_waiter_def)
qed

end
