(* ===== verification/Spec2Isabelle.thy ===== *)
theory Spec2Isabelle
  imports Prelude Handle_Table Port Port_Protocol Task_Queue Queue_Props Queue_Lifetime Bytes XAsync_Core
    XAsync_Api Game_Code XAsync_Props Codec Unicode Ipc Ipc_Props Files Game_Save Game_Save_Props Unix_Library Unix_Transport
    Pending_Results XUser XUser_Api XUser_Props XUser_Runs XUser_Signing XUser_Results XStore XStore_Props Pick_Operation Pick_Props Platform Package_Mounts Title_Config
    Com_Props Lifecycle Picked_File Pickers_Props Async_Calls Save_Async Save_Async_Props
    Networking Store_Async User_Async Waiters
begin

text \<open>
  A verification development for xgameruntime-rs, a replacement for Microsoft's
  \<open>xgameruntime.dll\<close> that lets GDK titles run under Wine. The library answers \<open>QueryApiImpl\<close> with
  COM objects (\<open>src/src/lib.rs\<close>, \<open>src/src/com/mod.rs\<close>); behind them are an async engine with task
  queues (\<open>src/src/com/xasync\<close>), sign-in (\<open>xuser\<close>), the store (\<open>xstore.rs\<close>), game saves
  (\<open>xgamesave\<close>), local storage, file pickers (\<open>pickers\<close>) and a few objects that report fixed
  texts. What needs a service (accounts, licenses, catalogs) is asked of \<open>xodus-service\<close> by a
  blocking client (\<open>ipc.rs\<close>), over TCP or over a native Unix library (\<open>ipc/unixlib.rs\<close>,
  \<open>unixlib/src/lib.rs\<close>).

  How the parts interact. A title initialises the runtime, which installs a process queue, and
  asks for objects by class id. Every asynchronous call is an \<open>XAsyncBlock\<close> of the title whose
  private bytes point to a state of the engine; its work and its completion are callbacks
  submitted to the two ports of a queue, run by the runtime's workers or by the title's
  \<open>XTaskQueueDispatch\<close>. The bodies of most calls go through \<open>run_sync\<close>: a closure that talks to the
  service on a worker and leaves its bytes in a context until the title fetches them. Handles
  for queues, users, containers, queries and mounts are numbers of one checked table.

  \<^bold>\<open>Theories and sources\<close>

  \<^item> Prelude, Bytes, Codec, Unicode, Files: integer widths, status codes, little-endian bytes,
    base64, hexadecimal and decimal numbers, UTF-8 and UTF-16, and the part of \<open>std::fs\<close> and
    \<open>std::path\<close> the runtime uses.
  \<^item> Handle_Table: \<open>com/handle_table.rs\<close>. The locale of its laws is interpreted on the model.
  \<^item> Port, Task_Queue: \<open>com/xasync/task_queue.rs\<close>. A port is a record of its sorted queue, its
    callbacks in flight, workers and contexts; a call is split where the code unlocks the port,
    so that Port_Protocol can interleave any number of threads. Queue_Props and Queue_Lifetime
    state what the queue operations do when their callbacks are arbitrary code (the locale
    \<open>callbacks\<close>).
  \<^item> XAsync_Core, XAsync_Api: \<open>com/xasync/core.rs\<close>, \<open>mod.rs\<close>, \<open>impl.rs\<close>. The state has the blocks with
    their 32 private bytes, the states behind them, the contexts of \<open>run_sync\<close> and a log of
    provider calls. The title's code is the argument \<open>env\<close>. Game_Code closes the world: it lets
    that code be any program of API calls, to any depth of nesting, and proves what survives it.
    XAsync_Props follows single calls. Waiters: the module \<open>waiter\<close> of \<open>impl.rs\<close>, a thread per
    registered handle, with the Windows events as an argument.
  \<^item> Async_Calls: how the APIs use \<open>run_sync\<close>. A closure is a datatype value registered under the
    number the engine runs; the locale \<open>engine_job\<close> is what a closure must keep to, and its lemmas
    carry a call from its first half over the worker to its result half. Its interpretations are
    Save_Async (the asynchronous half of \<open>com/xgamesave/object.rs\<close>), Store_Async (\<open>com/xstore.rs\<close>) and
    Networking (\<open>com/xnetworking.rs\<close>, and the prompt of \<open>com/xpersistent_local_storage.rs\<close>);
    User_Async has the result halves of \<open>com/xuser/impl.rs\<close>. Save_Async_Props: what the pairs promise.
  \<^item> Ipc: \<open>ipc.rs\<close>, every request of the service client, with sockets as byte streams.
    Unix_Library: \<open>unixlib/src/lib.rs\<close>, with the kernel as a script of answers. Unix_Transport:
    \<open>ipc/unixlib.rs\<close> over it. Ipc_Props: what holds against any peer and with a conforming one.
  \<^item> Title_Config: the title id of \<open>com/xgame.rs\<close> and the app id of \<open>ipc.rs\<close>.
  \<^item> Game_Save: \<open>com/xgamesave\<close>, on the file system of Files. Game_Save_Props has the abstract view of
    a container as a map from blob names to bytes, which the buffered update refines.
  \<^item> Pending_Results, XUser, XUser_Api: \<open>com/xuser\<close>. Users are reference-counted objects in a
    registry of weak references; handles and running work hold references. XUser_Props and
    XUser_Runs account for every reference over whole runs with callbacks that call back in;
    XUser_Signing follows single sign-ins and sign-outs, XUser_Results the bytes of the results.
  \<^item> XStore: \<open>com/xstore.rs\<close>; XStore_Props.
  \<^item> Platform, Package_Mounts: the texts of \<open>com/xsystem.rs\<close>, \<open>com/xpackage.rs\<close>,
    \<open>com/xsystemanalytics.rs\<close> and \<open>com/xpersistent_local_storage.rs\<close>, and the mounts. The two ways the
    code hands out a text are the locales \<open>text_out\<close> and \<open>truncating_text_out\<close>.
  \<^item> Pick_Operation, Pick_Props: \<open>com/pickers/async_op.rs\<close> and \<open>deferred.rs\<close>, with every interleaving
    of the locked sections. Picked_File: \<open>storage_file.rs\<close>, \<open>storage_statics.rs\<close>,
    \<open>appsdk/pick_result.rs\<close>. Pickers, Pickers_Props: \<open>save_picker.rs\<close>, \<open>dialog.rs\<close>, \<open>mod.rs\<close>,
    \<open>appsdk/mod.rs\<close> and \<open>appsdk/open_picker.rs\<close>.
  \<^item> Com_Classes, Com_Dispatch, Com_Props: the class ids, interfaces and objects declared throughout
    \<open>com\<close>, and the dispatch and singletons of \<open>com/mod.rs\<close>. Lifecycle: \<open>lib.rs\<close>.

  \<^bold>\<open>What the theorems show\<close>

  \<^item> Callbacks: accepted callbacks run exactly once or are still accounted for, under any
    interleaving; submissions are stably sorted by deadline; a dispatch runs the ready snapshot and
    returns by its timeout; a termination cancels its own context's callbacks only.
  \<^item> Async calls: a completion is final, cleanup and cancel reach a provider at most once, and a
    value of \<open>run_sync\<close> is delivered byte for byte, whatever the title's code does in between; a
    waiting status query returns once the call completes. An asynchronous initialisation of a save
    provider is the synchronous one; a catalog query reaches the title as a handle on the
    service's products; a folder request answers once only, and a read of blobs never does.
    A waiter ends when it is unregistered, unless its handle is a signalled manual-reset event.
  \<^item> Service: nothing is sent before the peer accepted the secret, a conforming service is answered
    exactly, both transports agree, and the native library's replies are neither kept nor lost.
  \<^item> Saves, users, store, storage: the refinement of updates, the accounting of users and of the
    events they fire, results that read back through their own pointers, queries that show the
    catalog, mounts for declared products only and inside the title's own storage.
  \<^item> Pickers and COM: a pick's handler is called exactly once, a dialog shows the last settings, a
    pick ends as its dialog did; class ids are unambiguous, objects are singletons that outlive the
    title's references, and the runtime is up exactly while an initialisation is open.

  \<^bold>\<open>Conventions\<close>

  Out-pointers are flags for null and optional results; a call that can block for ever, because
  it takes a lock its caller holds or waits for a thread, is an option with \<open>None\<close> for that. A waiting
  loop consumes a schedule, a list of what happens to the port at each wake-up and how long that
  took; \<open>wait_for_task_returns\<close> shows that a schedule with one entry more than the timeout has
  milliseconds is long enough. The nesting depth of game code in Game_Code and XUser_Runs is a
  number, and the theorems hold for every such number. Counters of
  64 bits are words; theorems that need them not to wrap say so with \<open>has_room\<close>.

  \<^bold>\<open>Not modelled\<close>

  The diagnostics (\<open>diag.rs\<close>), \<open>ffi_util.rs\<close>, the generated bindings of WinRT interfaces,
  \<open>DllMain\<close> and the message box of \<open>lib.rs\<close>, and the methods that only answer \<open>E_NOTIMPL\<close>, false or nothing (\<open>xgameui.rs\<close>, \<open>xgamestreaming.rs\<close>, \<open>xappcapture.rs\<close>,
  \<open>xaccessibility.rs\<close> and the like, of which only the COM declarations are here). The closures of the
  sign-in calls run game code that may block, so they are related to the engine by what they
  answered, not run on it. \<open>QueryInterface\<close> of \<open>windows-core\<close>, the
  collections of \<open>windows-collections\<close>, the shell's dialogs, the window manager, the events of
  Windows, the service and the kernel are arguments, with what is assumed of them written as hypotheses.
\<close>

end
